(* ===== verification/Prelude.thy ===== *)
theory Prelude
  imports Main "HOL-Library.Char_ord" "HOL-Library.List_Lexorder" "HOL-Library.AList"
    "HOL-Library.Multiset" "HOL-Library.Sublist"
begin

text \<open>
  Shared ground of the development: Go values that may be the outcome of a run-time panic,
  the functions of Go's \<^verbatim>\<open>strings\<close> package the operator calls, Go maps with an explicit
  iteration order, and decimal rendering of integers. Strings are byte strings
  (\<^typ>\<open>string\<close> is a list of bytes), as Go's are.
\<close>

named_theorems go_defs \<open>unfolding of the run-time layer\<close>
named_theorems go_str \<open>rewrites for the string functions\<close>

section \<open>Values that may be a panic\<close>

datatype panic = IndexOutOfRange | NilDereference | NilMapWrite

datatype 'a go = Ret 'a | Panic panic

definition go_bind :: "'a go \<Rightarrow> ('a \<Rightarrow> 'b go) \<Rightarrow> 'b go" where
  "go_bind m f = (case m of Ret x \<Rightarrow> f x | Panic p \<Rightarrow> Panic p)"

fun panics :: "'a go \<Rightarrow> bool" where
  "panics (Ret _) = False"
| "panics (Panic _) = True"

lemma go_bind_simps [simp]:
  "go_bind (Ret x) f = f x"
  "go_bind (Panic p) f = Panic p"
  by (simp_all add: go_bind_def)

lemma go_bind_Ret_iff [simp]:
  "go_bind m f = Ret y \<longleftrightarrow> (\<exists>x. m = Ret x \<and> f x = Ret y)"
  by (cases m) simp_all

lemma go_bind_Ret_right [simp]: "go_bind m Ret = m"
  by (cases m) simp_all

lemma go_bind_assoc: "go_bind (go_bind m f) g = go_bind m (\<lambda>x. go_bind (f x) g)"
  by (cases m) simp_all

lemma panics_go_bind [simp]:
  "panics (go_bind m f) \<longleftrightarrow> panics m \<or> (\<exists>x. m = Ret x \<and> panics (f x))"
  by (cases m) simp_all

lemma not_panics_iff: "\<not> panics m \<longleftrightarrow> (\<exists>x. m = Ret x)"
  by (cases m) simp_all

text \<open>Run an action for every element, in order, and append what they return.\<close>

fun go_concat_map :: "('a \<Rightarrow> 'b list go) \<Rightarrow> 'a list \<Rightarrow> 'b list go" where
  "go_concat_map f [] = Ret []"
| "go_concat_map f (x # xs) =
     go_bind (f x) (\<lambda>ys. go_bind (go_concat_map f xs) (\<lambda>zs. Ret (ys @ zs)))"

lemma go_concat_map_Ret:
  "go_concat_map f xs = Ret ys \<Longrightarrow> x \<in> set xs \<Longrightarrow> \<exists>z. f x = Ret z \<and> set z \<subseteq> set ys"
  by (induction xs arbitrary: ys) fastforce+

lemma go_concat_map_total:
  "(\<And>x. x \<in> set xs \<Longrightarrow> f x = Ret (g x)) \<Longrightarrow> go_concat_map f xs = Ret (concat (map g xs))"
  by (induction xs) auto

lemma panics_go_concat_map: "panics (go_concat_map f xs) \<longleftrightarrow> (\<exists>x \<in> set xs. panics (f x))"
proof (induction xs)
  case Nil
  then show ?case by simp
next
  case (Cons x xs)
  then show ?case by (cases "f x") auto
qed

section \<open>Go's \<^verbatim>\<open>strings\<close> package\<close>

text \<open>
  The byte sequences that encode the code points of \<^verbatim>\<open>unicode.IsSpace\<close> in UTF-8: the six
  ASCII ones, then U+0085, U+00A0, U+1680, U+2000 to U+200A, U+2028, U+2029, U+202F, U+205F
  and U+3000.
\<close>

definition go_spaces :: "string list" where
  "go_spaces =
     [[CHR 0x20], [CHR 0x09], [CHR 0x0A], [CHR 0x0B], [CHR 0x0C], [CHR 0x0D],
      [CHR 0xC2, CHR 0x85], [CHR 0xC2, CHR 0xA0], [CHR 0xE1, CHR 0x9A, CHR 0x80],
      [CHR 0xE2, CHR 0x80, CHR 0x80], [CHR 0xE2, CHR 0x80, CHR 0x81],
      [CHR 0xE2, CHR 0x80, CHR 0x82], [CHR 0xE2, CHR 0x80, CHR 0x83],
      [CHR 0xE2, CHR 0x80, CHR 0x84], [CHR 0xE2, CHR 0x80, CHR 0x85],
      [CHR 0xE2, CHR 0x80, CHR 0x86], [CHR 0xE2, CHR 0x80, CHR 0x87],
      [CHR 0xE2, CHR 0x80, CHR 0x88], [CHR 0xE2, CHR 0x80, CHR 0x89],
      [CHR 0xE2, CHR 0x80, CHR 0x8A], [CHR 0xE2, CHR 0x80, CHR 0xA8],
      [CHR 0xE2, CHR 0x80, CHR 0xA9], [CHR 0xE2, CHR 0x80, CHR 0xAF],
      [CHR 0xE2, CHR 0x81, CHR 0x9F], [CHR 0xE3, CHR 0x80, CHR 0x80]]"

text \<open>Remove a prefix that is one of the given non-empty sequences, as long as there is one.\<close>

fun strip_one :: "string list \<Rightarrow> string \<Rightarrow> string option" where
  "strip_one [] s = None"
| "strip_one (w # ws) s =
     (if w \<noteq> [] \<and> take (length w) s = w then Some (drop (length w) s) else strip_one ws s)"

lemma strip_one_shorter: "strip_one ws s = Some t \<Longrightarrow> length t < length s"
proof (induction ws)
  case Nil
  then show ?case by simp
next
  case (Cons w ws)
  show ?case
  proof (cases "w \<noteq> [] \<and> take (length w) s = w")
    case True
    then have "length w \<le> length s" by (metis length_take min.absorb_iff2 nat_le_linear take_all_iff)
    with True Cons.prems show ?thesis by (cases w) auto
  next
    case False
    with Cons show ?thesis by auto
  qed
qed

function strip_while :: "string list \<Rightarrow> string \<Rightarrow> string" where
  "strip_while ws s = (case strip_one ws s of None \<Rightarrow> s | Some t \<Rightarrow> strip_while ws t)"
  by pat_completeness auto
termination
  by (relation "measure (\<lambda>(ws, s). length s)") (auto dest: strip_one_shorter)

declare strip_while.simps [simp del]

definition TrimLeftSpace :: "string \<Rightarrow> string" where
  "TrimLeftSpace s = strip_while go_spaces s"

definition TrimRightSpace :: "string \<Rightarrow> string" where
  "TrimRightSpace s = rev (strip_while (map rev go_spaces) (rev s))"

definition TrimSpace :: "string \<Rightarrow> string" where
  "TrimSpace s = TrimRightSpace (TrimLeftSpace s)"

text \<open>\<^verbatim>\<open>strings.Split(s, sep)\<close> for a one-byte separator; also \<^verbatim>\<open>strings.SplitN(s, sep, -1)\<close>.\<close>

fun Split :: "char \<Rightarrow> string \<Rightarrow> string list" where
  "Split c [] = [[]]"
| "Split c (x # xs) =
     (if x = c then [] # Split c xs
      else (case Split c xs of [] \<Rightarrow> [[x]] | y # ys \<Rightarrow> (x # y) # ys))"

text \<open>\<^verbatim>\<open>strings.SplitN(s, sep, 2)\<close>: at most one cut, at the first separator.\<close>

fun SplitN2 :: "char \<Rightarrow> string \<Rightarrow> string list" where
  "SplitN2 c s =
     (if c \<in> set s then [takeWhile (\<lambda>x. x \<noteq> c) s, tl (dropWhile (\<lambda>x. x \<noteq> c) s)] else [s])"

definition RemoveAll :: "char \<Rightarrow> string \<Rightarrow> string" where
  "RemoveAll c s = filter (\<lambda>x. x \<noteq> c) s"

definition HasPrefix :: "string \<Rightarrow> string \<Rightarrow> bool" where
  "HasPrefix s p \<longleftrightarrow> take (length p) s = p"

definition TrimPrefix :: "string \<Rightarrow> string \<Rightarrow> string" where
  "TrimPrefix s p = (if HasPrefix s p then drop (length p) s else s)"

fun Join :: "char \<Rightarrow> string list \<Rightarrow> string" where
  "Join c [] = []"
| "Join c [x] = x"
| "Join c (x # y # ys) = x @ c # Join c (y # ys)"

lemma Split_not_Nil [simp]: "Split c s \<noteq> []"
  by (induction s) (auto split: list.splits)

lemma Split_no_sep [go_str]: "c \<notin> set s \<Longrightarrow> Split c s = [s]"
  by (induction s) auto

lemma Split_append [go_str]: "c \<notin> set p \<Longrightarrow> Split c (p @ c # s) = p # Split c s"
  by (induction p) auto

lemma Split_Join: "xs \<noteq> [] \<Longrightarrow> (\<forall>x \<in> set xs. c \<notin> set x) \<Longrightarrow> Split c (Join c xs) = xs"
  by (induction c xs rule: Join.induct) (auto simp: Split_no_sep Split_append)

lemma Split_parts: "x \<in> set (Split c s) \<Longrightarrow> c \<notin> set x"
proof (induction s arbitrary: x)
  case Nil
  then show ?case by simp
next
  case (Cons a s)
  then show ?case by (cases "Split c s") (auto split: if_splits)
qed

lemma SplitN2_not_Nil [simp]: "SplitN2 c s \<noteq> []"
  by simp

lemma length_SplitN2: "length (SplitN2 c s) = (if c \<in> set s then 2 else 1)"
  by simp

lemma takeWhile_sep: "c \<notin> set p \<Longrightarrow> takeWhile (\<lambda>x. x \<noteq> c) (p @ c # s) = p"
  by (induction p) auto

lemma dropWhile_sep: "c \<notin> set p \<Longrightarrow> dropWhile (\<lambda>x. x \<noteq> c) (p @ c # s) = c # s"
  by (induction p) auto

lemma SplitN2_append [go_str]: "c \<notin> set p \<Longrightarrow> SplitN2 c (p @ c # s) = [p, s]"
  by (simp add: takeWhile_sep dropWhile_sep)

lemma SplitN2_no_sep [go_str]: "c \<notin> set p \<Longrightarrow> SplitN2 c p = [p]"
  by simp

declare SplitN2.simps [simp del]

lemma HasPrefix_append [simp]: "HasPrefix (p @ s) p"
  by (simp add: HasPrefix_def)

lemma TrimPrefix_append [simp]: "TrimPrefix (p @ s) p = s"
  by (simp add: TrimPrefix_def)

text \<open>A string whose first and last bytes are printable ASCII is not touched by trimming.\<close>

definition printable :: "char \<Rightarrow> bool" where
  "printable c \<longleftrightarrow> of_char c > (32 :: nat) \<and> of_char c < (127 :: nat)"

definition trimmed :: "string \<Rightarrow> bool" where
  "trimmed s \<longleftrightarrow> (s = [] \<or> (printable (hd s) \<and> printable (last s)))"

lemma strip_one_other:
  "list_all (\<lambda>w. w \<noteq> [] \<and> \<not> printable (hd w)) ws \<Longrightarrow> printable c \<Longrightarrow> strip_one ws (c # s) = None"
proof (induction ws)
  case Nil
  then show ?case by simp
next
  case (Cons w ws)
  then show ?case by (cases w) auto
qed

lemma go_spaces_unprintable:
  "list_all (\<lambda>w. w \<noteq> [] \<and> \<not> printable (hd w)) go_spaces"
  "list_all (\<lambda>w. w \<noteq> [] \<and> \<not> printable (hd w)) (map rev go_spaces)"
  by code_simp+

lemmas strip_one_printable = go_spaces_unprintable [THEN strip_one_other]

lemma strip_one_Nil [simp]: "strip_one ws [] = None"
  by (induction ws) auto

lemma strip_while_Nil [simp]: "strip_while ws [] = []"
  by (subst strip_while.simps) simp

lemma TrimLeftSpace_printable:
  assumes "printable c"
  shows "TrimLeftSpace (c # s) = c # s"
  by (simp add: TrimLeftSpace_def strip_while.simps [of _ "c # s"] strip_one_printable [OF assms])

lemma TrimRightSpace_printable:
  assumes "printable c"
  shows "TrimRightSpace (s @ [c]) = s @ [c]"
  by (simp add: TrimRightSpace_def strip_while.simps [of _ "c # rev s"] strip_one_printable [OF assms])

lemma TrimSpace_Nil [simp]: "TrimSpace [] = []"
  by (simp add: TrimSpace_def TrimLeftSpace_def TrimRightSpace_def)

lemma TrimSpace_trimmed [go_str]:
  assumes "trimmed s"
  shows "TrimSpace s = s"
proof (cases s rule: rev_cases)
  case Nil
  then show ?thesis by simp
next
  case (snoc xs x)
  with assms have x: "printable x" by (auto simp: trimmed_def)
  have "TrimLeftSpace s = s"
  proof (cases s)
    case Nil
    then show ?thesis by (simp add: TrimLeftSpace_def)
  next
    case (Cons y ys)
    with assms have "printable y" by (auto simp: trimmed_def)
    with Cons show ?thesis by (simp add: TrimLeftSpace_printable)
  qed
  with snoc x show ?thesis by (simp add: TrimSpace_def TrimRightSpace_printable)
qed

lemma set_strip_one: "strip_one ws s = Some t \<Longrightarrow> set t \<subseteq> set s"
  by (induction ws) (auto split: if_splits dest: in_set_dropD)

lemma set_strip_while: "set (strip_while ws s) \<subseteq> set s"
proof (induction ws s rule: strip_while.induct)
  case (1 ws s)
  then show ?case
    by (subst strip_while.simps) (auto split: option.splits dest: set_strip_one)
qed

lemma set_TrimSpace: "set (TrimSpace s) \<subseteq> set s"
  using set_strip_while [of go_spaces s]
    set_strip_while [of "map rev go_spaces" "rev (strip_while go_spaces s)"]
  by (auto simp: TrimSpace_def TrimLeftSpace_def TrimRightSpace_def)

section \<open>Integers in decimal\<close>

text \<open>\<^verbatim>\<open>fmt.Sprintf("%d", n)\<close>.\<close>

definition digit_char :: "nat \<Rightarrow> char" where
  "digit_char d = char_of (48 + d)"

fun show_nat :: "nat \<Rightarrow> string" where
  "show_nat n = (if n < 10 then [digit_char n] else show_nat (n div 10) @ [digit_char (n mod 10)])"

declare show_nat.simps [simp del]

definition show_int :: "int \<Rightarrow> string" where
  "show_int i = (if i < 0 then CHR ''-'' # show_nat (nat (- i)) else show_nat (nat i))"

fun read_nat :: "string \<Rightarrow> nat" where
  "read_nat s = fold (\<lambda>c n. n * 10 + (of_char c - 48)) s 0"

declare read_nat.simps [simp del]

lemma digit_char_value: "d < 10 \<Longrightarrow> of_char (digit_char d) - 48 = (d :: nat)"
  by (simp add: digit_char_def)

lemma read_show_nat [simp]: "read_nat (show_nat n) = n"
proof (induction n rule: show_nat.induct)
  case (1 n)
  show ?case
  proof (cases "n < 10")
    case True
    then show ?thesis by (simp add: show_nat.simps [of n] read_nat.simps digit_char_value)
  next
    case False
    with "1.IH" have IH: "read_nat (show_nat (n div 10)) = n div 10" by simp
    have "n mod 10 < 10" by simp
    then show ?thesis
      using IH False by (simp add: show_nat.simps [of n] read_nat.simps digit_char_value)
  qed
qed

lemma show_nat_inject [simp]: "show_nat m = show_nat n \<longleftrightarrow> m = n"
  by (metis read_show_nat)

section \<open>Go maps\<close>

text \<open>
  A Go map that the code iterates over with \<^verbatim>\<open>range\<close> is an association list: the list
  order is the order the run-time happens to choose. A key occurs once (\<open>wf_map\<close>). A map
  that is only read and written by key is a HOL map, an \<^typ>\<open>'a option\<close> around it where the
  code tells a nil map from an empty one.
\<close>

type_synonym 'v gomap = "(string \<times> 'v) list"

definition wf_map :: "'v gomap \<Rightarrow> bool" where
  "wf_map m \<longleftrightarrow> distinct (map fst m)"

abbreviation lookup :: "'v gomap \<Rightarrow> string \<Rightarrow> 'v option" where
  "lookup m k \<equiv> map_of m k"

definition keys :: "'v gomap \<Rightarrow> string list" where
  "keys m = map fst m"

text \<open>\<^verbatim>\<open>slices.Sorted(maps.Keys(m))\<close>: Go compares strings byte by byte.\<close>

definition sorted_keys :: "'v gomap \<Rightarrow> string list" where
  "sorted_keys m = sort (keys m)"

lemma set_sorted_keys [simp]: "set (sorted_keys m) = fst ` set m"
  by (simp add: sorted_keys_def keys_def)

lemma sorted_keys_perm:
  "mset m = mset m' \<Longrightarrow> sorted_keys m = sorted_keys m'"
  by (metis keys_def mset_map properties_for_sort sorted_keys_def sorted_sort mset_sort)

lemma lookup_perm:
  assumes "wf_map m" and "mset m = mset m'"
  shows "lookup m = lookup m'"
proof -
  have "wf_map m'"
    using assms by (metis mset_eq_imp_distinct_iff mset_map wf_map_def)
  moreover have "set m = set m'" using assms(2) by (metis set_mset_mset)
  ultimately show ?thesis using assms(1) by (metis map_of_inject_set wf_map_def)
qed

lemma wf_map_lookup: "wf_map m \<Longrightarrow> (k, v) \<in> set m \<Longrightarrow> lookup m k = Some v"
  by (simp add: wf_map_def)

section \<open>Loops over a map that only collect\<close>

text \<open>
  Several loops of the webhook run over a Go map and append to a list of errors. Whatever
  their body is, the order the run-time picks changes the order of the errors only. The
  interface says what such a loop is: it distributes over appending two pieces of the map.
\<close>

locale collecting_loop =
  fixes run :: "'a list \<Rightarrow> 'b list"
  assumes run_Nil: "run [] = []"
    and run_append: "run (xs @ ys) = run xs @ run ys"
begin

lemma run_Cons: "run (x # xs) = run [x] @ run xs"
  using run_append [of "[x]" xs] by simp

lemma run_concat: "run xs = concat (map (\<lambda>x. run [x]) xs)"
proof (induction xs)
  case Nil
  then show ?case by (simp add: run_Nil)
next
  case (Cons x xs)
  then show ?case by (simp add: run_Cons [of x xs])
qed

lemma run_order:
  assumes "mset xs = mset ys"
  shows "mset (run xs) = mset (run ys)"
proof -
  have sum: "mset (run zs) = (\<Sum>x \<in># mset zs. mset (run [x]))" for zs
  proof (induction zs)
    case Nil
    then show ?case by (simp add: run_Nil)
  next
    case (Cons z zs)
    have "mset (run (z # zs)) = mset (run [z]) + mset (run zs)"
      by (simp only: run_Cons [of z zs] mset_append)
    also have "\<dots> = (\<Sum>x \<in># mset (z # zs). mset (run [x]))"
      by (simp only: Cons.IH mset.simps image_mset_add_mset sum_mset.add_mset)
    finally show ?case .
  qed
  show ?thesis by (simp only: sum [of xs] sum [of ys] assms)
qed

lemma run_empty_iff: "run xs = [] \<longleftrightarrow> (\<forall>x \<in> set xs. run [x] = [])"
  by (subst run_concat) auto

lemma in_run_iff: "e \<in> set (run xs) \<longleftrightarrow> (\<exists>x \<in> set xs. e \<in> set (run [x]))"
  by (subst run_concat) auto

end

end
