(* ===== verification/Conditions.thy ===== *)
theory Conditions
  imports Prelude
begin

text \<open>
  Errors and status conditions. The condition list of a resource belongs to the
  \<^verbatim>\<open>condition\<close> package of lib-common, which is not part of this repository. The model
  keeps, newest first, the log of the calls the operator makes on it (\<open>cond_op\<close>); what those
  calls mean is an interface (\<open>condition_store\<close>) whose laws are the documented behaviour of
  the package.
\<close>

section \<open>Go errors\<close>

text \<open>
  \<open>ApiError nf text\<close> is an error returned by code outside the repository; \<open>nf\<close> says
  whether \<^verbatim>\<open>k8s_errors.IsNotFound\<close> holds of it. \<open>Wrapped\<close> is \<^verbatim>\<open>fmt.Errorf("...: %w", err)\<close>,
  the other constructors are the static errors of internal/controller/glance_common.go.
\<close>

datatype go_error =
    ApiError bool string
  | Wrapped string go_error
  | ErrNetworkAttachmentConfig "string list"
  | ErrACSecretNotFound string
  | ErrACSecretMissingKeys string
  | ErrInvalidBackend
  | ErrText string

fun IsNotFound :: "go_error \<Rightarrow> bool" where
  "IsNotFound (ApiError nf _) = nf"
| "IsNotFound (Wrapped _ e) = IsNotFound e"
| "IsNotFound _ = False"

fun error_text :: "go_error \<Rightarrow> string" where
  "error_text (ApiError _ t) = t"
| "error_text (Wrapped t e) = t @ error_text e"
| "error_text (ErrNetworkAttachmentConfig ns) =
     ''not all pods have interfaces with ips as configured in NetworkAttachments: ['' @ Join (CHR '' '') ns @ '']''"
| "error_text (ErrACSecretNotFound s) = ''ApplicationCredential secret not found: '' @ s"
| "error_text (ErrACSecretMissingKeys s) =
     ''ApplicationCredential secret missing required keys: '' @ s"
| "error_text ErrInvalidBackend =
     ''glanceAPI layout type: single can only be used in combination with File and NFS backend''"
| "error_text (ErrText t) = t"

section \<open>Conditions\<close>

text \<open>The condition types the operator names; the constructors are the Go identifiers.\<close>

datatype ctype =
    ReadyCondition | DBReadyCondition | DBSyncReadyCondition | MemcachedReadyCondition
  | InputReadyCondition | ServiceConfigReadyCondition | GlanceAPIReadyCondition
  | KeystoneServiceReadyCondition | ServiceAccountReadyCondition | RoleReadyCondition
  | RoleBindingReadyCondition | CronJobReadyCondition | NotificationBusInstanceReadyCondition
  | NetworkAttachmentsReadyCondition | MariaDBAccountReadyCondition | CinderCondition
  | CreateServiceReadyCondition | DeploymentReadyCondition | TLSInputReadyCondition
  | KeystoneEndpointReadyCondition | TopologyReadyCondition

datatype cstatus = CTrue | CFalse | CUnknown

datatype reason = InitReason | RequestedReason | ErrorReason | ReadyReason

datatype severity = SeverityNone | SeverityInfo | SeverityWarning | SeverityError

text \<open>
  A message of a package outside the repository is named by its Go identifier
  (\<open>LibMsg\<close>), one of the repository is the format itself (\<open>Msg\<close>); both carry their arguments.
\<close>

datatype message = LibMsg string "string list" | Msg string "string list"

record condition =
  c_Type :: ctype
  c_Status :: cstatus
  c_Reason :: reason
  c_Severity :: severity
  c_Message :: message

definition TrueCondition :: "ctype \<Rightarrow> message \<Rightarrow> condition" where
  "TrueCondition t m =
     \<lparr>c_Type = t, c_Status = CTrue, c_Reason = ReadyReason, c_Severity = SeverityNone, c_Message = m\<rparr>"

definition FalseCondition :: "ctype \<Rightarrow> reason \<Rightarrow> severity \<Rightarrow> message \<Rightarrow> condition" where
  "FalseCondition t r s m =
     \<lparr>c_Type = t, c_Status = CFalse, c_Reason = r, c_Severity = s, c_Message = m\<rparr>"

definition UnknownCondition :: "ctype \<Rightarrow> reason \<Rightarrow> message \<Rightarrow> condition" where
  "UnknownCondition t r m =
     \<lparr>c_Type = t, c_Status = CUnknown, c_Reason = r, c_Severity = SeverityNone, c_Message = m\<rparr>"

lemma condition_fields [simp]:
  "c_Type (TrueCondition t m) = t" "c_Status (TrueCondition t m) = CTrue"
  "c_Type (FalseCondition t r s m) = t" "c_Status (FalseCondition t r s m) = CFalse"
  "c_Reason (FalseCondition t r s m) = r" "c_Severity (FalseCondition t r s m) = s"
  "c_Message (FalseCondition t r s m) = m"
  "c_Type (UnknownCondition t r m) = t" "c_Status (UnknownCondition t r m) = CUnknown"
  by (simp_all add: TrueCondition_def FalseCondition_def UnknownCondition_def)

text \<open>
  The calls on a \<^verbatim>\<open>condition.Conditions\<close> value. \<open>CLoaded\<close> is what the API server returned;
  \<open>CSet\<close> takes a pointer, which may be nil; \<open>CRestoreTimes\<close> is
  \<^verbatim>\<open>condition.RestoreLastTransitionTimes\<close>, which touches time stamps only.
\<close>

datatype cond_op =
    CLoaded "condition list"
  | CInit "condition list"
  | CSet "condition option"
  | CMarkTrue ctype message
  | CMarkFalse ctype reason severity message
  | CRestoreTimes

type_synonym cond_log = "cond_op list"

text \<open>A nil \<^verbatim>\<open>condition.Conditions\<close> is \<^const>\<open>None\<close>.\<close>

type_synonym conds = "cond_log option"

definition cond_add :: "cond_op \<Rightarrow> conds \<Rightarrow> conds" where
  "cond_add op cs = (case cs of None \<Rightarrow> Some [op] | Some l \<Rightarrow> Some (op # l))"

lemma cond_add_Some [simp]: "cond_add op (Some l) = Some (op # l)"
  by (simp add: cond_add_def)

section \<open>The interface of the condition package\<close>

text \<open>
  \<open>get l t\<close> is the condition of type \<open>t\<close> after the calls \<open>l\<close>. What \<^verbatim>\<open>Init\<close> does to a type it
  is not given is left open.
\<close>

locale condition_store =
  fixes get :: "cond_log \<Rightarrow> ctype \<Rightarrow> condition option"
    and all_sub_true :: "cond_log \<Rightarrow> bool"
    and is_unknown :: "cond_log \<Rightarrow> ctype \<Rightarrow> bool"
  assumes get_set: "get (CSet (Some c) # l) t = (if t = c_Type c then Some c else get l t)"
    and get_set_nil: "get (CSet None # l) t = get l t"
    and get_mark_true:
      "get (CMarkTrue t' m # l) t = (if t = t' then Some (TrueCondition t' m) else get l t)"
    and get_mark_false:
      "get (CMarkFalse t' r s m # l) t = (if t = t' then Some (FalseCondition t' r s m) else get l t)"
    and get_restore: "get (CRestoreTimes # l) t = get l t"
    and get_init: "\<lbrakk>distinct (map c_Type cs); c \<in> set cs; c_Type c = t\<rbrakk> \<Longrightarrow> get (CInit cs # l) t = Some c"
    and all_sub_true_get:
      "all_sub_true l \<longleftrightarrow>
         (\<forall>t c. t \<noteq> ReadyCondition \<longrightarrow> get l t = Some c \<longrightarrow> c_Status c = CTrue)"
    and is_unknown_get:
      "is_unknown l t \<longleftrightarrow> (case get l t of None \<Rightarrow> True | Some c \<Rightarrow> c_Status c = CUnknown)"
begin

lemmas get_simps = get_set get_set_nil get_mark_true get_mark_false get_restore

lemma mark_true_unblocks:
  assumes "t \<noteq> ReadyCondition" and "\<not> all_sub_true (CMarkTrue t m # l)"
  shows "\<exists>t' c. t' \<noteq> t \<and> t' \<noteq> ReadyCondition \<and> get l t' = Some c \<and> c_Status c \<noteq> CTrue"
  using assms by (auto simp: all_sub_true_get get_mark_true split: if_splits)

lemma false_blocks:
  assumes "get l t = Some c" and "t \<noteq> ReadyCondition" and "c_Status c \<noteq> CTrue"
  shows "\<not> all_sub_true l"
  using assms by (auto simp: all_sub_true_get)

end

section \<open>A reference implementation of the interface\<close>

text \<open>Used to show the laws consistent and to evaluate runs; \<^verbatim>\<open>Init\<close> keeps the other types.\<close>

fun cond_get :: "cond_log \<Rightarrow> ctype \<Rightarrow> condition option" where
  "cond_get [] t = None"
| "cond_get (CLoaded cs # l) t = find (\<lambda>c. c_Type c = t) cs"
| "cond_get (CInit cs # l) t =
     (case find (\<lambda>c. c_Type c = t) cs of Some c \<Rightarrow> Some c | None \<Rightarrow> cond_get l t)"
| "cond_get (CSet None # l) t = cond_get l t"
| "cond_get (CSet (Some c) # l) t = (if t = c_Type c then Some c else cond_get l t)"
| "cond_get (CMarkTrue t' m # l) t = (if t = t' then Some (TrueCondition t' m) else cond_get l t)"
| "cond_get (CMarkFalse t' r s m # l) t =
     (if t = t' then Some (FalseCondition t' r s m) else cond_get l t)"
| "cond_get (CRestoreTimes # l) t = cond_get l t"

definition all_ctypes :: "ctype list" where
  "all_ctypes =
     [ReadyCondition, DBReadyCondition, DBSyncReadyCondition, MemcachedReadyCondition,
      InputReadyCondition, ServiceConfigReadyCondition, GlanceAPIReadyCondition,
      KeystoneServiceReadyCondition, ServiceAccountReadyCondition, RoleReadyCondition,
      RoleBindingReadyCondition, CronJobReadyCondition, NotificationBusInstanceReadyCondition,
      NetworkAttachmentsReadyCondition, MariaDBAccountReadyCondition, CinderCondition,
      CreateServiceReadyCondition, DeploymentReadyCondition, TLSInputReadyCondition,
      KeystoneEndpointReadyCondition, TopologyReadyCondition]"

lemma set_all_ctypes [simp]: "t \<in> set all_ctypes"
  by (cases t) (simp_all add: all_ctypes_def)

definition cond_all_sub_true :: "cond_log \<Rightarrow> bool" where
  "cond_all_sub_true l \<longleftrightarrow>
     list_all (\<lambda>t. t = ReadyCondition \<or>
       (case cond_get l t of None \<Rightarrow> True | Some c \<Rightarrow> c_Status c = CTrue)) all_ctypes"

definition cond_is_unknown :: "cond_log \<Rightarrow> ctype \<Rightarrow> bool" where
  "cond_is_unknown l t \<longleftrightarrow> (case cond_get l t of None \<Rightarrow> True | Some c \<Rightarrow> c_Status c = CUnknown)"

lemma find_ctype:
  "distinct (map c_Type cs) \<Longrightarrow> c \<in> set cs \<Longrightarrow> c_Type c = t \<Longrightarrow>
     find (\<lambda>c. c_Type c = t) cs = Some c"
  by (induction cs) (auto simp: rev_image_eqI)

lemma cond_all_sub_true_iff:
  "cond_all_sub_true l \<longleftrightarrow>
     (\<forall>t c. t \<noteq> ReadyCondition \<longrightarrow> cond_get l t = Some c \<longrightarrow> c_Status c = CTrue)"
  unfolding cond_all_sub_true_def list_all_iff
  by (auto split: option.splits)

interpretation ref_conds: condition_store cond_get cond_all_sub_true cond_is_unknown
  by unfold_locales
    (auto simp: find_ctype cond_all_sub_true_iff cond_is_unknown_def)

end
