(* ===== verification/Types.thy ===== *)
theory Types
  imports Conditions
begin

text \<open>
  The data model of api/v1beta1: the Glance and GlanceAPI resources, the structs they are made
  of, and the small methods on them. A Go struct is a record, an embedded struct a record
  extension, a pointer an option. Structs of other repositories that the operator only copies
  are carried as an opaque value; of the others, the fields it reads are kept.
\<close>

section \<open>Constants of api/v1beta1 and internal/glance\<close>

definition APIInternal :: string where "APIInternal = ''internal''"
definition APIExternal :: string where "APIExternal = ''external''"
definition APISingle :: string where "APISingle = ''single''"
definition APIEdge :: string where "APIEdge = ''edge''"
definition GlanceWSGILabel :: string where "GlanceWSGILabel = ''glance.openstack.org/wsgi''"
definition GlanceLocationAPILabel :: string where
  "GlanceLocationAPILabel = ''glance.openstack.org/location-api''"
definition DbSyncHash :: string where "DbSyncHash = ''dbsync''"
definition APINameLabel :: string where "APINameLabel = ''api-name''"
definition ACConsumerFinalizerPrefix :: string where
  "ACConsumerFinalizerPrefix = ''openstack.org/glance-''"
definition ServiceName :: string where "ServiceName = ''glance''"
definition ServiceType :: string where "ServiceType = ''image''"
definition DatabaseName :: string where "DatabaseName = ''glance''"
definition Component :: string where "Component = ''glance-api''"
definition GlanceAPIName :: string where "GlanceAPIName = ''glanceAPI''"
definition GlancePublicPort :: int where "GlancePublicPort = 9292"
definition GlanceInternalPort :: int where "GlanceInternalPort = 9292"
definition KeystoneEndpointAnnotation :: string where
  "KeystoneEndpointAnnotation = ''keystoneEndpoint''"

lemmas api_type_defs = APIInternal_def APIExternal_def APISingle_def APIEdge_def

section \<open>Endpoints\<close>

text \<open>\<^verbatim>\<open>service.Endpoint\<close> is a string type with the values "public" and "internal".\<close>

datatype endpoint = EndpointPublic | EndpointInternal

primrec endpoint_str :: "endpoint \<Rightarrow> string" where
  "endpoint_str EndpointPublic = ''public''"
| "endpoint_str EndpointInternal = ''internal''"

lemma endpoint_str_inject [simp]: "endpoint_str a = endpoint_str b \<longleftrightarrow> a = b"
  by (cases a; cases b) simp_all

text \<open>Endpoints are sorted as the strings they are.\<close>

instantiation endpoint :: linorder
begin

definition less_eq_endpoint :: "endpoint \<Rightarrow> endpoint \<Rightarrow> bool" where
  "a \<le> b \<longleftrightarrow> endpoint_str a \<le> endpoint_str b"

definition less_endpoint :: "endpoint \<Rightarrow> endpoint \<Rightarrow> bool" where
  "a < b \<longleftrightarrow> endpoint_str a < endpoint_str b"

instance
  by intro_classes (auto simp: less_eq_endpoint_def less_endpoint_def less_le)

end

section \<open>Structs\<close>

type_synonym opaque = string

record Storage =
  StorageClass :: string
  StorageRequest :: string
  External :: bool

record ImageCache =
  Size :: string
  CleanerScheduler :: string
  PrunerScheduler :: string

record TopoRef =
  topo_Name :: string
  topo_Namespace :: string

text \<open>\<^verbatim>\<open>service.RoutedOverrideSpec\<close> of lib-common.\<close>

record RoutedOverrideSpec =
  EmbeddedLabelsAnnotations :: "opaque option"
  OverrideSpec :: opaque
  EndpointURL :: "string option"

record APIOverrideSpec =
  Service :: "RoutedOverrideSpec gomap"
  Probes :: opaque

text \<open>\<^verbatim>\<open>tls.API\<close> of lib-common: the bundle, and the two endpoint certificates' secrets.\<close>

record TLSAPI =
  CaBundleSecretName :: string
  TLSInternalSecretName :: "string option"
  TLSPublicSecretName :: "string option"

record AuthSpec =
  ApplicationCredentialSecret :: string

record GlanceAPITemplate =
  t_Replicas :: "int option"
  t_NodeSelector :: "string gomap option"
  t_TopologyRef :: "TopoRef option"
  t_CustomServiceConfig :: string
  t_CustomServiceConfigSecrets :: "string list"
  t_Resources :: opaque
  t_NetworkAttachments :: "string list"
  t_Override :: APIOverrideSpec
  t_Storage :: Storage
  t_Type :: string
  t_TLS :: TLSAPI
  t_Auth :: AuthSpec
  t_ImageCache :: ImageCache
  t_APITimeout :: int

record PasswordSelector =
  ps_Service :: string

record DBPurge =
  Age :: int
  Schedule :: string

record QuotaLimits =
  ImageSizeTotal :: int
  ImageStageTotal :: int
  ImageCountTotal :: int
  ImageCountUpload :: int

text \<open>\<^verbatim>\<open>rabbitmqv1.RabbitMqConfig\<close> of infra-operator.\<close>

record RabbitMqConfig =
  rmq_Cluster :: string
  rmq_User :: string
  rmq_Vhost :: string

text \<open>
  \<^verbatim>\<open>corev1.VolumeMount\<close> and \<^verbatim>\<open>corev1.Volume\<close>, and \<^verbatim>\<open>storage.VolMounts\<close> of lib-common, of
  which only the volumes and the mounts are read (\<open>vm_rest\<close> is what \<^verbatim>\<open>Propagate\<close> looks at).
\<close>

record VolumeMount =
  vmt_Name :: string
  vmt_MountPath :: string
  vmt_SubPath :: string
  vmt_ReadOnly :: bool

datatype VolumeSource =
    SecretSource string int "(string \<times> string) list"
  | HostPathSource string bool
  | PVCSource string
  | OtherSource opaque

record Volume =
  vol_Name :: string
  vol_Source :: VolumeSource

record ExtraVolume =
  ev_Name :: string
  ev_Source :: opaque

record VolMounts =
  vm_Volumes :: "ExtraVolume list"
  vm_Mounts :: "VolumeMount list"
  vm_rest :: opaque

record GlanceExtraVolMounts =
  xv_Name :: string
  xv_Region :: string
  xv_VolMounts :: "VolMounts list"

record GlanceSpecCore =
  g_ServiceUser :: string
  g_DatabaseInstance :: string
  g_DatabaseAccount :: string
  g_MemcachedInstance :: string
  g_Secret :: string
  g_PasswordSelectors :: PasswordSelector
  g_NodeSelector :: "string gomap option"
  g_TopologyRef :: "TopoRef option"
  g_PreserveJobs :: bool
  g_CustomServiceConfig :: string
  g_CustomServiceConfigSecrets :: "string list"
  g_Storage :: Storage
  g_GlanceAPIs :: "GlanceAPITemplate gomap"
  g_ExtraMounts :: "GlanceExtraVolMounts list"
  g_Quotas :: QuotaLimits
  g_ImageCache :: ImageCache
  g_KeystoneEndpoint :: string
  g_DBPurge :: DBPurge
  g_APITimeout :: int
  g_NotificationBusInstance :: "string option"
  g_NotificationsBus :: "RabbitMqConfig option"

record GlanceSpec = GlanceSpecCore +
  g_ContainerImage :: string

record GlanceStatus =
  s_Hash :: "string gomap option"
  s_APIEndpoints :: "string gomap option"
  s_ServiceID :: string
  s_Conditions :: conds
  s_DatabaseHostname :: string
  s_GlanceAPIReadyCounts :: "int gomap option"
  s_ObservedGeneration :: int
  s_NotificationBusSecret :: string

record GlanceAPISpec = GlanceAPITemplate +
  a_ContainerImage :: string
  a_APIType :: string
  a_ServiceUser :: string
  a_ServiceAccount :: string
  a_DatabaseHostname :: string
  a_DatabaseAccount :: string
  a_Secret :: string
  a_PasswordSelectors :: PasswordSelector
  a_ExtraMounts :: "GlanceExtraVolMounts list"
  a_Quota :: bool
  a_MemcachedInstance :: string
  a_NotificationBusSecret :: string

record GlanceAPIStatus =
  as_ReadyCount :: int
  as_Hash :: "string gomap option"
  as_APIEndpoints :: "string gomap option"
  as_Conditions :: conds
  as_NetworkAttachments :: "string list gomap option"
  as_Domain :: string
  as_ObservedGeneration :: int
  as_LastAppliedTopology :: "TopoRef option"
  as_NotificationBusSecret :: string
  as_ApplicationCredentialSecret :: string

text \<open>What the operator reads of \<^verbatim>\<open>metav1.ObjectMeta\<close>; an owner is a kind and a name.\<close>

record ObjectMeta =
  o_Name :: string
  o_Namespace :: string
  o_Labels :: "string gomap"
  o_Annotations :: "string gomap"
  o_Finalizers :: "string list"
  o_OwnerReferences :: "(string \<times> string) list"
  o_Generation :: int
  o_Deleted :: bool

record Glance = ObjectMeta +
  Spec :: GlanceSpec
  Status :: GlanceStatus

record GlanceAPI = ObjectMeta +
  ASpec :: GlanceAPISpec
  AStatus :: GlanceAPIStatus

text \<open>Reading a Go map: the zero value of the type for a missing key.\<close>

definition map_str :: "string gomap \<Rightarrow> string \<Rightarrow> string" where
  "map_str m k = (case lookup m k of None \<Rightarrow> [] | Some v \<Rightarrow> v)"

section \<open>Methods of the resources\<close>

definition IsReady :: "(cond_log \<Rightarrow> ctype \<Rightarrow> bool) \<Rightarrow> Glance \<Rightarrow> bool" where
  "IsReady isTrue inst =
     (case s_Conditions (Status inst) of None \<Rightarrow> isTrue [] ReadyCondition
      | Some l \<Rightarrow> isTrue l ReadyCondition)"

definition APIIsReady :: "(cond_log \<Rightarrow> ctype \<Rightarrow> bool) \<Rightarrow> GlanceAPI \<Rightarrow> bool" where
  "APIIsReady isTrue inst =
     (case as_Conditions (AStatus inst) of None \<Rightarrow> isTrue [] ReadyCondition
      | Some l \<Rightarrow> isTrue l ReadyCondition)"

text \<open>\<open>vprop\<close> is \<^verbatim>\<open>VolMounts.Propagate\<close> of lib-common.\<close>

definition Propagate ::
  "(VolMounts \<Rightarrow> string list \<Rightarrow> VolMounts list) \<Rightarrow> GlanceExtraVolMounts \<Rightarrow> string list \<Rightarrow> VolMounts list" where
  "Propagate vprop g svc = concat (map (\<lambda>gv. vprop gv svc) (xv_VolMounts g))"

definition RbacResourceName :: "Glance \<Rightarrow> string" where
  "RbacResourceName inst = ''glance-'' @ o_Name inst"

definition RbacNamespace :: "Glance \<Rightarrow> string" where
  "RbacNamespace inst = o_Namespace inst"

definition RbacConditionsSet :: "Glance \<Rightarrow> condition option \<Rightarrow> Glance" where
  "RbacConditionsSet inst c =
     inst\<lparr>Status := (Status inst)\<lparr>s_Conditions := cond_add (CSet c) (s_Conditions (Status inst))\<rparr>\<rparr>"

definition IsQuotaEnabled :: "Glance \<Rightarrow> bool" where
  "IsQuotaEnabled inst =
     (let q = g_Quotas (Spec inst) in
      ImageSizeTotal q > 0 \<or> ImageCountTotal q > 0 \<or> ImageStageTotal q > 0 \<or> ImageCountUpload q > 0)"

definition GetQuotaLimits :: "Glance \<Rightarrow> int gomap" where
  "GetQuotaLimits inst =
     (let q = g_Quotas (Spec inst) in
      [(''image_count_uploading'', ImageCountUpload q),
       (''image_count_total'', ImageCountTotal q),
       (''image_stage_total'', ImageStageTotal q),
       (''image_size_total'', ImageSizeTotal q)])"

text \<open>
  \<open>getBool\<close> is \<^verbatim>\<open>annotations.GetBoolFromAnnotation\<close> of lib-common: an error, or the value and
  whether the annotation exists.
\<close>

type_synonym bool_annotation = "string gomap \<Rightarrow> string \<Rightarrow> go_error + (bool \<times> bool)"

definition GetLocationAPI :: "bool_annotation \<Rightarrow> Glance \<Rightarrow> bool \<times> go_error option" where
  "GetLocationAPI getBool inst =
     (case getBool (o_Annotations inst) GlanceLocationAPILabel of
        Inl e \<Rightarrow> (False, Some e)
      | Inr (locAPI, exists) \<Rightarrow> if \<not> exists then (False, None) else (locAPI, None))"

definition GetEndpoint :: "GlanceAPI \<Rightarrow> endpoint \<Rightarrow> go_error + string" where
  "GetEndpoint inst ep =
     (case lookup (case as_APIEndpoints (AStatus inst) of None \<Rightarrow> [] | Some m \<Rightarrow> m) (endpoint_str ep) of
        Some url \<Rightarrow> Inr url
      | None \<Rightarrow> Inl (ErrText (endpoint_str ep @ '' endpoint not found'')))"

definition APIName :: "GlanceAPI \<Rightarrow> string" where
  "APIName inst = map_str (o_Labels inst) APINameLabel"

definition ACConsumerFinalizerName :: "GlanceAPI \<Rightarrow> string" where
  "ACConsumerFinalizerName inst =
     ACConsumerFinalizerPrefix @ APIName inst @ ''-'' @ a_APIType (ASpec inst) @ ''-ac-consumer''"

text \<open>internal/glance/funcs.go: the Glance that owns a resource, "" if there is none.\<close>

fun first_glance_owner :: "(string \<times> string) list \<Rightarrow> string" where
  "first_glance_owner [] = []"
| "first_glance_owner ((kind, name) # rs) =
     (if kind = ''Glance'' then name else first_glance_owner rs)"

definition GetOwningGlanceName :: "'a ObjectMeta_scheme \<Rightarrow> string" where
  "GetOwningGlanceName obj = first_glance_owner (o_OwnerReferences obj)"

section \<open>Facts about the methods\<close>

lemma IsQuotaEnabled_iff:
  "IsQuotaEnabled inst \<longleftrightarrow> (\<exists>k v. (k, v) \<in> set (GetQuotaLimits inst) \<and> v > 0)"
  by (auto simp: IsQuotaEnabled_def GetQuotaLimits_def Let_def)

lemma wf_GetQuotaLimits: "wf_map (GetQuotaLimits inst)"
  by (simp add: GetQuotaLimits_def wf_map_def Let_def)

lemma first_glance_owner_in:
  "first_glance_owner rs \<noteq> [] \<Longrightarrow> (''Glance'', first_glance_owner rs) \<in> set rs"
  by (induction rs) (auto split: if_splits)

text \<open>
  Two GlanceAPIs that share a secret hold different consumer finalizers on it, unless they are
  of the same type and name (a dash in the name cannot confuse two of the four types).
\<close>

definition api_type :: "string \<Rightarrow> bool" where
  "api_type t \<longleftrightarrow> t \<in> {APIInternal, APIExternal, APISingle, APIEdge}"

lemma api_types_suffix_free:
  assumes "api_type t" and "api_type u" and "x @ CHR ''-'' # t = y @ CHR ''-'' # u"
  shows "x = y \<and> t = u"
proof -
  have dash: "CHR ''-'' \<notin> set t" "CHR ''-'' \<notin> set u"
    using assms(1,2) by (auto simp: api_type_def api_type_defs)
  have "takeWhile (\<lambda>c. c \<noteq> CHR ''-'') (rev (x @ CHR ''-'' # t)) = rev t"
    and "takeWhile (\<lambda>c. c \<noteq> CHR ''-'') (rev (y @ CHR ''-'' # u)) = rev u"
    using dash by (simp_all add: takeWhile_sep)
  with assms(3) show ?thesis by simp
qed

lemma ACConsumerFinalizerName_inject:
  assumes "api_type (a_APIType (ASpec x))" and "api_type (a_APIType (ASpec y))"
  shows "ACConsumerFinalizerName x = ACConsumerFinalizerName y \<longleftrightarrow>
    APIName x = APIName y \<and> a_APIType (ASpec x) = a_APIType (ASpec y)"
  using api_types_suffix_free [OF assms, of "APIName x" "APIName y"]
  by (auto simp: ACConsumerFinalizerName_def)

section \<open>Properties\<close>

text \<open>
  Two GlanceAPIs hold the same consumer finalizer on an application credential
  secret only if their names and their types agree, so releasing one finalizer never releases
  the other instance's.
\<close>

theorem consumer_finalizer_distinct:
  assumes "api_type (a_APIType (ASpec x))" and "api_type (a_APIType (ASpec y))"
    and "APIName x \<noteq> APIName y \<or> a_APIType (ASpec x) \<noteq> a_APIType (ASpec y)"
  shows "ACConsumerFinalizerName x \<noteq> ACConsumerFinalizerName y"
  using ACConsumerFinalizerName_inject [OF assms(1,2)] assms(3) by blast

definition sample_api :: "string \<Rightarrow> string \<Rightarrow> GlanceAPI" where
  "sample_api name type =
     \<lparr>o_Name = name, o_Namespace = ''ns'', o_Labels = [(APINameLabel, name)], o_Annotations = [],
      o_Finalizers = [], o_OwnerReferences = [(''Glance'', ''glance'')], o_Generation = 1,
      o_Deleted = False,
      ASpec =
       \<lparr>t_Replicas = Some 1, t_NodeSelector = None, t_TopologyRef = None,
        t_CustomServiceConfig = [], t_CustomServiceConfigSecrets = [], t_Resources = [],
        t_NetworkAttachments = [], t_Override = \<lparr>Service = [], Probes = []\<rparr>,
        t_Storage = \<lparr>StorageClass = [], StorageRequest = [], External = False\<rparr>,
        t_Type = [],
        t_TLS = \<lparr>CaBundleSecretName = [], TLSInternalSecretName = None, TLSPublicSecretName = None\<rparr>,
        t_Auth = \<lparr>ApplicationCredentialSecret = []\<rparr>,
        t_ImageCache = \<lparr>Size = [], CleanerScheduler = [], PrunerScheduler = []\<rparr>,
        t_APITimeout = 60,
        a_ContainerImage = [], a_APIType = type, a_ServiceUser = ''glance'', a_ServiceAccount = [],
        a_DatabaseHostname = [], a_DatabaseAccount = [], a_Secret = [],
        a_PasswordSelectors = \<lparr>ps_Service = ''GlancePassword''\<rparr>, a_ExtraMounts = [],
        a_Quota = False, a_MemcachedInstance = [], a_NotificationBusSecret = []\<rparr>,
      AStatus =
       \<lparr>as_ReadyCount = 0, as_Hash = None, as_APIEndpoints = None, as_Conditions = None,
        as_NetworkAttachments = None, as_Domain = [], as_ObservedGeneration = 0,
        as_LastAppliedTopology = None, as_NotificationBusSecret = [],
        as_ApplicationCredentialSecret = []\<rparr>\<rparr>"

theorem consumer_finalizer_distinct_witness:
  "ACConsumerFinalizerName (sample_api ''a-internal'' ''external'') \<noteq>
   ACConsumerFinalizerName (sample_api ''a'' ''internal'')"
  by (rule consumer_finalizer_distinct) (simp_all add: sample_api_def api_type_def api_type_defs APIName_def map_str_def)

end
