(* ===== verification/Probes.thy ===== *)
theory Probes
  imports Types
begin

text \<open>
  The probe configuration computed from the API timeout (\<^verbatim>\<open>GetDefaultProbesAPI\<close> of
  internal/glance/funcs.go). The source computes with \<^verbatim>\<open>float64\<close>; the model does too: a finite
  float is a mantissa and a binary exponent, and a product is rounded to 53 bits, ties to
  even. Infinities, NaN and subnormal numbers cannot come up: the operands are 64-bit integers
  and two constants.
\<close>

section \<open>float64\<close>

text \<open>\<open>Fl m e\<close> is m * 2^e.\<close>

datatype float64 = Fl int int

fun bits :: "nat \<Rightarrow> nat" where
  "bits n = (if n = 0 then 0 else Suc (bits (n div 2)))"

declare bits.simps [simp del]

text \<open>m / 2^k, rounded to the nearest integer, ties to even.\<close>

definition half_even :: "int \<Rightarrow> nat \<Rightarrow> int" where
  "half_even m k =
     (let q = m div 2 ^ k; r = m mod 2 ^ k in
      if 2 * r < 2 ^ k then q else if 2 ^ k < 2 * r then q + 1 else if even q then q else q + 1)"

definition fround :: "int \<Rightarrow> int \<Rightarrow> float64" where
  "fround m e = (let k = bits (nat \<bar>m\<bar>) - 53 in Fl (half_even m k) (e + int k))"

definition float_of_int :: "int \<Rightarrow> float64" where
  "float_of_int a = fround a 0"

fun fmul :: "float64 \<Rightarrow> float64 \<Rightarrow> float64" where
  "fmul (Fl m e) (Fl n f) = fround (m * n) (e + f)"

fun fhalf :: "float64 \<Rightarrow> float64" where
  "fhalf (Fl m e) = Fl m (e - 1)"

fun ffloor :: "float64 \<Rightarrow> int" where
  "ffloor (Fl m e) = (if 0 \<le> e then m * 2 ^ nat e else m div 2 ^ nat (- e))"

fun ftrunc :: "float64 \<Rightarrow> int" where
  "ftrunc (Fl m e) = (if 0 \<le> m then ffloor (Fl m e) else - ffloor (Fl (- m) e))"

fun fle :: "float64 \<Rightarrow> float64 \<Rightarrow> bool" where
  "fle (Fl m e) (Fl n f) = (m * 2 ^ nat (e - min e f) \<le> n * 2 ^ nat (f - min e f))"

definition fmax :: "float64 \<Rightarrow> float64 \<Rightarrow> float64" where
  "fmax x y = (if fle x y then y else x)"

definition fmin :: "float64 \<Rightarrow> float64 \<Rightarrow> float64" where
  "fmin x y = (if fle x y then x else y)"

definition math_floor :: "float64 \<Rightarrow> float64" where
  "math_floor x = Fl (ffloor x) 0"

text \<open>
  The conversion to \<^verbatim>\<open>int32\<close> truncates; what it gives out of range is left to the
  implementation by the language, so it is a parameter.
\<close>

definition to_int32 :: "(float64 \<Rightarrow> int) \<Rightarrow> float64 \<Rightarrow> int" where
  "to_int32 ov x = (let i = ftrunc x in if - (2 ^ 31) \<le> i \<and> i < 2 ^ 31 then i else ov x)"

text \<open>The constants 0.3 and 0.8 as the nearest float64.\<close>

definition fl_0_3 :: float64 where "fl_0_3 = Fl 5404319552844595 (- 54)"
definition fl_0_8 :: float64 where "fl_0_8 = Fl 3602879701896397 (- 52)"

section \<open>GetDefaultProbesAPI\<close>

record ProbeConf =
  Path :: string
  TimeoutSeconds :: int
  PeriodSeconds :: int
  InitialDelaySeconds :: int
  FailureThreshold :: int

record ProbeSpec =
  LivenessProbes :: "ProbeConf option"
  ReadinessProbes :: "ProbeConf option"
  StartupProbes :: "ProbeConf option"

definition probe_period :: "(float64 \<Rightarrow> int) \<Rightarrow> int \<Rightarrow> int" where
  "probe_period ov apiTimeout = to_int32 ov (math_floor (fmul (float_of_int apiTimeout) fl_0_3))"

definition probe_timeout :: "(float64 \<Rightarrow> int) \<Rightarrow> int \<Rightarrow> int" where
  "probe_timeout ov period = to_int32 ov (fmax (fmul (float_of_int period) fl_0_8) (Fl 5 0))"

definition startup_period :: "(float64 \<Rightarrow> int) \<Rightarrow> int \<Rightarrow> int" where
  "startup_period ov period =
     to_int32 ov (fmax (Fl 5 0) (fmin (Fl 10 0) (fhalf (float_of_int period))))"

definition GetDefaultProbesAPI :: "(float64 \<Rightarrow> int) \<Rightarrow> int \<Rightarrow> ProbeSpec" where
  "GetDefaultProbesAPI ov apiTimeout =
     (let period = probe_period ov apiTimeout;
          timeout = probe_timeout ov period;
          startupPeriod = startup_period ov period;
          live = \<lparr>Path = ''/healthcheck'', TimeoutSeconds = timeout, PeriodSeconds = period,
                  InitialDelaySeconds = 5, FailureThreshold = 3\<rparr>
      in \<lparr>LivenessProbes = Some live, ReadinessProbes = Some live,
          StartupProbes = Some \<lparr>Path = [], TimeoutSeconds = 5, PeriodSeconds = startupPeriod,
                                InitialDelaySeconds = 5, FailureThreshold = 12\<rparr>\<rparr>)"

section \<open>Rounding\<close>

lemma bits_le_iff: "bits n \<le> k \<longleftrightarrow> n < 2 ^ k"
proof (induction n arbitrary: k rule: bits.induct)
  case (1 n)
  show ?case
  proof (cases "n = 0")
    case True
    then show ?thesis by (simp add: bits.simps)
  next
    case False
    then have step: "bits n = Suc (bits (n div 2))" by (subst bits.simps) simp
    show ?thesis
    proof (cases k)
      case 0
      with False step show ?thesis by simp
    next
      case (Suc j)
      have "n div 2 < 2 ^ j \<longleftrightarrow> n < 2 ^ Suc j" by auto
      with 1 [OF False, of j] step Suc show ?thesis by simp
    qed
  qed
qed

lemma half_even_bounds:
  shows "2 * (half_even m k * 2 ^ k) \<le> 2 * m + 2 ^ k" and "2 * m \<le> 2 * (half_even m k * 2 ^ k) + 2 ^ k"
proof -
  define q r where "q = m div 2 ^ k" and "r = m mod 2 ^ k"
  have m: "m = q * 2 ^ k + r" unfolding q_def r_def by (rule div_mult_mod_eq [symmetric])
  have r: "0 \<le> r" "r < 2 ^ k" unfolding r_def by simp_all
  have h: "half_even m k = (if 2 * r < 2 ^ k then q else if 2 ^ k < 2 * r then q + 1
    else if even q then q else q + 1)"
    by (simp add: half_even_def Let_def q_def r_def)
  show "2 * (half_even m k * 2 ^ k) \<le> 2 * m + 2 ^ k"
    unfolding h using m r by (auto simp: distrib_right)
  show "2 * m \<le> 2 * (half_even m k * 2 ^ k) + 2 ^ k"
    unfolding h using m r by (auto simp: distrib_right)
qed

text \<open>An integer below half a unit away from a multiple rounds to it.\<close>

lemma near_arith:
  fixes h m x K :: int
  shows "2 * h \<le> 2 * m + K \<Longrightarrow> 2 * (m - x) < K \<Longrightarrow> 2 * (h - x) < 2 * K"
    and "2 * m \<le> 2 * h + K \<Longrightarrow> - K < 2 * (m - x) \<Longrightarrow> - (2 * K) < 2 * (h - x)"
  by simp_all

lemma half_even_near:
  assumes "2 * \<bar>m - c * 2 ^ k\<bar> < 2 ^ k"
  shows "half_even m k = c"
proof -
  let ?d = "half_even m k - c"
  have abs: "\<bar>2 * (m - c * 2 ^ k)\<bar> < 2 ^ k" using assms unfolding abs_mult by simp
  then have up: "2 * (m - c * 2 ^ k) < 2 ^ k" by (simp only: abs_less_iff)
  from abs have low: "- (2 ^ k) < 2 * (m - c * 2 ^ k)" unfolding abs_less_iff by linarith
  have "2 * (?d * 2 ^ k) < 2 * 2 ^ k"
    unfolding left_diff_distrib using half_even_bounds(1) up by (rule near_arith)
  moreover have "- (2 * 2 ^ k) < 2 * (?d * 2 ^ k)"
    unfolding left_diff_distrib using half_even_bounds(2) low by (rule near_arith)
  ultimately have "?d * 2 ^ k < 1 * 2 ^ k" and "(- 1) * 2 ^ k < ?d * 2 ^ k" by auto
  then have "?d < 1" and "- 1 < ?d"
    by (metis mult_less_cancel_right_pos zero_less_numeral zero_less_power)+
  then show ?thesis by simp
qed

lemma half_even_ge:
  assumes "c * 2 ^ k \<le> m"
  shows "c \<le> half_even m k"
proof -
  have "c \<le> m div 2 ^ k"
    using zdiv_mono1 [OF assms, of "2 ^ k"] by simp
  then show ?thesis by (auto simp: half_even_def Let_def)
qed

lemma float_of_int_exact: "0 \<le> a \<Longrightarrow> a < 2 ^ 53 \<Longrightarrow> float_of_int a = Fl a 0"
  using bits_le_iff [of "nat a" 53]
  by (simp add: float_of_int_def fround_def half_even_def Let_def nat_less_iff)

lemma ffloor_fround:
  assumes "bits (nat \<bar>m\<bar>) - 53 \<le> n"
  shows "ffloor (fround m (- int n)) =
    half_even m (bits (nat \<bar>m\<bar>) - 53) * 2 ^ (bits (nat \<bar>m\<bar>) - 53) div 2 ^ n"
proof -
  define k where "k = bits (nat \<bar>m\<bar>) - 53"
  have k: "k \<le> n" using assms by (simp add: k_def)
  have "ffloor (fround m (- int n)) = half_even m k div 2 ^ (n - k)"
    using k by (cases "k = n") (auto simp: fround_def k_def [symmetric] Let_def nat_diff_distrib)
  also have "\<dots> = (half_even m k * 2 ^ k) div (2 ^ (n - k) * 2 ^ k)"
    by (rule div_mult_mult2 [symmetric]) simp
  also have "2 ^ (n - k) * 2 ^ k = (2 :: int) ^ n"
    using k by (simp add: power_add [symmetric])
  finally show ?thesis by (simp add: k_def)
qed

lemma div_between:
  fixes v :: int
  assumes "N * d \<le> v" and "v < (N + 1) * d"
  shows "v div d = N"
  using assms by (intro int_div_pos_eq [of v d N "v - N * d"]) (auto simp: algebra_simps)

section \<open>The two products\<close>

lemma fmul_consts:
  assumes "0 \<le> a" and "a < 2 ^ 53"
  shows "fmul (float_of_int a) fl_0_3 = fround (a * 5404319552844595) (- int 54)"
    and "fmul (float_of_int a) fl_0_8 = fround (a * 3602879701896397) (- int 52)"
  using float_of_int_exact [OF assms] by (simp_all add: fl_0_3_def fl_0_8_def)

lemma excess_bits:
  assumes "0 \<le> m" and "m < 2 ^ (53 + j)"
  shows "bits (nat \<bar>m\<bar>) - 53 \<le> j"
  using assms bits_le_iff [of "nat m" "53 + j"] by (simp add: nat_less_iff)

lemma floor_0_3:
  assumes "0 \<le> a" and "a < 2 ^ 32"
  shows "ffloor (fmul (float_of_int a) fl_0_3) = 3 * a div 10"
proof -
  define m where "m = a * 5404319552844595"
  define k where "k = bits (nat \<bar>m\<bar>) - 53"
  define v where "v = half_even m k * 2 ^ k"
  define N s where "N = 3 * a div 10" and "s = 3 * a mod 10"
  have a: "3 * a = 10 * N + s" "0 \<le> s" "s < 10" unfolding N_def s_def by simp_all
  have m: "10 * m = 3 * a * 2 ^ 54 - 2 * a" "0 \<le> m" using assms by (simp_all add: m_def)
  have k: "k \<le> 32"
    unfolding k_def by (rule excess_bits) (use assms in \<open>simp_all add: m_def\<close>)
  have floor: "ffloor (fmul (float_of_int a) fl_0_3) = v div 2 ^ 54"
    using assms k ffloor_fround [of m 54] fmul_consts(1) [of a]
    by (simp add: m_def k_def v_def)
  have "v div 2 ^ 54 = N"
  proof (cases "s = 0")
    case False
    have "(2 :: int) ^ k \<le> 2 ^ 32" using k by (intro power_increasing) simp_all
    then have "2 * v \<le> 2 * m + 2 ^ 32" and "2 * m \<le> 2 * v + 2 ^ 32"
      using half_even_bounds [of m k] by (simp_all add: v_def)
    with False a m assms show ?thesis by (intro div_between) simp_all
  next
    case True
    then have b: "a = 10 * (a div 10)" "N = 3 * (a div 10)" using a(1) by presburger+
    define b where "b = a div 10"
    have mb: "m = N * 2 ^ 54 - 2 * b" and N: "N = 3 * b" using b by (simp_all add: m_def b_def)
    have "m < 2 ^ k * 2 ^ 53"
    proof -
      have "nat \<bar>m\<bar> < 2 ^ (k + 53)" unfolding bits_le_iff [symmetric] k_def by simp
      then show ?thesis using m(2) by (simp add: nat_less_iff power_add)
    qed
    moreover have b0: "0 \<le> b" using assms(1) by (simp add: b_def)
    ultimately have "4 * b < 2 ^ k" using mb N by simp
    moreover have "N * 2 ^ (54 - k) * 2 ^ k = N * 2 ^ 54"
      using k by (simp add: power_add [symmetric])
    then have "m - N * 2 ^ (54 - k) * 2 ^ k = - (2 * b)" using mb by linarith
    ultimately have "half_even m k = N * 2 ^ (54 - k)"
      using b0 by (intro half_even_near) simp
    then have "v = N * 2 ^ 54" using k by (simp add: v_def power_add [symmetric])
    then show ?thesis by simp
  qed
  with floor show ?thesis by (simp add: N_def)
qed

lemma floor_0_8:
  assumes "0 \<le> p" and "p < 2 ^ 31"
  shows "ffloor (fmul (float_of_int p) fl_0_8) = 4 * p div 5"
proof -
  define m where "m = p * 3602879701896397"
  define k where "k = bits (nat \<bar>m\<bar>) - 53"
  define v where "v = half_even m k * 2 ^ k"
  define N s where "N = 4 * p div 5" and "s = 4 * p mod 5"
  have p: "4 * p = 5 * N + s" "0 \<le> s" "s < 5" unfolding N_def s_def by simp_all
  have m: "5 * m = 4 * p * 2 ^ 52 + p" "0 \<le> m" using assms by (simp_all add: m_def)
  have k: "k \<le> 31"
    unfolding k_def by (rule excess_bits) (use assms in \<open>simp_all add: m_def\<close>)
  have floor: "ffloor (fmul (float_of_int p) fl_0_8) = v div 2 ^ 52"
    using assms k ffloor_fround [of m 52] fmul_consts(2) [of p]
    by (simp add: m_def k_def v_def)
  have scale: "N * 2 ^ (52 - k) * 2 ^ k = N * 2 ^ 52"
    using k by (simp add: power_add [symmetric])
  have "N * 2 ^ 52 \<le> m" using m p assms by simp
  then have "N * 2 ^ (52 - k) \<le> half_even m k" unfolding scale [symmetric] by (rule half_even_ge)
  then have "N * 2 ^ (52 - k) * 2 ^ k \<le> v" unfolding v_def by (intro mult_right_mono) simp_all
  then have "N * 2 ^ 52 \<le> v" unfolding scale .
  moreover have "v < (N + 1) * 2 ^ 52"
  proof -
    have "(2 :: int) ^ k \<le> 2 ^ 31" using k by (intro power_increasing) simp_all
    then have "2 * v \<le> 2 * m + 2 ^ 31"
      using half_even_bounds(1) [of m k] unfolding v_def by linarith
    with m p assms show ?thesis by simp
  qed
  ultimately have "v div 2 ^ 52 = N" by (rule div_between)
  with floor show ?thesis by (simp add: N_def)
qed

section \<open>Comparisons\<close>

lemma fle_floor:
  assumes "0 \<le> n"
  shows "fle (Fl m e) (Fl n 0) \<Longrightarrow> ffloor (Fl m e) \<le> n"
    and "\<not> fle (Fl m e) (Fl n 0) \<Longrightarrow> n \<le> ffloor (Fl m e)"
proof -
  have pos: "(0 :: int) < 2 ^ nat (- e)" by simp
  show "fle (Fl m e) (Fl n 0) \<Longrightarrow> ffloor (Fl m e) \<le> n"
  proof (cases "0 \<le> e")
    case False
    moreover assume "fle (Fl m e) (Fl n 0)"
    ultimately have "m \<le> n * 2 ^ nat (- e)" by (simp add: min_def)
    then have "m div 2 ^ nat (- e) \<le> n * 2 ^ nat (- e) div 2 ^ nat (- e)"
      by (rule zdiv_mono1) simp
    with False show ?thesis by simp
  qed simp
  show "\<not> fle (Fl m e) (Fl n 0) \<Longrightarrow> n \<le> ffloor (Fl m e)"
  proof (cases "0 \<le> e")
    case False
    moreover assume "\<not> fle (Fl m e) (Fl n 0)"
    ultimately have "n * 2 ^ nat (- e) \<le> m" by (simp add: min_def)
    then have "n * 2 ^ nat (- e) div 2 ^ nat (- e) \<le> m div 2 ^ nat (- e)"
      by (rule zdiv_mono1) simp
    with False show ?thesis by simp
  qed simp
qed

lemma trunc_fmax:
  assumes "0 \<le> m" and "0 \<le> n"
  shows "ftrunc (fmax (Fl m e) (Fl n 0)) = max (ffloor (Fl m e)) n"
  using assms fle_floor [OF assms(2), of m e] by (auto simp: fmax_def max_def simp del: fle.simps)

section \<open>The three durations\<close>

lemma ftrunc_Fl0 [simp]: "ftrunc (Fl n 0) = n"
  by simp

lemma to_int32_in: "ftrunc x = i \<Longrightarrow> - (2 ^ 31) \<le> i \<Longrightarrow> i < 2 ^ 31 \<Longrightarrow> to_int32 ov x = i"
  by (simp add: to_int32_def)

lemma fround_nonneg: "0 \<le> m \<Longrightarrow> \<exists>q e'. fround m e = Fl q e' \<and> 0 \<le> q"
  using half_even_ge [of 0 "bits (nat \<bar>m\<bar>) - 53" m] by (simp add: fround_def Let_def)

lemma probe_period_eq:
  assumes "0 \<le> a" and "a < 2 ^ 32"
  shows "probe_period ov a = 3 * a div 10"
proof -
  have "ftrunc (math_floor (fmul (float_of_int a) fl_0_3)) = 3 * a div 10"
    unfolding math_floor_def ftrunc_Fl0 by (rule floor_0_3 [OF assms])
  then show ?thesis
    unfolding probe_period_def by (rule to_int32_in) (use assms in simp_all)
qed

lemma probe_timeout_eq:
  assumes "0 \<le> p" and "p < 2 ^ 31"
  shows "probe_timeout ov p = max (4 * p div 5) 5"
proof -
  have "fmul (float_of_int p) fl_0_8 = fround (p * 3602879701896397) (- int 52)"
    using assms by (intro fmul_consts) simp_all
  then obtain q e where q: "fmul (float_of_int p) fl_0_8 = Fl q e" "0 \<le> q"
    using fround_nonneg [of "p * 3602879701896397" "- int 52"] assms(1) by auto
  then have "ftrunc (fmax (fmul (float_of_int p) fl_0_8) (Fl 5 0)) = max (4 * p div 5) 5"
    using trunc_fmax [of q 5 e] floor_0_8 [OF assms] by simp
  then show ?thesis
    unfolding probe_timeout_def by (rule to_int32_in) (use assms in simp_all)
qed

lemma startup_period_eq:
  assumes "0 \<le> p" and "p < 2 ^ 31"
  shows "startup_period ov p = max 5 (min 10 (p div 2))"
proof -
  have "ftrunc (fmax (Fl 5 0) (fmin (Fl 10 0) (fhalf (float_of_int p)))) = max 5 (min 10 (p div 2))"
    using assms by (auto simp: float_of_int_exact fmax_def fmin_def min_def max_def)
  then show ?thesis unfolding startup_period_def by (rule to_int32_in) simp_all
qed

section \<open>Properties\<close>

text \<open>
  Property C39. For every API timeout below 2^32 seconds the floating-point computation gives
  exactly the integer formulas: a period of three tenths of the timeout rounded down, a probe
  timeout of four fifths of the period but at least 5, and a startup period of half the period
  kept between 5 and 10. No rounding error of the two products shows.
\<close>

theorem probes_exact:
  assumes "0 \<le> a" and "a < 2 ^ 32"
  shows "GetDefaultProbesAPI ov a =
    (let period = 3 * a div 10;
         live = \<lparr>Path = ''/healthcheck'', TimeoutSeconds = max (4 * period div 5) 5,
                 PeriodSeconds = period, InitialDelaySeconds = 5, FailureThreshold = 3\<rparr>
     in \<lparr>LivenessProbes = Some live, ReadinessProbes = Some live,
         StartupProbes = Some \<lparr>Path = [], TimeoutSeconds = 5,
           PeriodSeconds = max 5 (min 10 (period div 2)), InitialDelaySeconds = 5,
           FailureThreshold = 12\<rparr>\<rparr>)"
proof -
  have "0 \<le> 3 * a div 10" and "3 * a div 10 < 2 ^ 31" using assms by simp_all
  then show ?thesis
    unfolding GetDefaultProbesAPI_def probe_period_eq [OF assms] Let_def
    by (simp only: probe_timeout_eq startup_period_eq)
qed

theorem probes_exact_witness:
  "PeriodSeconds (the (LivenessProbes (GetDefaultProbesAPI (\<lambda>_. 0) 60))) = 18 \<and>
   TimeoutSeconds (the (LivenessProbes (GetDefaultProbesAPI (\<lambda>_. 0) 60))) = 14 \<and>
   PeriodSeconds (the (StartupProbes (GetDefaultProbesAPI (\<lambda>_. 0) 60))) = 9"
  by (simp add: probes_exact [of 60] Let_def)

text \<open>
  Property C40. The comment in the source asks the probe timeout to be less than the period.
  That holds exactly from an API timeout of 20 seconds on; below it, 1 second to 19, a probe
  may still be running when the next one is due.
\<close>

theorem probe_overlap_iff:
  assumes "0 \<le> a" and "a < 2 ^ 32"
  shows "probe_timeout ov (probe_period ov a) < probe_period ov a \<longleftrightarrow> 20 \<le> a"
proof -
  have "0 \<le> 3 * a div 10" and "3 * a div 10 < 2 ^ 31" using assms by simp_all
  then have "probe_timeout ov (probe_period ov a) = max (4 * (3 * a div 10) div 5) 5"
    by (simp only: probe_timeout_eq probe_period_eq [OF assms])
  moreover have "max (4 * p div 5) 5 < p \<longleftrightarrow> 6 \<le> p" for p :: int
    unfolding max_less_iff_conj by linarith
  moreover have "6 \<le> 3 * a div 10 \<longleftrightarrow> 20 \<le> a" by linarith
  ultimately show ?thesis by (simp only: probe_period_eq [OF assms])
qed

theorem probe_overlap_iff_witness:
  "probe_timeout (\<lambda>_. 0) (probe_period (\<lambda>_. 0) 60) < probe_period (\<lambda>_. 0) 60"
  by (subst probe_overlap_iff) simp_all

end
