(* ===== verification/K8s.thy ===== *)
theory K8s
  imports Probes
begin

text \<open>
  The Kubernetes objects the operator builds, with the fields it sets, and the functions of
  lib-common, infra-operator and apimachinery that it builds them with (\<open>k8s_lib\<close>). What the
  theorems need of those functions is stated once, in \<open>lawful_lib\<close>.
\<close>

section \<open>Objects\<close>

text \<open>
  \<^verbatim>\<open>pod.RestrictiveSecurityContext(users.GlanceUID, users.GlanceGID)\<close> and its two siblings are
  named by the function that makes them.
\<close>

datatype SecurityContext =
  RestrictiveSecurityContext | PrivilegedSecurityContext | RestrictivePodSecurityContext

record PodAffinityTerm =
  pa_Key :: string
  pa_Operator :: string
  pa_Values :: "string list"
  pa_TopologyKey :: string

text \<open>\<open>DistributePods\<close> is the result of \<^verbatim>\<open>affinity.DistributePods\<close>.\<close>

datatype Affinity =
    PodAffinity PodAffinityTerm
  | DistributePods string "string list" string
  | OtherAffinity opaque

record Container =
  ct_Name :: string
  ct_Command :: "string list"
  ct_Args :: "string list"
  ct_Image :: string
  ct_SecurityContext :: SecurityContext
  ct_Env :: "(string \<times> string) list"
  ct_VolumeMounts :: "VolumeMount list"
  ct_Resources :: opaque
  ct_ReadinessProbe :: "opaque option"
  ct_LivenessProbe :: "opaque option"

record PodSpec =
  pod_SecurityContext :: SecurityContext
  pod_ServiceAccountName :: string
  pod_AutomountServiceAccountToken :: "bool option"
  pod_HostPID :: bool
  pod_RestartPolicy :: string
  pod_Containers :: "Container list"
  pod_Volumes :: "Volume list"
  pod_NodeSelector :: "string gomap option"
  pod_Affinity :: "Affinity option"

record PodTemplate =
  pt_Annotations :: "string gomap"
  pt_Labels :: "string gomap"
  pt_Spec :: PodSpec

record PVC =
  pvc_Name :: string
  pvc_Namespace :: string
  pvc_Labels :: "string gomap"
  pvc_Annotations :: "string gomap"
  pvc_AccessModes :: "string list"
  pvc_Request :: opaque
  pvc_StorageClassName :: "string option"

record StatefulSetObj =
  sts_Name :: string
  sts_Namespace :: string
  sts_Labels :: "string gomap"
  sts_ServiceName :: string
  sts_MatchLabels :: "string gomap"
  sts_PodManagementPolicy :: string
  sts_Replicas :: "int option"
  sts_Template :: PodTemplate
  sts_VolumeClaimTemplates :: "PVC list"

record JobObj =
  job_Name :: string
  job_Namespace :: string
  job_Labels :: "string gomap"
  job_Template :: PodTemplate

record CronJobObj =
  cj_Name :: string
  cj_Namespace :: string
  cj_Schedule :: string
  cj_ConcurrencyPolicy :: string
  cj_Annotations :: "string gomap"
  cj_Labels :: "string gomap"
  cj_Parallelism :: int
  cj_Completions :: int
  cj_Template :: PodTemplate

text \<open>\<^verbatim>\<open>tls.Service\<close>: what the secret gives, and the two paths the operator sets.\<close>

record TLSService =
  tls_base :: opaque
  tls_CertMount :: "string option"
  tls_KeyMount :: "string option"

record ProbeSet =
  ps_Liveness :: opaque
  ps_Readiness :: opaque
  ps_Startup :: opaque

section \<open>Functions of other repositories\<close>

record k8s_lib =
  VolMounts_Propagate :: "VolMounts \<Rightarrow> string list \<Rightarrow> VolMounts list"
  ToCoreVolumeSource :: "ExtraVolume \<Rightarrow> VolumeSource option"
  ConfigSecretVolumes :: "string list \<Rightarrow> Volume list \<times> VolumeMount list"
  WritableDirVolume :: "string \<Rightarrow> Volume"
  WritableDirVolumeMount :: "string \<Rightarrow> string \<Rightarrow> VolumeMount"
  RunHttpdVolumeName :: string
  RunHttpdMountPath :: string
  Ca_CreateVolume :: "string \<Rightarrow> Volume"
  Ca_CreateVolumeMounts :: "string \<Rightarrow> VolumeMount list"
  TLS_Enabled :: "TLSAPI \<Rightarrow> endpoint \<Rightarrow> bool"
  ToService :: "string option \<Rightarrow> go_error + TLSService"
  Service_CreateVolume :: "TLSService \<Rightarrow> string \<Rightarrow> Volume"
  Service_CreateVolumeMounts :: "TLSService \<Rightarrow> string \<Rightarrow> VolumeMount list"
  GetMemcachedMTLSSecret :: "opaque \<Rightarrow> string"
  CreateMTLSVolume :: "opaque \<Rightarrow> Volume"
  CreateMTLSVolumeMounts :: "opaque \<Rightarrow> VolumeMount list"
  MergeEnvs :: "string gomap \<Rightarrow> (string \<times> string) list"
  CreateProbeSet :: "int \<Rightarrow> string \<Rightarrow> opaque \<Rightarrow> ProbeSpec \<Rightarrow> go_error + ProbeSet"
  ParseQuantity :: "string \<Rightarrow> go_error + opaque"
  MergeStringMaps :: "string gomap list \<Rightarrow> string gomap"
  BackupLabels :: "string gomap"
  RestoreLabels :: "string gomap"
  Topology_ApplyTo :: "opaque \<Rightarrow> PodTemplate \<Rightarrow> PodTemplate"
  AppSelector :: string

section \<open>Mounts that are backed by volumes\<close>

text \<open>Every mount names one of the volumes.\<close>

definition backs :: "string set \<Rightarrow> VolumeMount list \<Rightarrow> bool" where
  "backs names ms \<longleftrightarrow> vmt_Name ` set ms \<subseteq> names"

named_theorems mounts \<open>mounts and the volumes that back them\<close>

lemma backs_Nil [mounts, simp]: "backs names []"
  by (simp add: backs_def)

lemma backs_Cons [mounts, simp]: "backs names (m # ms) \<longleftrightarrow> vmt_Name m \<in> names \<and> backs names ms"
  by (auto simp: backs_def)

lemma backs_append [mounts, simp]: "backs names (ms @ ms') \<longleftrightarrow> backs names ms \<and> backs names ms'"
  by (auto simp: backs_def)

lemma backs_mono: "backs names ms \<Longrightarrow> names \<subseteq> names' \<Longrightarrow> backs names' ms"
  by (auto simp: backs_def)

lemma backs_concat [mounts, simp]: "backs names (concat mss) \<longleftrightarrow> (\<forall>ms \<in> set mss. backs names ms)"
  by (induction mss) auto

definition volume_names :: "Volume list \<Rightarrow> string set" where
  "volume_names vs = vol_Name ` set vs"

lemma volume_names_simps [mounts, simp]:
  "volume_names [] = {}"
  "volume_names (v # vs) = insert (vol_Name v) (volume_names vs)"
  "volume_names (vs @ vs') = volume_names vs \<union> volume_names vs'"
  by (auto simp: volume_names_def)

section \<open>What the theorems rely on\<close>

text \<open>
  The documented behaviour of those functions: a volume built for a name has that name, the
  mounts built along with a volume mount it, and a topology changes the scheduling of a pod,
  not its containers or volumes.
\<close>

definition lawful_lib :: "k8s_lib \<Rightarrow> bool" where
  "lawful_lib L \<longleftrightarrow>
     (\<forall>n. vol_Name (WritableDirVolume L n) = n) \<and>
     (\<forall>n p. vmt_Name (WritableDirVolumeMount L n p) = n) \<and>
     (\<forall>ss. backs (volume_names (fst (ConfigSecretVolumes L ss))) (snd (ConfigSecretVolumes L ss))) \<and>
     (\<forall>s. backs {vol_Name (Ca_CreateVolume L s)} (Ca_CreateVolumeMounts L s)) \<and>
     (\<forall>s n. backs {vol_Name (Service_CreateVolume L s n)} (Service_CreateVolumeMounts L s n)) \<and>
     (\<forall>m. backs {vol_Name (CreateMTLSVolume L m)} (CreateMTLSVolumeMounts L m)) \<and>
     (\<forall>t p. pod_Containers (pt_Spec (Topology_ApplyTo L t p)) = pod_Containers (pt_Spec p)) \<and>
     (\<forall>t p. pod_Volumes (pt_Spec (Topology_ApplyTo L t p)) = pod_Volumes (pt_Spec p)) \<and>
     (\<forall>t p. pod_HostPID (pt_Spec (Topology_ApplyTo L t p)) = pod_HostPID (pt_Spec p))"

text \<open>An instance, to run the definitions on.\<close>

definition ref_lib :: k8s_lib where
  "ref_lib =
     \<lparr>VolMounts_Propagate = (\<lambda>v s. [v]),
      ToCoreVolumeSource = (\<lambda>v. Some (OtherSource (ev_Source v))),
      ConfigSecretVolumes = (\<lambda>ss.
        (map (\<lambda>s. \<lparr>vol_Name = s, vol_Source = SecretSource s 0 []\<rparr>) ss,
         map (\<lambda>s. \<lparr>vmt_Name = s, vmt_MountPath = ''/etc/secret/'' @ s, vmt_SubPath = [], vmt_ReadOnly = True\<rparr>) ss)),
      WritableDirVolume = (\<lambda>n. \<lparr>vol_Name = n, vol_Source = OtherSource ''emptyDir''\<rparr>),
      WritableDirVolumeMount = (\<lambda>n p.
        \<lparr>vmt_Name = n, vmt_MountPath = p, vmt_SubPath = [], vmt_ReadOnly = False\<rparr>),
      RunHttpdVolumeName = ''run-httpd'', RunHttpdMountPath = ''/run/httpd'',
      Ca_CreateVolume = (\<lambda>s. \<lparr>vol_Name = ''ca'', vol_Source = SecretSource s 0 []\<rparr>),
      Ca_CreateVolumeMounts = (\<lambda>s.
        [\<lparr>vmt_Name = ''ca'', vmt_MountPath = ''/etc/pki/ca'', vmt_SubPath = [], vmt_ReadOnly = True\<rparr>]),
      TLS_Enabled = (\<lambda>t e. case e of EndpointPublic \<Rightarrow> TLSPublicSecretName t \<noteq> None
                               | EndpointInternal \<Rightarrow> TLSInternalSecretName t \<noteq> None),
      ToService = (\<lambda>s. case s of None \<Rightarrow> Inl (ErrText ''no secret'')
        | Some n \<Rightarrow> Inr \<lparr>tls_base = n, tls_CertMount = None, tls_KeyMount = None\<rparr>),
      Service_CreateVolume = (\<lambda>s n. \<lparr>vol_Name = n @ ''-tls'', vol_Source = SecretSource (tls_base s) 0 []\<rparr>),
      Service_CreateVolumeMounts = (\<lambda>s n.
        [\<lparr>vmt_Name = n @ ''-tls'', vmt_MountPath = the (tls_CertMount s), vmt_SubPath = [], vmt_ReadOnly = True\<rparr>]),
      GetMemcachedMTLSSecret = (\<lambda>m. m),
      CreateMTLSVolume = (\<lambda>m. \<lparr>vol_Name = ''mtls'', vol_Source = SecretSource m 0 []\<rparr>),
      CreateMTLSVolumeMounts = (\<lambda>m.
        [\<lparr>vmt_Name = ''mtls'', vmt_MountPath = ''/etc/mtls'', vmt_SubPath = [], vmt_ReadOnly = True\<rparr>]),
      MergeEnvs = (\<lambda>m. m),
      CreateProbeSet = (\<lambda>p s o' d. Inr \<lparr>ps_Liveness = ''live'', ps_Readiness = ''ready'', ps_Startup = ''start''\<rparr>),
      ParseQuantity = (\<lambda>s. if s = [] then Inl (ErrText ''empty quantity'') else Inr s),
      MergeStringMaps = concat, BackupLabels = [(''backup'', ''true'')], RestoreLabels = [(''restore'', ''true'')],
      Topology_ApplyTo = (\<lambda>t p. p\<lparr>pt_Spec := (pt_Spec p)\<lparr>pod_Affinity := Some (OtherAffinity t)\<rparr>\<rparr>),
      AppSelector = ''service''\<rparr>"

lemma lawful_ref_lib: "lawful_lib ref_lib"
  by (simp add: lawful_lib_def ref_lib_def) (auto simp: backs_def volume_names_def image_image)

end
