(* ===== verification/Volumes.thy ===== *)
theory Volumes
  imports K8s
begin

text \<open>
  The volumes and mounts of the API pods (internal/glance/volumes.go), the volume claims
  (pvc.go), the endpoints of an API type and the pod affinity (internal/glanceapi/funcs.go).
\<close>

section \<open>Constants\<close>

datatype PvcType = PvcLocal | PvcCache | PvcImageConv

definition DefaultsConfigFileName :: string where "DefaultsConfigFileName = ''00-config.conf''"
definition CustomConfigFileName :: string where "CustomConfigFileName = ''01-config.conf''"
definition CustomServiceConfigFileName :: string where
  "CustomServiceConfigFileName = ''02-config.conf''"
definition CustomServiceConfigSecretsFileName :: string where
  "CustomServiceConfigSecretsFileName = ''03-config.conf''"
definition LogVolume :: string where "LogVolume = ''logs''"
definition ConfigDirVolume :: string where "ConfigDirVolume = ''glance-config-dir''"
definition ImageCacheDir :: string where "ImageCacheDir = ''/var/lib/glance/image-cache''"
definition CachePVCPrefix :: string where "CachePVCPrefix = ServiceName @ ''-cache-''"
definition GlanceLogPath :: string where "GlanceLogPath = ''/var/log/glance/''"
definition GlanceAPIPropagation :: "string list" where
  "GlanceAPIPropagation = [''Glance'', ''GlanceAPI'']"

text \<open>The octal modes 0440 and 0755.\<close>

definition configMode :: int where "configMode = 288"
definition scriptsVolumeDefaultMode :: int where "scriptsVolumeDefaultMode = 493"

section \<open>Volumes\<close>

definition secret_volume :: "string \<Rightarrow> string \<Rightarrow> string list \<Rightarrow> Volume" where
  "secret_volume name secret items =
     \<lparr>vol_Name = name, vol_Source = SecretSource secret configMode (map (\<lambda>i. (i, i)) items)\<rparr>"

definition host_volume :: "string \<Rightarrow> string \<Rightarrow> bool \<Rightarrow> Volume" where
  "host_volume name path dirOrCreate = \<lparr>vol_Name = name, vol_Source = HostPathSource path dirOrCreate\<rparr>"

text \<open>The volumes the Cinder backend needs of the host.\<close>

definition cinder_volumes :: "Volume list" where
  "cinder_volumes =
     [host_volume ''etc-iscsi'' ''/etc/iscsi'' False,
      host_volume ''dev'' ''/dev'' False,
      host_volume ''lib-modules'' ''/lib/modules'' False,
      host_volume ''run'' ''/run'' False,
      host_volume ''sys'' ''/sys'' False,
      host_volume ''var-locks-brick'' ''/var/locks/openstack/os-brick'' True,
      host_volume ''etc-nvme'' ''/etc/nvme'' True]"

text \<open>The volumes of one extra mount; the converted source is dereferenced without a check.\<close>

definition extra_volumes ::
  "k8s_lib \<Rightarrow> string list \<Rightarrow> GlanceExtraVolMounts \<Rightarrow> Volume list go" where
  "extra_volumes L svc exv =
     go_concat_map (\<lambda>vol.
       go_concat_map (\<lambda>v.
         (case ToCoreVolumeSource L v of
            None \<Rightarrow> Panic NilDereference
          | Some src \<Rightarrow> Ret [\<lparr>vol_Name = ev_Name v, vol_Source = src\<rparr>]))
         (vm_Volumes vol))
       (Propagate (VolMounts_Propagate L) exv svc)"

definition GetVolumes ::
  "k8s_lib \<Rightarrow> string \<Rightarrow> bool \<Rightarrow> string list \<Rightarrow> GlanceExtraVolMounts list \<Rightarrow> string list \<Rightarrow> Volume list go" where
  "GetVolumes L name hasCinder secretNames extraVol svc =
     go_bind (go_concat_map (extra_volumes L svc) extraVol) (\<lambda>extra.
       Ret ([secret_volume ''config-data'' (name @ ''-config-data'') []] @ extra @
            fst (ConfigSecretVolumes L secretNames) @
            (if hasCinder then cinder_volumes else [])))"

definition GetCacheVolume :: "string \<Rightarrow> Volume list" where
  "GetCacheVolume pvcName = [\<lparr>vol_Name = ''glance-cache'', vol_Source = PVCSource pvcName\<rparr>]"

definition GetScriptVolume :: "Volume list" where
  "GetScriptVolume =
     [\<lparr>vol_Name = ''scripts'',
       vol_Source = SecretSource (ServiceName @ ''-scripts'') scriptsVolumeDefaultMode []\<rparr>]"

definition GetAPIVolumes :: "k8s_lib \<Rightarrow> Volume list" where
  "GetAPIVolumes L =
     [WritableDirVolume L ConfigDirVolume, WritableDirVolume L LogVolume] @ GetScriptVolume @
     [WritableDirVolume L (RunHttpdVolumeName L)]"

section \<open>Mounts\<close>

definition config_mount :: "string \<Rightarrow> string \<Rightarrow> VolumeMount" where
  "config_mount path sub =
     \<lparr>vmt_Name = ''config-data'', vmt_MountPath = path, vmt_SubPath = sub, vmt_ReadOnly = True\<rparr>"

definition plain_mount :: "string \<Rightarrow> string \<Rightarrow> bool \<Rightarrow> VolumeMount" where
  "plain_mount name path readOnly =
     \<lparr>vmt_Name = name, vmt_MountPath = path, vmt_SubPath = [], vmt_ReadOnly = readOnly\<rparr>"

definition runOnHostVolumeMount :: "string \<Rightarrow> VolumeMount" where
  "runOnHostVolumeMount destPath =
     \<lparr>vmt_Name = ''scripts'', vmt_MountPath = destPath, vmt_SubPath = ''run-on-host'', vmt_ReadOnly = False\<rparr>"

definition conf_mount :: "string \<Rightarrow> VolumeMount" where
  "conf_mount file = config_mount (''/etc/glance/glance.conf.d/'' @ file) file"

text \<open>The mounts every API container has; the writable directory comes first.\<close>

definition base_mounts :: "k8s_lib \<Rightarrow> VolumeMount list" where
  "base_mounts L =
     [WritableDirVolumeMount L ConfigDirVolume ''/etc/glance/glance.conf.d'',
      conf_mount DefaultsConfigFileName, conf_mount CustomServiceConfigFileName,
      conf_mount CustomServiceConfigSecretsFileName, config_mount ''/etc/my.cnf'' ''my.cnf'']"

definition httpd_mounts :: "bool \<Rightarrow> VolumeMount list" where
  "httpd_mounts wsgi =
     (let vhostConf = (if wsgi then ''10-glance-wsgi.conf'' else ''10-glance-proxypass.conf'') in
      [config_mount ''/etc/httpd/conf/httpd.conf'' ''httpd.conf'',
       config_mount (''/etc/httpd/conf.d/'' @ vhostConf) vhostConf,
       config_mount ''/etc/httpd/conf.d/ssl.conf'' ''ssl.conf''])"

definition cinder_mounts :: "VolumeMount list" where
  "cinder_mounts =
     [plain_mount ''etc-iscsi'' ''/etc/iscsi'' True,
      plain_mount ''dev'' ''/dev'' False,
      plain_mount ''lib-modules'' ''/lib/modules'' True,
      plain_mount ''run'' ''/run'' False,
      plain_mount ''sys'' ''/sys'' False,
      plain_mount ''var-locks-brick'' ''/var/locks/openstack/os-brick'' False,
      plain_mount ''etc-nvme'' ''/etc/nvme'' False,
      runOnHostVolumeMount ''/usr/sbin/multipath'',
      runOnHostVolumeMount ''/usr/sbin/multipathd'',
      runOnHostVolumeMount ''/usr/sbin/iscsiadm'',
      runOnHostVolumeMount ''/lib/udev/scsi_id'',
      runOnHostVolumeMount ''/usr/sbin/nvme'']"

definition extra_mounts ::
  "k8s_lib \<Rightarrow> string list \<Rightarrow> GlanceExtraVolMounts \<Rightarrow> VolumeMount list" where
  "extra_mounts L svc exv = concat (map vm_Mounts (Propagate (VolMounts_Propagate L) exv svc))"

definition GetVolumeMounts ::
  "k8s_lib \<Rightarrow> string list \<Rightarrow> bool \<Rightarrow> bool \<Rightarrow> GlanceExtraVolMounts list \<Rightarrow> string list \<Rightarrow> string \<Rightarrow> bool \<Rightarrow>
     VolumeMount list" where
  "GetVolumeMounts L secretNames hasCinder external extraVol svc apiMode wsgi =
     base_mounts L @
     (if apiMode = ''httpd'' then httpd_mounts wsgi else []) @
     (if \<not> external then [plain_mount ServiceName ''/var/lib/glance'' False] else []) @
     concat (map (extra_mounts L svc) extraVol) @
     snd (ConfigSecretVolumes L secretNames) @
     (if hasCinder then cinder_mounts else [])"

definition GetCacheVolumeMount :: "VolumeMount list" where
  "GetCacheVolumeMount = [plain_mount ''glance-cache'' ImageCacheDir False]"

definition GetScriptVolumeMount :: "VolumeMount list" where
  "GetScriptVolumeMount = [plain_mount ''scripts'' ''/usr/local/bin/container-scripts'' True]"

definition GetAPIVolumeMount :: "k8s_lib \<Rightarrow> string \<Rightarrow> VolumeMount list" where
  "GetAPIVolumeMount L cacheSize =
     [WritableDirVolumeMount L LogVolume ''/var/log/glance''] @ GetScriptVolumeMount @
     [WritableDirVolumeMount L (RunHttpdVolumeName L) (RunHttpdMountPath L)] @
     (if length cacheSize > 0 then GetCacheVolumeMount else [])"

section \<open>GetPvc\<close>

text \<open>On an error the claim is returned too, without a spec.\<close>

definition GetPvc ::
  "k8s_lib \<Rightarrow> GlanceAPI \<Rightarrow> string gomap \<Rightarrow> PvcType \<Rightarrow> PVC \<times> go_error option" where
  "GetPvc L api labels pvcType =
     (let (annotation, requestSize, pvcName, labels) =
        (case pvcType of
           PvcCache \<Rightarrow> ([(''image-cache'', ''true'')], Size (t_ImageCache (ASpec api)),
                        ServiceName @ ''-cache'', labels)
         | _ \<Rightarrow> ([], StorageRequest (t_Storage (ASpec api)), ServiceName,
                 MergeStringMaps L [labels, BackupLabels L, RestoreLabels L]));
          pvc = \<lparr>pvc_Name = pvcName, pvc_Namespace = o_Namespace api, pvc_Labels = labels,
                 pvc_Annotations = annotation, pvc_AccessModes = [], pvc_Request = [],
                 pvc_StorageClassName = None\<rparr>
      in case ParseQuantity L requestSize of
           Inl err \<Rightarrow> (pvc, Some err)
         | Inr storageSize \<Rightarrow>
             (pvc\<lparr>pvc_AccessModes := [''ReadWriteOnce''], pvc_Request := storageSize,
                  pvc_StorageClassName := Some (StorageClass (t_Storage (ASpec api)))\<rparr>, None))"

section \<open>Endpoints and affinity\<close>

definition GetGlanceEndpoints :: "string \<Rightarrow> (endpoint \<times> int) list" where
  "GetGlanceEndpoints apiType =
     (if apiType = APIEdge then [(EndpointInternal, GlanceInternalPort)]
      else (let m = (if apiType = APIInternal then [(EndpointInternal, GlanceInternalPort)]
                     else [(EndpointPublic, GlancePublicPort)])
            in if apiType = APISingle then AList.update EndpointInternal GlanceInternalPort m else m))"

definition ColocateWithPod :: "string \<Rightarrow> Affinity" where
  "ColocateWithPod podName =
     PodAffinity \<lparr>pa_Key = ''statefulset.kubernetes.io/pod-name'', pa_Operator = ''In'',
                  pa_Values = [podName], pa_TopologyKey = ''kubernetes.io/hostname''\<rparr>"

section \<open>Facts\<close>

lemmas volume_defs =
  secret_volume_def host_volume_def cinder_volumes_def GetCacheVolume_def GetScriptVolume_def
  GetAPIVolumes_def

lemmas mount_defs =
  config_mount_def conf_mount_def plain_mount_def runOnHostVolumeMount_def base_mounts_def
  httpd_mounts_def cinder_mounts_def GetCacheVolumeMount_def GetScriptVolumeMount_def
  GetAPIVolumeMount_def Let_def

text \<open>The extra volumes and mounts of a resource agree: each mount names a volume beside it.\<close>

definition extra_volume_names ::
  "k8s_lib \<Rightarrow> string list \<Rightarrow> GlanceExtraVolMounts list \<Rightarrow> string set" where
  "extra_volume_names L svc extraVol =
     (\<Union>exv \<in> set extraVol. \<Union>vol \<in> set (Propagate (VolMounts_Propagate L) exv svc).
        ev_Name ` set (vm_Volumes vol))"

definition extra_backed :: "k8s_lib \<Rightarrow> string list \<Rightarrow> GlanceExtraVolMounts list \<Rightarrow> bool" where
  "extra_backed L svc extraVol \<longleftrightarrow>
     backs (extra_volume_names L svc extraVol) (concat (map (extra_mounts L svc) extraVol))"

lemma go_concat_map_names:
  assumes "go_concat_map f xs = Ret vs" and "\<And>x ys. x \<in> set xs \<Longrightarrow> f x = Ret ys \<Longrightarrow> volume_names ys = g x"
  shows "volume_names vs = (\<Union>x \<in> set xs. g x)"
  using assms
proof (induction xs arbitrary: vs)
  case Nil
  then show ?case by simp
next
  case (Cons x xs)
  from Cons.prems(1) obtain ys zs where x: "f x = Ret ys" and zs: "go_concat_map f xs = Ret zs"
    and vs: "vs = ys @ zs" by auto
  have "volume_names ys = g x" by (rule Cons.prems(2) [OF _ x]) simp
  moreover have "volume_names zs = (\<Union>x \<in> set xs. g x)"
    by (rule Cons.IH [OF zs]) (rule Cons.prems(2), simp_all)
  ultimately show ?case by (simp add: vs)
qed

lemma extra_volumes_names:
  assumes "go_concat_map (extra_volumes L svc) extraVol = Ret vs"
  shows "volume_names vs = extra_volume_names L svc extraVol"
  unfolding extra_volume_names_def
proof (rule go_concat_map_names [OF assms])
  fix exv ys assume "extra_volumes L svc exv = Ret ys"
  then show "volume_names ys =
    (\<Union>vol \<in> set (Propagate (VolMounts_Propagate L) exv svc). ev_Name ` set (vm_Volumes vol))"
    unfolding extra_volumes_def
  proof (rule go_concat_map_names)
    fix vol zs
    assume "go_concat_map (\<lambda>v. case ToCoreVolumeSource L v of None \<Rightarrow> Panic NilDereference
      | Some src \<Rightarrow> Ret [\<lparr>vol_Name = ev_Name v, vol_Source = src\<rparr>]) (vm_Volumes vol) = Ret zs"
    then have "volume_names zs = (\<Union>v \<in> set (vm_Volumes vol). {ev_Name v})"
      by (rule go_concat_map_names) (auto split: option.splits)
    then show "volume_names zs = ev_Name ` set (vm_Volumes vol)" by auto
  qed
qed

lemma GetVolumes_names:
  assumes "GetVolumes L name hasCinder secrets extraVol svc = Ret vs"
  shows "volume_names vs =
    {''config-data''} \<union> extra_volume_names L svc extraVol \<union>
    volume_names (fst (ConfigSecretVolumes L secrets)) \<union>
    (if hasCinder then volume_names cinder_volumes else {})"
proof -
  from assms obtain extra where extra: "go_concat_map (extra_volumes L svc) extraVol = Ret extra"
    and vs: "vs = [secret_volume ''config-data'' (name @ ''-config-data'') []] @ extra @
      fst (ConfigSecretVolumes L secrets) @ (if hasCinder then cinder_volumes else [])"
    by (auto simp: GetVolumes_def)
  show ?thesis unfolding vs using extra_volumes_names [OF extra] by (auto simp: secret_volume_def)
qed

text \<open>
  The names a container's mounts may use: what \<^const>\<open>GetVolumes\<close> gives, the volumes of the
  pod, and the claims.
\<close>

lemma GetVolumeMounts_backed:
  assumes "lawful_lib L" and "GetVolumes L name hasCinder secrets extraVol svc = Ret vs"
    and "extra_backed L svc extraVol"
    and "external \<or> ServiceName \<in> names" and "volume_names vs \<subseteq> names"
    and "volume_names (GetAPIVolumes L) \<subseteq> names"
  shows "backs names (GetVolumeMounts L secrets hasCinder external extraVol svc mode wsgi)"
proof -
  note vs = GetVolumes_names [OF assms(2)]
  have config: "''config-data'' \<in> names" using vs assms(5) by auto
  have api: "ConfigDirVolume \<in> names" "''scripts'' \<in> names"
    using assms(1,6) by (auto simp: GetAPIVolumes_def GetScriptVolume_def lawful_lib_def)
  have "backs names (concat (map (extra_mounts L svc) extraVol))"
    using assms(3) vs assms(5) unfolding extra_backed_def by (blast intro: backs_mono)
  moreover have "backs names (snd (ConfigSecretVolumes L secrets))"
  proof (rule backs_mono)
    show "backs (volume_names (fst (ConfigSecretVolumes L secrets))) (snd (ConfigSecretVolumes L secrets))"
      using assms(1) by (simp add: lawful_lib_def)
    show "volume_names (fst (ConfigSecretVolumes L secrets)) \<subseteq> names"
      using vs assms(5) by auto
  qed
  moreover have "backs names cinder_mounts" if "hasCinder"
  proof -
    have "volume_names cinder_volumes \<subseteq> names" using vs assms(5) that by auto
    then show ?thesis using api(2)
      by (simp add: cinder_mounts_def cinder_volumes_def host_volume_def plain_mount_def runOnHostVolumeMount_def)
  qed
  moreover have "backs names (base_mounts L)" and "backs names (httpd_mounts wsgi)"
    using config api assms(1)
    by (simp_all add: base_mounts_def httpd_mounts_def conf_mount_def config_mount_def lawful_lib_def Let_def)
  ultimately show ?thesis
    using assms(4) by (auto simp: GetVolumeMounts_def plain_mount_def)
qed

lemma GetAPIVolumeMount_backed:
  assumes "lawful_lib L" and "volume_names (GetAPIVolumes L) \<subseteq> names"
    and "cacheSize = [] \<or> ''glance-cache'' \<in> names"
  shows "backs names (GetAPIVolumeMount L cacheSize)"
  using assms
  by (auto simp: GetAPIVolumeMount_def GetAPIVolumes_def GetScriptVolume_def GetScriptVolumeMount_def
      GetCacheVolumeMount_def plain_mount_def lawful_lib_def)

lemma GetPvc_name:
  "pvc_Name (fst (GetPvc L api labels t)) = (if t = PvcCache then ''glance-cache'' else ServiceName)"
  by (cases t) (simp_all add: GetPvc_def Let_def ServiceName_def split: sum.splits)

lemma GetPvc_error:
  "snd (GetPvc L api labels t) =
     (case ParseQuantity L (if t = PvcCache then Size (t_ImageCache (ASpec api))
                            else StorageRequest (t_Storage (ASpec api))) of
        Inl e \<Rightarrow> Some e | Inr _ \<Rightarrow> None)"
  by (cases t) (simp_all add: GetPvc_def Let_def split: sum.splits)

end
