(* ===== verification/Backends.thy ===== *)
theory Backends
  imports Types
begin

text \<open>
  Detection of the storage backends of a \<^verbatim>\<open>customServiceConfig\<close> (api/v1beta1/common_types.go
  and glance_webhook.go): the enabled backends, the "only a file backend" test, the template
  of the default instance, and the layout check built on them.
\<close>

section \<open>GetEnabledBackends\<close>

text \<open>The key of a line: what stands before the first "=", without blanks.\<close>

definition line_key :: "string \<Rightarrow> string" where
  "line_key line = RemoveAll (CHR '' '') (hd (SplitN2 (CHR ''='') (TrimSpace line)))"

definition skipped_line :: "string \<Rightarrow> bool" where
  "skipped_line line \<longleftrightarrow> line_key line = [] \<or> HasPrefix (line_key line) ''#''"

fun scan_backends :: "string list \<Rightarrow> string list go" where
  "scan_backends [] = Ret []"
| "scan_backends (line # rest) =
     (let tokenLine = SplitN2 (CHR ''='') (TrimSpace line);
          token = RemoveAll (CHR '' '') (hd tokenLine)
      in if token = [] \<or> HasPrefix token ''#'' then scan_backends rest
         else if token = ''enabled_backends'' then
           (if length tokenLine < 2 then Panic IndexOutOfRange
            else Ret (map TrimSpace (Split (CHR '','') (TrimSpace (tokenLine ! 1)))))
         else scan_backends rest)"

definition GetEnabledBackends :: "string \<Rightarrow> string list go" where
  "GetEnabledBackends customServiceConfig = scan_backends (Split (CHR 0x0A) customServiceConfig)"

definition GetTemplateBackend :: string where
  "GetTemplateBackend =
     ''[DEFAULT]'' @ [CHR 0x0A] @ ''enabled_backends=backend1:type1 # CHANGE_ME''"

text \<open>The switch of the API controller reads the part after the first ":" of a backend.\<close>

definition backend_type :: "string \<Rightarrow> string go" where
  "backend_type b =
     (let t = SplitN2 (CHR '':'') b in if length t < 2 then Panic IndexOutOfRange else Ret (t ! 1))"

section \<open>IsFileBackend and isInvalidBackend\<close>

definition only_file :: "string list \<Rightarrow> bool \<Rightarrow> bool" where
  "only_file availableBackends topLevel =
     (if availableBackends = [] \<and> topLevel then True
      else if length availableBackends = 1 then
        (let backendToken = SplitN2 (CHR '':'') (availableBackends ! 0) in
         length backendToken = 2 \<and> backendToken ! 1 = ''file'')
      else False)"

definition IsFileBackend :: "string \<Rightarrow> bool \<Rightarrow> bool go" where
  "IsFileBackend customServiceConfig topLevel =
     go_bind (GetEnabledBackends customServiceConfig) (\<lambda>availableBackends.
       Ret (only_file availableBackends topLevel))"

definition InvalidBackendErrorMessageSplit :: string where
  "InvalidBackendErrorMessageSplit =
     ''The GlanceAPI layout type: split cannot be used in combination with File and NFS backend''"

text \<open>\<^const>\<open>None\<close> is the \<^verbatim>\<open>false, ""\<close> of the source.\<close>

definition isInvalidBackend :: "GlanceAPITemplate \<Rightarrow> bool \<Rightarrow> string option go" where
  "isInvalidBackend glanceAPI topLevel =
     (case t_Replicas glanceAPI of
        None \<Rightarrow> Panic NilDereference
      | Some n \<Rightarrow>
          if n = 0 then Ret None
          else if t_Type glanceAPI = ''split'' then
            go_bind (IsFileBackend (t_CustomServiceConfig glanceAPI) topLevel) (\<lambda>f.
              Ret (if f then Some InvalidBackendErrorMessageSplit else None))
          else Ret None)"

section \<open>What the scan finds\<close>

lemma scan_backends_skip:
  "line_key l \<noteq> ''enabled_backends'' \<Longrightarrow> scan_backends (l # ls) = scan_backends ls"
  by (simp add: line_key_def Let_def)

lemma scan_backends_hit:
  assumes "line_key l = ''enabled_backends''"
  shows "scan_backends (l # ls) =
    (if CHR ''='' \<in> set (TrimSpace l)
     then Ret (map TrimSpace (Split (CHR '','') (TrimSpace (SplitN2 (CHR ''='') (TrimSpace l) ! 1))))
     else Panic IndexOutOfRange)"
  using assms by (simp add: line_key_def Let_def length_SplitN2 HasPrefix_def)

declare scan_backends.simps(2) [simp del]

lemma scan_backends_split:
  "scan_backends ls =
     (case dropWhile (\<lambda>l. line_key l \<noteq> ''enabled_backends'') ls of
        [] \<Rightarrow> Ret []
      | l # _ \<Rightarrow> scan_backends [l])"
proof (induction ls)
  case Nil
  then show ?case by simp
next
  case (Cons l ls)
  then show ?case
    by (cases "line_key l = ''enabled_backends''") (simp_all add: scan_backends_skip scan_backends_hit)
qed

text \<open>The first line that sets the key decides; no line that sets it, no backends.\<close>

lemma scan_backends_first:
  assumes "\<forall>l \<in> set pre. line_key l \<noteq> ''enabled_backends''"
  shows "scan_backends (pre @ l # post) = scan_backends (l # post)"
  using assms by (induction pre) (simp_all add: scan_backends_skip)

lemma scan_backends_none:
  assumes "\<forall>l \<in> set ls. line_key l \<noteq> ''enabled_backends''"
  shows "scan_backends ls = Ret []"
  using assms by (induction ls) (simp_all add: scan_backends_skip)

lemma scan_backends_panics_iff:
  "panics (scan_backends ls) \<longleftrightarrow>
     (\<exists>pre l post. ls = pre @ l # post \<and> (\<forall>k \<in> set pre. line_key k \<noteq> ''enabled_backends'') \<and>
        line_key l = ''enabled_backends'' \<and> CHR ''='' \<notin> set (TrimSpace l))"
proof (induction ls)
  case Nil
  then show ?case by simp
next
  case (Cons a ls)
  show ?case
  proof (cases "line_key a = ''enabled_backends''")
    case True
    have "pre = []" if "a # ls = pre @ l # post" "\<forall>k \<in> set pre. line_key k \<noteq> ''enabled_backends''"
      for pre l post
      using that True by (cases pre) auto
    with True show ?thesis by (fastforce simp: scan_backends_hit)
  next
    case False
    have "(\<exists>pre l post. a # ls = pre @ l # post \<and> P pre l) \<longleftrightarrow>
      P [] a \<or> (\<exists>pre l post. ls = pre @ l # post \<and> P (a # pre) l)" for P
      by (auto simp: Cons_eq_append_conv)
    with False Cons show ?thesis by (simp add: scan_backends_skip)
  qed
qed

text \<open>A configuration that names the backends in a usual way.\<close>

definition backend_name :: "string \<Rightarrow> bool" where
  "backend_name b \<longleftrightarrow> b \<noteq> [] \<and> trimmed b \<and> CHR '','' \<notin> set b \<and> CHR 0x0A \<notin> set b"

lemma backend_name_trim: "backend_name b \<Longrightarrow> TrimSpace b = b"
  by (simp add: backend_name_def TrimSpace_trimmed)

lemma Join_Cons: "xs \<noteq> [] \<Longrightarrow> Join c (x # xs) = x @ c # Join c xs"
  by (cases xs) auto

lemma trimmed_Join:
  assumes "bs \<noteq> []" and "\<forall>b \<in> set bs. backend_name b"
  shows "Join (CHR '','') bs \<noteq> [] \<and> trimmed (Join (CHR '','') bs)"
  using assms
proof (induction bs)
  case Nil
  then show ?case by simp
next
  case (Cons b bs)
  then show ?case
    by (cases "bs = []") (auto simp: Join_Cons backend_name_def trimmed_def)
qed

lemma set_Join: "set (Join c xs) \<subseteq> insert c (\<Union> (set ` set xs))"
  by (induction c xs rule: Join.induct) auto

lemma trimmed_assign:
  assumes "v \<noteq> []" and "trimmed v"
  shows "TrimSpace (''enabled_backends='' @ v) = ''enabled_backends='' @ v"
  using assms by (intro TrimSpace_trimmed) (auto simp: trimmed_def printable_def)

lemma scan_assign_key:
  assumes "v \<noteq> []" and "trimmed v"
  shows "line_key (''enabled_backends='' @ v) = ''enabled_backends''"
proof -
  have "SplitN2 (CHR ''='') (''enabled_backends='' @ v) = [''enabled_backends'', v]"
    using SplitN2_append [of "CHR ''=''" "''enabled_backends''" v] by simp
  then show ?thesis
    unfolding line_key_def trimmed_assign [OF assms] by (simp add: RemoveAll_def)
qed

lemma scan_assign:
  assumes "v \<noteq> []" and "trimmed v"
  shows "scan_backends [''enabled_backends='' @ v] = Ret (map TrimSpace (Split (CHR '','') v))"
proof -
  have split: "SplitN2 (CHR ''='') (''enabled_backends='' @ v) = [''enabled_backends'', v]"
    using SplitN2_append [of "CHR ''=''" "''enabled_backends''" v] by simp
  have key: "line_key (''enabled_backends='' @ v) = ''enabled_backends''"
    using assms by (rule scan_assign_key)
  have "scan_backends [''enabled_backends='' @ v] =
    Ret (map TrimSpace (Split (CHR '','') (TrimSpace v)))"
    unfolding scan_backends_hit [OF key] trimmed_assign [OF assms] split by simp
  with assms show ?thesis by (simp add: TrimSpace_trimmed)
qed

lemma scan_assign_names:
  assumes "bs \<noteq> []" and "\<forall>b \<in> set bs. backend_name b"
  shows "scan_backends [''enabled_backends='' @ Join (CHR '','') bs] = Ret bs"
proof -
  have "Split (CHR '','') (Join (CHR '','') bs) = bs"
    using assms by (intro Split_Join) (auto simp: backend_name_def)
  moreover have "map TrimSpace bs = bs"
    using assms(2) by (simp add: map_idI backend_name_trim)
  ultimately show ?thesis
    using trimmed_Join [OF assms] scan_assign [of "Join (CHR '','') bs"] by simp
qed

section \<open>The interface the layout checks rest on\<close>

text \<open>
  The webhook and the Glance controller ask one question of a configuration: is the file
  driver its only backend? The answer must not depend on lines other than the first that sets
  the backends, and the top level counts only where the configuration names no backend.
\<close>

locale backend_oracle =
  fixes backends :: "'c \<Rightarrow> string list go"
    and file_only :: "'c \<Rightarrow> bool \<Rightarrow> bool go"
  assumes file_only_panic: "backends c = Panic p \<Longrightarrow> file_only c topLevel = Panic p"
    and file_only_nil: "backends c = Ret [] \<Longrightarrow> file_only c topLevel = Ret topLevel"
    and file_only_named:
      "\<lbrakk>backends c = Ret bs; bs \<noteq> []\<rbrakk> \<Longrightarrow>
         file_only c topLevel = Ret (\<exists>b. bs = [b] \<and> backend_type b = Ret ''file'')"
begin

lemma top_level_irrelevant:
  assumes "backends c \<noteq> Ret []"
  shows "file_only c topLevel = file_only c topLevel'"
proof (cases "backends c")
  case (Ret bs)
  with assms have "bs \<noteq> []" by simp
  then show ?thesis by (simp add: file_only_named [OF Ret])
next
  case (Panic p)
  then show ?thesis by (simp add: file_only_panic)
qed

lemma file_only_iff:
  "file_only c topLevel = Ret True \<longleftrightarrow>
     (backends c = Ret [] \<and> topLevel) \<or> (\<exists>b. backends c = Ret [b] \<and> backend_type b = Ret ''file'')"
proof (cases "backends c")
  case (Ret bs)
  then show ?thesis
    by (cases "bs = []") (auto simp: file_only_nil file_only_named)
next
  case (Panic p)
  then show ?thesis by (simp add: file_only_panic)
qed

end

lemma only_file_Nil [simp]: "only_file [] topLevel = topLevel"
  by (simp add: only_file_def)

lemma only_file_named:
  "bs \<noteq> [] \<Longrightarrow> only_file bs topLevel \<longleftrightarrow> (\<exists>b. bs = [b] \<and> backend_type b = Ret ''file'')"
  by (cases bs) (auto simp: only_file_def backend_type_def Let_def length_SplitN2 split: if_splits)

text \<open>The code's two functions implement the interface.\<close>

interpretation layout_backends: backend_oracle GetEnabledBackends IsFileBackend
  by unfold_locales (auto simp: IsFileBackend_def only_file_named)

lemmas IsFileBackend_True_iff = layout_backends.file_only_iff

section \<open>The layout check\<close>

text \<open>A deployed split API whose only backend is a file, seen from the top level's answer.\<close>

definition split_on_file :: "bool \<Rightarrow> GlanceAPITemplate \<Rightarrow> bool" where
  "split_on_file topLevel t \<longleftrightarrow>
     t_Replicas t \<noteq> Some 0 \<and> t_Type t = ''split'' \<and>
     IsFileBackend (t_CustomServiceConfig t) topLevel = Ret True"

lemma isInvalidBackend_Some_iff:
  assumes "isInvalidBackend t topLevel = Ret r"
  shows "r \<noteq> None \<longleftrightarrow> split_on_file topLevel t"
  using assms
  by (auto simp: isInvalidBackend_def split_on_file_def split: option.splits if_splits)

lemma isInvalidBackend_message:
  "isInvalidBackend t topLevel = Ret (Some m) \<Longrightarrow> m = InvalidBackendErrorMessageSplit"
  by (auto simp: isInvalidBackend_def split: option.splits if_splits)

lemma isInvalidBackend_panics_iff:
  "panics (isInvalidBackend t topLevel) \<longleftrightarrow>
     t_Replicas t = None \<or>
     (t_Replicas t \<noteq> Some 0 \<and> t_Type t = ''split'' \<and>
      panics (GetEnabledBackends (t_CustomServiceConfig t)))"
  by (auto simp: isInvalidBackend_def IsFileBackend_def split: option.splits)

section \<open>Properties\<close>

text \<open>
  Property C27. A configuration that lists its backends is read back exactly: whatever lines
  stand before (as long as none sets the key) and after, the scan returns the names the line
  was written from, in order.
\<close>

theorem enabled_backends_roundtrip:
  assumes "bs \<noteq> []" and "list_all backend_name bs"
    and "list_all (\<lambda>l. line_key l \<noteq> ''enabled_backends'' \<and> CHR 0x0A \<notin> set l) pre"
    and "list_all (\<lambda>l. CHR 0x0A \<notin> set l) post"
  shows "GetEnabledBackends
    (Join (CHR 0x0A) (pre @ (''enabled_backends='' @ Join (CHR '','') bs) # post)) = Ret bs"
proof -
  let ?l = "''enabled_backends='' @ Join (CHR '','') bs"
  have "CHR 0x0A \<notin> set ?l"
    using set_Join [of "CHR '',''" bs] assms(2) by (auto simp: list_all_iff backend_name_def)
  then have "Split (CHR 0x0A) (Join (CHR 0x0A) (pre @ ?l # post)) = pre @ ?l # post"
    using assms(3,4) by (intro Split_Join) (auto simp: list_all_iff)
  moreover have "scan_backends (pre @ ?l # post) = scan_backends (?l # post)"
    using assms(3) by (intro scan_backends_first) (simp add: list_all_iff)
  moreover have "scan_backends (?l # post) = scan_backends [?l]"
    using scan_assign_key [of "Join (CHR '','') bs"] trimmed_Join [of bs] assms(1,2)
    by (simp add: scan_backends_hit list_all_iff)
  ultimately show ?thesis
    using scan_assign_names [of bs] assms(1,2) by (simp add: GetEnabledBackends_def list_all_iff)
qed

theorem enabled_backends_roundtrip_witness:
  "GetEnabledBackends
     (Join (CHR 0x0A) ([''[DEFAULT]'', ''debug=true''] @
        (''enabled_backends='' @ Join (CHR '','') [''ceph:rbd'', ''local:file'']) # [''[ceph]''])) =
   Ret [''ceph:rbd'', ''local:file'']"
  by (rule enabled_backends_roundtrip) code_simp+

text \<open>
  Property C28. Reading the backends panics exactly when the first line whose key is
  \<^verbatim>\<open>enabled_backends\<close> has no "=" (the code indexes the missing second token).
\<close>

theorem enabled_backends_panics_iff:
  "panics (GetEnabledBackends c) \<longleftrightarrow>
     (\<exists>pre l post. Split (CHR 0x0A) c = pre @ l # post \<and>
        list_all (\<lambda>k. line_key k \<noteq> ''enabled_backends'') pre \<and>
        line_key l = ''enabled_backends'' \<and> CHR ''='' \<notin> set (TrimSpace l))"
  unfolding GetEnabledBackends_def scan_backends_panics_iff list_all_iff by (rule refl)

text \<open>
  The file test answers yes exactly for a configuration whose only backend has
  the type "file", or that names no backend while the top level is asked; every other
  combination, a file backend among several included, is no.
\<close>

theorem file_backend_iff:
  "IsFileBackend c topLevel = Ret True \<longleftrightarrow>
     (GetEnabledBackends c = Ret [] \<and> topLevel) \<or>
     (\<exists>b. GetEnabledBackends c = Ret [b] \<and> backend_type b = Ret ''file'')"
  by (rule IsFileBackend_True_iff)

end
