(* ===== verification/Defaults.thy ===== *)
theory Defaults
  imports Backends
begin

text \<open>
  The defaulting webhooks (\<^verbatim>\<open>Default\<close> in api/v1beta1/glance_webhook.go and
  glanceapi_webhook.go, \<^verbatim>\<open>SetupDefaults\<close> in common_types.go) and the timeout annotations of
  a route (\<^verbatim>\<open>SetDefaultRouteAnnotations\<close>). The package-level variables the defaults are
  kept in are an argument of the functions that read them.
\<close>

section \<open>The defaults\<close>

record GlanceDefaults =
  ContainerImageURL :: string
  DBPurgeAge :: int
  DBPurgeSchedule :: string
  CleanerSchedule :: string
  PrunerSchedule :: string
  APITimeout :: int

record GlanceAPIDefaults =
  api_ContainerImageURL :: string

definition GlanceAPIContainerImage :: string where
  "GlanceAPIContainerImage =
     ''quay.io/podified-antelope-centos9/openstack-glance-api:current-podified''"

text \<open>\<open>getEnv name fallback\<close> is \<^verbatim>\<open>util.GetEnvVar\<close> of lib-common.\<close>

definition SetupDefaults :: "(string \<Rightarrow> string \<Rightarrow> string) \<Rightarrow> GlanceDefaults" where
  "SetupDefaults getEnv =
     \<lparr>ContainerImageURL =
        getEnv ''RELATED_IMAGE_GLANCE_API_IMAGE_URL_DEFAULT'' GlanceAPIContainerImage,
      DBPurgeAge = 30, DBPurgeSchedule = ''1 0 * * *'', CleanerSchedule = ''*/30 * * * *'',
      PrunerSchedule = ''1 0 * * *'', APITimeout = 60\<rparr>"

definition SetupAPIDefaults :: "(string \<Rightarrow> string \<Rightarrow> string) \<Rightarrow> GlanceAPIDefaults" where
  "SetupAPIDefaults getEnv =
     \<lparr>api_ContainerImageURL =
        getEnv ''RELATED_IMAGE_GLANCE_API_IMAGE_URL_DEFAULT'' GlanceAPIContainerImage\<rparr>"

section \<open>Default\<close>

text \<open>\<^verbatim>\<open>GlanceAPITemplate{Replicas: &rep}\<close>: every other field has its zero value.\<close>

definition zero_template :: "int \<Rightarrow> GlanceAPITemplate" where
  "zero_template rep =
     \<lparr>t_Replicas = Some rep, t_NodeSelector = None, t_TopologyRef = None,
      t_CustomServiceConfig = [], t_CustomServiceConfigSecrets = [], t_Resources = [],
      t_NetworkAttachments = [], t_Override = \<lparr>Service = [], Probes = []\<rparr>,
      t_Storage = \<lparr>StorageClass = [], StorageRequest = [], External = False\<rparr>,
      t_Type = [],
      t_TLS = \<lparr>CaBundleSecretName = [], TLSInternalSecretName = None, TLSPublicSecretName = None\<rparr>,
      t_Auth = \<lparr>ApplicationCredentialSecret = []\<rparr>,
      t_ImageCache = \<lparr>Size = [], CleanerScheduler = [], PrunerScheduler = []\<rparr>,
      t_APITimeout = 0\<rparr>"

text \<open>\<^verbatim>\<open>if x == "" { x = d }\<close> and \<^verbatim>\<open>if x == 0 { x = d }\<close>.\<close>

definition str_or :: "string \<Rightarrow> string \<Rightarrow> string" where
  "str_or x d = (if x = [] then d else x)"

definition int_or :: "int \<Rightarrow> int \<Rightarrow> int" where
  "int_or x d = (if x = 0 then d else x)"

lemma or_idem [simp]:
  "str_or (str_or x d) d = str_or x d"
  "int_or (int_or i e) e = int_or i e"
  by (simp_all add: str_or_def int_or_def)

text \<open>The scalar fields: storage, timeout and purge job.\<close>

definition default_scalars :: "GlanceDefaults \<Rightarrow> 'a GlanceSpecCore_scheme \<Rightarrow> 'a GlanceSpecCore_scheme" where
  "default_scalars d r =
     r\<lparr>g_Storage := (g_Storage r)\<lparr>External := StorageRequest (g_Storage r) = [] \<or> External (g_Storage r)\<rparr>,
       g_APITimeout := int_or (g_APITimeout r) (APITimeout d),
       g_DBPurge := (g_DBPurge r)\<lparr>Age := int_or (Age (g_DBPurge r)) (DBPurgeAge d),
                                  Schedule := str_or (Schedule (g_DBPurge r)) (DBPurgeSchedule d)\<rparr>\<rparr>"

text \<open>The instance that is deployed when the resource names none.\<close>

definition default_instance :: "'a GlanceSpecCore_scheme \<Rightarrow> 'a GlanceSpecCore_scheme" where
  "default_instance r =
     (if g_GlanceAPIs r = [] then
        r\<lparr>g_KeystoneEndpoint := ''default'', g_CustomServiceConfig := GetTemplateBackend,
          g_GlanceAPIs := [(''default'', zero_template 0)]\<rparr>
      else r)"

definition default_api :: "GlanceDefaults \<Rightarrow> int \<Rightarrow> GlanceAPITemplate \<Rightarrow> GlanceAPITemplate" where
  "default_api d timeout a =
     a\<lparr>t_ImageCache := (t_ImageCache a)
         \<lparr>CleanerScheduler := str_or (CleanerScheduler (t_ImageCache a)) (CleanerSchedule d),
          PrunerScheduler := str_or (PrunerScheduler (t_ImageCache a)) (PrunerSchedule d)\<rparr>,
       t_APITimeout := int_or (t_APITimeout a) timeout\<rparr>"

text \<open>The loop over the instances writes back to the key it is at, so it is a map.\<close>

definition default_apis :: "GlanceDefaults \<Rightarrow> 'a GlanceSpecCore_scheme \<Rightarrow> 'a GlanceSpecCore_scheme" where
  "default_apis d r =
     r\<lparr>g_GlanceAPIs := map (\<lambda>(k, a). (k, default_api d (g_APITimeout r) a)) (g_GlanceAPIs r)\<rparr>"

definition default_keystone :: "'a GlanceSpecCore_scheme \<Rightarrow> 'a GlanceSpecCore_scheme" where
  "default_keystone r =
     (if g_KeystoneEndpoint r = [] \<and> length (g_GlanceAPIs r) = 1
      then r\<lparr>g_KeystoneEndpoint := fst (g_GlanceAPIs r ! 0)\<rparr> else r)"

definition GlanceSpecCore_Default ::
  "GlanceDefaults \<Rightarrow> 'a GlanceSpecCore_scheme \<Rightarrow> 'a GlanceSpecCore_scheme" where
  "GlanceSpecCore_Default d r =
     default_keystone (default_apis d (default_instance (default_scalars d r)))"

definition Glance_Default :: "GlanceDefaults \<Rightarrow> Glance \<Rightarrow> Glance" where
  "Glance_Default d r =
     r\<lparr>Spec := GlanceSpecCore_Default d
        ((Spec r)\<lparr>g_ContainerImage := str_or (g_ContainerImage (Spec r)) (ContainerImageURL d)\<rparr>)\<rparr>"

definition GlanceAPISpec_Default :: "GlanceAPIDefaults \<Rightarrow> GlanceAPISpec \<Rightarrow> GlanceAPISpec" where
  "GlanceAPISpec_Default d s =
     s\<lparr>a_ContainerImage := str_or (a_ContainerImage s) (api_ContainerImageURL d)\<rparr>"

definition GlanceAPI_Default :: "GlanceAPIDefaults \<Rightarrow> GlanceAPI \<Rightarrow> GlanceAPI" where
  "GlanceAPI_Default d r = r\<lparr>ASpec := GlanceAPISpec_Default d (ASpec r)\<rparr>"

lemmas default_step_defs =
  default_scalars_def default_instance_def default_apis_def default_keystone_def

section \<open>The interface of a defaulter\<close>

text \<open>
  The API server runs a defaulter on every create and update, so on its own results too. The
  law an admission chain relies on is idempotence.
\<close>

locale defaulter =
  fixes dflt :: "'s \<Rightarrow> 's"
  assumes idem: "dflt (dflt s) = dflt s"
begin

lemma repeated: "(dflt ^^ Suc n) s = dflt s"
  by (induction n) (simp_all add: idem)

lemma stored_is_fixed: "s \<in> range dflt \<longleftrightarrow> dflt s = s"
  by (metis idem rangeE rangeI)

end

lemma default_api_idem: "default_api d t (default_api d t a) = default_api d t a"
  by (simp add: default_api_def)

lemma default_api_fields [simp]:
  "t_Replicas (default_api d t a) = t_Replicas a"
  "t_Type (default_api d t a) = t_Type a"
  "t_CustomServiceConfig (default_api d t a) = t_CustomServiceConfig a"
  "t_TopologyRef (default_api d t a) = t_TopologyRef a"
  "t_Override (default_api d t a) = t_Override a"
  "t_APITimeout (default_api d t a) = int_or (t_APITimeout a) t"
  by (simp_all add: default_api_def)

lemma default_scalars_fields [simp]:
  "g_GlanceAPIs (default_scalars d r) = g_GlanceAPIs r"
  "g_KeystoneEndpoint (default_scalars d r) = g_KeystoneEndpoint r"
  "g_CustomServiceConfig (default_scalars d r) = g_CustomServiceConfig r"
  "g_APITimeout (default_scalars d r) = int_or (g_APITimeout r) (APITimeout d)"
  by (simp_all add: default_scalars_def)

lemma default_instance_fields [simp]:
  "g_DBPurge (default_instance r) = g_DBPurge r"
  "g_Storage (default_instance r) = g_Storage r"
  "g_APITimeout (default_instance r) = g_APITimeout r"
  "g_GlanceAPIs (default_instance r) \<noteq> []"
  by (simp_all add: default_instance_def)

lemma default_apis_fields [simp]:
  "g_DBPurge (default_apis d r) = g_DBPurge r"
  "g_Storage (default_apis d r) = g_Storage r"
  "g_APITimeout (default_apis d r) = g_APITimeout r"
  "g_KeystoneEndpoint (default_apis d r) = g_KeystoneEndpoint r"
  "g_CustomServiceConfig (default_apis d r) = g_CustomServiceConfig r"
  "map fst (g_GlanceAPIs (default_apis d r)) = map fst (g_GlanceAPIs r)"
  by (simp_all add: default_apis_def o_def case_prod_unfold)

lemma default_keystone_fields [simp]:
  "g_DBPurge (default_keystone r) = g_DBPurge r"
  "g_Storage (default_keystone r) = g_Storage r"
  "g_APITimeout (default_keystone r) = g_APITimeout r"
  "g_GlanceAPIs (default_keystone r) = g_GlanceAPIs r"
  "g_CustomServiceConfig (default_keystone r) = g_CustomServiceConfig r"
  by (simp_all add: default_keystone_def)

text \<open>Each step leaves what an earlier one has settled.\<close>

lemma default_scalars_fixed:
  assumes "g_Storage x = g_Storage (default_scalars d r)"
    and "g_APITimeout x = g_APITimeout (default_scalars d r)"
    and "g_DBPurge x = g_DBPurge (default_scalars d r)"
  shows "default_scalars d x = x"
  using assms by (simp add: default_scalars_def)

lemma default_scalars_settled:
  "default_scalars d (default_keystone (default_apis d (default_instance (default_scalars d r)))) =
   default_keystone (default_apis d (default_instance (default_scalars d r)))"
  by (rule default_scalars_fixed) simp_all

lemma default_instance_settled:
  "default_instance (default_keystone (default_apis d (default_instance r))) =
   default_keystone (default_apis d (default_instance r))"
  by (simp add: default_step_defs)

lemma default_apis_settled:
  "default_apis d (default_keystone (default_apis d r)) = default_keystone (default_apis d r)"
  by (simp add: default_apis_def default_keystone_def default_api_idem o_def case_prod_unfold)

lemma default_keystone_settled: "default_keystone (default_keystone r) = default_keystone r"
  by (simp add: default_keystone_def)

lemma GlanceSpecCore_Default_idem:
  "GlanceSpecCore_Default d (GlanceSpecCore_Default d r) = GlanceSpecCore_Default d r"
  unfolding GlanceSpecCore_Default_def
  by (simp add: default_scalars_settled default_instance_settled default_apis_settled
      default_keystone_settled)

lemma default_steps_image:
  "default_scalars d (s\<lparr>g_ContainerImage := x\<rparr>) = (default_scalars d s)\<lparr>g_ContainerImage := x\<rparr>"
  "default_instance (s\<lparr>g_ContainerImage := x\<rparr>) = (default_instance s)\<lparr>g_ContainerImage := x\<rparr>"
  "default_apis d (s\<lparr>g_ContainerImage := x\<rparr>) = (default_apis d s)\<lparr>g_ContainerImage := x\<rparr>"
  "default_keystone (s\<lparr>g_ContainerImage := x\<rparr>) = (default_keystone s)\<lparr>g_ContainerImage := x\<rparr>"
  "g_ContainerImage (default_scalars d s) = g_ContainerImage s"
  "g_ContainerImage (default_instance s) = g_ContainerImage s"
  "g_ContainerImage (default_apis d s) = g_ContainerImage s"
  "g_ContainerImage (default_keystone s) = g_ContainerImage s"
  by (simp_all add: default_step_defs)

lemma GlanceSpecCore_Default_image:
  "GlanceSpecCore_Default d (s\<lparr>g_ContainerImage := x\<rparr>) = (GlanceSpecCore_Default d s)\<lparr>g_ContainerImage := x\<rparr>"
  "g_ContainerImage (GlanceSpecCore_Default d s) = g_ContainerImage s"
  by (simp_all add: GlanceSpecCore_Default_def default_steps_image)

interpretation core_defaulter: defaulter "GlanceSpecCore_Default d"
  by unfold_locales (rule GlanceSpecCore_Default_idem)

interpretation glance_defaulter: defaulter "Glance_Default d"
  by unfold_locales
    (simp add: Glance_Default_def GlanceSpecCore_Default_image GlanceSpecCore_Default_idem)

interpretation glanceapi_defaulter: defaulter "GlanceAPI_Default d"
  by unfold_locales (simp add: GlanceAPI_Default_def GlanceAPISpec_Default_def)

section \<open>What defaulting changes and what it keeps\<close>

text \<open>The values of a user that defaulting never touches.\<close>

definition keeps_template :: "GlanceAPITemplate \<Rightarrow> GlanceAPITemplate \<Rightarrow> bool" where
  "keeps_template a b \<longleftrightarrow>
     b\<lparr>t_ImageCache := t_ImageCache a, t_APITimeout := t_APITimeout a\<rparr> = a \<and>
     Size (t_ImageCache b) = Size (t_ImageCache a) \<and>
     (CleanerScheduler (t_ImageCache a) \<noteq> [] \<longrightarrow>
        CleanerScheduler (t_ImageCache b) = CleanerScheduler (t_ImageCache a)) \<and>
     (PrunerScheduler (t_ImageCache a) \<noteq> [] \<longrightarrow>
        PrunerScheduler (t_ImageCache b) = PrunerScheduler (t_ImageCache a)) \<and>
     (t_APITimeout a \<noteq> 0 \<longrightarrow> t_APITimeout b = t_APITimeout a)"

definition keeps_user_values :: "GlanceSpecCore \<Rightarrow> GlanceSpecCore \<Rightarrow> bool" where
  "keeps_user_values r s \<longleftrightarrow>
     (g_GlanceAPIs r \<noteq> [] \<longrightarrow>
        list_all2 (\<lambda>(k, a) (k', b). k' = k \<and> keeps_template a b) (g_GlanceAPIs r) (g_GlanceAPIs s) \<and>
        g_CustomServiceConfig s = g_CustomServiceConfig r \<and>
        (g_KeystoneEndpoint r \<noteq> [] \<longrightarrow> g_KeystoneEndpoint s = g_KeystoneEndpoint r)) \<and>
     (g_APITimeout r \<noteq> 0 \<longrightarrow> g_APITimeout s = g_APITimeout r) \<and>
     (Age (g_DBPurge r) \<noteq> 0 \<longrightarrow> Age (g_DBPurge s) = Age (g_DBPurge r)) \<and>
     (Schedule (g_DBPurge r) \<noteq> [] \<longrightarrow> Schedule (g_DBPurge s) = Schedule (g_DBPurge r)) \<and>
     StorageClass (g_Storage s) = StorageClass (g_Storage r) \<and>
     StorageRequest (g_Storage s) = StorageRequest (g_Storage r) \<and>
     (StorageRequest (g_Storage r) \<noteq> [] \<longrightarrow> External (g_Storage s) = External (g_Storage r)) \<and>
     s\<lparr>g_GlanceAPIs := g_GlanceAPIs r, g_CustomServiceConfig := g_CustomServiceConfig r,
       g_KeystoneEndpoint := g_KeystoneEndpoint r, g_APITimeout := g_APITimeout r,
       g_DBPurge := g_DBPurge r, g_Storage := g_Storage r\<rparr> = r"

text \<open>Nothing the operator needs later is missing.\<close>

definition complete_defaults :: "GlanceDefaults \<Rightarrow> bool" where
  "complete_defaults d \<longleftrightarrow>
     DBPurgeAge d \<noteq> 0 \<and> DBPurgeSchedule d \<noteq> [] \<and> CleanerSchedule d \<noteq> [] \<and>
     PrunerSchedule d \<noteq> [] \<and> APITimeout d \<noteq> 0"

definition complete_template :: "GlanceAPITemplate \<Rightarrow> bool" where
  "complete_template a \<longleftrightarrow>
     CleanerScheduler (t_ImageCache a) \<noteq> [] \<and> PrunerScheduler (t_ImageCache a) \<noteq> [] \<and>
     t_APITimeout a \<noteq> 0"

definition complete_spec :: "GlanceSpecCore \<Rightarrow> bool" where
  "complete_spec s \<longleftrightarrow>
     g_GlanceAPIs s \<noteq> [] \<and> g_APITimeout s \<noteq> 0 \<and> Age (g_DBPurge s) \<noteq> 0 \<and>
     Schedule (g_DBPurge s) \<noteq> [] \<and>
     (StorageRequest (g_Storage s) = [] \<longrightarrow> External (g_Storage s)) \<and>
     list_all (\<lambda>(k, a). complete_template a) (g_GlanceAPIs s)"

lemma keeps_default_api: "keeps_template a (default_api d t a)"
  by (simp add: keeps_template_def default_api_def str_or_def int_or_def)

lemma complete_default_api:
  "complete_defaults d \<Longrightarrow> t \<noteq> 0 \<Longrightarrow> complete_template (default_api d t a)"
  by (simp add: complete_defaults_def complete_template_def default_api_def str_or_def int_or_def)

lemma keeps_default_apis:
  "list_all2 (\<lambda>(k, a) (k', b). k' = k \<and> keeps_template a b) m
     (map (\<lambda>(k, a). (k, default_api d t a)) m)"
  by (induction m) (auto simp: keeps_default_api)

lemma complete_default_apis:
  "complete_defaults d \<Longrightarrow> t \<noteq> 0 \<Longrightarrow>
     list_all (\<lambda>(k, a). complete_template a) (map (\<lambda>(k, a). (k, default_api d t a)) m)"
  by (induction m) (auto simp: complete_default_api)

lemma keeps_GlanceSpecCore_Default: "keeps_user_values r (GlanceSpecCore_Default d r)"
  by (simp add: keeps_user_values_def GlanceSpecCore_Default_def default_step_defs keeps_default_apis
      int_or_def str_or_def)

lemma complete_default_scalars:
  "complete_defaults d \<Longrightarrow>
     g_APITimeout (default_scalars d r) \<noteq> 0 \<and> Age (g_DBPurge (default_scalars d r)) \<noteq> 0 \<and>
     Schedule (g_DBPurge (default_scalars d r)) \<noteq> [] \<and>
     (StorageRequest (g_Storage (default_scalars d r)) = [] \<longrightarrow>
        External (g_Storage (default_scalars d r)))"
  by (simp add: complete_defaults_def default_scalars_def int_or_def str_or_def)

lemma complete_GlanceSpecCore_Default:
  assumes "complete_defaults d"
  shows "complete_spec (GlanceSpecCore_Default d r)"
proof -
  let ?x = "default_instance (default_scalars d r)"
  have "g_APITimeout ?x \<noteq> 0"
    using complete_default_scalars [OF assms, of r] by simp
  then have "list_all (\<lambda>(k, a). complete_template a) (g_GlanceAPIs (default_apis d ?x))"
    unfolding default_apis_def using complete_default_apis [OF assms] by simp
  moreover have "g_GlanceAPIs (default_apis d ?x) \<noteq> []"
    by (simp add: default_apis_def)
  ultimately show ?thesis
    using complete_default_scalars [OF assms, of r]
    by (simp add: complete_spec_def GlanceSpecCore_Default_def)
qed

section \<open>Route timeouts\<close>

definition haProxyAnno :: string where
  "haProxyAnno = ''haproxy.router.openshift.io/timeout''"

definition glanceAnno :: string where
  "glanceAnno = ''api.glance.openstack.org/timeout''"

text \<open>The annotations map may be nil (\<^const>\<open>None\<close>): deleting from it is fine, writing panics.\<close>

definition SetDefaultRouteAnnotations ::
  "GlanceAPITemplate \<Rightarrow> string gomap option \<Rightarrow> string gomap option go" where
  "SetDefaultRouteAnnotations glanceAPI annotations =
     (let m = (case annotations of None \<Rightarrow> [] | Some m \<Rightarrow> m);
          valGlance = lookup m glanceAnno;
          valHAProxy = lookup m haProxyAnno
      in if valGlance = None \<and> valHAProxy \<noteq> None then Ret annotations
         else if valGlance \<noteq> None \<and> valHAProxy \<noteq> None \<and> valGlance \<noteq> valHAProxy
         then Ret (map_option (AList.delete glanceAnno) annotations)
         else (let timeout = show_int (t_APITimeout glanceAPI) @ ''s'' in
               case annotations of
                 None \<Rightarrow> Panic NilMapWrite
               | Some m \<Rightarrow> Ret (Some (AList.update haProxyAnno timeout (AList.update glanceAnno timeout m)))))"

lemma anno_neq [simp]: "haProxyAnno \<noteq> glanceAnno" "glanceAnno \<noteq> haProxyAnno"
  by (simp_all add: haProxyAnno_def glanceAnno_def)

text \<open>A human set the HAProxy timeout: it is there and the operator's flag does not match it.\<close>

definition manual_timeout :: "string gomap \<Rightarrow> bool" where
  "manual_timeout m \<longleftrightarrow> lookup m haProxyAnno \<noteq> None \<and> lookup m glanceAnno \<noteq> lookup m haProxyAnno"

lemma route_manual:
  assumes "manual_timeout m"
  shows "\<exists>m'. SetDefaultRouteAnnotations a (Some m) = Ret (Some m') \<and> manual_timeout m' \<and>
    lookup m' haProxyAnno = lookup m haProxyAnno"
  using assms
  by (auto simp: SetDefaultRouteAnnotations_def manual_timeout_def Let_def delete_conv')

lemma route_operator:
  assumes "\<not> manual_timeout m"
  shows "\<exists>m'. SetDefaultRouteAnnotations a (Some m) = Ret (Some m') \<and> \<not> manual_timeout m' \<and>
    lookup m' haProxyAnno = Some (show_int (t_APITimeout a) @ ''s'')"
  using assms
  by (auto simp: SetDefaultRouteAnnotations_def manual_timeout_def Let_def update_conv')

text \<open>The operator is called again whenever the resource changes.\<close>

fun route_calls :: "GlanceAPITemplate list \<Rightarrow> string gomap option \<Rightarrow> string gomap option go" where
  "route_calls [] m = Ret m"
| "route_calls (a # as) m = go_bind (SetDefaultRouteAnnotations a m) (route_calls as)"

lemma route_calls_manual:
  assumes "manual_timeout m"
  shows "\<exists>m'. route_calls as (Some m) = Ret (Some m') \<and> manual_timeout m' \<and>
    lookup m' haProxyAnno = lookup m haProxyAnno"
  using assms
proof (induction as arbitrary: m)
  case Nil
  then show ?case by simp
next
  case (Cons a as)
  from route_manual [OF Cons.prems, of a] obtain m1 where
    "SetDefaultRouteAnnotations a (Some m) = Ret (Some m1)" and m1: "manual_timeout m1"
    "lookup m1 haProxyAnno = lookup m haProxyAnno" by blast
  with Cons.IH [OF m1(1)] show ?case by auto
qed

lemma route_calls_operator:
  assumes "\<not> manual_timeout m"
  shows "\<exists>m'. route_calls (as @ [a]) (Some m) = Ret (Some m') \<and> \<not> manual_timeout m' \<and>
    lookup m' haProxyAnno = Some (show_int (t_APITimeout a) @ ''s'')"
  using assms
proof (induction as arbitrary: m)
  case Nil
  then show ?case using route_operator [of m a] by auto
next
  case (Cons b as)
  from route_operator [OF Cons.prems, of b] obtain m1 where
    "SetDefaultRouteAnnotations b (Some m) = Ret (Some m1)" and m1: "\<not> manual_timeout m1" by blast
  with Cons.IH [OF m1] show ?case by auto
qed

section \<open>Properties\<close>

text \<open>
  Property C36. Admission may run the defaulter any number of times, on its own results and on
  what the defaulted resource was stored as: after the first run nothing changes any more.
\<close>

theorem default_repeated: "(Glance_Default d ^^ Suc n) r = Glance_Default d r"
  by (rule glance_defaulter.repeated)

text \<open>
  Property C37. Defaulting a resource that names an instance keeps its instances, with their
  names, their order and every field but an unset timeout and unset schedules, and keeps its
  configuration and a Keystone endpoint that is set. Of any resource it keeps a timeout, a
  purge age and a purge schedule that are set, the storage class and request, the external flag
  where a size is requested, and every field that has no default. Only a resource without an
  instance has its configuration and its endpoint replaced.
\<close>

theorem default_keeps_user_values: "keeps_user_values r (GlanceSpecCore_Default d r)"
  by (rule keeps_GlanceSpecCore_Default)

text \<open>
  With the defaults of the operator, a defaulted resource has an instance, and
  the timeout, purge and cache values of the resource and of each instance are set.
\<close>

theorem default_completes: "complete_spec (GlanceSpecCore_Default (SetupDefaults getEnv) r)"
  by (rule complete_GlanceSpecCore_Default) (simp add: SetupDefaults_def complete_defaults_def)

text \<open>
  Property C38. Over any sequence of calls the route carries the timeout a human set, for ever,
  or else the API timeout of the last call; an annotation map that is there never panics.
\<close>

theorem route_timeout_tracks:
  "\<exists>m'. route_calls (as @ [a]) (Some m) = Ret (Some m') \<and>
     lookup m' haProxyAnno =
       (if manual_timeout m then lookup m haProxyAnno
        else Some (show_int (t_APITimeout a) @ ''s''))"
proof (cases "manual_timeout m")
  case True
  then show ?thesis using route_calls_manual [of m "as @ [a]"] by auto
next
  case False
  then show ?thesis using route_calls_operator [of m as a] by auto
qed

end
