(* ===== verification/Validation.thy ===== *)
theory Validation
  imports Defaults
begin

text \<open>
  The validating webhooks: \<^verbatim>\<open>ValidateCreate\<close> and \<^verbatim>\<open>ValidateUpdate\<close> of
  api/v1beta1/glance_webhook.go and glanceapi_webhook.go, with the wrappers of
  internal/webhook/v1beta1. The validators of other repositories are the fields of
  \<open>webhook_lib\<close>. A loop over the Go map of instances runs in the order of the association
  list that stands for the map.
\<close>

section \<open>Errors and the validators of other repositories\<close>

datatype path_elem = PChild string | PKey string

type_synonym path = "path_elem list"

text \<open>\<open>Invalid\<close> is \<^verbatim>\<open>field.Invalid\<close>; \<open>LibError\<close> comes from another repository.\<close>

datatype field_error = Invalid path string string | LibError opaque

record DeprecatedField =
  df_Name :: string
  df_NewFieldPath :: "string list"
  df_DeprecatedValue :: "string option"
  df_NewValue :: "string option"

record DeprecatedFieldUpdate =
  dfu_Name :: string
  dfu_NewFieldPath :: "string list"
  dfu_OldDeprecatedValue :: "string option"
  dfu_NewDeprecatedValue :: "string option"
  dfu_NewValue :: "string option"

record webhook_lib =
  ValidateDNS1123Label :: "path \<Rightarrow> string list \<Rightarrow> int \<Rightarrow> field_error list"
  ValidateTopologyRef :: "TopoRef option \<Rightarrow> path \<Rightarrow> string \<Rightarrow> field_error list"
  ValidateRoutedOverrides :: "path \<Rightarrow> RoutedOverrideSpec gomap \<Rightarrow> field_error list"
  ValidateProbeOverride :: "opaque \<Rightarrow> path \<Rightarrow> field_error list"
  ValidateDeprecatedFieldsCreate :: "DeprecatedField list \<Rightarrow> path \<Rightarrow> string list"
  ValidateDeprecatedFieldsUpdate ::
    "DeprecatedFieldUpdate list \<Rightarrow> path \<Rightarrow> string list \<times> field_error list"

section \<open>Messages\<close>

definition GlanceLayoutUpdateErrorMessage :: string where
  "GlanceLayoutUpdateErrorMessage =
     ''The GlanceAPI layout (type) cannot be modified. To proceed, please add a new API with the desired layout and then decommission the previous API''"

definition GlanceWarnSplitDeprecateMsg :: string where
  "GlanceWarnSplitDeprecateMsg =
     ''The GlanceAPI split layout is deprecated. It is recommended to remove this parameter and rely on the default single layout''"

definition KeystoneEndpointErrorMessage :: string where
  "KeystoneEndpointErrorMessage = ''KeystoneEndpoint is assigned to an invalid GlanceAPI instance''"

section \<open>The checks\<close>

definition isValidKeystoneEP :: "'a GlanceSpecCore_scheme \<Rightarrow> bool" where
  "isValidKeystoneEP r \<longleftrightarrow>
     (\<exists>(name, api) \<in> set (g_GlanceAPIs r). t_Type api \<noteq> APIEdge \<and> g_KeystoneEndpoint r = name)"

definition ValidateTopology ::
  "webhook_lib \<Rightarrow> GlanceAPITemplate \<Rightarrow> path \<Rightarrow> string \<Rightarrow> field_error list" where
  "ValidateTopology L api basePath ns =
     ValidateTopologyRef L (t_TopologyRef api) (basePath @ [PChild ''topologyRef'']) ns"

definition ValidateProbes ::
  "webhook_lib \<Rightarrow> 'a GlanceSpecCore_scheme \<Rightarrow> path \<Rightarrow> field_error list" where
  "ValidateProbes L spec basePath =
     concat (map (\<lambda>(name, api).
        ValidateProbeOverride L (Probes (t_Override api)) (basePath @ [PChild name, PChild ''override'']))
      (g_GlanceAPIs spec))"

definition GetCrMaxLengthCorrection :: "string \<Rightarrow> string \<Rightarrow> int" where
  "GetCrMaxLengthCorrection name apiType = 11 + int (length name) + int (length apiType) + 2"

definition getDeprecatedFields ::
  "'a GlanceSpecCore_scheme \<Rightarrow> 'a GlanceSpecCore_scheme option \<Rightarrow> DeprecatedFieldUpdate list" where
  "getDeprecatedFields spec old =
     [\<lparr>dfu_Name = ''notificationBusInstance'',
       dfu_NewFieldPath = [''notificationsBus'', ''cluster''],
       dfu_OldDeprecatedValue =
         (case old of None \<Rightarrow> None | Some o' \<Rightarrow> g_NotificationBusInstance o'),
       dfu_NewDeprecatedValue = g_NotificationBusInstance spec,
       dfu_NewValue = map_option rmq_Cluster (g_NotificationsBus spec)\<rparr>]"

definition validateDeprecatedFieldsCreate ::
  "webhook_lib \<Rightarrow> 'a GlanceSpecCore_scheme \<Rightarrow> path \<Rightarrow> string list \<times> field_error list" where
  "validateDeprecatedFieldsCreate L spec basePath =
     (ValidateDeprecatedFieldsCreate L
        (map (\<lambda>df. \<lparr>df_Name = dfu_Name df, df_NewFieldPath = dfu_NewFieldPath df,
                     df_DeprecatedValue = dfu_NewDeprecatedValue df, df_NewValue = dfu_NewValue df\<rparr>)
           (getDeprecatedFields spec None)) basePath, [])"

definition validateDeprecatedFieldsUpdate ::
  "webhook_lib \<Rightarrow> 'a GlanceSpecCore_scheme \<Rightarrow> 'a GlanceSpecCore_scheme \<Rightarrow> path \<Rightarrow>
     string list \<times> field_error list" where
  "validateDeprecatedFieldsUpdate L spec old basePath =
     ValidateDeprecatedFieldsUpdate L (getDeprecatedFields spec (Some old)) basePath"

text \<open>The last check of both functions.\<close>

definition keystone_errors :: "'a GlanceSpecCore_scheme \<Rightarrow> path \<Rightarrow> field_error list" where
  "keystone_errors r basePath =
     (if \<not> isValidKeystoneEP r
      then [Invalid (basePath @ [PChild ''keystoneEndpoint'']) (g_KeystoneEndpoint r)
              KeystoneEndpointErrorMessage]
      else [])"

definition api_path :: "path \<Rightarrow> string \<Rightarrow> path" where
  "api_path basePath key = basePath @ [PChild ''glanceAPIs'', PKey key]"

definition backend_errors :: "path \<Rightarrow> string \<Rightarrow> string option \<Rightarrow> field_error list" where
  "backend_errors path key invalid = (case invalid of None \<Rightarrow> [] | Some err \<Rightarrow> [Invalid path key err])"

definition override_errors :: "webhook_lib \<Rightarrow> GlanceAPITemplate \<Rightarrow> path \<Rightarrow> field_error list" where
  "override_errors L api path =
     ValidateRoutedOverrides L (path @ [PChild ''override'', PChild ''service'']) (Service (t_Override api))"

section \<open>ValidateCreate of the spec\<close>

text \<open>The body of the loop over the instances.\<close>

definition create_api_errors ::
  "webhook_lib \<Rightarrow> 'a GlanceSpecCore_scheme \<Rightarrow> path \<Rightarrow> string \<Rightarrow> bool \<Rightarrow>
     string \<times> GlanceAPITemplate \<Rightarrow> field_error list go" where
  "create_api_errors L r basePath ns topLevel entry =
     (case entry of (key, api) \<Rightarrow>
        let path = api_path basePath key in
        go_bind (isInvalidBackend api topLevel) (\<lambda>invalid.
          Ret (ValidateTopology L api path ns @ backend_errors path key invalid @
               override_errors L api path @ ValidateProbes L r path)))"

definition GlanceSpecCore_ValidateCreate ::
  "webhook_lib \<Rightarrow> 'a GlanceSpecCore_scheme \<Rightarrow> path \<Rightarrow> string \<Rightarrow> (string list \<times> field_error list) go" where
  "GlanceSpecCore_ValidateCreate L r basePath ns =
     (let (warns, errs) = validateDeprecatedFieldsCreate L r basePath in
      go_bind (IsFileBackend (g_CustomServiceConfig r) True) (\<lambda>topLevel.
      go_bind (go_concat_map (create_api_errors L r basePath ns topLevel) (g_GlanceAPIs r)) (\<lambda>apiErrs.
        Ret (warns,
             errs @ ValidateTopologyRef L (g_TopologyRef r) (basePath @ [PChild ''topologyRef'']) ns @
             apiErrs @ keystone_errors r basePath))))"

section \<open>ValidateUpdate of the spec\<close>

definition update_api_warnings :: "string \<times> GlanceAPITemplate \<Rightarrow> string list" where
  "update_api_warnings entry =
     (if t_Type (snd entry) = ''split'' then [GlanceWarnSplitDeprecateMsg] else [])"

text \<open>An instance the old resource does not have is checked for its layout only.\<close>

definition update_api_errors ::
  "webhook_lib \<Rightarrow> 'a GlanceSpecCore_scheme \<Rightarrow> 'a GlanceSpecCore_scheme \<Rightarrow> path \<Rightarrow> string \<Rightarrow> bool \<Rightarrow>
     string \<times> GlanceAPITemplate \<Rightarrow> field_error list go" where
  "update_api_errors L r old basePath ns topLevel entry =
     (case entry of (key, api) \<Rightarrow>
        let path = api_path basePath key in
        go_bind (isInvalidBackend api topLevel) (\<lambda>invalid.
          Ret (ValidateTopology L api path ns @
            (case lookup (g_GlanceAPIs old) key of
               None \<Rightarrow> backend_errors path key invalid
             | Some oldAPI \<Rightarrow>
                 (if t_Type api \<noteq> t_Type oldAPI
                  then [Invalid path key GlanceLayoutUpdateErrorMessage] else []) @
                 backend_errors path key invalid @ override_errors L api path @
                 ValidateProbes L r path))))"

definition GlanceSpecCore_ValidateUpdate ::
  "webhook_lib \<Rightarrow> 'a GlanceSpecCore_scheme \<Rightarrow> 'a GlanceSpecCore_scheme \<Rightarrow> path \<Rightarrow> string \<Rightarrow>
     (string list \<times> field_error list) go" where
  "GlanceSpecCore_ValidateUpdate L r old basePath ns =
     (let (warns, errs) = validateDeprecatedFieldsUpdate L r old basePath in
      go_bind (IsFileBackend (g_CustomServiceConfig r) True) (\<lambda>topLevel.
      go_bind (go_concat_map (update_api_errors L r old basePath ns topLevel) (g_GlanceAPIs r)) (\<lambda>apiErrs.
        Ret (warns @ concat (map update_api_warnings (g_GlanceAPIs r)),
             errs @ ValidateTopologyRef L (g_TopologyRef r) (basePath @ [PChild ''topologyRef'']) ns @
             apiErrs @ keystone_errors r basePath))))"

section \<open>The webhook handlers\<close>

text \<open>A \<^verbatim>\<open>runtime.Object\<close>: a typed pointer, which may be nil, or some other type.\<close>

datatype runtime_object =
    OGlance "Glance option"
  | OGlanceAPI "GlanceAPI option"
  | OOther string

datatype admission_error =
    NewInvalid string string string "field_error list"
  | NewInternalError string
  | UnexpectedGlanceObjectType
  | UnexpectedGlanceAPIObjectType

type_synonym admission = "(string list \<times> admission_error option) go"

definition specPath :: path where "specPath = [PChild ''spec'']"

definition name_errors :: "webhook_lib \<Rightarrow> string \<Rightarrow> GlanceAPITemplate gomap \<Rightarrow> field_error list" where
  "name_errors L name apis =
     concat (map (\<lambda>(key, api).
        ValidateDNS1123Label L (specPath @ [PChild ''glanceAPIs'']) [key]
          (GetCrMaxLengthCorrection name (t_Type api))) apis)"

definition invalid_or_nil :: "string \<Rightarrow> field_error list \<Rightarrow> admission_error option" where
  "invalid_or_nil name allErrs =
     (if allErrs \<noteq> [] then Some (NewInvalid ''glance.openstack.org'' ''Glance'' name allErrs) else None)"

definition Glance_ValidateCreate :: "webhook_lib \<Rightarrow> Glance \<Rightarrow> admission" where
  "Glance_ValidateCreate L r =
     go_bind (GlanceSpecCore_ValidateCreate L (Spec r) specPath (o_Namespace r)) (\<lambda>(warns, errs).
       Ret (warns, invalid_or_nil (o_Name r) (name_errors L (o_Name r) (g_GlanceAPIs (Spec r)) @ errs)))"

definition Glance_ValidateUpdate :: "webhook_lib \<Rightarrow> Glance \<Rightarrow> runtime_object \<Rightarrow> admission" where
  "Glance_ValidateUpdate L r old =
     (case old of
        OGlance (Some o') \<Rightarrow>
          go_bind (GlanceSpecCore_ValidateUpdate L (Spec r) (Spec o') specPath (o_Namespace r))
            (\<lambda>(warns, errs).
              Ret (warns, invalid_or_nil (o_Name r)
                (name_errors L (o_Name r) (g_GlanceAPIs (Spec r)) @ errs)))
      | _ \<Rightarrow> Ret ([], Some (NewInternalError ''unable to convert existing object'')))"

definition Glance_ValidateDelete :: "Glance \<Rightarrow> admission" where
  "Glance_ValidateDelete r = Ret ([], None)"

definition GlanceAPI_ValidateCreate :: "GlanceAPI \<Rightarrow> admission" where
  "GlanceAPI_ValidateCreate r = Ret ([], None)"

definition GlanceAPI_ValidateUpdate :: "GlanceAPI \<Rightarrow> runtime_object \<Rightarrow> admission" where
  "GlanceAPI_ValidateUpdate r old =
     (case old of
        OGlanceAPI (Some _) \<Rightarrow> Ret ([], None)
      | _ \<Rightarrow> Ret ([], Some (NewInternalError ''unable to convert existing object'')))"

definition GlanceAPI_ValidateDelete :: "GlanceAPI \<Rightarrow> admission" where
  "GlanceAPI_ValidateDelete r = Ret ([], None)"

text \<open>
  The custom defaulter and validator of internal/webhook. The type assertion accepts a nil
  pointer of the right type, whose name is read next.
\<close>

definition GlanceCustomDefaulter_Default ::
  "GlanceDefaults \<Rightarrow> runtime_object \<Rightarrow> (admission_error + Glance) go" where
  "GlanceCustomDefaulter_Default d obj =
     (case obj of
        OGlance None \<Rightarrow> Panic NilDereference
      | OGlance (Some g) \<Rightarrow> Ret (Inr (Glance_Default d g))
      | _ \<Rightarrow> Ret (Inl UnexpectedGlanceObjectType))"

definition on_glance :: "runtime_object \<Rightarrow> (Glance \<Rightarrow> admission) \<Rightarrow> admission" where
  "on_glance obj f =
     (case obj of
        OGlance None \<Rightarrow> Panic NilDereference
      | OGlance (Some g) \<Rightarrow> f g
      | _ \<Rightarrow> Ret ([], Some UnexpectedGlanceObjectType))"

definition GlanceCustomValidator_ValidateCreate :: "webhook_lib \<Rightarrow> runtime_object \<Rightarrow> admission" where
  "GlanceCustomValidator_ValidateCreate L obj = on_glance obj (Glance_ValidateCreate L)"

definition GlanceCustomValidator_ValidateUpdate ::
  "webhook_lib \<Rightarrow> runtime_object \<Rightarrow> runtime_object \<Rightarrow> admission" where
  "GlanceCustomValidator_ValidateUpdate L oldObj newObj =
     on_glance newObj (\<lambda>g. Glance_ValidateUpdate L g oldObj)"

definition GlanceCustomValidator_ValidateDelete :: "runtime_object \<Rightarrow> admission" where
  "GlanceCustomValidator_ValidateDelete obj = on_glance obj Glance_ValidateDelete"

definition GlanceAPICustomDefaulter_Default ::
  "GlanceAPIDefaults \<Rightarrow> runtime_object \<Rightarrow> (admission_error + GlanceAPI) go" where
  "GlanceAPICustomDefaulter_Default d obj =
     (case obj of
        OGlanceAPI None \<Rightarrow> Panic NilDereference
      | OGlanceAPI (Some g) \<Rightarrow> Ret (Inr (GlanceAPI_Default d g))
      | _ \<Rightarrow> Ret (Inl UnexpectedGlanceAPIObjectType))"

definition on_glanceapi :: "runtime_object \<Rightarrow> (GlanceAPI \<Rightarrow> admission) \<Rightarrow> admission" where
  "on_glanceapi obj f =
     (case obj of
        OGlanceAPI None \<Rightarrow> Panic NilDereference
      | OGlanceAPI (Some g) \<Rightarrow> f g
      | _ \<Rightarrow> Ret ([], Some UnexpectedGlanceAPIObjectType))"

definition GlanceAPICustomValidator_ValidateCreate :: "runtime_object \<Rightarrow> admission" where
  "GlanceAPICustomValidator_ValidateCreate obj = on_glanceapi obj GlanceAPI_ValidateCreate"

definition GlanceAPICustomValidator_ValidateUpdate ::
  "runtime_object \<Rightarrow> runtime_object \<Rightarrow> admission" where
  "GlanceAPICustomValidator_ValidateUpdate oldObj newObj =
     on_glanceapi newObj (\<lambda>g. GlanceAPI_ValidateUpdate g oldObj)"

definition GlanceAPICustomValidator_ValidateDelete :: "runtime_object \<Rightarrow> admission" where
  "GlanceAPICustomValidator_ValidateDelete obj = on_glanceapi obj GlanceAPI_ValidateDelete"

definition accepted :: "admission \<Rightarrow> bool" where
  "accepted a \<longleftrightarrow> (\<exists>warns. a = Ret (warns, None))"

section \<open>When a request is accepted\<close>

lemma go_concat_map_Nil_iff: "go_concat_map f xs = Ret [] \<longleftrightarrow> (\<forall>x \<in> set xs. f x = Ret [])"
proof (induction xs)
  case Nil
  then show ?case by simp
next
  case (Cons x xs)
  then show ?case by (cases "f x") auto
qed

text \<open>
  A layout the operator can deploy, given the answer for the top-level configuration: the
  instance is scaled to zero, is not split, or is not backed by a file alone.
\<close>

definition layout_ok :: "bool \<Rightarrow> GlanceAPITemplate \<Rightarrow> bool" where
  "layout_ok topLevel a \<longleftrightarrow>
     t_Replicas a \<noteq> None \<and>
     (t_Replicas a = Some 0 \<or> t_Type a \<noteq> ''split'' \<or>
      IsFileBackend (t_CustomServiceConfig a) topLevel = Ret False)"

lemma layout_ok_iff: "isInvalidBackend a topLevel = Ret None \<longleftrightarrow> layout_ok topLevel a"
  by (auto simp: isInvalidBackend_def layout_ok_def split: option.splits if_splits)

lemma layout_ok_no_split_file: "layout_ok topLevel a \<Longrightarrow> \<not> split_on_file topLevel a"
  by (auto simp: layout_ok_def split_on_file_def)

lemma backend_errors_Nil [simp]: "backend_errors path key x = [] \<longleftrightarrow> x = None"
  by (simp add: backend_errors_def split: option.splits)

lemma keystone_errors_Nil [simp]: "keystone_errors r basePath = [] \<longleftrightarrow> isValidKeystoneEP r"
  by (simp add: keystone_errors_def)

lemma create_api_errors_Nil:
  "create_api_errors L r basePath ns topLevel (key, api) = Ret [] \<longleftrightarrow>
     layout_ok topLevel api \<and> ValidateTopology L api (api_path basePath key) ns = [] \<and>
     override_errors L api (api_path basePath key) = [] \<and>
     ValidateProbes L r (api_path basePath key) = []"
  by (auto simp: create_api_errors_def Let_def layout_ok_iff [symmetric])

lemma update_api_errors_Nil:
  "update_api_errors L r old basePath ns topLevel (key, api) = Ret [] \<longleftrightarrow>
     layout_ok topLevel api \<and> ValidateTopology L api (api_path basePath key) ns = [] \<and>
     (\<forall>oldAPI. lookup (g_GlanceAPIs old) key = Some oldAPI \<longrightarrow>
        t_Type api = t_Type oldAPI \<and> override_errors L api (api_path basePath key) = [] \<and>
        ValidateProbes L r (api_path basePath key) = [])"
  by (auto simp: update_api_errors_def Let_def layout_ok_iff [symmetric] split: option.splits)

definition names_ok :: "webhook_lib \<Rightarrow> Glance \<Rightarrow> bool" where
  "names_ok L r \<longleftrightarrow>
     (\<forall>(key, api) \<in> set (g_GlanceAPIs (Spec r)).
        ValidateDNS1123Label L (specPath @ [PChild ''glanceAPIs'']) [key]
          (GetCrMaxLengthCorrection (o_Name r) (t_Type api)) = [])"

definition topology_ok :: "webhook_lib \<Rightarrow> Glance \<Rightarrow> bool" where
  "topology_ok L r \<longleftrightarrow>
     ValidateTopologyRef L (g_TopologyRef (Spec r)) (specPath @ [PChild ''topologyRef'']) (o_Namespace r) = [] \<and>
     (\<forall>(key, api) \<in> set (g_GlanceAPIs (Spec r)).
        ValidateTopology L api (api_path specPath key) (o_Namespace r) = [])"

definition layouts_ok :: "Glance \<Rightarrow> bool" where
  "layouts_ok r \<longleftrightarrow>
     (\<exists>topLevel. IsFileBackend (g_CustomServiceConfig (Spec r)) True = Ret topLevel \<and>
        (\<forall>(key, api) \<in> set (g_GlanceAPIs (Spec r)). layout_ok topLevel api))"

text \<open>Service overrides and probes of the instances in a set of names.\<close>

definition overrides_ok :: "webhook_lib \<Rightarrow> (string \<Rightarrow> bool) \<Rightarrow> Glance \<Rightarrow> bool" where
  "overrides_ok L P r \<longleftrightarrow>
     (\<forall>(key, api) \<in> set (g_GlanceAPIs (Spec r)). P key \<longrightarrow>
        override_errors L api (api_path specPath key) = [] \<and>
        ValidateProbes L (Spec r) (api_path specPath key) = [])"

definition create_ok :: "webhook_lib \<Rightarrow> Glance \<Rightarrow> bool" where
  "create_ok L r \<longleftrightarrow>
     names_ok L r \<and> topology_ok L r \<and> layouts_ok r \<and> overrides_ok L (\<lambda>_. True) r \<and>
     isValidKeystoneEP (Spec r)"

definition same_layout :: "Glance \<Rightarrow> Glance \<Rightarrow> bool" where
  "same_layout old r \<longleftrightarrow>
     (\<forall>(key, api) \<in> set (g_GlanceAPIs (Spec r)).
        \<forall>oldAPI. lookup (g_GlanceAPIs (Spec old)) key = Some oldAPI \<longrightarrow> t_Type api = t_Type oldAPI)"

definition update_ok :: "webhook_lib \<Rightarrow> Glance \<Rightarrow> Glance \<Rightarrow> bool" where
  "update_ok L old r \<longleftrightarrow>
     names_ok L r \<and> topology_ok L r \<and> layouts_ok r \<and>
     overrides_ok L (\<lambda>key. lookup (g_GlanceAPIs (Spec old)) key \<noteq> None) r \<and>
     same_layout old r \<and>
     snd (validateDeprecatedFieldsUpdate L (Spec r) (Spec old) specPath) = [] \<and>
     isValidKeystoneEP (Spec r)"

lemma names_ok_iff: "name_errors L (o_Name r) (g_GlanceAPIs (Spec r)) = [] \<longleftrightarrow> names_ok L r"
  by (auto simp: name_errors_def names_ok_def)

lemma invalid_or_nil_None [simp]: "invalid_or_nil name errs = None \<longleftrightarrow> errs = []"
  by (simp add: invalid_or_nil_def)

lemma create_core_Nil:
  "(\<exists>warns. GlanceSpecCore_ValidateCreate L r basePath ns = Ret (warns, [])) \<longleftrightarrow>
     (\<exists>topLevel. IsFileBackend (g_CustomServiceConfig r) True = Ret topLevel \<and>
        (\<forall>e \<in> set (g_GlanceAPIs r). create_api_errors L r basePath ns topLevel e = Ret [])) \<and>
     ValidateTopologyRef L (g_TopologyRef r) (basePath @ [PChild ''topologyRef'']) ns = [] \<and>
     isValidKeystoneEP r"
  by (auto simp: GlanceSpecCore_ValidateCreate_def validateDeprecatedFieldsCreate_def
      go_concat_map_Nil_iff [symmetric])

lemma update_core_Nil:
  "(\<exists>warns. GlanceSpecCore_ValidateUpdate L r old basePath ns = Ret (warns, [])) \<longleftrightarrow>
     (\<exists>topLevel. IsFileBackend (g_CustomServiceConfig r) True = Ret topLevel \<and>
        (\<forall>e \<in> set (g_GlanceAPIs r). update_api_errors L r old basePath ns topLevel e = Ret [])) \<and>
     snd (validateDeprecatedFieldsUpdate L r old basePath) = [] \<and>
     ValidateTopologyRef L (g_TopologyRef r) (basePath @ [PChild ''topologyRef'']) ns = [] \<and>
     isValidKeystoneEP r"
  by (auto simp: GlanceSpecCore_ValidateUpdate_def Let_def case_prod_unfold
      go_concat_map_Nil_iff [symmetric])

lemma accepted_create:
  "accepted (Glance_ValidateCreate L r) \<longleftrightarrow>
     names_ok L r \<and> (\<exists>warns. GlanceSpecCore_ValidateCreate L (Spec r) specPath (o_Namespace r) = Ret (warns, []))"
  by (auto simp: accepted_def Glance_ValidateCreate_def names_ok_iff [symmetric])

lemma accepted_update:
  "accepted (Glance_ValidateUpdate L r (OGlance (Some old))) \<longleftrightarrow>
     names_ok L r \<and>
     (\<exists>warns. GlanceSpecCore_ValidateUpdate L (Spec r) (Spec old) specPath (o_Namespace r) = Ret (warns, []))"
  by (auto simp: accepted_def Glance_ValidateUpdate_def names_ok_iff [symmetric])

lemma create_ok_iff: "accepted (Glance_ValidateCreate L r) \<longleftrightarrow> create_ok L r"
  unfolding accepted_create create_core_Nil
  by (fastforce simp: create_ok_def topology_ok_def layouts_ok_def overrides_ok_def create_api_errors_Nil)

lemma update_ok_iff:
  "accepted (Glance_ValidateUpdate L r (OGlance (Some old))) \<longleftrightarrow> update_ok L old r"
  unfolding accepted_update update_core_Nil
  by (fastforce simp: update_ok_def topology_ok_def layouts_ok_def overrides_ok_def same_layout_def
      update_api_errors_Nil)

section \<open>The order of the map\<close>

text \<open>Two of the loops never panic; they implement the interface of a collecting loop.\<close>

interpretation name_loop: collecting_loop "name_errors L name"
  by unfold_locales (simp_all add: name_errors_def)

interpretation probe_loop: collecting_loop
  "\<lambda>m. ValidateProbes L (spec\<lparr>g_GlanceAPIs := m\<rparr>) basePath"
  by unfold_locales (simp_all add: ValidateProbes_def)

interpretation warning_loop: collecting_loop "\<lambda>m. concat (map update_api_warnings m)"
  by unfold_locales simp_all

text \<open>The loops whose body may panic: the same holds of any two runs that return.\<close>

lemma go_concat_map_cases:
  "(\<exists>ys. go_concat_map f xs = Ret ys) \<longleftrightarrow> (\<forall>x \<in> set xs. \<exists>y. f x = Ret y)"
proof -
  have "(\<exists>ys. go_concat_map f xs = Ret ys) \<longleftrightarrow> \<not> panics (go_concat_map f xs)"
    by (simp add: not_panics_iff)
  then show ?thesis by (simp add: panics_go_concat_map not_panics_iff)
qed

fun the_ret :: "'a list go \<Rightarrow> 'a list" where
  "the_ret (Ret x) = x"
| "the_ret (Panic p) = []"

lemma go_concat_map_as_loop:
  assumes "go_concat_map f xs = Ret ys"
  shows "ys = concat (map (\<lambda>x. the_ret (f x)) xs)"
proof -
  have ret: "f x = Ret (the_ret (f x))" if "x \<in> set xs" for x
  proof -
    from go_concat_map_Ret [OF assms that] obtain z where "f x = Ret z" by blast
    then show ?thesis by simp
  qed
  have "go_concat_map f xs = Ret (concat (map (\<lambda>x. the_ret (f x)) xs))"
    by (rule go_concat_map_total) (rule ret)
  with assms show ?thesis by simp
qed

lemma mset_concat_map:
  "mset (concat (map g xs)) = (\<Sum>x \<in># mset xs. mset (g x))"
  by (induction xs) auto

lemma go_concat_map_order:
  assumes xs: "go_concat_map f xs = Ret ys" and "mset xs' = mset xs"
    and same: "\<And>x z. x \<in> set xs \<Longrightarrow> f x = Ret z \<Longrightarrow> \<exists>z'. f' x = Ret z' \<and> mset z' = mset z"
  shows "\<exists>ys'. go_concat_map f' xs' = Ret ys' \<and> mset ys' = mset ys"
proof -
  have set: "set xs' = set xs" using assms(2) by (metis set_mset_mset)
  have ret: "\<exists>z. f x = Ret z" if "x \<in> set xs" for x
    using go_concat_map_Ret [OF xs that] by blast
  have "\<exists>ys'. go_concat_map f' xs' = Ret ys'"
    unfolding go_concat_map_cases set using ret same by blast
  then obtain ys' where ys': "go_concat_map f' xs' = Ret ys'" ..
  have elem: "mset (the_ret (f' x)) = mset (the_ret (f x))" if "x \<in> set xs" for x
  proof -
    from ret [OF that] obtain z where z: "f x = Ret z" by blast
    with same [OF that z] show ?thesis by auto
  qed
  have "mset ys' = (\<Sum>x \<in># mset xs'. mset (the_ret (f' x)))"
    unfolding go_concat_map_as_loop [OF ys'] by (rule mset_concat_map)
  also have "\<dots> = (\<Sum>x \<in># mset xs. mset (the_ret (f x)))"
    unfolding assms(2) using elem by (intro arg_cong [where f = sum_mset] image_mset_cong) simp
  also have "\<dots> = mset ys"
    unfolding go_concat_map_as_loop [OF xs] by (rule mset_concat_map [symmetric])
  finally show ?thesis using ys' by blast
qed

definition reorder :: "GlanceAPITemplate gomap \<Rightarrow> GlanceSpecCore \<Rightarrow> GlanceSpecCore" where
  "reorder m r = r\<lparr>g_GlanceAPIs := m\<rparr>"

lemma reorder_fields [simp]:
  "g_GlanceAPIs (reorder m r) = m"
  "g_CustomServiceConfig (reorder m r) = g_CustomServiceConfig r"
  "g_TopologyRef (reorder m r) = g_TopologyRef r"
  "validateDeprecatedFieldsCreate L (reorder m r) p = validateDeprecatedFieldsCreate L r p"
  by (simp_all add: reorder_def validateDeprecatedFieldsCreate_def getDeprecatedFields_def)

lemma probes_reorder:
  assumes "mset m = mset (g_GlanceAPIs r)"
  shows "mset (ValidateProbes L (reorder m r) p) = mset (ValidateProbes L r p)"
  using probe_loop.run_order [OF assms, of L r p] by (simp add: reorder_def)

lemma keystone_reorder:
  assumes "mset m = mset (g_GlanceAPIs r)"
  shows "keystone_errors (reorder m r) p = keystone_errors r p"
  using mset_eq_setD [OF assms] by (simp add: keystone_errors_def isValidKeystoneEP_def reorder_def)

lemma create_api_errors_reorder:
  assumes "mset m = mset (g_GlanceAPIs r)" and "create_api_errors L r p ns t e = Ret z"
  shows "\<exists>z'. create_api_errors L (reorder m r) p ns t e = Ret z' \<and> mset z' = mset z"
  using assms(2) probes_reorder [OF assms(1)]
  by (cases e) (auto simp: create_api_errors_def Let_def)

lemma create_reorder:
  assumes m: "mset m = mset (g_GlanceAPIs r)"
    and run: "GlanceSpecCore_ValidateCreate L r p ns = Ret (warns, errs)"
  shows "\<exists>errs'. GlanceSpecCore_ValidateCreate L (reorder m r) p ns = Ret (warns, errs') \<and>
    mset errs' = mset errs"
proof -
  obtain w e where dep: "validateDeprecatedFieldsCreate L r p = (w, e)" by fastforce
  from run dep obtain t api where top: "IsFileBackend (g_CustomServiceConfig r) True = Ret t"
    and api: "go_concat_map (create_api_errors L r p ns t) (g_GlanceAPIs r) = Ret api"
    and out: "warns = w" "errs = e @ ValidateTopologyRef L (g_TopologyRef r) (p @ [PChild ''topologyRef'']) ns @
      api @ keystone_errors r p"
    by (auto simp: GlanceSpecCore_ValidateCreate_def)
  have "\<exists>api'. go_concat_map (create_api_errors L (reorder m r) p ns t) m = Ret api' \<and>
    mset api' = mset api"
    by (rule go_concat_map_order [OF api m]) (rule create_api_errors_reorder [OF m])
  then obtain api' where "go_concat_map (create_api_errors L (reorder m r) p ns t) m = Ret api'"
    and "mset api' = mset api" by blast
  with dep top out show ?thesis
    by (simp add: GlanceSpecCore_ValidateCreate_def keystone_reorder [OF m])
qed

section \<open>Histories of a resource\<close>

text \<open>
  The stored versions of one Glance, newest first: the first came through a create, every
  other through an update from its predecessor.
\<close>

inductive history :: "webhook_lib \<Rightarrow> Glance list \<Rightarrow> bool" for L where
  created: "accepted (GlanceCustomValidator_ValidateCreate L (OGlance (Some r))) \<Longrightarrow> history L [r]"
| updated: "history L (old # rest) \<Longrightarrow>
     accepted (GlanceCustomValidator_ValidateUpdate L (OGlance (Some old)) (OGlance (Some r))) \<Longrightarrow>
     history L (r # old # rest)"

inductive_cases history_one: "history L [r]"
inductive_cases history_more: "history L (r # old # rest)"
inductive_simps history_Nil [simp]: "history L []"

lemma validator_ok:
  "accepted (GlanceCustomValidator_ValidateCreate L (OGlance (Some r))) \<longleftrightarrow> create_ok L r"
  "accepted (GlanceCustomValidator_ValidateUpdate L (OGlance (Some old)) (OGlance (Some r))) \<longleftrightarrow>
     update_ok L old r"
  by (simp_all add: GlanceCustomValidator_ValidateCreate_def GlanceCustomValidator_ValidateUpdate_def
      on_glance_def create_ok_iff update_ok_iff)

definition safe_resource :: "Glance \<Rightarrow> bool" where
  "safe_resource r \<longleftrightarrow> layouts_ok r \<and> isValidKeystoneEP (Spec r)"

lemma history_safe: "history L hs \<Longrightarrow> r \<in> set hs \<Longrightarrow> safe_resource r"
proof (induction rule: history.induct)
  case (created r)
  then show ?case by (auto simp: validator_ok create_ok_def safe_resource_def)
next
  case (updated old rest r)
  then show ?case by (auto simp: validator_ok update_ok_def safe_resource_def)
qed

definition type_of :: "Glance \<Rightarrow> string \<Rightarrow> string option" where
  "type_of r key = map_option t_Type (lookup (g_GlanceAPIs (Spec r)) key)"

definition wf_glance :: "Glance \<Rightarrow> bool" where
  "wf_glance r \<longleftrightarrow> wf_map (g_GlanceAPIs (Spec r))"

lemma same_layout_type:
  assumes "same_layout old r" and "type_of old key \<noteq> None" and "type_of r key \<noteq> None"
  shows "type_of r key = type_of old key"
proof -
  from assms(2,3) obtain a b where a: "lookup (g_GlanceAPIs (Spec old)) key = Some a"
    and b: "lookup (g_GlanceAPIs (Spec r)) key = Some b" by (auto simp: type_of_def)
  from map_of_SomeD [OF b] assms(1) a have "t_Type b = t_Type a"
    by (auto simp: same_layout_def)
  with a b show ?thesis by (simp add: type_of_def)
qed

lemma history_layout:
  "history L hs \<Longrightarrow> (\<forall>r \<in> set hs. type_of r key \<noteq> None) \<Longrightarrow> r' \<in> set hs \<Longrightarrow>
     type_of r' key = type_of (hd hs) key"
proof (induction arbitrary: r' rule: history.induct)
  case (created r)
  then show ?case by simp
next
  case (updated old rest r)
  from updated.hyps(2) have "same_layout old r" by (simp add: validator_ok update_ok_def)
  with updated.prems(1) have step: "type_of r key = type_of old key"
    by (intro same_layout_type) auto
  from updated.prems(2) have "r' = r \<or> r' \<in> set (old # rest)" by simp
  then show ?case
  proof
    assume "r' = r"
    then show ?thesis by simp
  next
    assume "r' \<in> set (old # rest)"
    then have "type_of r' key = type_of (hd (old # rest)) key"
      by (rule updated.IH [rotated]) (use updated.prems(1) in auto)
    with step show ?thesis by (metis list.sel(1))
  qed
qed

section \<open>What an update does not look at\<close>

lemma new_instance_unchecked:
  assumes "lookup (g_GlanceAPIs old) key = None"
  shows "update_api_errors (L\<lparr>ValidateRoutedOverrides := f, ValidateProbeOverride := g\<rparr>) r old p ns t (key, api) =
    update_api_errors L r old p ns t (key, api)"
  using assms by (simp add: update_api_errors_def ValidateTopology_def Let_def)

section \<open>When a webhook panics\<close>

definition config_panics :: "string \<Rightarrow> bool" where
  "config_panics c \<longleftrightarrow> panics (GetEnabledBackends c)"

definition layout_panics :: "GlanceAPITemplate \<Rightarrow> bool" where
  "layout_panics a \<longleftrightarrow>
     t_Replicas a = None \<or>
     (t_Replicas a \<noteq> Some 0 \<and> t_Type a = ''split'' \<and> config_panics (t_CustomServiceConfig a))"

lemma layout_panics_iff: "panics (isInvalidBackend a t) \<longleftrightarrow> layout_panics a"
  unfolding isInvalidBackend_panics_iff layout_panics_def config_panics_def by auto

lemma create_panics:
  "panics (GlanceSpecCore_ValidateCreate L r p ns) \<longleftrightarrow>
     config_panics (g_CustomServiceConfig r) \<or> list_ex (\<lambda>(k, a). layout_panics a) (g_GlanceAPIs r)"
proof -
  have body: "panics (create_api_errors L r p ns t e) \<longleftrightarrow> layout_panics (snd e)" for t e
    by (cases e) (simp add: create_api_errors_def Let_def layout_panics_iff)
  have loop: "panics (go_concat_map (create_api_errors L r p ns t) m) \<longleftrightarrow>
    list_ex (\<lambda>(k, a). layout_panics a) m" for t m
    by (simp add: panics_go_concat_map list_ex_iff body case_prod_unfold)
  show ?thesis
    by (cases "GetEnabledBackends (g_CustomServiceConfig r)")
      (simp_all add: GlanceSpecCore_ValidateCreate_def validateDeprecatedFieldsCreate_def
        IsFileBackend_def config_panics_def loop)
qed

section \<open>Concrete resources\<close>

definition accepting_lib :: webhook_lib where
  "accepting_lib =
     \<lparr>ValidateDNS1123Label = (\<lambda>p ks n. []), ValidateTopologyRef = (\<lambda>t p n. []),
      ValidateRoutedOverrides = (\<lambda>p m. []), ValidateProbeOverride = (\<lambda>o' p. []),
      ValidateDeprecatedFieldsCreate = (\<lambda>ds p. []),
      ValidateDeprecatedFieldsUpdate = (\<lambda>ds p. ([], []))\<rparr>"

definition sample_glance :: "string \<Rightarrow> string \<Rightarrow> GlanceAPITemplate gomap \<Rightarrow> Glance" where
  "sample_glance config keystone apis =
     \<lparr>o_Name = ''glance'', o_Namespace = ''ns'', o_Labels = [], o_Annotations = [],
      o_Finalizers = [], o_OwnerReferences = [], o_Generation = 1, o_Deleted = False,
      Spec =
       \<lparr>g_ServiceUser = ''glance'', g_DatabaseInstance = ''openstack'',
        g_DatabaseAccount = ''glance'', g_MemcachedInstance = ''memcached'',
        g_Secret = ''osp-secret'', g_PasswordSelectors = \<lparr>ps_Service = ''GlancePassword''\<rparr>,
        g_NodeSelector = None, g_TopologyRef = None, g_PreserveJobs = False,
        g_CustomServiceConfig = config, g_CustomServiceConfigSecrets = [],
        g_Storage = \<lparr>StorageClass = [], StorageRequest = ''10G'', External = False\<rparr>,
        g_GlanceAPIs = apis, g_ExtraMounts = [],
        g_Quotas = \<lparr>ImageSizeTotal = 0, ImageStageTotal = 0, ImageCountTotal = 0, ImageCountUpload = 0\<rparr>,
        g_ImageCache = \<lparr>Size = [], CleanerScheduler = [], PrunerScheduler = []\<rparr>,
        g_KeystoneEndpoint = keystone, g_DBPurge = \<lparr>Age = 30, Schedule = ''1 0 * * *''\<rparr>,
        g_APITimeout = 60, g_NotificationBusInstance = None, g_NotificationsBus = None,
        g_ContainerImage = ''image''\<rparr>,
      Status =
       \<lparr>s_Hash = None, s_APIEndpoints = None, s_ServiceID = [], s_Conditions = None,
        s_DatabaseHostname = [], s_GlanceAPIReadyCounts = None, s_ObservedGeneration = 0,
        s_NotificationBusSecret = []\<rparr>\<rparr>"

definition sample_template :: "int \<Rightarrow> string \<Rightarrow> string \<Rightarrow> GlanceAPITemplate" where
  "sample_template n type config =
     (zero_template n)\<lparr>t_Type := type, t_CustomServiceConfig := config\<rparr>"

section \<open>Properties\<close>

text \<open>
  Property C13. A create is accepted exactly when every instance name fits, the topology
  references are fine, the top-level configuration can be read, every instance has its replicas
  set, every split instance that is deployed (replicas not 0) has a configuration that can be
  read and is not on a file backend alone, its own or, where it names no backend, the top
  level's, for which naming none counts too, all service and probe overrides are fine, and the
  Keystone endpoint names an instance that is not at the edge. A create on which the webhook
  panics counts as not accepted.
\<close>

theorem create_accepted_iff:
  "accepted (GlanceCustomValidator_ValidateCreate L (OGlance (Some r))) \<longleftrightarrow> create_ok L r"
  by (rule validator_ok)

text \<open>
  Property C14. An update is accepted exactly when the conditions of a create on names,
  topology, backends, replicas and the Keystone endpoint hold of the new resource, no instance
  the old resource has changes its layout, the check of the deprecated fields against the old
  specification reports nothing, and, for each instance the old resource has too, its service
  overrides are fine and so are the probe overrides of every instance of the new specification,
  which are all checked again for each such instance. The service overrides of an instance that
  is new are not looked at, and no probe is where all instances are new.
\<close>

theorem update_accepted_iff:
  "accepted (GlanceCustomValidator_ValidateUpdate L (OGlance (Some old)) (OGlance (Some r))) \<longleftrightarrow>
     update_ok L old r"
  by (rule validator_ok)

text \<open>
  Property C15. Over any accepted history of a resource, an instance that is in every version
  has had the same layout in all of them.
\<close>

theorem layout_is_immutable:
  assumes "history L hs" and "list_all (\<lambda>r. type_of r key \<noteq> None) hs"
    and "r \<in> set hs" and "r' \<in> set hs"
  shows "type_of r key = type_of r' key"
  using history_layout [OF assms(1), of key r] history_layout [OF assms(1), of key r'] assms(2-4)
  by (simp add: list_all_iff)

theorem layout_is_immutable_witness:
  "type_of (sample_glance [] ''a'' [(''a'', sample_template 1 ''single'' []), (''b'', sample_template 3 ''edge'' [])]) ''a'' =
   type_of (sample_glance [] ''a'' [(''a'', sample_template 0 ''single'' [])]) ''a''"
proof -
  let ?new = "sample_glance [] ''a'' [(''a'', sample_template 1 ''single'' []), (''b'', sample_template 3 ''edge'' [])]"
  let ?old = "sample_glance [] ''a'' [(''a'', sample_template 0 ''single'' [])]"
  have "accepted (GlanceCustomValidator_ValidateCreate accepting_lib (OGlance (Some ?old)))"
    unfolding accepted_def by (intro exI) code_simp
  then have "history accepting_lib [?old]" by (rule history.created)
  moreover have "accepted (GlanceCustomValidator_ValidateUpdate accepting_lib
      (OGlance (Some ?old)) (OGlance (Some ?new)))"
    unfolding accepted_def by (intro exI) code_simp
  ultimately have "history accepting_lib [?new, ?old]" by (rule history.updated)
  then show ?thesis by (rule layout_is_immutable) code_simp+
qed

text \<open>
  Property C16. In every version of a resource that any sequence of an accepted create and
  accepted updates leads to, the top-level configuration can be read, each instance has its
  replicas set, none is deployed as split on a file backend alone, its own or, where it names
  no backend, the top level's, and the Keystone endpoint names an instance of that version that
  is not at the edge.
\<close>

theorem history_is_safe:
  assumes "history L hs" and "r \<in> set hs"
  shows "\<exists>topLevel. IsFileBackend (g_CustomServiceConfig (Spec r)) True = Ret topLevel \<and>
    list_all (\<lambda>(key, api). \<not> split_on_file topLevel api \<and> t_Replicas api \<noteq> None) (g_GlanceAPIs (Spec r)) \<and>
    list_ex (\<lambda>(key, api). t_Type api \<noteq> APIEdge \<and> key = g_KeystoneEndpoint (Spec r)) (g_GlanceAPIs (Spec r))"
proof -
  from history_safe [OF assms] obtain t where
    t: "IsFileBackend (g_CustomServiceConfig (Spec r)) True = Ret t"
    and ok: "\<forall>(key, api) \<in> set (g_GlanceAPIs (Spec r)). layout_ok t api"
    and ks: "isValidKeystoneEP (Spec r)"
    by (auto simp: safe_resource_def layouts_ok_def)
  have "\<not> split_on_file t api \<and> t_Replicas api \<noteq> None" if "(key, api) \<in> set (g_GlanceAPIs (Spec r))"
    for key api
    using ok that layout_ok_no_split_file [of t api] by (auto simp: layout_ok_def)
  then have "list_all (\<lambda>(key, api). \<not> split_on_file t api \<and> t_Replicas api \<noteq> None) (g_GlanceAPIs (Spec r))"
    by (auto simp: list_all_iff)
  moreover have "list_ex (\<lambda>(key, api). t_Type api \<noteq> APIEdge \<and> key = g_KeystoneEndpoint (Spec r)) (g_GlanceAPIs (Spec r))"
    using ks by (fastforce simp: list_ex_iff isValidKeystoneEP_def)
  ultimately show ?thesis using t by blast
qed

theorem history_is_safe_witness:
  "\<exists>old new. history accepting_lib [new, old] \<and> length (g_GlanceAPIs (Spec new)) = 2 \<and>
     list_all (\<lambda>(key, api). \<not> split_on_file True api \<and> t_Replicas api \<noteq> None) (g_GlanceAPIs (Spec new))"
proof -
  let ?new = "sample_glance [] ''a'' [(''a'', sample_template 1 ''single'' []), (''b'', sample_template 3 ''edge'' [])]"
  let ?old = "sample_glance [] ''a'' [(''a'', sample_template 0 ''single'' [])]"
  have "accepted (GlanceCustomValidator_ValidateCreate accepting_lib (OGlance (Some ?old)))"
    unfolding accepted_def by (intro exI) code_simp
  then have "history accepting_lib [?old]" by (rule history.created)
  moreover have "accepted (GlanceCustomValidator_ValidateUpdate accepting_lib
      (OGlance (Some ?old)) (OGlance (Some ?new)))"
    unfolding accepted_def by (intro exI) code_simp
  ultimately have hist: "history accepting_lib [?new, ?old]" by (rule history.updated)
  have "IsFileBackend (g_CustomServiceConfig (Spec ?new)) True = Ret True" by code_simp
  with history_is_safe [OF hist, of ?new]
  have "list_all (\<lambda>(key, api). \<not> split_on_file True api \<and> t_Replicas api \<noteq> None) (g_GlanceAPIs (Spec ?new))"
    by auto
  moreover have "length (g_GlanceAPIs (Spec ?new)) = 2" by code_simp
  ultimately show ?thesis using hist by blast
qed

text \<open>
  Property C32. The order in which the run-time walks the map of instances does not matter to
  a create: it is accepted in every order or in none, with the same warnings, and the errors
  differ in their order only.
\<close>

theorem create_order_irrelevant:
  assumes "mset m = mset (g_GlanceAPIs r)"
    and "GlanceSpecCore_ValidateCreate L r p ns = Ret (warns, errs)"
  shows "\<exists>errs'. GlanceSpecCore_ValidateCreate L (reorder m r) p ns = Ret (warns, errs') \<and>
    mset errs' = mset errs"
  using assms by (rule create_reorder)

definition two_splits :: "GlanceAPITemplate gomap" where
  "two_splits =
     [(''a'', sample_template 1 ''split'' ''enabled_backends=x:file''),
      (''b'', sample_template 1 ''split'' ''enabled_backends=y:rbd''),
      (''c'', sample_template 2 ''split'' ''enabled_backends=z:file'')]"

definition core_of :: "GlanceAPITemplate gomap \<Rightarrow> GlanceSpecCore" where
  "core_of apis = GlanceSpecCore.truncate (Spec (sample_glance [] ''z'' apis))"

theorem create_order_irrelevant_witness:
  "\<exists>errs'. GlanceSpecCore_ValidateCreate accepting_lib (reorder (rev two_splits) (core_of two_splits))
      specPath ''ns'' = Ret ([], errs') \<and> length errs' = 3"
proof -
  obtain errs where run: "GlanceSpecCore_ValidateCreate accepting_lib (core_of two_splits)
      specPath ''ns'' = Ret ([], errs)" and len: "length errs = 3"
    by (rule that [of "[Invalid (api_path specPath ''a'') ''a'' InvalidBackendErrorMessageSplit,
          Invalid (api_path specPath ''c'') ''c'' InvalidBackendErrorMessageSplit,
          Invalid [PChild ''spec'', PChild ''keystoneEndpoint''] ''z'' KeystoneEndpointErrorMessage]"])
      code_simp+
  have "mset (rev two_splits) = mset (g_GlanceAPIs (core_of two_splits))"
    by (simp add: core_of_def sample_glance_def GlanceSpecCore.truncate_def)
  from create_order_irrelevant [OF this run] len show ?thesis
    by (metis size_mset)
qed

text \<open>
  Property C35. The creation webhook panics exactly on three inputs: a top-level configuration
  or the configuration of a deployed split instance whose \<^verbatim>\<open>enabled_backends\<close> line has no
  "=", and an instance without replicas.
\<close>

theorem create_panics_iff:
  "panics (GlanceCustomValidator_ValidateCreate L (OGlance (Some r))) \<longleftrightarrow>
     panics (GetEnabledBackends (g_CustomServiceConfig (Spec r))) \<or>
     list_ex (\<lambda>(k, a). t_Replicas a = None \<or>
        t_Replicas a \<noteq> Some 0 \<and> t_Type a = ''split'' \<and>
        panics (GetEnabledBackends (t_CustomServiceConfig a))) (g_GlanceAPIs (Spec r))"
proof -
  have "panics (GlanceCustomValidator_ValidateCreate L (OGlance (Some r))) \<longleftrightarrow>
    panics (GlanceSpecCore_ValidateCreate L (Spec r) specPath (o_Namespace r))"
    by (simp add: GlanceCustomValidator_ValidateCreate_def on_glance_def Glance_ValidateCreate_def
        case_prod_unfold)
  then show ?thesis unfolding create_panics config_panics_def layout_panics_def .
qed

text \<open>
  A resource that names no instance is defaulted into one the operator itself
  accepts: its layout and Keystone checks always pass, so only the validators of other
  repositories can reject it.
\<close>

theorem empty_resource_accepted:
  assumes "g_GlanceAPIs (Spec r) = []"
  shows "accepted (GlanceCustomValidator_ValidateCreate L (OGlance (Some (Glance_Default d r)))) \<longleftrightarrow>
    names_ok L (Glance_Default d r) \<and> topology_ok L (Glance_Default d r) \<and>
    overrides_ok L (\<lambda>_. True) (Glance_Default d r)"
proof -
  let ?r = "Glance_Default d r"
  obtain a where apis: "g_GlanceAPIs (Spec ?r) = [(''default'', a)]"
    and a: "t_Replicas a = Some 0" "t_Type a = []"
    using assms by (simp add: Glance_Default_def GlanceSpecCore_Default_def default_step_defs zero_template_def)
  have config: "g_CustomServiceConfig (Spec ?r) = GetTemplateBackend"
    and ep: "g_KeystoneEndpoint (Spec ?r) = ''default''"
    using assms by (simp_all add: Glance_Default_def GlanceSpecCore_Default_def default_step_defs)
  have "IsFileBackend GetTemplateBackend True = Ret False" by code_simp
  then have "layouts_ok ?r"
    unfolding layouts_ok_def config apis using a by (auto simp: layout_ok_def)
  moreover have "isValidKeystoneEP (Spec ?r)"
    unfolding isValidKeystoneEP_def apis ep using a by (simp add: APIEdge_def)
  ultimately show ?thesis unfolding validator_ok create_ok_def by blast
qed

theorem empty_resource_accepted_witness:
  "accepted (GlanceCustomValidator_ValidateCreate accepting_lib
     (OGlance (Some (Glance_Default (SetupDefaults (\<lambda>n f. f)) (sample_glance [] [] [])))))"
  by (subst empty_resource_accepted)
    (simp_all add: sample_glance_def names_ok_def topology_ok_def overrides_ok_def override_errors_def
      ValidateProbes_def ValidateTopology_def accepting_lib_def case_prod_unfold)

text \<open>
  An update never asks the validators of the service and probe overrides about an
  instance the old resource does not have: whatever they would answer, the errors of that
  instance are the same.
\<close>

theorem new_instance_overrides_unchecked:
  assumes "lookup (g_GlanceAPIs old) key = None"
  shows "update_api_errors (L\<lparr>ValidateRoutedOverrides := f, ValidateProbeOverride := g\<rparr>)
      r old p ns t (key, api) = update_api_errors L r old p ns t (key, api)"
  using assms by (rule new_instance_unchecked)

theorem new_instance_overrides_unchecked_witness:
  "update_api_errors (accepting_lib\<lparr>ValidateRoutedOverrides := \<lambda>p m. [Invalid p [] ''bad''],
       ValidateProbeOverride := \<lambda>o' p. []\<rparr>)
     (core_of two_splits) (core_of []) specPath ''ns'' False (''b'', sample_template 1 ''single'' []) = Ret []"
  by (subst new_instance_overrides_unchecked) code_simp+

end
