(* ===== verification/StatefulSet.thy ===== *)
theory StatefulSet
  imports Volumes Validation
begin

text \<open>
  The StatefulSet of a GlanceAPI (internal/glanceapi/statefulset.go). The topology is an
  option, as the pointer in the source; a memcached value is passed to the functions of
  infra-operator as it is.
\<close>

section \<open>Pieces\<close>

definition workerSelfReferenceScript :: string where
  "workerSelfReferenceScript =
     ''if [ -n \"$GLANCE_DOMAIN\" ]; then cat > /etc/glance/glance.conf.d/01-config.conf <<EOF'' @ [CHR 0x0A] @
     ''[DEFAULT]'' @ [CHR 0x0A] @
     ''worker_self_reference_url=${URISCHEME,,}://$(hostname).${GLANCE_DOMAIN}:${GLANCE_PORT}'' @ [CHR 0x0A] @
     ''EOF'' @ [CHR 0x0A] @ ''fi'' @ [CHR 0x0A]"

definition privilegedAwareSecurityContext :: "bool \<Rightarrow> SecurityContext" where
  "privilegedAwareSecurityContext privileged =
     (if privileged then PrivilegedSecurityContext else RestrictiveSecurityContext)"

definition sts_endpoint :: "GlanceAPI \<Rightarrow> endpoint" where
  "sts_endpoint inst =
     (if a_APIType (ASpec inst) = APIInternal \<or> a_APIType (ASpec inst) = APIEdge
      then EndpointInternal else EndpointPublic)"

definition sts_port :: "GlanceAPI \<Rightarrow> int" where
  "sts_port inst =
     (if sts_endpoint inst = EndpointInternal then GlanceInternalPort else GlancePublicPort)"

definition glanceURIScheme :: "k8s_lib \<Rightarrow> GlanceAPI \<Rightarrow> string" where
  "glanceURIScheme L inst =
     (if TLS_Enabled L (t_TLS (ASpec inst)) (sts_endpoint inst) then ''HTTPS'' else ''HTTP'')"

definition stsName :: "GlanceAPI \<Rightarrow> string" where
  "stsName inst =
     (if a_APIType (ASpec inst) \<noteq> APISingle then o_Name inst @ ''-api'' else o_Name inst)"

definition sts_env :: "k8s_lib \<Rightarrow> GlanceAPI \<Rightarrow> string \<Rightarrow> (string \<times> string) list" where
  "sts_env L inst configHash =
     MergeEnvs L
       [(''CONFIG_HASH'', configHash), (''GLANCE_DOMAIN'', as_Domain (AStatus inst)),
        (''URISCHEME'', glanceURIScheme L inst), (''GLANCE_PORT'', show_int (sts_port inst))]"

section \<open>Certificates\<close>

text \<open>Volumes and mounts grow together, in the order of the source.\<close>

type_synonym vols_mounts = "Volume list \<times> VolumeMount list"

definition ca_mounts :: "k8s_lib \<Rightarrow> TLSAPI \<Rightarrow> vols_mounts" where
  "ca_mounts L tls =
     (if CaBundleSecretName tls \<noteq> []
      then ([Ca_CreateVolume L (CaBundleSecretName tls)],
            Ca_CreateVolumeMounts L (CaBundleSecretName tls))
      else ([], []))"

definition mtls_mounts :: "k8s_lib \<Rightarrow> opaque \<Rightarrow> vols_mounts" where
  "mtls_mounts L memcached =
     (if GetMemcachedMTLSSecret L memcached \<noteq> []
      then ([CreateMTLSVolume L memcached], CreateMTLSVolumeMounts L memcached) else ([], []))"

definition endpoint_secret :: "TLSAPI \<Rightarrow> endpoint \<Rightarrow> string option" where
  "endpoint_secret tls endpt =
     (case endpt of EndpointPublic \<Rightarrow> TLSPublicSecretName tls
      | EndpointInternal \<Rightarrow> TLSInternalSecretName tls)"

definition tls_mounts :: "k8s_lib \<Rightarrow> TLSAPI \<Rightarrow> endpoint \<Rightarrow> go_error + vols_mounts" where
  "tls_mounts L tls endpt =
     (if TLS_Enabled L tls endpt then
        (case ToService L (endpoint_secret tls endpt) of
           Inl err \<Rightarrow> Inl err
         | Inr svc \<Rightarrow>
             (let s = endpoint_str endpt;
                  svc' = svc\<lparr>tls_CertMount := Some (''/etc/pki/tls/certs/'' @ s @ ''.crt''),
                             tls_KeyMount := Some (''/etc/pki/tls/private/'' @ s @ ''.key'')\<rparr>
              in Inr ([Service_CreateVolume L svc' s], Service_CreateVolumeMounts L svc' s)))
      else Inr ([], []))"

text \<open>The loop over the sorted endpoints stops at the first error.\<close>

fun endpoints_mounts :: "k8s_lib \<Rightarrow> TLSAPI \<Rightarrow> endpoint list \<Rightarrow> go_error + vols_mounts" where
  "endpoints_mounts L tls [] = Inr ([], [])"
| "endpoints_mounts L tls (e # es) =
     (case tls_mounts L tls e of
        Inl err \<Rightarrow> Inl err
      | Inr (vs, ms) \<Rightarrow>
          (case endpoints_mounts L tls es of
             Inl err \<Rightarrow> Inl err
           | Inr (vs', ms') \<Rightarrow> Inr (vs @ vs', ms @ ms')))"

definition sorted_endpoints :: "string \<Rightarrow> endpoint list" where
  "sorted_endpoints apiType = sort (map fst (GetGlanceEndpoints apiType))"

text \<open>\<^verbatim>\<open>apiVolumes\<close> and \<^verbatim>\<open>apiVolumeMounts\<close> at the end of the loop.\<close>

definition api_volumes :: "k8s_lib \<Rightarrow> GlanceAPI \<Rightarrow> opaque \<Rightarrow> go_error + vols_mounts" where
  "api_volumes L inst memcached =
     (let tls = t_TLS (ASpec inst) in
      case endpoints_mounts L tls (sorted_endpoints (a_APIType (ASpec inst))) of
        Inl err \<Rightarrow> Inl err
      | Inr (vs, ms) \<Rightarrow>
          Inr (GetAPIVolumes L @ fst (ca_mounts L tls) @ fst (mtls_mounts L memcached) @ vs,
               GetAPIVolumeMount L (Size (t_ImageCache (ASpec inst))) @ snd (ca_mounts L tls) @
               snd (mtls_mounts L memcached) @ ms))"

section \<open>Containers\<close>

definition propagation :: "GlanceAPI \<Rightarrow> string list" where
  "propagation inst = GlanceAPIPropagation @ [APIName inst]"

definition log_container :: "k8s_lib \<Rightarrow> GlanceAPI \<Rightarrow> string \<Rightarrow> Container" where
  "log_container L inst configHash =
     \<lparr>ct_Name = ServiceName @ ''-log'', ct_Command = [''/usr/bin/dumb-init''],
      ct_Args = [''--single-child'', ''--'', ''/bin/sh'', ''-c'',
        ''/usr/bin/tail -n+1 -F '' @ GlanceLogPath @ o_Name inst @ ''.log'' @ '' 2>/dev/null''],
      ct_Image = a_ContainerImage (ASpec inst), ct_SecurityContext = RestrictiveSecurityContext,
      ct_Env = sts_env L inst configHash,
      ct_VolumeMounts = [WritableDirVolumeMount L LogVolume ''/var/log/glance''],
      ct_Resources = t_Resources (ASpec inst), ct_ReadinessProbe = None, ct_LivenessProbe = None\<rparr>"

definition service_container ::
  "k8s_lib \<Rightarrow> GlanceAPI \<Rightarrow> string \<Rightarrow> bool \<Rightarrow> bool \<Rightarrow> ProbeSet \<Rightarrow> VolumeMount list \<Rightarrow>
     string \<Rightarrow> string \<Rightarrow> string \<Rightarrow> Container" where
  "service_container L inst configHash privileged wsgi probes apiMounts name mode command =
     \<lparr>ct_Name = ServiceName @ name, ct_Command = [''/usr/bin/dumb-init''],
      ct_Args = [''--single-child'', ''--'', ''/bin/bash'', ''-c'', workerSelfReferenceScript @ command],
      ct_Image = a_ContainerImage (ASpec inst),
      ct_SecurityContext = privilegedAwareSecurityContext privileged,
      ct_Env = sts_env L inst configHash,
      ct_VolumeMounts =
        GetVolumeMounts L (t_CustomServiceConfigSecrets (ASpec inst)) privileged
          (External (t_Storage (ASpec inst))) (a_ExtraMounts (ASpec inst)) (propagation inst) mode wsgi
        @ apiMounts,
      ct_Resources = t_Resources (ASpec inst), ct_ReadinessProbe = Some (ps_Readiness probes),
      ct_LivenessProbe = Some (ps_Liveness probes)\<rparr>"

definition containers ::
  "k8s_lib \<Rightarrow> GlanceAPI \<Rightarrow> string \<Rightarrow> bool \<Rightarrow> bool \<Rightarrow> ProbeSet \<Rightarrow> VolumeMount list \<Rightarrow> Container list" where
  "containers L inst configHash privileged wsgi probes apiMounts =
     [log_container L inst configHash,
      service_container L inst configHash privileged wsgi probes apiMounts
        ''-httpd'' ''httpd'' ''exec /usr/sbin/httpd -DFOREGROUND''] @
     (if \<not> wsgi then
        [service_container L inst configHash privileged wsgi probes apiMounts ''-api'' ''api''
           ''exec /usr/bin/glance-api --config-dir /etc/glance/glance.conf.d'']
      else [])"

section \<open>StatefulSet\<close>

definition base_statefulset ::
  "GlanceAPI \<Rightarrow> string gomap \<Rightarrow> string gomap \<Rightarrow> bool \<Rightarrow> Container list \<Rightarrow> StatefulSetObj" where
  "base_statefulset inst labels annotations privileged cs =
     \<lparr>sts_Name = stsName inst, sts_Namespace = o_Namespace inst, sts_Labels = labels,
      sts_ServiceName = stsName inst, sts_MatchLabels = labels,
      sts_PodManagementPolicy = ''Parallel'', sts_Replicas = t_Replicas (ASpec inst),
      sts_Template =
       \<lparr>pt_Annotations = annotations, pt_Labels = labels,
        pt_Spec =
         \<lparr>pod_SecurityContext = RestrictivePodSecurityContext,
          pod_ServiceAccountName = a_ServiceAccount (ASpec inst),
          pod_AutomountServiceAccountToken = Some False, pod_HostPID = privileged,
          pod_RestartPolicy = [], pod_Containers = cs, pod_Volumes = [],
          pod_NodeSelector = None, pod_Affinity = None\<rparr>\<rparr>,
      sts_VolumeClaimTemplates = []\<rparr>"

text \<open>The claims, up to the first error.\<close>

definition claim_templates :: "k8s_lib \<Rightarrow> GlanceAPI \<Rightarrow> string gomap \<Rightarrow> PVC list \<times> go_error option" where
  "claim_templates L inst labels =
     (let (local, err) = (if \<not> External (t_Storage (ASpec inst))
                          then (case GetPvc L inst labels PvcLocal of
                                  (pvc, None) \<Rightarrow> ([pvc], None)
                                | (pvc, Some e) \<Rightarrow> ([], Some e))
                          else ([], None))
      in case err of
           Some e \<Rightarrow> (local, Some e)
         | None \<Rightarrow>
             if length (Size (t_ImageCache (ASpec inst))) > 0
             then (case GetPvc L inst labels PvcCache of
                     (pvc, None) \<Rightarrow> (local @ [pvc], None)
                   | (pvc, Some e) \<Rightarrow> (local, Some e))
             else (local, None))"

definition finish_pod ::
  "k8s_lib \<Rightarrow> GlanceAPI \<Rightarrow> opaque option \<Rightarrow> Volume list \<Rightarrow> PodTemplate \<Rightarrow> PodTemplate" where
  "finish_pod L inst topology volumes pt =
     (let spec = (pt_Spec pt)\<lparr>pod_Volumes := volumes,
                              pod_NodeSelector := t_NodeSelector (ASpec inst)\<rparr>;
          pt' = pt\<lparr>pt_Spec := spec\<rparr>
      in case topology of
           Some t \<Rightarrow> Topology_ApplyTo L t pt'
         | None \<Rightarrow> pt'\<lparr>pt_Spec := spec\<lparr>pod_Affinity :=
                     Some (DistributePods (AppSelector L) [ServiceName] ''kubernetes.io/hostname'')\<rparr>\<rparr>)"

text \<open>A StatefulSet comes back beside an error only when a claim could not be built.\<close>

definition StatefulSet ::
  "k8s_lib \<Rightarrow> (float64 \<Rightarrow> int) \<Rightarrow> GlanceAPI \<Rightarrow> string \<Rightarrow> string gomap \<Rightarrow> string gomap \<Rightarrow> bool \<Rightarrow>
     opaque option \<Rightarrow> bool \<Rightarrow> opaque \<Rightarrow> (StatefulSetObj option \<times> go_error option) go" where
  "StatefulSet L ov inst configHash labels annotations privileged topology wsgi memcached =
     (case CreateProbeSet L (sts_port inst) (glanceURIScheme L inst) (Probes (t_Override (ASpec inst)))
             (GetDefaultProbesAPI ov (t_APITimeout (ASpec inst))) of
        Inl err \<Rightarrow> Ret (None, Some err)
      | Inr probes \<Rightarrow>
          (case api_volumes L inst memcached of
             Inl err \<Rightarrow> Ret (None, Some err)
           | Inr (apiVolumes, apiMounts) \<Rightarrow>
               (let cs = containers L inst configHash privileged wsgi probes apiMounts;
                    sts = base_statefulset inst labels annotations privileged cs;
                    (claims, err) = claim_templates L inst labels;
                    sts = sts\<lparr>sts_VolumeClaimTemplates := claims\<rparr>
                in case err of
                     Some e \<Rightarrow> Ret (Some sts, Some e)
                   | None \<Rightarrow>
                       go_bind (GetVolumes L (o_Name inst) privileged
                                  (t_CustomServiceConfigSecrets (ASpec inst))
                                  (a_ExtraMounts (ASpec inst)) (propagation inst)) (\<lambda>vols.
                         Ret (Some (sts\<lparr>sts_Template :=
                                finish_pod L inst topology (vols @ apiVolumes) (sts_Template sts)\<rparr>),
                              None)))))"

section \<open>Every mount is backed\<close>

lemma tls_mounts_backed:
  assumes "lawful_lib L" and "tls_mounts L tls e = Inr (vs, ms)"
  shows "backs (volume_names vs) ms"
  using assms by (auto simp: tls_mounts_def lawful_lib_def Let_def split: if_splits sum.splits)

lemma endpoints_mounts_backed:
  assumes "lawful_lib L" and "endpoints_mounts L tls es = Inr (vs, ms)"
  shows "backs (volume_names vs) ms"
  using assms(2)
proof (induction es arbitrary: vs ms)
  case Nil
  then show ?case by simp
next
  case (Cons e es)
  from Cons.prems obtain vs1 ms1 vs2 ms2 where e: "tls_mounts L tls e = Inr (vs1, ms1)"
    and es: "endpoints_mounts L tls es = Inr (vs2, ms2)" and eq: "vs = vs1 @ vs2" "ms = ms1 @ ms2"
    by (auto split: sum.splits)
  have "backs (volume_names vs) ms1"
    using tls_mounts_backed [OF assms(1) e] by (rule backs_mono) (simp add: eq)
  moreover have "backs (volume_names vs) ms2"
    using Cons.IH [OF es] by (rule backs_mono) (simp add: eq)
  ultimately show ?case by (simp add: eq)
qed

lemma api_volumes_backed:
  assumes "lawful_lib L" and "api_volumes L inst memcached = Inr (vs, ms)"
    and "volume_names vs \<subseteq> names"
    and "Size (t_ImageCache (ASpec inst)) = [] \<or> ''glance-cache'' \<in> names"
  shows "backs names ms" and "volume_names (GetAPIVolumes L) \<subseteq> names"
proof -
  let ?tls = "t_TLS (ASpec inst)"
  from assms(2) obtain evs ems where
    e: "endpoints_mounts L ?tls (sorted_endpoints (a_APIType (ASpec inst))) = Inr (evs, ems)"
    and vs: "vs = GetAPIVolumes L @ fst (ca_mounts L ?tls) @ fst (mtls_mounts L memcached) @ evs"
    and ms: "ms = GetAPIVolumeMount L (Size (t_ImageCache (ASpec inst))) @ snd (ca_mounts L ?tls) @
      snd (mtls_mounts L memcached) @ ems"
    by (auto simp: api_volumes_def Let_def split: sum.splits)
  from assms(3) have sub: "volume_names (GetAPIVolumes L) \<subseteq> names"
    "volume_names (fst (ca_mounts L ?tls)) \<subseteq> names"
    "volume_names (fst (mtls_mounts L memcached)) \<subseteq> names" "volume_names evs \<subseteq> names"
    unfolding vs by auto
  show "volume_names (GetAPIVolumes L) \<subseteq> names" by (rule sub)
  have "backs (volume_names (fst (ca_mounts L ?tls))) (snd (ca_mounts L ?tls))"
    and "backs (volume_names (fst (mtls_mounts L memcached))) (snd (mtls_mounts L memcached))"
    using assms(1) by (simp_all add: ca_mounts_def mtls_mounts_def lawful_lib_def)
  with sub(2,3) have "backs names (snd (ca_mounts L ?tls))" "backs names (snd (mtls_mounts L memcached))"
    by (blast intro: backs_mono)+
  moreover have "backs names ems"
    using endpoints_mounts_backed [OF assms(1) e] sub(4) by (rule backs_mono)
  moreover have "backs names (GetAPIVolumeMount L (Size (t_ImageCache (ASpec inst))))"
    using assms(1) sub(1) assms(4) by (rule GetAPIVolumeMount_backed)
  ultimately show "backs names ms" by (simp add: ms)
qed

lemma claim_templates_names:
  assumes "claim_templates L inst labels = (claims, None)"
  shows "External (t_Storage (ASpec inst)) \<or> ServiceName \<in> pvc_Name ` set claims"
    and "Size (t_ImageCache (ASpec inst)) = [] \<or> ''glance-cache'' \<in> pvc_Name ` set claims"
  using assms GetPvc_name [of L inst labels PvcLocal] GetPvc_name [of L inst labels PvcCache]
  by (auto simp: claim_templates_def Let_def split: if_splits prod.splits option.splits)

lemma StatefulSet_Ret:
  assumes "StatefulSet L ov inst hash labels annotations privileged topology wsgi memcached =
    Ret (Some sts, None)"
  obtains probes apiVolumes apiMounts claims vols where
    "api_volumes L inst memcached = Inr (apiVolumes, apiMounts)"
    "claim_templates L inst labels = (claims, None)"
    "GetVolumes L (o_Name inst) privileged (t_CustomServiceConfigSecrets (ASpec inst))
       (a_ExtraMounts (ASpec inst)) (propagation inst) = Ret vols"
    "sts = (base_statefulset inst labels annotations privileged
              (containers L inst hash privileged wsgi probes apiMounts))
       \<lparr>sts_VolumeClaimTemplates := claims,
         sts_Template := finish_pod L inst topology (vols @ apiVolumes)
           (sts_Template (base_statefulset inst labels annotations privileged
              (containers L inst hash privileged wsgi probes apiMounts)))\<rparr>"
  using assms unfolding StatefulSet_def Let_def
  by (auto split: sum.splits prod.splits option.splits)

lemma finish_pod_fields:
  assumes "lawful_lib L"
  shows "pod_Containers (pt_Spec (finish_pod L inst topology vols pt)) = pod_Containers (pt_Spec pt)"
    and "pod_Volumes (pt_Spec (finish_pod L inst topology vols pt)) = vols"
    and "pod_HostPID (pt_Spec (finish_pod L inst topology vols pt)) = pod_HostPID (pt_Spec pt)"
  using assms by (simp_all add: finish_pod_def lawful_lib_def Let_def split: option.splits)

definition pod_mount_names :: "StatefulSetObj \<Rightarrow> string set" where
  "pod_mount_names sts =
     volume_names (pod_Volumes (pt_Spec (sts_Template sts))) \<union>
     pvc_Name ` set (sts_VolumeClaimTemplates sts)"

lemma statefulset_backed:
  assumes lib: "lawful_lib L" and extra: "extra_backed L (propagation inst) (a_ExtraMounts (ASpec inst))"
    and sts: "StatefulSet L ov inst hash labels annotations privileged topology wsgi memcached =
      Ret (Some sts, None)"
    and c: "c \<in> set (pod_Containers (pt_Spec (sts_Template sts)))"
  shows "backs (pod_mount_names sts) (ct_VolumeMounts c)"
proof -
  let ?names = "pod_mount_names sts"
  from StatefulSet_Ret [OF sts] obtain probes avs ams claims vols where
    api: "api_volumes L inst memcached = Inr (avs, ams)"
    and claims: "claim_templates L inst labels = (claims, None)"
    and vols: "GetVolumes L (o_Name inst) privileged (t_CustomServiceConfigSecrets (ASpec inst))
       (a_ExtraMounts (ASpec inst)) (propagation inst) = Ret vols"
    and eq: "sts = (base_statefulset inst labels annotations privileged
              (containers L inst hash privileged wsgi probes ams))
       \<lparr>sts_VolumeClaimTemplates := claims,
         sts_Template := finish_pod L inst topology (vols @ avs)
           (sts_Template (base_statefulset inst labels annotations privileged
              (containers L inst hash privileged wsgi probes ams)))\<rparr>" .
  have names: "?names = volume_names vols \<union> volume_names avs \<union> pvc_Name ` set claims"
    by (simp add: pod_mount_names_def eq finish_pod_fields [OF lib])
  have avs: "volume_names avs \<subseteq> ?names" and vs: "volume_names vols \<subseteq> ?names"
    unfolding names by auto
  have cache: "Size (t_ImageCache (ASpec inst)) = [] \<or> ''glance-cache'' \<in> ?names"
    and local: "External (t_Storage (ASpec inst)) \<or> ServiceName \<in> ?names"
    using claim_templates_names [OF claims] unfolding names by blast+
  note ams = api_volumes_backed [OF lib api avs cache]
  have get: "backs ?names (GetVolumeMounts L (t_CustomServiceConfigSecrets (ASpec inst)) privileged
      (External (t_Storage (ASpec inst))) (a_ExtraMounts (ASpec inst)) (propagation inst) mode wsgi)"
    for mode
    by (rule GetVolumeMounts_backed [OF lib vols extra local vs ams(2)])
  have "LogVolume \<in> ?names"
    using ams(2) lib by (auto simp: GetAPIVolumes_def lawful_lib_def)
  then have "backs ?names (ct_VolumeMounts (log_container L inst hash))"
    using lib by (simp add: log_container_def lawful_lib_def)
  moreover have "backs ?names (ct_VolumeMounts
      (service_container L inst hash privileged wsgi probes ams n mode cmd))" for n mode cmd
    using get ams(1) by (simp add: service_container_def)
  moreover have "c \<in> set (containers L inst hash privileged wsgi probes ams)"
    using c by (simp add: eq finish_pod_fields [OF lib] base_statefulset_def)
  ultimately show ?thesis by (auto simp: containers_def split: if_splits)
qed

section \<open>The shape of the pod\<close>

lemma statefulset_containers:
  assumes lib: "lawful_lib L"
    and sts: "StatefulSet L ov inst hash labels annotations privileged topology wsgi memcached =
      Ret (Some sts, None)"
  shows "\<exists>probes ams. pod_Containers (pt_Spec (sts_Template sts)) =
    containers L inst hash privileged wsgi probes ams \<and>
    pod_HostPID (pt_Spec (sts_Template sts)) = privileged"
proof -
  from StatefulSet_Ret [OF sts] obtain probes avs ams claims vols where
    eq: "sts = (base_statefulset inst labels annotations privileged
              (containers L inst hash privileged wsgi probes ams))
       \<lparr>sts_VolumeClaimTemplates := claims,
         sts_Template := finish_pod L inst topology (vols @ avs)
           (sts_Template (base_statefulset inst labels annotations privileged
              (containers L inst hash privileged wsgi probes ams)))\<rparr>" .
  show ?thesis unfolding eq by (auto simp: finish_pod_fields [OF lib] base_statefulset_def)
qed

lemma containers_names:
  "map ct_Name (containers L inst hash privileged wsgi probes ams) =
     [''glance-log'', ''glance-httpd''] @ (if wsgi then [] else [''glance-api''])"
  by (simp add: containers_def log_container_def service_container_def ServiceName_def)

lemma containers_contexts:
  "map ct_SecurityContext (containers L inst hash privileged wsgi probes ams) =
     RestrictiveSecurityContext # replicate (if wsgi then 1 else 2) (privilegedAwareSecurityContext privileged)"
  by (simp add: containers_def log_container_def service_container_def numeral_2_eq_2)

section \<open>Properties\<close>

text \<open>
  Property C29. In every StatefulSet that is returned without an error, each mount of each
  container names a volume of the pod or one of the volume claim templates, with or without
  TLS, memcached certificates, an external storage, an image cache and the Cinder backend, if
  each mount of the extra mounts of the user that reach the pod names one of their own volumes,
  which the operator does not check.
\<close>

theorem statefulset_mounts_backed:
  assumes "lawful_lib L" and "extra_backed L (propagation inst) (a_ExtraMounts (ASpec inst))"
    and "StatefulSet L ov inst hash labels annotations privileged topology wsgi memcached =
      Ret (Some sts, None)"
  shows "list_all (\<lambda>c. backs (pod_mount_names sts) (ct_VolumeMounts c))
    (pod_Containers (pt_Spec (sts_Template sts)))"
  unfolding list_all_iff using statefulset_backed [OF assms] by blast

definition cached_api :: GlanceAPI where
  "cached_api = (sample_api ''glance-a-single'' ''single'')\<lparr>ASpec :=
     (ASpec (sample_api ''glance-a-single'' ''single''))
       \<lparr>t_ImageCache := \<lparr>Size = ''5G'', CleanerScheduler = [], PrunerScheduler = []\<rparr>,
        t_Storage := \<lparr>StorageClass = ''local'', StorageRequest = ''10G'', External = False\<rparr>,
        t_TLS := \<lparr>CaBundleSecretName = ''bundle'', TLSInternalSecretName = Some ''int'',
                  TLSPublicSecretName = Some ''pub''\<rparr>\<rparr>\<rparr>"

lemma cached_sts_run:
  "\<exists>sts. StatefulSet ref_lib ov cached_api ''hash'' [] [] True None False ''mtls'' = Ret (Some sts, None)"
proof -
  have "sorted_endpoints ''single'' = [EndpointInternal, EndpointPublic]" by code_simp
  then have "\<exists>vs ms. api_volumes ref_lib cached_api ''mtls'' = Inr (vs, ms)"
    by (simp add: api_volumes_def cached_api_def sample_api_def tls_mounts_def ref_lib_def Let_def
        endpoint_secret_def)
  moreover have "\<exists>claims. claim_templates ref_lib cached_api [] = (claims, None)"
    by (simp add: claim_templates_def cached_api_def sample_api_def GetPvc_def ref_lib_def Let_def)
  moreover have "\<exists>vols. GetVolumes ref_lib n True ss (a_ExtraMounts (ASpec cached_api)) svc = Ret vols" for n ss svc
    by (simp add: GetVolumes_def cached_api_def sample_api_def)
  moreover have "\<exists>probes. CreateProbeSet ref_lib p u o' d = Inr probes" for p u o' d
    by (simp add: ref_lib_def)
  ultimately obtain vs ms claims vols probes where
    "api_volumes ref_lib cached_api ''mtls'' = Inr (vs, ms)"
    "claim_templates ref_lib cached_api [] = (claims, None)"
    "GetVolumes ref_lib (o_Name cached_api) True (t_CustomServiceConfigSecrets (ASpec cached_api))
       (a_ExtraMounts (ASpec cached_api)) (propagation cached_api) = Ret vols"
    "CreateProbeSet ref_lib (sts_port cached_api) (glanceURIScheme ref_lib cached_api)
       (Probes (t_Override (ASpec cached_api)))
       (GetDefaultProbesAPI ov (t_APITimeout (ASpec cached_api))) = Inr probes"
    by blast
  then show ?thesis by (simp add: StatefulSet_def Let_def)
qed

theorem statefulset_mounts_backed_witness:
  "\<exists>sts. StatefulSet ref_lib (\<lambda>_. 0) cached_api ''hash'' [] [] True None False ''mtls'' = Ret (Some sts, None) \<and>
     list_all (\<lambda>c. backs (pod_mount_names sts) (ct_VolumeMounts c))
       (pod_Containers (pt_Spec (sts_Template sts)))"
proof -
  obtain sts where sts: "StatefulSet ref_lib (\<lambda>_. 0) cached_api ''hash'' [] [] True None False ''mtls'' =
    Ret (Some sts, None)" using cached_sts_run by blast
  have "extra_backed ref_lib (propagation cached_api) (a_ExtraMounts (ASpec cached_api))"
    by (simp add: extra_backed_def cached_api_def sample_api_def)
  from statefulset_mounts_backed [OF lawful_ref_lib this sts] sts show ?thesis by blast
qed

text \<open>
  Property C30. The containers of a deployed pod are the log streamer, httpd, and glance-api in
  the proxy-pass mode only; the log streamer is always restricted, and the others run
  privileged exactly when the pod was asked to, which also is when it shares the process
  namespace of the node.
\<close>

theorem statefulset_privileges:
  assumes "lawful_lib L"
    and "StatefulSet L ov inst hash labels annotations privileged topology wsgi memcached =
      Ret (Some sts, None)"
  shows "pod_HostPID (pt_Spec (sts_Template sts)) = privileged \<and>
    map (\<lambda>c. (ct_Name c, ct_SecurityContext c)) (pod_Containers (pt_Spec (sts_Template sts))) =
    (let ctx = (if privileged then PrivilegedSecurityContext else RestrictiveSecurityContext) in
     [(''glance-log'', RestrictiveSecurityContext), (''glance-httpd'', ctx)] @
     (if wsgi then [] else [(''glance-api'', ctx)]))"
proof -
  from statefulset_containers [OF assms] obtain probes ams where
    "pod_Containers (pt_Spec (sts_Template sts)) = containers L inst hash privileged wsgi probes ams"
    and "pod_HostPID (pt_Spec (sts_Template sts)) = privileged"
    by blast
  then show ?thesis
    by (simp add: containers_def log_container_def service_container_def Let_def
        privilegedAwareSecurityContext_def ServiceName_def)
qed

theorem statefulset_privileges_witness:
  "\<exists>sts. StatefulSet ref_lib (\<lambda>_. 0) cached_api ''hash'' [] [] True None False ''mtls'' = Ret (Some sts, None) \<and>
     map (\<lambda>c. (ct_Name c, ct_SecurityContext c)) (pod_Containers (pt_Spec (sts_Template sts))) =
       [(''glance-log'', RestrictiveSecurityContext), (''glance-httpd'', PrivilegedSecurityContext),
        (''glance-api'', PrivilegedSecurityContext)]"
proof -
  obtain sts where sts: "StatefulSet ref_lib (\<lambda>_. 0) cached_api ''hash'' [] [] True None False ''mtls'' =
    Ret (Some sts, None)" using cached_sts_run by blast
  from statefulset_privileges [OF lawful_ref_lib this] sts show ?thesis by (auto simp: Let_def)
qed

end
