(* ===== verification/Jobs.thy ===== *)
theory Jobs
  imports StatefulSet
begin

text \<open>
  The jobs of the operator: the database sync job (internal/glance/dbsync.go), the database
  purge cron job (internal/glance/cronjob.go) and the image cache cron jobs
  (internal/glanceapi/cachejob.go).
\<close>

section \<open>Data\<close>

datatype CronJobType = CjDBPurge | CacheCleaner | CachePruner

record CronJobSpec =
  cs_Name :: string
  cs_PvcClaim :: "string option"
  cs_Schedule :: string
  cs_Command :: string
  cs_CjType :: CronJobType
  cs_Labels :: "string gomap"
  cs_Annotations :: "string gomap"

definition GlanceManage :: string where "GlanceManage = ''/usr/bin/glance-manage''"
definition GlanceCacheCleaner :: string where
  "GlanceCacheCleaner = ''/usr/bin/glance-cache-cleaner''"
definition GlanceCachePruner :: string where "GlanceCachePruner = ''/usr/bin/glance-cache-pruner''"

definition DBSyncCommand :: string where
  "DBSyncCommand =
     ''glance-manage --config-dir /etc/glance/glance.conf.d db sync glance && '' @
     ''glance-manage db_load_metadefs''"

section \<open>The CA bundle of the first instance that has one\<close>

fun first_bundle :: "GlanceAPITemplate gomap \<Rightarrow> string list \<Rightarrow> string option" where
  "first_bundle apis [] = None"
| "first_bundle apis (name # names) =
     (case lookup apis name of
        Some api \<Rightarrow>
          if CaBundleSecretName (t_TLS api) \<noteq> [] then Some (CaBundleSecretName (t_TLS api))
          else first_bundle apis names
      | None \<Rightarrow> first_bundle apis names)"

definition job_bundle :: "Glance \<Rightarrow> string option" where
  "job_bundle inst = first_bundle (g_GlanceAPIs (Spec inst)) (sorted_keys (g_GlanceAPIs (Spec inst)))"

definition bundle_mounts :: "k8s_lib \<Rightarrow> string option \<Rightarrow> vols_mounts" where
  "bundle_mounts L b =
     (case b of None \<Rightarrow> ([], []) | Some s \<Rightarrow> ([Ca_CreateVolume L s], Ca_CreateVolumeMounts L s))"

definition mycnf_mount :: VolumeMount where
  "mycnf_mount = config_mount ''/etc/my.cnf'' ''my.cnf''"

definition confd_mount :: "string \<Rightarrow> VolumeMount" where
  "confd_mount name = plain_mount name ''/etc/glance/glance.conf.d'' True"

section \<open>DbSyncJob\<close>

definition DbSyncJob :: "k8s_lib \<Rightarrow> Glance \<Rightarrow> string gomap \<Rightarrow> string gomap \<Rightarrow> JobObj" where
  "DbSyncJob L inst labels annotations =
     (let secret = o_Name inst @ ''-config-data'';
          (cav, cam) = bundle_mounts L (job_bundle inst);
          volumes = [secret_volume ''db-sync-config-data'' secret
                       [DefaultsConfigFileName, CustomConfigFileName],
                     secret_volume ''config-data'' secret []] @ cav;
          mounts = [confd_mount ''db-sync-config-data'', mycnf_mount] @ cam
      in \<lparr>job_Name = ServiceName @ ''-db-sync'', job_Namespace = o_Namespace inst,
          job_Labels = labels,
          job_Template =
           \<lparr>pt_Annotations = annotations, pt_Labels = [],
            pt_Spec =
             \<lparr>pod_SecurityContext = RestrictivePodSecurityContext,
              pod_ServiceAccountName = RbacResourceName inst,
              pod_AutomountServiceAccountToken = Some False, pod_HostPID = False,
              pod_RestartPolicy = ''OnFailure'',
              pod_Containers =
               [\<lparr>ct_Name = ServiceName @ ''-db-sync'', ct_Command = [''/bin/bash''],
                 ct_Args = [''-c'', DBSyncCommand], ct_Image = g_ContainerImage (Spec inst),
                 ct_SecurityContext = RestrictiveSecurityContext, ct_Env = MergeEnvs L [],
                 ct_VolumeMounts = mounts, ct_Resources = [], ct_ReadinessProbe = None,
                 ct_LivenessProbe = None\<rparr>],
              pod_Volumes = volumes, pod_NodeSelector = g_NodeSelector (Spec inst),
              pod_Affinity = None\<rparr>\<rparr>\<rparr>)"

section \<open>The cron jobs\<close>

definition cron_job ::
  "string \<Rightarrow> string \<Rightarrow> CronJobSpec \<Rightarrow> string \<Rightarrow> string \<Rightarrow> string \<Rightarrow> string \<Rightarrow> VolumeMount list \<Rightarrow>
     Volume list \<Rightarrow> string gomap option \<Rightarrow> Affinity option \<Rightarrow> CronJobObj" where
  "cron_job name ns cronSpec container img command account mounts volumes nodeSelector affinity =
     \<lparr>cj_Name = name, cj_Namespace = ns, cj_Schedule = cs_Schedule cronSpec,
      cj_ConcurrencyPolicy = ''Forbid'', cj_Annotations = cs_Annotations cronSpec,
      cj_Labels = cs_Labels cronSpec, cj_Parallelism = 1, cj_Completions = 1,
      cj_Template =
       \<lparr>pt_Annotations = [], pt_Labels = [],
        pt_Spec =
         \<lparr>pod_SecurityContext = RestrictivePodSecurityContext, pod_ServiceAccountName = account,
          pod_AutomountServiceAccountToken = Some False, pod_HostPID = False,
          pod_RestartPolicy = ''Never'',
          pod_Containers =
           [\<lparr>ct_Name = container, ct_Command = [''/bin/bash''], ct_Args = [''-c'', command],
             ct_Image = img, ct_SecurityContext = RestrictiveSecurityContext, ct_Env = [],
             ct_VolumeMounts = mounts, ct_Resources = [], ct_ReadinessProbe = None,
             ct_LivenessProbe = None\<rparr>],
          pod_Volumes = volumes, pod_NodeSelector = nodeSelector, pod_Affinity = affinity\<rparr>\<rparr>\<rparr>"

definition DBPurgeJob :: "k8s_lib \<Rightarrow> Glance \<Rightarrow> CronJobSpec \<Rightarrow> CronJobObj" where
  "DBPurgeJob L inst cronSpec =
     (let secret = o_Name inst @ ''-config-data'';
          (cav, cam) = bundle_mounts L (job_bundle inst);
          command = cs_Command cronSpec @ '' --config-dir /etc/glance/glance.conf.d db purge '' @
                    show_int (Age (g_DBPurge (Spec inst)));
          volumes = [secret_volume ''db-purge-config-data'' secret [DefaultsConfigFileName],
                     secret_volume ''config-data'' secret []] @ cav;
          mounts = [confd_mount ''db-purge-config-data'', mycnf_mount] @ cam
      in cron_job (cs_Name cronSpec) (o_Namespace inst) cronSpec (ServiceName @ ''-dbpurge'')
           (g_ContainerImage (Spec inst)) command (RbacResourceName inst) mounts volumes
           (g_NodeSelector (Spec inst)) None)"

text \<open>
  The claim is dereferenced: for the volume of a cleaner or pruner, then for the affinity of
  any job.
\<close>

definition ImageCacheJob :: "k8s_lib \<Rightarrow> GlanceAPI \<Rightarrow> CronJobSpec \<Rightarrow> CronJobObj go" where
  "ImageCacheJob L inst cronSpec =
     (case cs_PvcClaim cronSpec of
        None \<Rightarrow> Panic NilDereference
      | Some claim \<Rightarrow>
          (let command = cs_Command cronSpec @ '' --config-dir /etc/glance/glance.conf.d'';
               (cav, cam) = ca_mounts L (t_TLS (ASpec inst));
               cached = (cs_CjType cronSpec = CachePruner \<or> cs_CjType cronSpec = CacheCleaner);
               volumes = [secret_volume ''image-cache-config-data'' (o_Name inst @ ''-config-data'')
                            [DefaultsConfigFileName]] @ cav @
                         (if cached then GetCacheVolume claim else []);
               mounts = [confd_mount ''image-cache-config-data''] @ cam @
                        (if cached then GetCacheVolumeMount else [])
           in Ret (cron_job (cs_Name cronSpec) (o_Namespace inst) cronSpec (cs_Name cronSpec)
                 (a_ContainerImage (ASpec inst)) command (a_ServiceAccount (ASpec inst)) mounts
                 volumes (t_NodeSelector (ASpec inst))
                 (Some (ColocateWithPod (TrimPrefix claim CachePVCPrefix))))))"

section \<open>The bundle does not depend on the order of the map\<close>

lemma first_bundle_find:
  "first_bundle apis names =
     map_option (\<lambda>n. CaBundleSecretName (t_TLS (the (lookup apis n))))
       (find (\<lambda>n. \<exists>api. lookup apis n = Some api \<and> CaBundleSecretName (t_TLS api) \<noteq> []) names)"
  by (induction names) (auto split: option.splits)

lemma job_bundle_order:
  assumes "wf_map m" and "mset m = mset m'"
  shows "first_bundle m (sorted_keys m) = first_bundle m' (sorted_keys m')"
  using lookup_perm [OF assms] sorted_keys_perm [OF assms(2)] by (simp add: first_bundle_find)

lemma bundle_mounts_backed:
  "lawful_lib L \<Longrightarrow> backs (volume_names (fst (bundle_mounts L b))) (snd (bundle_mounts L b))"
  by (simp add: bundle_mounts_def lawful_lib_def split: option.splits)

definition template_backed :: "PodTemplate \<Rightarrow> bool" where
  "template_backed pt \<longleftrightarrow>
     list_all (\<lambda>c. backs (volume_names (pod_Volumes (pt_Spec pt))) (ct_VolumeMounts c))
       (pod_Containers (pt_Spec pt))"

lemma dbsync_backed: "lawful_lib L \<Longrightarrow> template_backed (job_Template (DbSyncJob L inst labels annotations))"
  using bundle_mounts_backed [of L "job_bundle inst"]
  by (auto simp: template_backed_def DbSyncJob_def Let_def case_prod_unfold secret_volume_def
      confd_mount_def mycnf_mount_def config_mount_def plain_mount_def intro: backs_mono)

lemma dbpurge_backed: "lawful_lib L \<Longrightarrow> template_backed (cj_Template (DBPurgeJob L inst cronSpec))"
  using bundle_mounts_backed [of L "job_bundle inst"]
  by (auto simp: template_backed_def DBPurgeJob_def cron_job_def Let_def case_prod_unfold
      secret_volume_def confd_mount_def mycnf_mount_def config_mount_def plain_mount_def
      intro: backs_mono)

lemma cache_backed:
  assumes "lawful_lib L" and "ImageCacheJob L inst cronSpec = Ret cj"
  shows "template_backed (cj_Template cj)"
proof -
  have ca: "backs (volume_names (fst (ca_mounts L (t_TLS (ASpec inst))))) (snd (ca_mounts L (t_TLS (ASpec inst))))"
    using assms(1) by (simp add: ca_mounts_def lawful_lib_def)
  show ?thesis
    using assms(2) ca
    by (auto simp: template_backed_def ImageCacheJob_def cron_job_def Let_def case_prod_unfold
        secret_volume_def confd_mount_def plain_mount_def GetCacheVolume_def GetCacheVolumeMount_def
        intro: backs_mono split: option.splits)
qed

section \<open>Properties\<close>

text \<open>
  Property C31. Every mount of a container of the database sync job, the purge job and the
  cache jobs names a volume of its pod.
\<close>

theorem jobs_mounts_backed:
  assumes "lawful_lib L" and "ImageCacheJob L api cacheSpec = Ret cacheJob"
  shows "template_backed (job_Template (DbSyncJob L inst labels annotations)) \<and>
    template_backed (cj_Template (DBPurgeJob L inst cronSpec)) \<and>
    template_backed (cj_Template cacheJob)"
  using dbsync_backed [OF assms(1)] dbpurge_backed [OF assms(1)] cache_backed [OF assms] by blast

definition sample_cron :: CronJobSpec where
  "sample_cron =
     \<lparr>cs_Name = ''glance-pruner'', cs_PvcClaim = Some ''glance-cache-glance-a-api-0'',
      cs_Schedule = ''1 0 * * *'', cs_Command = GlanceCachePruner, cs_CjType = CachePruner,
      cs_Labels = [], cs_Annotations = []\<rparr>"

theorem jobs_mounts_backed_witness:
  "template_backed (job_Template (DbSyncJob ref_lib (sample_glance [] [] []) [] []))"
proof -
  obtain cj where "ImageCacheJob ref_lib cached_api sample_cron = Ret cj"
    by (simp add: ImageCacheJob_def sample_cron_def case_prod_unfold Let_def)
  from jobs_mounts_backed [OF lawful_ref_lib this] show ?thesis by blast
qed

text \<open>
  Property C33. The certificate bundle of the jobs does not depend on the order in which the
  run-time walks the map of instances, so a job is not rolled out again for the order's sake.
\<close>

theorem job_order_irrelevant:
  assumes "wf_map (g_GlanceAPIs (Spec inst))" and "mset m = mset (g_GlanceAPIs (Spec inst))"
  shows "DbSyncJob L (inst\<lparr>Spec := (Spec inst)\<lparr>g_GlanceAPIs := m\<rparr>\<rparr>) labels annotations =
      DbSyncJob L inst labels annotations \<and>
    DBPurgeJob L (inst\<lparr>Spec := (Spec inst)\<lparr>g_GlanceAPIs := m\<rparr>\<rparr>) cronSpec =
      DBPurgeJob L inst cronSpec"
  using job_bundle_order [OF assms(1) assms(2) [symmetric]]
  by (simp add: DbSyncJob_def DBPurgeJob_def job_bundle_def RbacResourceName_def)

theorem job_order_irrelevant_witness:
  "DbSyncJob ref_lib ((sample_glance [] [] two_splits)\<lparr>Spec :=
       (Spec (sample_glance [] [] two_splits))\<lparr>g_GlanceAPIs := rev two_splits\<rparr>\<rparr>) [] [] =
   DbSyncJob ref_lib (sample_glance [] [] two_splits) [] []"
  using job_order_irrelevant [of "sample_glance [] [] two_splits" "rev two_splits" ref_lib "[]" "[]" sample_cron]
  by (simp add: sample_glance_def two_splits_def wf_map_def)

text \<open>
  A cache job runs beside the pod whose cache it cleans: from the name of the
  claim, which is the prefix and the name of the pod, the affinity is that pod's.
\<close>

theorem cache_job_colocated:
  assumes "cs_PvcClaim cronSpec = Some (CachePVCPrefix @ stsName inst @ ''-'' @ show_nat i)"
  shows "\<exists>cj. ImageCacheJob L inst cronSpec = Ret cj \<and>
    pod_Affinity (pt_Spec (cj_Template cj)) =
      Some (ColocateWithPod (stsName inst @ ''-'' @ show_nat i))"
  using assms by (simp add: ImageCacheJob_def cron_job_def Let_def case_prod_unfold)

theorem cache_job_colocated_witness:
  "\<exists>cj. ImageCacheJob ref_lib (sample_api ''glance-a-edge'' ''edge'')
      (sample_cron\<lparr>cs_PvcClaim := Some (CachePVCPrefix @ stsName (sample_api ''glance-a-edge'' ''edge'') @ ''-'' @ show_nat 2)\<rparr>) = Ret cj \<and>
    pod_Affinity (pt_Spec (cj_Template cj)) = Some (ColocateWithPod ''glance-a-edge-api-2'')"
proof -
  have "stsName (sample_api ''glance-a-edge'' ''edge'') @ ''-'' @ show_nat 2 = ''glance-a-edge-api-2''"
    by code_simp
  then show ?thesis
    using cache_job_colocated
      [of "sample_cron\<lparr>cs_PvcClaim := Some (CachePVCPrefix @ stsName (sample_api ''glance-a-edge'' ''edge'') @ ''-'' @ show_nat 2)\<rparr>"
        "sample_api ''glance-a-edge'' ''edge''" 2 ref_lib] by simp
qed

end
