(* ===== verification/Ctl.thy ===== *)
theory Ctl
  imports Jobs
begin

text \<open>
  The language the controllers are written in: actions on a state that continue with a value,
  return from the enclosing function, or panic. \<open>fn\<close> is a function boundary; everything else
  reads as the statement of the source it is named after.
\<close>

section \<open>Actions\<close>

datatype ('r, 'a) out = Next 'a | Return 'r | Crash panic

type_synonym ('s, 'r, 'a) act = "'s \<Rightarrow> ('r, 'a) out \<times> 's"

definition ret :: "'a \<Rightarrow> ('s, 'r, 'a) act" where
  "ret x s = (Next x, s)"

definition exit_with :: "'r \<Rightarrow> ('s, 'r, 'a) act" where
  "exit_with r s = (Return r, s)"

definition crash :: "panic \<Rightarrow> ('s, 'r, 'a) act" where
  "crash p s = (Crash p, s)"

definition bind :: "('s, 'r, 'a) act \<Rightarrow> ('a \<Rightarrow> ('s, 'r, 'b) act) \<Rightarrow> ('s, 'r, 'b) act" where
  "bind m f s =
     (case m s of
        (Next x, s') \<Rightarrow> f x s'
      | (Return r, s') \<Rightarrow> (Return r, s')
      | (Crash p, s') \<Rightarrow> (Crash p, s'))"

definition seq :: "('s, 'r, 'a) act \<Rightarrow> ('s, 'r, 'b) act \<Rightarrow> ('s, 'r, 'b) act" where
  "seq m n = bind m (\<lambda>_. n)"

definition modify :: "('s \<Rightarrow> 's) \<Rightarrow> ('s, 'r, unit) act" where
  "modify f s = (Next (), f s)"

definition gets :: "('s \<Rightarrow> 'a) \<Rightarrow> ('s, 'r, 'a) act" where
  "gets f s = (Next (f s), s)"

definition whenever :: "bool \<Rightarrow> ('s, 'r, unit) act \<Rightarrow> ('s, 'r, unit) act" where
  "whenever b m = (if b then m else ret ())"

definition fn :: "('s, 'a, 'a) act \<Rightarrow> ('s, 'r, 'a) act" where
  "fn m s =
     (case m s of
        (Next x, s') \<Rightarrow> (Next x, s')
      | (Return x, s') \<Rightarrow> (Next x, s')
      | (Crash p, s') \<Rightarrow> (Crash p, s'))"

definition of_go :: "'a go \<Rightarrow> ('s, 'r, 'a) act" where
  "of_go g = (case g of Ret x \<Rightarrow> ret x | Panic p \<Rightarrow> crash p)"

fun for_each :: "('a \<Rightarrow> ('s, 'r, unit) act) \<Rightarrow> 'a list \<Rightarrow> ('s, 'r, unit) act" where
  "for_each f [] = ret ()"
| "for_each f (x # xs) = seq (f x) (for_each f xs)"

text \<open>A loop that threads a local variable.\<close>

fun for_acc :: "('a \<Rightarrow> 'b \<Rightarrow> ('s, 'r, 'b) act) \<Rightarrow> 'a list \<Rightarrow> 'b \<Rightarrow> ('s, 'r, 'b) act" where
  "for_acc f [] acc = ret acc"
| "for_acc f (x # xs) acc = bind (f x acc) (for_acc f xs)"

text \<open>\<^verbatim>\<open>x, err := m; if err != nil { h }\<close>, with a value and without.\<close>

definition attempt ::
  "('s, 'r, 'e + 'a) act \<Rightarrow> ('e \<Rightarrow> ('s, 'r, 'b) act) \<Rightarrow> ('a \<Rightarrow> ('s, 'r, 'b) act) \<Rightarrow> ('s, 'r, 'b) act" where
  "attempt m h f = bind m (\<lambda>v. case v of Inl e \<Rightarrow> h e | Inr x \<Rightarrow> f x)"

definition must ::
  "('s, 'r, 'e option) act \<Rightarrow> ('e \<Rightarrow> ('s, 'r, unit) act) \<Rightarrow> ('s, 'r, unit) act" where
  "must m h = bind m (\<lambda>err. case err of Some e \<Rightarrow> h e | None \<Rightarrow> ret ())"

section \<open>What a run can do\<close>

text \<open>\<open>ends m P\<close>: every run of \<open>m\<close>, from any state, satisfies \<open>P\<close> of the state before, the
  outcome and the state after.\<close>

definition ends :: "('s, 'r, 'a) act \<Rightarrow> ('s \<Rightarrow> ('r, 'a) out \<Rightarrow> 's \<Rightarrow> bool) \<Rightarrow> bool" where
  "ends m P \<longleftrightarrow> (\<forall>s. P s (fst (m s)) (snd (m s)))"

lemma endsD: "ends m P \<Longrightarrow> m s = (out, s') \<Longrightarrow> P s out s'"
  by (metis ends_def fst_conv snd_conv)

lemma ends_mono: "ends m P \<Longrightarrow> (\<And>s out s'. P s out s' \<Longrightarrow> Q s out s') \<Longrightarrow> ends m Q"
  by (simp add: ends_def)

lemma bind_Next_iff:
  "bind m f s = (Next y, s') \<longleftrightarrow> (\<exists>x s1. m s = (Next x, s1) \<and> f x s1 = (Next y, s'))"
  by (auto simp: bind_def split: prod.splits out.splits)

lemma bind_Return_iff:
  "bind m f s = (Return r, s') \<longleftrightarrow>
     m s = (Return r, s') \<or> (\<exists>x s1. m s = (Next x, s1) \<and> f x s1 = (Return r, s'))"
  by (auto simp: bind_def split: prod.splits out.splits)

lemma fn_Next_iff:
  "fn m s = (Next x, s') \<longleftrightarrow> m s = (Next x, s') \<or> m s = (Return x, s')"
  by (auto simp: fn_def split: prod.splits out.splits)

lemma fn_not_Return [simp]: "fn m s \<noteq> (Return r, s')"
  by (auto simp: fn_def split: prod.splits out.splits)

lemma seq_Next_iff:
  "seq m n s = (Next y, s') \<longleftrightarrow> (\<exists>x s1. m s = (Next x, s1) \<and> n s1 = (Next y, s'))"
  by (simp add: seq_def bind_Next_iff)

lemma seq_Return_iff:
  "seq m n s = (Return r, s') \<longleftrightarrow>
     m s = (Return r, s') \<or> (\<exists>x s1. m s = (Next x, s1) \<and> n s1 = (Return r, s'))"
  by (simp add: seq_def bind_Return_iff)

lemma ret_run [simp]: "ret x s = (out, s') \<longleftrightarrow> out = Next x \<and> s' = s"
  by (auto simp: ret_def)

lemma exit_run [simp]: "exit_with r s = (out, s') \<longleftrightarrow> out = Return r \<and> s' = s"
  by (auto simp: exit_with_def)

lemma crash_run [simp]: "crash p s = (out, s') \<longleftrightarrow> out = Crash p \<and> s' = s"
  by (auto simp: crash_def)

lemma modify_run [simp]: "modify g s = (out, s') \<longleftrightarrow> out = Next () \<and> s' = g s"
  by (auto simp: modify_def)

lemma gets_run [simp]: "gets h s = (out, s') \<longleftrightarrow> out = Next (h s) \<and> s' = s"
  by (auto simp: gets_def)

lemma attempt_Next_iff:
  "attempt m h f s = (Next y, s') \<longleftrightarrow>
     (\<exists>s1. (\<exists>e. m s = (Next (Inl e), s1) \<and> h e s1 = (Next y, s')) \<or>
           (\<exists>x. m s = (Next (Inr x), s1) \<and> f x s1 = (Next y, s')))"
  by (auto simp: attempt_def bind_Next_iff split: sum.splits) (metis sum.exhaust)+

lemma attempt_Return_iff:
  "attempt m h f s = (Return r, s') \<longleftrightarrow>
     m s = (Return r, s') \<or>
     (\<exists>s1. (\<exists>e. m s = (Next (Inl e), s1) \<and> h e s1 = (Return r, s')) \<or>
           (\<exists>x. m s = (Next (Inr x), s1) \<and> f x s1 = (Return r, s')))"
  by (auto simp: attempt_def bind_Return_iff split: sum.splits) (metis sum.exhaust)+

lemma must_Next_iff:
  "must m h s = (Next y, s') \<longleftrightarrow>
     m s = (Next None, s') \<or> (\<exists>e s1. m s = (Next (Some e), s1) \<and> h e s1 = (Next y, s'))"
  by (auto simp: must_def bind_Next_iff split: option.splits)

lemma must_Return_iff:
  "must m h s = (Return r, s') \<longleftrightarrow>
     m s = (Return r, s') \<or> (\<exists>e s1. m s = (Next (Some e), s1) \<and> h e s1 = (Return r, s'))"
  by (auto simp: must_def bind_Return_iff split: option.splits)

lemma whenever_Next_iff:
  "whenever b m s = (Next x, s') \<longleftrightarrow> (if b then m s = (Next x, s') else s' = s)"
  by (auto simp: whenever_def)

lemma whenever_Return_iff: "whenever b m s = (Return r, s') \<longleftrightarrow> b \<and> m s = (Return r, s')"
  by (auto simp: whenever_def)

lemma of_go_Next_iff: "of_go g s = (Next x, s') \<longleftrightarrow> g = Ret x \<and> s' = s"
  by (auto simp: of_go_def split: go.splits)

lemma of_go_not_Return [simp]: "of_go g s \<noteq> (Return r, s')"
  by (auto simp: of_go_def split: go.splits)

lemmas run_iffs =
  bind_Next_iff bind_Return_iff seq_Next_iff seq_Return_iff fn_Next_iff whenever_Next_iff
  whenever_Return_iff of_go_Next_iff attempt_Next_iff attempt_Return_iff must_Next_iff must_Return_iff

text \<open>Executable equations, for running an action.\<close>

lemmas run_defs =
  ret_def exit_with_def crash_def bind_def seq_def modify_def gets_def whenever_def fn_def of_go_def attempt_def
  must_def

section \<open>Relations that every step keeps\<close>

text \<open>
  A controller is a long sequence of small steps. What holds of each step and composes holds
  of every run: the interface asks for a reflexive, transitive relation between states; its
  lemmas carry the relation through each construct of the language.
\<close>

named_theorems keeps_defs \<open>functions that are unfolded in a proof about their steps\<close>

definition keeps :: "('s \<Rightarrow> 's \<Rightarrow> bool) \<Rightarrow> ('s, 'r, 'a) act \<Rightarrow> bool" where
  "keeps R m \<longleftrightarrow> (\<forall>s. R s (snd (m s)))"

lemma keepsD: "keeps R m \<Longrightarrow> m s = (out, s') \<Longrightarrow> R s s'"
  by (metis keeps_def snd_conv)

lemma keeps_if: "keeps R m \<Longrightarrow> keeps R n \<Longrightarrow> keeps R (if b then m else n)"
  by simp

lemma keeps_option:
  "keeps R m \<Longrightarrow> (\<And>x. keeps R (f x)) \<Longrightarrow> keeps R (case o' of None \<Rightarrow> m | Some x \<Rightarrow> f x)"
  by (cases o') simp_all

lemma keeps_sum:
  "(\<And>e. keeps R (m e)) \<Longrightarrow> (\<And>x. keeps R (f x)) \<Longrightarrow> keeps R (case v of Inl e \<Rightarrow> m e | Inr x \<Rightarrow> f x)"
  by (cases v) simp_all

lemma keeps_prod: "(\<And>x y. keeps R (f x y)) \<Longrightarrow> keeps R (case p of (x, y) \<Rightarrow> f x y)"
  by (cases p) simp

lemma keeps_prod2:
  "(\<And>x y. keeps R (f x y z)) \<Longrightarrow> keeps R ((case p of (x, y) \<Rightarrow> f x y) z)"
  by (cases p) simp

lemma keeps_list:
  "keeps R m \<Longrightarrow> (\<And>x xs. keeps R (f x xs)) \<Longrightarrow> keeps R (case l of [] \<Rightarrow> m | x # xs \<Rightarrow> f x xs)"
  by (cases l) simp_all

lemma keeps_Let: "(\<And>x. keeps R (f x)) \<Longrightarrow> keeps R (Let v f)"
  by simp

locale step_order =
  fixes R :: "'s \<Rightarrow> 's \<Rightarrow> bool"
  assumes R_refl: "R s s"
    and R_trans: "R s1 s2 \<Longrightarrow> R s2 s3 \<Longrightarrow> R s1 s3"
begin

lemma keeps_basic:
  "keeps R (ret x)" "keeps R (exit_with r)" "keeps R (crash p)" "keeps R (gets h)"
  by (simp_all add: keeps_def ret_def exit_with_def crash_def gets_def R_refl)

lemma keeps_modify: "(\<And>s. R s (g s)) \<Longrightarrow> keeps R (modify g)"
  by (simp add: keeps_def modify_def)

lemma keeps_bind: "keeps R m \<Longrightarrow> (\<And>x. keeps R (f x)) \<Longrightarrow> keeps R (bind m f)"
  unfolding keeps_def bind_def
  by (auto split: prod.splits out.splits) (metis R_trans snd_conv)+

lemma keeps_seq: "keeps R m \<Longrightarrow> keeps R n \<Longrightarrow> keeps R (seq m n)"
  unfolding seq_def by (rule keeps_bind)

lemma keeps_whenever: "keeps R m \<Longrightarrow> keeps R (whenever b m)"
  by (simp add: whenever_def keeps_basic)

lemma keeps_fn: "keeps R m \<Longrightarrow> keeps R (fn m)"
  unfolding keeps_def fn_def by (auto split: prod.splits out.splits) (metis snd_conv)+

lemma keeps_of_go: "keeps R (of_go g)"
  by (simp add: of_go_def keeps_basic split: go.splits)

lemma keeps_for_each: "(\<And>x. keeps R (f x)) \<Longrightarrow> keeps R (for_each f xs)"
  by (induction xs) (simp_all add: keeps_basic keeps_seq)

lemma keeps_for_acc: "(\<And>x acc. keeps R (f x acc)) \<Longrightarrow> keeps R (for_acc f xs acc)"
  by (induction xs arbitrary: acc) (simp_all add: keeps_basic keeps_bind)

lemma keeps_attempt:
  "keeps R m \<Longrightarrow> (\<And>e. keeps R (h e)) \<Longrightarrow> (\<And>x. keeps R (f x)) \<Longrightarrow> keeps R (attempt m h f)"
  unfolding attempt_def by (intro keeps_bind keeps_sum)

lemma keeps_must: "keeps R m \<Longrightarrow> (\<And>e. keeps R (h e)) \<Longrightarrow> keeps R (must m h)"
  unfolding must_def by (intro keeps_bind keeps_option keeps_basic)

lemmas keeps_rules =
  keeps_attempt keeps_must keeps_basic keeps_bind keeps_seq keeps_whenever keeps_fn keeps_of_go keeps_for_each
  keeps_for_acc keeps_if keeps_option keeps_sum keeps_list keeps_prod keeps_prod2 keeps_Let

end

end
