(* ===== verification/World.thy ===== *)
theory World
  imports Ctl
begin

text \<open>
  What a reconcile works on: the instance, its conditions while the run lasts, and the trace of
  the calls made to code and services outside the repository (newest first). The environment
  answers a call from the trace that ends in it, so an answer may depend on everything asked
  before. Pure functions of other repositories are fields of the environment too.
\<close>

section \<open>Results\<close>

text \<open>\<^verbatim>\<open>ctrl.Result\<close>, delays in seconds.\<close>

datatype ctrl_result = EmptyResult | RequeueAfter int | Requeue

type_synonym reconcile_result = "ctrl_result \<times> go_error option"

definition ShortDuration :: int where "ShortDuration = 5"
definition NormalDuration :: int where "NormalDuration = 10"

definition ResultRequeue :: ctrl_result where "ResultRequeue = RequeueAfter NormalDuration"

text \<open>The result with which a step lets the reconcile go on.\<close>

definition proceeds :: "reconcile_result \<Rightarrow> bool" where
  "proceeds r \<longleftrightarrow> fst r = EmptyResult \<and> snd r = None"

lemma proceeds_pair: "(EmptyResult, None) = r \<longleftrightarrow> proceeds r"
  by (cases r) (auto simp: proceeds_def)

section \<open>Objects of other repositories\<close>

record MemcachedObj =
  mc_obj :: opaque
  mc_Ready :: bool

record Database =
  db_UserName :: string
  db_Password :: string
  db_Hostname :: string
  db_ClientConfig :: "bool \<Rightarrow> string"

record KeystoneServiceSpec =
  kss_ServiceType :: string
  kss_ServiceName :: string
  kss_ServiceDescription :: string
  kss_Enabled :: bool
  kss_ServiceUser :: string
  kss_Secret :: string
  kss_PasswordSelector :: string

text \<open>The values of the parameter map of a configuration template.\<close>

datatype tval = TBool bool | TStr string | TInt int | TMap "(string \<times> (string \<times> tval) list) list"

type_synonym params = "(string \<times> tval) list"

text \<open>\<^verbatim>\<open>util.Template\<close> of lib-common.\<close>

record Template =
  tp_Name :: string
  tp_Namespace :: string
  tp_Scripts :: bool
  tp_InstanceType :: string
  tp_ConfigOptions :: params
  tp_CustomData :: "string gomap"
  tp_CommonTemplates :: "string list"
  tp_Labels :: "string gomap"

text \<open>A service as \<^verbatim>\<open>service.NewService\<close> is given it, with the annotations added after.\<close>

record ServiceObj =
  svc_Name :: string
  svc_Namespace :: string
  svc_Labels :: "string gomap"
  svc_Selector :: "string gomap"
  svc_Port :: int
  svc_ClusterIP :: string
  svc_Override :: "RoutedOverrideSpec option"
  svc_Annotations :: "string gomap"

record RegisteredLimit =
  rl_RegionID :: string
  rl_ServiceID :: string
  rl_Description :: string
  rl_ResourceName :: string
  rl_DefaultLimit :: int

record TransportURLSpec =
  tu_Name :: string
  tu_Namespace :: string
  tu_Labels :: "string gomap"
  tu_RabbitmqClusterName :: string
  tu_Username :: string
  tu_Vhost :: string

text \<open>What \<^verbatim>\<open>util.ObjectHash\<close> is applied to.\<close>

datatype hash_input =
    HashEnv "(string \<times> string) list"
  | HashBackends "string list"
  | HashStorage Storage
  | HashString string

section \<open>Calls\<close>

datatype (plugins only: code size) call =
    CNewHelper
  | CGetGlance string string
  | CPatchGlance Glance cond_log
  | CGetGlanceAPI string string
  | CPatchGlanceAPI GlanceAPI cond_log
  | CUpdateGlanceAPI GlanceAPI
  | CDeleteGlanceAPI GlanceAPI
  | CListGlanceAPIs string
  | CReadGlanceAPI string string
  | CWriteGlanceAPI GlanceAPI
  | CReconcileRbac
  | CTransportURL TransportURLSpec
  | CGetMemcachedByName string string
  | CVerifySecretFields string string "string list" int
  | CGetNADWithName string string
  | CEnsureNetworksAnnotation "opaque list"
  | CEnsureMariaDBAccount string string
  | CCreateOrPatchDB string string string
  | CWaitForDBCreated
  | CGetDatabaseByNameAndAccount string string string
  | CDeleteDBFinalizer
  | CDeleteUnusedMariaDBAccountFinalizers string string string
  | CEnsureSecrets "Template list"
  | CKeystoneService KeystoneServiceSpec string "string gomap" int
  | CGetKeystoneServiceWithName string string
  | CUpdateKeystoneService "string list"
  | CDoJob JobObj bool int string
  | CGetKeystoneAPI string
  | CGetScopedAdminServiceClient
  | CCreateOrUpdateRegisteredLimit RegisteredLimit
  | CListRegisteredLimits string
  | CDeleteRegisteredLimit string
  | CCronJob CronJobObj
  | CService ServiceObj
  | CListPVCs string "string gomap"
  | CEnsureBackupLabels PVC
  | CGetKeystoneEndpointWithName string string
  | CUpdateKeystoneEndpoint "string list"
  | CDeleteKeystoneEndpointWithName string string
  | CKeystoneEndpoint string string "string gomap" "string gomap"
  | CRemoveACSecretConsumerFinalizer string string string
  | CManageACSecretFinalizer string string string string
  | CEnsureDeletedTopologyRef "TopoRef option" string
  | CEnsureServiceTopology "TopoRef option" "TopoRef option" string "string gomap"
  | CListCinder string
  | CValidateCACertSecret string string
  | CValidateCertSecrets TLSAPI string
  | CStatefulSet StatefulSetObj
  | CGetStatefulSetWithName string string
  | CDeleteStatefulSet string string
  | CVerifyNetworkStatus "string list" "string gomap" int
  | CGetPod string string
  | CGetCronJob string string
  | CDeleteCronJob string string
  | CGetSecret string string
  | CGetKeystoneEndpointCR string string
  | CGetHorizon string

section \<open>The environment\<close>

text \<open>
  \<open>resp_found\<close> is what \<^verbatim>\<open>controllerutil.CreateOrUpdate\<close> reads before it calls back: an error,
  no object, or the object; \<open>resp_api\<close> the object it gives after writing. \<open>resp_job\<close> is the
  outcome of a job, whether its hash changed, and the hash. \<open>resp_keystone\<close> is the outcome,
  the mirrored condition and the service id; \<open>resp_rbac\<close> is the outcome and the conditions it
  sets on the instance.
\<close>

record env =
  resp_err :: "call list \<Rightarrow> go_error option"
  resp_res :: "call list \<Rightarrow> reconcile_result"
  resp_glance :: "call list \<Rightarrow> go_error + Glance"
  resp_api :: "call list \<Rightarrow> go_error + GlanceAPI"
  resp_apis :: "call list \<Rightarrow> go_error + GlanceAPI list"
  resp_found :: "call list \<Rightarrow> go_error + GlanceAPI option"
  resp_verify :: "call list \<Rightarrow> string \<times> reconcile_result"
  resp_nad :: "call list \<Rightarrow> go_error + opaque option"
  resp_annotations :: "call list \<Rightarrow> string gomap \<times> go_error option"
  resp_env :: "call list \<Rightarrow> string gomap \<times> go_error option"
  resp_memcached :: "call list \<Rightarrow> go_error + MemcachedObj"
  resp_str :: "call list \<Rightarrow> go_error + string"
  resp_strs :: "call list \<Rightarrow> go_error + string list"
  resp_rbac :: "call list \<Rightarrow> reconcile_result \<times> condition list"
  resp_map :: "call list \<Rightarrow> go_error + string gomap"
  resp_db :: "call list \<Rightarrow> Database"
  resp_getdb :: "call list \<Rightarrow> go_error + Database"
  resp_keystone :: "call list \<Rightarrow> reconcile_result \<times> condition option \<times> string"
  resp_job :: "call list \<Rightarrow> reconcile_result \<times> bool \<times> string"
  resp_pvcs :: "call list \<Rightarrow> go_error + PVC list"
  resp_topology :: "call list \<Rightarrow> go_error + opaque option"
  resp_sts :: "call list \<Rightarrow> reconcile_result \<times> bool \<times> int"
  resp_network :: "call list \<Rightarrow> go_error + (bool \<times> string list gomap)"
  resp_keystoneapi :: "call list \<Rightarrow> go_error + ((endpoint \<Rightarrow> go_error + string) \<times> string)"
  all_sub_true :: "cond_log \<Rightarrow> bool"
  mirror :: "cond_log \<Rightarrow> ctype \<Rightarrow> condition option"
  is_unknown :: "cond_log \<Rightarrow> ctype \<Rightarrow> bool"
  higher_prio :: "condition option \<Rightarrow> condition option \<Rightarrow> condition option"
  finalizer :: string
  AddFinalizer :: "string list \<Rightarrow> string list \<times> bool"
  RemoveFinalizer :: "string list \<Rightarrow> string list \<times> bool"
  GetBoolFromAnnotation :: bool_annotation
  GetLabels :: "string \<Rightarrow> string \<Rightarrow> string gomap \<Rightarrow> string gomap"
  SetControllerReference :: "string \<Rightarrow> GlanceAPI \<Rightarrow> go_error + GlanceAPI"
  QuantityValue :: "opaque \<Rightarrow> int"
  NewService :: "ServiceObj \<Rightarrow> go_error option"
  GetServiceHostname :: "ServiceObj \<Rightarrow> string"
  GetServiceType :: "ServiceObj \<Rightarrow> string"
  GetAPIEndpoint :: "ServiceObj \<Rightarrow> string option \<Rightarrow> bool \<Rightarrow> go_error + string"
  AnnotationEndpointKey :: string
  AnnotationIngressCreateKey :: string
  AnnotationHostnameKey :: string
  AdditionalSubjectNamesKey :: string
  DefaultClusterInternalDomain :: string
  ObjectHash :: "hash_input \<Rightarrow> go_error + string"
  SetHash :: "string gomap option \<Rightarrow> string \<Rightarrow> string \<Rightarrow> string gomap option \<times> bool"
  ExtendCustomServiceConfig :: "string \<Rightarrow> string \<times> string \<times> string \<Rightarrow> string"
  MemcachedServers :: "opaque \<Rightarrow> string"
  MemcachedServersWithInet :: "opaque \<Rightarrow> string"
  MTLSPaths :: "string \<times> string \<times> string"
  ComponentSelector :: string
  OwnerSelector :: string
  k8s :: k8s_lib
  HorizonEndpoint :: "opaque \<Rightarrow> go_error + string"
  CABundleKey :: string
  TLSHashName :: string
  InputHashName :: string
  ACIDSecretKey :: string
  ACSecretSecretKey :: string
  int32_overflow :: "float64 \<Rightarrow> int"

section \<open>The state of a run\<close>

record 'i world =
  w_inst :: 'i
  w_conds :: cond_log
  w_trace :: "call list"

definition call :: "call \<Rightarrow> (call list \<Rightarrow> 'a) \<Rightarrow> ('i world, 'r, 'a) act" where
  "call c f w = (Next (f (c # w_trace w)), w\<lparr>w_trace := c # w_trace w\<rparr>)"

definition cond :: "cond_op \<Rightarrow> ('i world, 'r, unit) act" where
  "cond op = modify (\<lambda>w. w\<lparr>w_conds := op # w_conds w\<rparr>)"

definition set_false :: "ctype \<Rightarrow> reason \<Rightarrow> severity \<Rightarrow> message \<Rightarrow> ('i world, 'r, unit) act" where
  "set_false t r s m = cond (CSet (Some (FalseCondition t r s m)))"

text \<open>The message of an error, and the one of a condition marked true.\<close>

definition set_error :: "ctype \<Rightarrow> string \<Rightarrow> go_error \<Rightarrow> ('i world, 'r, unit) act" where
  "set_error t msg err = set_false t ErrorReason SeverityWarning (LibMsg msg [error_text err])"

definition mark_true :: "ctype \<Rightarrow> string \<Rightarrow> ('i world, 'r, unit) act" where
  "mark_true t msg = cond (CMarkTrue t (LibMsg msg []))"

definition mark_false :: "ctype \<Rightarrow> reason \<Rightarrow> severity \<Rightarrow> message \<Rightarrow> ('i world, 'r, unit) act" where
  "mark_false t r s m = cond (CMarkFalse t r s m)"

definition read :: "('i \<Rightarrow> 'a) \<Rightarrow> ('i world, 'r, 'a) act" where
  "read f = gets (\<lambda>w. f (w_inst w))"

definition set_inst :: "('i \<Rightarrow> 'i) \<Rightarrow> ('i world, 'r, unit) act" where
  "set_inst f = modify (\<lambda>w. w\<lparr>w_inst := f (w_inst w)\<rparr>)"

lemmas world_defs = call_def cond_def set_false_def set_error_def mark_true_def mark_false_def read_def set_inst_def

lemma call_run [simp]:
  "call c f w = (out, w') \<longleftrightarrow> out = Next (f (c # w_trace w)) \<and> w' = w\<lparr>w_trace := c # w_trace w\<rparr>"
  by (auto simp: call_def)

lemma cond_run [simp]:
  "cond op w = (out, w') \<longleftrightarrow> out = Next () \<and> w' = w\<lparr>w_conds := op # w_conds w\<rparr>"
  by (simp add: cond_def)

lemma read_run [simp]: "read f w = (out, w') \<longleftrightarrow> out = Next (f (w_inst w)) \<and> w' = w"
  by (simp add: read_def)

lemma set_inst_run [simp]:
  "set_inst f w = (out, w') \<longleftrightarrow> out = Next () \<and> w' = w\<lparr>w_inst := f (w_inst w)\<rparr>"
  by (simp add: set_inst_def)

lemma mark_false_run [simp]:
  "mark_false t r s m w = (out, w') \<longleftrightarrow>
     out = Next () \<and> w' = w\<lparr>w_conds := CMarkFalse t r s m # w_conds w\<rparr>"
  by (simp add: mark_false_def)

lemma mark_true_run [simp]:
  "mark_true t m w = (out, w') \<longleftrightarrow>
     out = Next () \<and> w' = w\<lparr>w_conds := CMarkTrue t (LibMsg m []) # w_conds w\<rparr>"
  by (simp add: mark_true_def)

lemma set_false_run [simp]:
  "set_false t r s m w = (out, w') \<longleftrightarrow>
     out = Next () \<and> w' = w\<lparr>w_conds := CSet (Some (FalseCondition t r s m)) # w_conds w\<rparr>"
  by (simp add: set_false_def)

lemma set_error_run [simp]:
  "set_error t m e w = (out, w') \<longleftrightarrow>
     out = Next () \<and> w' = w\<lparr>w_conds := CSet (Some (FalseCondition t ErrorReason SeverityWarning
       (LibMsg m [error_text e]))) # w_conds w\<rparr>"
  by (simp add: set_error_def)

end
