(* ===== verification/Common.thy ===== *)
theory Common
  imports World
begin

text \<open>
  The functions both controllers share (internal/controller/glance_common.go). A parameter the
  source passes by pointer and updates is returned.
\<close>

section \<open>verifyServiceSecret\<close>

definition verifyServiceSecret ::
  "env \<Rightarrow> string \<Rightarrow> string \<Rightarrow> string list \<Rightarrow> int \<Rightarrow> string gomap \<Rightarrow>
     ('i world, 'r, reconcile_result \<times> string gomap) act" where
  "verifyServiceSecret E ns secretName expectedFields requeueTimeout envVars =
     fn (bind (call (CVerifySecretFields ns secretName expectedFields requeueTimeout) (resp_verify E))
       (\<lambda>(hash, res, err).
          case err of
            Some e \<Rightarrow>
              seq (set_error InputReadyCondition ''InputReadyErrorMessage'' e)
                  (exit_with ((res, Some e), envVars))
          | None \<Rightarrow>
              if res \<noteq> EmptyResult then
                seq (set_false InputReadyCondition ErrorReason SeverityWarning
                       (LibMsg ''InputReadyWaitingMessage'' []))
                    (exit_with ((res, None), envVars))
              else ret ((EmptyResult, None), AList.update secretName hash envVars)))"

section \<open>ensureNAD\<close>

text \<open>The loop over the attachments; a nil definition is left out.\<close>

definition nad_step ::
  "env \<Rightarrow> string \<Rightarrow> string \<Rightarrow> opaque list \<Rightarrow>
     ('i world, string gomap \<times> reconcile_result, opaque list) act" where
  "nad_step E ns netAtt nadList =
     bind (call (CGetNADWithName netAtt ns) (resp_nad E)) (\<lambda>r.
       case r of
         Inl err \<Rightarrow>
           if IsNotFound err then
             seq (set_false NetworkAttachmentsReadyCondition ErrorReason SeverityWarning
                    (LibMsg ''NetworkAttachmentsReadyWaitingMessage'' [netAtt]))
                 (exit_with ([], ResultRequeue, None))
           else
             seq (set_error NetworkAttachmentsReadyCondition ''NetworkAttachmentsReadyErrorMessage'' err)
                 (exit_with ([], EmptyResult, Some err))
       | Inr None \<Rightarrow> ret nadList
       | Inr (Some nad) \<Rightarrow> ret (nadList @ [nad]))"

definition ensureNAD ::
  "env \<Rightarrow> string \<Rightarrow> string list \<Rightarrow> ('i world, 'r, string gomap \<times> reconcile_result) act" where
  "ensureNAD E ns nAttach =
     fn (bind (for_acc (nad_step E ns) nAttach []) (\<lambda>nadList.
         bind (call (CEnsureNetworksAnnotation nadList) (resp_annotations E)) (\<lambda>(annotations, err).
           case err of
             Some e \<Rightarrow>
               exit_with (annotations, EmptyResult,
                 Some (Wrapped (''failed create network annotation from ['' @ Join (CHR '' '') nAttach @ '']: '') e))
           | None \<Rightarrow> ret (annotations, EmptyResult, None))))"

section \<open>GenerateConfigsGeneric\<close>

definition config_templates ::
  "string \<Rightarrow> string \<Rightarrow> string \<Rightarrow> params \<Rightarrow> string gomap \<Rightarrow> string gomap \<Rightarrow> bool \<Rightarrow> Template list" where
  "config_templates name ns kind templateParameters customData cmLabels scripts =
     [\<lparr>tp_Name = name @ ''-config-data'', tp_Namespace = ns, tp_Scripts = False,
       tp_InstanceType = kind, tp_ConfigOptions = templateParameters, tp_CustomData = customData,
       tp_CommonTemplates = [''ssl.conf''], tp_Labels = cmLabels\<rparr>] @
     (if scripts then
        [\<lparr>tp_Name = ServiceName @ ''-scripts'', tp_Namespace = ns, tp_Scripts = True,
          tp_InstanceType = kind, tp_ConfigOptions = [], tp_CustomData = [],
          tp_CommonTemplates = [], tp_Labels = cmLabels\<rparr>]
      else [])"

definition GenerateConfigsGeneric ::
  "env \<Rightarrow> string \<Rightarrow> string \<Rightarrow> string \<Rightarrow> params \<Rightarrow> string gomap \<Rightarrow> string gomap \<Rightarrow> bool \<Rightarrow>
     ('i world, 'r, string gomap \<times> go_error option) act" where
  "GenerateConfigsGeneric E name ns kind templateParameters customData cmLabels scripts =
     call (CEnsureSecrets (config_templates name ns kind templateParameters customData cmLabels scripts))
       (resp_env E)"

section \<open>GetHeadlessService\<close>

definition endpointName :: "GlanceAPI \<Rightarrow> string" where
  "endpointName inst =
     (if a_APIType (ASpec inst) \<noteq> APISingle then o_Name inst @ ''-api'' else o_Name inst)"

definition headless_service :: "GlanceAPI \<Rightarrow> string gomap \<Rightarrow> ServiceObj" where
  "headless_service inst serviceLabels =
     \<lparr>svc_Name = endpointName inst, svc_Namespace = o_Namespace inst, svc_Labels = serviceLabels,
      svc_Selector = serviceLabels, svc_Port = GlanceInternalPort, svc_ClusterIP = ''None'',
      svc_Override = None, svc_Annotations = []\<rparr>"

definition GetHeadlessService ::
  "env \<Rightarrow> string gomap \<Rightarrow> (GlanceAPI world, 'r, reconcile_result \<times> string) act" where
  "GetHeadlessService E serviceLabels =
     fn (bind (read (\<lambda>i. i)) (\<lambda>instance.
       let name = endpointName instance; svc = headless_service instance serviceLabels in
       case NewService E svc of
         Some err \<Rightarrow>
           seq (set_error CreateServiceReadyCondition ''CreateServiceReadyErrorMessage'' err)
               (exit_with ((EmptyResult, Some err), name))
       | None \<Rightarrow>
           let svc = svc\<lparr>svc_Annotations :=
                 [(AnnotationEndpointKey E, ''headless''), (AnnotationIngressCreateKey E, ''false'')]\<rparr> in
           seq (set_inst (\<lambda>i. i\<lparr>AStatus := (AStatus i)\<lparr>as_Domain := GetServiceHostname E svc\<rparr>\<rparr>))
          (bind (call (CService svc) (resp_res E)) (\<lambda>(ctrlResult, err).
             case err of
               Some e \<Rightarrow>
                 seq (set_error CreateServiceReadyCondition ''CreateServiceReadyErrorMessage'' e)
                     (exit_with ((ctrlResult, Some e), name))
             | None \<Rightarrow>
                 if ctrlResult \<noteq> EmptyResult then
                   seq (set_false CreateServiceReadyCondition RequestedReason SeverityInfo
                          (LibMsg ''CreateServiceReadyRunningMessage'' []))
                       (exit_with ((ctrlResult, None), name))
                 else ret ((ctrlResult, None), name)))))"

section \<open>GetPvcListWithLabel and GetServiceLabels\<close>

definition GetPvcListWithLabel ::
  "env \<Rightarrow> string \<Rightarrow> string gomap \<Rightarrow> ('i world, 'r, go_error + PVC list) act" where
  "GetPvcListWithLabel E ns labels =
     bind (call (CListPVCs ns labels) (resp_pvcs E)) (\<lambda>r.
       ret (case r of
              Inl err \<Rightarrow> Inl (Wrapped ''error listing PVC for labels: '' err)
            | Inr pvcs \<Rightarrow> Inr pvcs))"

definition GetServiceLabels :: "env \<Rightarrow> GlanceAPI \<Rightarrow> string gomap" where
  "GetServiceLabels E inst =
     [(AppSelector (k8s E), ServiceName), (ComponentSelector E, Component),
      (GlanceAPIName, ServiceName @ ''-'' @ APIName inst @ ''-'' @ a_APIType (ASpec inst)),
      (OwnerSelector E, o_Name inst)]"

section \<open>The name of the headless service\<close>

text \<open>The comment in both files: the two names must match.\<close>

lemma endpointName_stsName: "endpointName inst = stsName inst"
  by (simp add: endpointName_def stsName_def)

lemma headless_service_fields [simp]:
  "svc_Name (headless_service inst labels) = endpointName inst"
  "svc_ClusterIP (headless_service inst labels) = ''None''"
  "svc_Selector (headless_service inst labels) = labels"
  by (simp_all add: headless_service_def)

section \<open>Steps: the trace grows, and so does the log\<close>

definition grows :: "'i world \<Rightarrow> 'i world \<Rightarrow> bool" where
  "grows w w' \<longleftrightarrow> suffix (w_trace w) (w_trace w') \<and> suffix (w_conds w) (w_conds w')"

interpretation growth: step_order grows
  by unfold_locales (auto simp: grows_def intro: suffix_order.trans)

text \<open>\<open>only C D\<close>: the calls a step adds are in \<open>C\<close> and the log entries in \<open>D\<close>.\<close>

definition only :: "(call \<Rightarrow> bool) \<Rightarrow> (cond_op \<Rightarrow> bool) \<Rightarrow> 'i world \<Rightarrow> 'i world \<Rightarrow> bool" where
  "only C D w w' \<longleftrightarrow>
     (\<exists>tr l. w_trace w' = tr @ w_trace w \<and> w_conds w' = l @ w_conds w \<and> list_all C tr \<and> list_all D l)"

interpretation steps: step_order "only C D"
proof unfold_locales
  fix w :: "'i world"
  show "only C D w w" by (auto simp: only_def)
next
  fix w1 w2 w3 :: "'i world"
  assume "only C D w1 w2" and "only C D w2 w3"
  then obtain t1 l1 t2 l2 where "w_trace w2 = t1 @ w_trace w1" "w_conds w2 = l1 @ w_conds w1"
    "list_all C t1" "list_all D l1" "w_trace w3 = t2 @ w_trace w2" "w_conds w3 = l2 @ w_conds w2"
    "list_all C t2" "list_all D l2"
    unfolding only_def by blast
  then have "w_trace w3 = (t2 @ t1) @ w_trace w1 \<and> w_conds w3 = (l2 @ l1) @ w_conds w1 \<and>
    list_all C (t2 @ t1) \<and> list_all D (l2 @ l1)"
    by simp
  then show "only C D w1 w3" unfolding only_def by blast
qed

lemma only_call: "C c \<Longrightarrow> keeps (only C D) (call c f)"
  by (simp add: keeps_def call_def only_def)

lemma only_cond: "D op \<Longrightarrow> keeps (only C D) (cond op)"
  by (simp add: keeps_def cond_def modify_def only_def)

lemma only_set_false: "D (CSet (Some (FalseCondition t r s m))) \<Longrightarrow> keeps (only C D) (set_false t r s m)"
  unfolding set_false_def by (rule only_cond)

lemma only_set_error:
  "D (CSet (Some (FalseCondition t ErrorReason SeverityWarning (LibMsg m [error_text e])))) \<Longrightarrow>
     keeps (only C D) (set_error t m e)"
  unfolding set_error_def by (rule only_set_false)

lemma only_mark_true: "D (CMarkTrue t (LibMsg m [])) \<Longrightarrow> keeps (only C D) (mark_true t m)"
  unfolding mark_true_def by (rule only_cond)

lemma only_mark_false: "D (CMarkFalse t r s m) \<Longrightarrow> keeps (only C D) (mark_false t r s m)"
  unfolding mark_false_def by (rule only_cond)

lemma only_read: "keeps (only C D) (read f)" "keeps (only C D) (set_inst g)"
  by (simp_all add: keeps_def read_def gets_def set_inst_def modify_def only_def)

lemmas only_rules =
  only_call only_set_false only_set_error only_mark_true only_mark_false only_cond only_read steps.keeps_rules

lemma only_mono:
  "only C D w w' \<Longrightarrow> (\<And>c. C c \<Longrightarrow> C' c) \<Longrightarrow> (\<And>op. D op \<Longrightarrow> D' op) \<Longrightarrow> only C' D' w w'"
  unfolding only_def by (metis list.pred_mono_strong)

lemma keeps_mono: "keeps R m \<Longrightarrow> (\<And>s s'. R s s' \<Longrightarrow> R' s s') \<Longrightarrow> keeps R' m"
  by (simp add: keeps_def)

lemma only_grows: "only C D w w' \<Longrightarrow> grows w w'"
  by (auto simp: only_def grows_def suffix_def)

section \<open>Marks and evidence\<close>

definition marked :: "ctype \<Rightarrow> cond_log \<Rightarrow> bool" where
  "marked t l \<longleftrightarrow> list_ex (\<lambda>op. case op of CMarkTrue t' _ \<Rightarrow> t' = t | _ \<Rightarrow> False) l"

lemma marked_simps [simp]:
  "marked t (CMarkTrue t' m # l) \<longleftrightarrow> t' = t \<or> marked t l"
  "marked t (l1 @ l2) \<longleftrightarrow> marked t l1 \<or> marked t l2"
  by (auto simp: marked_def)

definition any_call :: "call \<Rightarrow> bool" where "any_call c = True"
definition any_op :: "cond_op \<Rightarrow> bool" where "any_op op = True"

lemma any_simps [simp]: "any_call c" "any_op op"
  by (simp_all add: any_call_def any_op_def)

abbreviation extends :: "'i world \<Rightarrow> 'i world \<Rightarrow> bool" where
  "extends \<equiv> only any_call any_op"

lemma extends_iff:
  "extends w w' \<longleftrightarrow> (\<exists>tr l. w_trace w' = tr @ w_trace w \<and> w_conds w' = l @ w_conds w)"
  by (auto simp: only_def list_all_iff)

lemma only_extends: "only C D w w' \<Longrightarrow> extends w w'"
  by (auto simp: only_def list_all_iff)

text \<open>
  \<open>evidence P old new\<close>: between the two traces a call was made whose answer satisfies \<open>P\<close>, a
  predicate of the trace that ends in the call.
\<close>

definition evidence :: "(call list \<Rightarrow> bool) \<Rightarrow> call list \<Rightarrow> call list \<Rightarrow> bool" where
  "evidence P old new \<longleftrightarrow> (\<exists>u c v. new = u @ c # v \<and> P (c # v) \<and> suffix old v)"

lemma evidence_mono:
  "evidence P s1 s2 \<Longrightarrow> suffix s0 s1 \<Longrightarrow> suffix s2 s3 \<Longrightarrow> evidence P s0 s3"
  unfolding evidence_def by (metis append.assoc suffix_def)

lemma evidence_last: "P (c # v) \<Longrightarrow> evidence P v (c # v)"
  unfolding evidence_def by (metis append_Nil suffix_order.refl)

lemma evidence_Cons:
  "evidence P old (c # v) \<longleftrightarrow> P (c # v) \<and> suffix old v \<or> evidence P old v"
  unfolding evidence_def by (auto simp: Cons_eq_append_conv)

text \<open>\<open>checked P m\<close>: when \<open>m\<close> goes on, it has the evidence.\<close>

definition checked :: "(call list \<Rightarrow> bool) \<Rightarrow> ('i world, 'r, 'a) act \<Rightarrow> bool" where
  "checked P m \<longleftrightarrow> (\<forall>w x w'. m w = (Next x, w') \<longrightarrow> evidence P (w_trace w) (w_trace w'))"

text \<open>
  \<open>guarded G Ps m\<close>: however a run of \<open>m\<close> ends, every call of the kind \<open>G\<close> in it comes after
  the evidence for each of \<open>Ps\<close>.
\<close>

definition guarded :: "(call \<Rightarrow> bool) \<Rightarrow> (call list \<Rightarrow> bool) set \<Rightarrow> ('i world, 'r, 'a) act \<Rightarrow> bool" where
  "guarded G Ps m \<longleftrightarrow>
     (\<forall>w out w'. m w = (out, w') \<longrightarrow> suffix (w_trace w) (w_trace w') \<and>
        (\<forall>u c v. w_trace w' = u @ c # v \<and> G c \<and> suffix (w_trace w) v \<longrightarrow>
           (\<forall>P \<in> Ps. evidence P (w_trace w) v)))"

lemma only_trace: "only C D w w' \<Longrightarrow> \<exists>tr. w_trace w' = tr @ w_trace w \<and> list_all C tr"
  by (auto simp: only_def)

lemma guarded_extends: "keeps extends m \<Longrightarrow> guarded G {} m"
  unfolding guarded_def by (auto dest!: keepsD simp: only_def suffix_def)

lemma quiet_no_call:
  assumes "w_trace s1 = tr @ w_trace w" and "list_all (\<lambda>c. \<not> G c) tr"
    and "suffix (c # v) (w_trace s1)" and "suffix (w_trace w) v"
  shows "\<not> G c"
proof -
  from assms(4) obtain x where v: "v = x @ w_trace w" by (auto simp: suffix_def)
  from assms(1,3) v obtain y where "tr @ w_trace w = y @ c # x @ w_trace w" by (auto simp: suffix_def)
  then have "tr = y @ c # x" by simp
  with assms(2) show ?thesis by simp
qed

lemma guarded_bind:
  assumes quiet: "keeps (only (\<lambda>c. \<not> G c) any_op) m" and chk: "\<And>P. P \<in> Us \<Longrightarrow> checked P m"
    and rest: "\<And>x. guarded G Ps (f x)"
  shows "guarded G (Us \<union> Ps) (bind m f)"
  unfolding guarded_def
proof (intro allI impI)
  fix w out w'
  assume run: "bind m f w = (out, w')"
  obtain o1 s1 where m: "m w = (o1, s1)" by fastforce
  from only_trace [OF keepsD [OF quiet m]] obtain tr where
    tr: "w_trace s1 = tr @ w_trace w" "list_all (\<lambda>c. \<not> G c) tr" by blast
  show "suffix (w_trace w) (w_trace w') \<and> (\<forall>u c v. w_trace w' = u @ c # v \<and> G c \<and> suffix (w_trace w) v \<longrightarrow>
          (\<forall>P \<in> Us \<union> Ps. evidence P (w_trace w) v))"
  proof (cases o1)
    case (Next x)
    with run m have f: "f x s1 = (out, w')" by (simp add: bind_def)
    with rest [of x] have s1: "suffix (w_trace s1) (w_trace w')" and
      g: "\<And>u c v. w_trace w' = u @ c # v \<Longrightarrow> G c \<Longrightarrow> suffix (w_trace s1) v \<Longrightarrow> P \<in> Ps \<Longrightarrow>
        evidence P (w_trace s1) v" for P
      unfolding guarded_def by blast+
    have s0: "suffix (w_trace w) (w_trace s1)" using tr(1) by (simp add: suffix_def)
    have "evidence P (w_trace w) v" if v: "w_trace w' = u @ c # v" "G c" "suffix (w_trace w) v"
      and P: "P \<in> Us \<union> Ps" for u c v P
    proof -
      have cv: "suffix (c # v) (w_trace w')" using v(1) by (simp add: suffix_def)
      have "suffix (w_trace s1) v"
      proof (rule ccontr)
        assume no: "\<not> suffix (w_trace s1) v"
        with suffix_same_cases [OF s1 cv] have "suffix (c # v) (w_trace s1)"
          by (auto simp: suffix_Cons)
        from quiet_no_call [OF tr this v(3)] v(2) show False by blast
      qed
      then show ?thesis
        using P chk [of P] m Next g [OF v(1,2), of P] s0 unfolding checked_def
        by (blast intro: evidence_mono suffix_order.refl)
    qed
    then show ?thesis using s0 s1 suffix_order.trans by blast
  next
    case (Return r)
    with run m have "w' = s1" by (simp add: bind_def)
    then show ?thesis using tr quiet_no_call [OF tr] by (auto simp: suffix_def)
  next
    case (Crash p)
    with run m have "w' = s1" by (simp add: bind_def)
    then show ?thesis using tr quiet_no_call [OF tr] by (auto simp: suffix_def)
  qed
qed

lemma guarded_seq:
  "\<lbrakk>keeps (only (\<lambda>c. \<not> G c) any_op) m; \<And>P. P \<in> Us \<Longrightarrow> checked P m; guarded G Ps n\<rbrakk> \<Longrightarrow>
     guarded G (Us \<union> Ps) (seq m n)"
  unfolding seq_def by (rule guarded_bind)

lemma guarded_fn: "guarded G Ps m \<Longrightarrow> guarded G Ps (fn m)"
  unfolding guarded_def fn_def by (fastforce split: prod.splits out.splits)

lemma checkedI:
  "(\<And>w x w'. m w = (Next x, w') \<Longrightarrow> evidence P (w_trace w) (w_trace w')) \<Longrightarrow> checked P m"
  by (simp add: checked_def)

lemmas checked_simps = run_iffs evidence_Cons case_prod_unfold Let_def proceeds_pair

text \<open>The evidence both controllers look for.\<close>

definition memcached_ready :: "env \<Rightarrow> call list \<Rightarrow> bool" where
  "memcached_ready E tr \<longleftrightarrow>
     (case tr of
        CGetMemcachedByName name ns # _ \<Rightarrow> (case resp_memcached E tr of Inr mc \<Rightarrow> mc_Ready mc | Inl _ \<Rightarrow> False)
      | _ \<Rightarrow> False)"

definition secret_verified :: "env \<Rightarrow> call list \<Rightarrow> bool" where
  "secret_verified E tr \<longleftrightarrow>
     (case tr of
        CVerifySecretFields ns name fs d # _ \<Rightarrow> proceeds (snd (resp_verify E tr))
      | _ \<Rightarrow> False)"

definition config_written :: "env \<Rightarrow> call list \<Rightarrow> bool" where
  "config_written E tr \<longleftrightarrow>
     (case tr of CEnsureSecrets ts # _ \<Rightarrow> snd (resp_env E tr) = None | _ \<Rightarrow> False)"

section \<open>The Ready condition\<close>

text \<open>
  \<open>earns Q m\<close>: a run of \<open>m\<close> marks the Ready condition, if at all, as its last entry of the log,
  in a state that satisfies \<open>Q\<close>.
\<close>

definition not_ready :: "cond_op \<Rightarrow> bool" where
  "not_ready op \<longleftrightarrow> (case op of CMarkTrue t _ \<Rightarrow> t \<noteq> ReadyCondition | _ \<Rightarrow> True)"

lemma not_ready_simps [simp]:
  "not_ready (CInit cs)" "not_ready (CSet c)" "not_ready (CMarkFalse t r s m)" "not_ready CRestoreTimes"
  "not_ready (CMarkTrue t m) \<longleftrightarrow> t \<noteq> ReadyCondition"
  by (simp_all add: not_ready_def)

text \<open>The entries of the log since the conditions were last initialised.\<close>

definition since_init :: "cond_log \<Rightarrow> cond_log" where
  "since_init = takeWhile (\<lambda>op. case op of CInit _ \<Rightarrow> False | _ \<Rightarrow> True)"

lemma since_init_append: "marked t (since_init (l1 @ CInit cs # l2)) \<Longrightarrow> marked t l1"
  by (induction l1) (auto simp: since_init_def marked_def split: cond_op.splits if_splits)

lemma not_ready_marked: "list_all not_ready l \<Longrightarrow> \<not> marked ReadyCondition l"
  by (induction l) (auto simp: marked_def not_ready_def split: cond_op.splits)

definition earns :: "('i world \<Rightarrow> bool) \<Rightarrow> ('i world, 'r, 'a) act \<Rightarrow> bool" where
  "earns Q m \<longleftrightarrow>
     (\<forall>w out w'. m w = (out, w') \<longrightarrow> (\<exists>l. w_conds w' = l @ w_conds w \<and> (list_all not_ready l \<or> Q w')))"

lemma earns_none: "keeps (only any_call not_ready) m \<Longrightarrow> earns Q m"
  unfolding earns_def using keepsD only_def by metis

lemma earns_bind:
  assumes quiet: "keeps (only any_call not_ready) m" and rest: "\<And>x. earns Q (f x)"
  shows "earns Q (bind m f)"
  unfolding earns_def
proof (intro allI impI)
  fix w out w'
  assume run: "bind m f w = (out, w')"
  obtain o1 s1 where m: "m w = (o1, s1)" by fastforce
  from keepsD [OF quiet m] obtain l1 where 1: "w_conds s1 = l1 @ w_conds w" "list_all not_ready l1"
    by (auto simp: only_def)
  show "\<exists>l. w_conds w' = l @ w_conds w \<and> (list_all not_ready l \<or> Q w')"
  proof (cases o1)
    case (Next x)
    with run m have "f x s1 = (out, w')" by (simp add: bind_def)
    with rest [of x] obtain l2 where 2: "w_conds w' = l2 @ w_conds s1" "list_all not_ready l2 \<or> Q w'"
      unfolding earns_def by blast
    then have "w_conds w' = (l2 @ l1) @ w_conds w" using 1 by simp
    moreover have "list_all not_ready (l2 @ l1) \<or> Q w'" using 1 2 by auto
    ultimately show ?thesis by blast
  next
    case (Return r)
    with run m have "w' = s1" by (simp add: bind_def)
    with 1 show ?thesis by blast
  next
    case (Crash p)
    with run m have "w' = s1" by (simp add: bind_def)
    with 1 show ?thesis by blast
  qed
qed

lemma earns_seq: "keeps (only any_call not_ready) m \<Longrightarrow> earns Q n \<Longrightarrow> earns Q (seq m n)"
  unfolding seq_def by (rule earns_bind)

lemma earns_fn: "earns Q m \<Longrightarrow> earns Q (fn m)"
  unfolding earns_def fn_def by (fastforce split: prod.splits out.splits)

section \<open>Steps of the shared functions\<close>

lemma only_verifyServiceSecret:
  "\<lbrakk>C (CVerifySecretFields ns n fs d); \<And>c. c_Type c = InputReadyCondition \<Longrightarrow> D (CSet (Some c))\<rbrakk> \<Longrightarrow>
     keeps (only C D) (verifyServiceSecret E ns n fs d vars)"
  unfolding verifyServiceSecret_def by (intro only_rules) simp_all

lemma only_ensureNAD:
  "\<lbrakk>\<And>n. C (CGetNADWithName n ns); \<And>nads. C (CEnsureNetworksAnnotation nads);
    \<And>c. c_Type c = NetworkAttachmentsReadyCondition \<Longrightarrow> D (CSet (Some c))\<rbrakk> \<Longrightarrow>
     keeps (only C D) (ensureNAD E ns nAttach)"
  unfolding ensureNAD_def nad_step_def by (intro only_rules) simp_all

lemma only_GenerateConfigs:
  "(\<And>ts. C (CEnsureSecrets ts)) \<Longrightarrow>
     keeps (only C D) (GenerateConfigsGeneric E name ns kind ps cd ls scripts)"
  unfolding GenerateConfigsGeneric_def by (intro only_rules)

lemma only_GetHeadlessService:
  "\<lbrakk>\<And>s. C (CService s); \<And>c. c_Type c = CreateServiceReadyCondition \<Longrightarrow> D (CSet (Some c))\<rbrakk> \<Longrightarrow>
     keeps (only C D) (GetHeadlessService E labels)"
  unfolding GetHeadlessService_def by (intro only_rules) simp_all

lemma only_GetPvcListWithLabel:
  "C (CListPVCs ns labels) \<Longrightarrow> keeps (only C D) (GetPvcListWithLabel E ns labels)"
  unfolding GetPvcListWithLabel_def by (intro only_rules)

lemmas only_shared =
  only_verifyServiceSecret only_ensureNAD only_GenerateConfigs only_GetHeadlessService
  only_GetPvcListWithLabel

end
