(* ===== verification/Sample.thy ===== *)
theory Sample
  imports Common
begin

text \<open>
  An environment that answers every call positively, with the reference implementation of the
  conditions. It is what the properties of the controllers are evaluated on.
\<close>

definition yes :: "call list \<Rightarrow> reconcile_result" where "yes tr = (EmptyResult, None)"

definition sample_database :: Database where
  "sample_database =
     \<lparr>db_UserName = ''user'', db_Password = ''pw'', db_Hostname = ''db'', db_ClientConfig = (\<lambda>_. ''[client]'')\<rparr>"

definition sample_rbac :: "condition list" where
  "sample_rbac =
     map (\<lambda>t. TrueCondition t (LibMsg [] []))
       [ServiceAccountReadyCondition, RoleReadyCondition, RoleBindingReadyCondition]"

text \<open>An instance as it reads after its own controller has seen it.\<close>

definition observed :: "GlanceAPI \<Rightarrow> GlanceAPI" where
  "observed api =
     api\<lparr>AStatus := (AStatus api)
        \<lparr>as_ObservedGeneration := o_Generation api, as_ReadyCount := 1,
         as_APIEndpoints := Some [(''internal'', ''http://int''), (''public'', ''http://pub'')],
         as_Conditions := Some [CLoaded [TrueCondition GlanceAPIReadyCondition (LibMsg [] [])]]\<rparr>\<rparr>"

fun written :: "GlanceAPI \<Rightarrow> call list \<Rightarrow> go_error + GlanceAPI" where
  "written a (CWriteGlanceAPI api # tr) = Inr (observed api)"
| "written a tr = Inr a"

fun registered :: "call list \<Rightarrow> reconcile_result \<times> condition option \<times> string" where
  "registered (CKeystoneEndpoint n ns m sl # tr) =
     ((EmptyResult, None), Some (TrueCondition KeystoneEndpointReadyCondition (LibMsg [] [])), ''id'')"
| "registered tr = ((EmptyResult, None), Some (TrueCondition KeystoneServiceReadyCondition (LibMsg [] [])), ''id'')"

fun sample_hash :: "hash_input \<Rightarrow> string" where
  "sample_hash (HashEnv xs) = concat (map snd xs)"
| "sample_hash (HashBackends xs) = concat xs"
| "sample_hash (HashStorage s) = StorageClass s @ StorageRequest s"
| "sample_hash (HashString s) = s"

definition sample_env :: "Glance \<Rightarrow> GlanceAPI \<Rightarrow> env" where
  "sample_env g a =
     \<lparr>resp_err = (\<lambda>_. None), resp_res = yes, resp_glance = (\<lambda>_. Inr g), resp_api = written a,
      resp_apis = (\<lambda>_. Inr [observed a]), resp_found = (\<lambda>_. Inr None),
      resp_verify = (\<lambda>_. (''secret-hash'', EmptyResult, None)),
      resp_nad = (\<lambda>_. Inr (Some ''nad'')), resp_annotations = (\<lambda>_. ([], None)), resp_env = (\<lambda>_. ([], None)),
      resp_memcached = (\<lambda>_. Inr \<lparr>mc_obj = [], mc_Ready = True\<rparr>),
      resp_str = (\<lambda>_. Inr ''str''), resp_strs = (\<lambda>_. Inr [''str'']),
      resp_rbac = (\<lambda>_. ((EmptyResult, None), sample_rbac)), resp_map = (\<lambda>_. Inr [(''AC_ID'', ''id''), (''AC_SECRET'', ''secret'')]),
      resp_db = (\<lambda>_. sample_database), resp_getdb = (\<lambda>_. Inr sample_database),
      resp_keystone = registered,
      resp_job = (\<lambda>_. ((EmptyResult, None), True, ''job-hash'')), resp_pvcs = (\<lambda>_. Inr []),
      resp_topology = (\<lambda>_. Inr None), resp_sts = (\<lambda>_. ((EmptyResult, None), True, 1)),
      resp_network = (\<lambda>_. Inr (True, [])), resp_keystoneapi = (\<lambda>_. Inr (\<lambda>_. Inr ''http://keystone'', ''region'')),
      all_sub_true = cond_all_sub_true, mirror = (\<lambda>l t. cond_get l t), is_unknown = cond_is_unknown,
      higher_prio = (\<lambda>x y. x), finalizer = ''fin'',
      AddFinalizer = (\<lambda>fs. if ''fin'' \<in> set fs then (fs, False) else (fs @ [''fin''], True)),
      RemoveFinalizer = (\<lambda>fs. (removeAll ''fin'' fs, ''fin'' \<in> set fs)),
      GetBoolFromAnnotation = (\<lambda>m k. case lookup m k of None \<Rightarrow> Inr (False, False)
        | Some v \<Rightarrow> if v = ''true'' then Inr (True, True) else if v = ''false'' then Inr (False, True)
                    else Inl (ErrText ''not a bool'')),
      GetLabels = (\<lambda>n g m. m), SetControllerReference = (\<lambda>n api. Inr (api\<lparr>o_OwnerReferences := [(''Glance'', n)]\<rparr>)),
      QuantityValue = (\<lambda>_. 1), NewService = (\<lambda>_. None), GetServiceHostname = (\<lambda>s. svc_Name s @ ''.svc''),
      GetServiceType = (\<lambda>_. ''ClusterIP''), GetAPIEndpoint = (\<lambda>s p i. Inr (''http://'' @ svc_Name s)),
      AnnotationEndpointKey = ''endpoint'', AnnotationIngressCreateKey = ''ingress'',
      AnnotationHostnameKey = ''hostname'', AdditionalSubjectNamesKey = ''subjects'',
      DefaultClusterInternalDomain = ''cluster.local'', ObjectHash = (\<lambda>x. Inr (sample_hash x)),
      SetHash = (\<lambda>m k v. let cur = (case m of None \<Rightarrow> [] | Some m \<Rightarrow> m) in
        (Some (AList.update k v cur), lookup cur k \<noteq> Some v)),
      ExtendCustomServiceConfig = (\<lambda>s p. s), MemcachedServers = (\<lambda>_. ''mc:11211''),
      MemcachedServersWithInet = (\<lambda>_. ''inet:[mc]:11211''), MTLSPaths = ([], [], []),
      ComponentSelector = ''component'', OwnerSelector = ''owner'', k8s = ref_lib, HorizonEndpoint = (\<lambda>h. Inr h), CABundleKey = ''ca'', TLSHashName = ''certs'',
      InputHashName = ''input'', ACIDSecretKey = ''AC_ID'', ACSecretSecretKey = ''AC_SECRET'', int32_overflow = (\<lambda>_. 0)\<rparr>"

lemma sample_env_fields [simp]:
  "resp_err (sample_env g a) = (\<lambda>_. None)"
  "resp_res (sample_env g a) = yes"
  "resp_glance (sample_env g a) = (\<lambda>_. Inr g)"
  "resp_api (sample_env g a) = (written a)"
  "resp_apis (sample_env g a) = (\<lambda>_. Inr [observed a])"
  "resp_found (sample_env g a) = (\<lambda>_. Inr None)"
  "resp_verify (sample_env g a) = (\<lambda>_. (''secret-hash'', EmptyResult, None))"
  "resp_nad (sample_env g a) = (\<lambda>_. Inr (Some ''nad''))"
  "resp_annotations (sample_env g a) = (\<lambda>_. ([], None))"
  "resp_env (sample_env g a) = (\<lambda>_. ([], None))"
  "resp_memcached (sample_env g a) = (\<lambda>_. Inr \<lparr>mc_obj = [], mc_Ready = True\<rparr>)"
  "resp_str (sample_env g a) = (\<lambda>_. Inr ''str'')"
  "resp_strs (sample_env g a) = (\<lambda>_. Inr [''str''])"
  "resp_rbac (sample_env g a) = (\<lambda>_. ((EmptyResult, None), sample_rbac))"
  "resp_map (sample_env g a) = (\<lambda>_. Inr [(''AC_ID'', ''id''), (''AC_SECRET'', ''secret'')])"
  "resp_db (sample_env g a) = (\<lambda>_. sample_database)"
  "resp_getdb (sample_env g a) = (\<lambda>_. Inr sample_database)"
  "resp_keystone (sample_env g a) = registered"
  "resp_job (sample_env g a) = (\<lambda>_. ((EmptyResult, None), True, ''job-hash''))"
  "resp_pvcs (sample_env g a) = (\<lambda>_. Inr [])"
  "resp_topology (sample_env g a) = (\<lambda>_. Inr None)"
  "resp_sts (sample_env g a) = (\<lambda>_. ((EmptyResult, None), True, 1))"
  "resp_network (sample_env g a) = (\<lambda>_. Inr (True, []))"
  "resp_keystoneapi (sample_env g a) = (\<lambda>_. Inr (\<lambda>_. Inr ''http://keystone'', ''region''))"
  "all_sub_true (sample_env g a) = cond_all_sub_true"
  "mirror (sample_env g a) = (\<lambda>l t. cond_get l t)"
  "is_unknown (sample_env g a) = cond_is_unknown"
  "higher_prio (sample_env g a) = (\<lambda>x y. x)"
  "finalizer (sample_env g a) = ''fin''"
  "AddFinalizer (sample_env g a) = (\<lambda>fs. if ''fin'' \<in> set fs then (fs, False) else (fs @ [''fin''], True))"
  "RemoveFinalizer (sample_env g a) = (\<lambda>fs. (removeAll ''fin'' fs, ''fin'' \<in> set fs))"
  "GetBoolFromAnnotation (sample_env g a) = (\<lambda>m k. case lookup m k of None \<Rightarrow> Inr (False, False)
        | Some v \<Rightarrow> if v = ''true'' then Inr (True, True) else if v = ''false'' then Inr (False, True)
                    else Inl (ErrText ''not a bool''))"
  "GetLabels (sample_env g a) = (\<lambda>n g m. m)"
  "SetControllerReference (sample_env g a) = (\<lambda>n api. Inr (api\<lparr>o_OwnerReferences := [(''Glance'', n)]\<rparr>))"
  "QuantityValue (sample_env g a) = (\<lambda>_. 1)"
  "NewService (sample_env g a) = (\<lambda>_. None)"
  "GetServiceHostname (sample_env g a) = (\<lambda>s. svc_Name s @ ''.svc'')"
  "GetServiceType (sample_env g a) = (\<lambda>_. ''ClusterIP'')"
  "GetAPIEndpoint (sample_env g a) = (\<lambda>s p i. Inr (''http://'' @ svc_Name s))"
  "AnnotationEndpointKey (sample_env g a) = ''endpoint''"
  "AnnotationIngressCreateKey (sample_env g a) = ''ingress''"
  "AnnotationHostnameKey (sample_env g a) = ''hostname''"
  "AdditionalSubjectNamesKey (sample_env g a) = ''subjects''"
  "DefaultClusterInternalDomain (sample_env g a) = ''cluster.local''"
  "ObjectHash (sample_env g a) = (\<lambda>x. Inr (sample_hash x))"
  "SetHash (sample_env g a) = (\<lambda>m k v. let cur = (case m of None \<Rightarrow> [] | Some m \<Rightarrow> m) in
        (Some (AList.update k v cur), lookup cur k \<noteq> Some v))"
  "ExtendCustomServiceConfig (sample_env g a) = (\<lambda>s p. s)"
  "MemcachedServers (sample_env g a) = (\<lambda>_. ''mc:11211'')"
  "MemcachedServersWithInet (sample_env g a) = (\<lambda>_. ''inet:[mc]:11211'')"
  "MTLSPaths (sample_env g a) = ([], [], [])"
  "ComponentSelector (sample_env g a) = ''component''"
  "OwnerSelector (sample_env g a) = ''owner''"
  "k8s (sample_env g a) = ref_lib"
  "HorizonEndpoint (sample_env g a) = (\<lambda>h. Inr h)"
  "CABundleKey (sample_env g a) = ''ca''" "TLSHashName (sample_env g a) = ''certs''"
  "InputHashName (sample_env g a) = ''input''" "ACIDSecretKey (sample_env g a) = ''AC_ID''"
  "ACSecretSecretKey (sample_env g a) = ''AC_SECRET''"
  "int32_overflow (sample_env g a) = (\<lambda>_. 0)"
  by (simp_all add: sample_env_def)

end
