(* ===== verification/GlanceCtl.thy ===== *)
theory GlanceCtl
  imports Common
begin

text \<open>
  The Glance controller (internal/controller/glance_controller.go). Each function of the source
  is a definition of the same name; the long \<^verbatim>\<open>reconcileNormal\<close> and \<^verbatim>\<open>apiDeployment\<close> are split
  at the comments that divide them in the source. The label the source puts into the shared
  label map and deletes again on return is added to a copy here.
\<close>

section \<open>Setting fields of the instance\<close>

definition set_status :: "(GlanceStatus \<Rightarrow> GlanceStatus) \<Rightarrow> (Glance world, 'r, unit) act" where
  "set_status f = set_inst (\<lambda>i. i\<lparr>Status := f (Status i)\<rparr>)"

text \<open>Writing to a map that may be nil.\<close>

definition write_map :: "string \<Rightarrow> 'v \<Rightarrow> 'v gomap option \<Rightarrow> 'v gomap option go" where
  "write_map k v m = (case m of None \<Rightarrow> Panic NilMapWrite | Some m \<Rightarrow> Ret (Some (AList.update k v m)))"

definition set_api_endpoint :: "string \<Rightarrow> string \<Rightarrow> (Glance world, 'r, unit) act" where
  "set_api_endpoint k v =
     bind (read (\<lambda>i. s_APIEndpoints (Status i))) (\<lambda>m.
     bind (of_go (write_map k v m)) (\<lambda>m'. set_status (\<lambda>s. s\<lparr>s_APIEndpoints := m'\<rparr>)))"

definition the_map :: "'v gomap option \<Rightarrow> 'v gomap" where
  "the_map m = (case m of None \<Rightarrow> [] | Some m \<Rightarrow> m)"

section \<open>Deletion\<close>

definition remove_one_finalizer ::
  "env \<Rightarrow> string \<Rightarrow> string \<Rightarrow> string \<Rightarrow> (Glance world, go_error option, unit) act" where
  "remove_one_finalizer E ns name apiType =
     bind (call (CGetGlanceAPI ns (ServiceName @ ''-'' @ name @ ''-'' @ apiType)) (resp_api E)) (\<lambda>r.
       case r of
         Inl err \<Rightarrow> if IsNotFound err then ret () else exit_with (Some err)
       | Inr glanceAPI \<Rightarrow>
           let (fs, removed) = RemoveFinalizer E (o_Finalizers glanceAPI) in
           whenever removed
             (must (call (CUpdateGlanceAPI (glanceAPI\<lparr>o_Finalizers := fs\<rparr>)) (resp_err E))
               (\<lambda>err. if IsNotFound err then ret () else exit_with (Some err))))"

definition removeAPIFinalizer :: "env \<Rightarrow> string \<Rightarrow> (Glance world, 'r, go_error option) act" where
  "removeAPIFinalizer E name =
     fn (bind (read o_Namespace) (\<lambda>ns.
         seq (for_each (remove_one_finalizer E ns name) [APIInternal, APIExternal, APISingle, APIEdge])
             (ret None)))"

definition registeredLimitsDelete :: "env \<Rightarrow> (Glance world, 'r, go_error option) act" where
  "registeredLimitsDelete E =
     fn (bind (read (\<lambda>i. i)) (\<lambda>i.
         attempt (call (CGetKeystoneAPI (o_Namespace i)) (resp_keystoneapi E)) (\<lambda>e. exit_with (Some e)) (\<lambda>_.
         attempt (call CGetScopedAdminServiceClient (resp_str E)) (\<lambda>e. exit_with (Some e)) (\<lambda>_.
         attempt (call (CListRegisteredLimits (s_ServiceID (Status i))) (resp_strs E)) (\<lambda>e. exit_with (Some e)) (\<lambda>ids.
         seq (for_each (\<lambda>lid. must (call (CDeleteRegisteredLimit lid) (resp_err E)) (\<lambda>e. exit_with (Some e))) ids)
             (ret None))))))"

text \<open>The database and the Keystone service; both may be gone already.\<close>

definition delete_database :: "env \<Rightarrow> Glance \<Rightarrow> (Glance world, reconcile_result, unit) act" where
  "delete_database E i =
     bind (call (CGetDatabaseByNameAndAccount DatabaseName (g_DatabaseAccount (Spec i)) (o_Namespace i))
             (resp_getdb E)) (\<lambda>r.
       case r of
         Inl err \<Rightarrow> if IsNotFound err then ret () else exit_with (EmptyResult, Some err)
       | Inr _ \<Rightarrow> must (call CDeleteDBFinalizer (resp_err E)) (\<lambda>err. exit_with (EmptyResult, Some err)))"

definition delete_keystone_service :: "env \<Rightarrow> Glance \<Rightarrow> (Glance world, reconcile_result, unit) act" where
  "delete_keystone_service E i =
     bind (call (CGetKeystoneServiceWithName ServiceName (o_Namespace i)) (resp_strs E)) (\<lambda>r.
       case r of
         Inl err \<Rightarrow> if IsNotFound err then ret () else exit_with (EmptyResult, Some err)
       | Inr finalizers \<Rightarrow>
           let (fs, removed) = RemoveFinalizer E finalizers in
           whenever removed
             (must (call (CUpdateKeystoneService fs) (resp_err E))
               (\<lambda>err. if IsNotFound err then ret () else exit_with (EmptyResult, Some err))))"

definition delete_limits :: "env \<Rightarrow> Glance \<Rightarrow> (Glance world, reconcile_result, unit) act" where
  "delete_limits E i =
     bind (call (CGetKeystoneAPI (o_Namespace i)) (resp_keystoneapi E)) (\<lambda>r.
       whenever (\<not> isl r \<and> IsQuotaEnabled i)
         (must (registeredLimitsDelete E) (\<lambda>err. exit_with (EmptyResult, Some err))))"

definition Glance_reconcileDelete :: "env \<Rightarrow> (Glance world, 'r, reconcile_result) act" where
  "Glance_reconcileDelete E =
     fn (bind (read (\<lambda>i. i)) (\<lambda>i.
         seq (delete_database E i)
        (seq (delete_keystone_service E i)
        (seq (for_each (\<lambda>name. must (removeAPIFinalizer E name) (\<lambda>err. exit_with (EmptyResult, Some err)))
                (sorted_keys (g_GlanceAPIs (Spec i))))
        (seq (delete_limits E i)
        (seq (set_inst (\<lambda>i. i\<lparr>o_Finalizers := fst (RemoveFinalizer E (o_Finalizers i))\<rparr>))
             (ret (EmptyResult, None))))))))"

section \<open>reconcileInit\<close>

definition keystone_service_spec :: "Glance \<Rightarrow> KeystoneServiceSpec" where
  "keystone_service_spec i =
     \<lparr>kss_ServiceType = ServiceType, kss_ServiceName = ServiceName,
      kss_ServiceDescription = ''Glance Service'', kss_Enabled = True,
      kss_ServiceUser = g_ServiceUser (Spec i), kss_Secret = g_Secret (Spec i),
      kss_PasswordSelector = ps_Service (g_PasswordSelectors (Spec i))\<rparr>"

definition init_keystone :: "env \<Rightarrow> string gomap \<Rightarrow> (Glance world, reconcile_result, unit) act" where
  "init_keystone E serviceLabels =
     bind (read (\<lambda>i. i)) (\<lambda>i.
     bind (call (CKeystoneService (keystone_service_spec i) (o_Namespace i) serviceLabels NormalDuration)
             (resp_keystone E)) (\<lambda>((ctrlResult, err), c, serviceID).
       seq (whenever (err \<noteq> None) (exit_with (ctrlResult, err)))
      (seq (whenever (c \<noteq> None) (cond (CSet c)))
      (seq (whenever (ctrlResult \<noteq> EmptyResult) (exit_with (ctrlResult, None)))
           (set_status (\<lambda>s. s\<lparr>s_ServiceID := serviceID, s_Hash := Some (the_map (s_Hash s))\<rparr>))))))"

definition init_dbsync ::
  "env \<Rightarrow> string gomap \<Rightarrow> string gomap \<Rightarrow> (Glance world, reconcile_result, unit) act" where
  "init_dbsync E serviceLabels serviceAnnotations =
     bind (read (\<lambda>i. i)) (\<lambda>i.
     let dbSyncHash = map_str (the_map (s_Hash (Status i))) DbSyncHash;
         jobDef = DbSyncJob (k8s E) i serviceLabels serviceAnnotations in
     bind (call (CDoJob jobDef (g_PreserveJobs (Spec i)) ShortDuration dbSyncHash) (resp_job E))
       (\<lambda>((ctrlResult, err), changed, hash).
         seq (whenever (ctrlResult \<noteq> EmptyResult)
                (seq (set_false DBSyncReadyCondition RequestedReason SeverityInfo
                        (LibMsg ''DBSyncReadyRunningMessage'' []))
                     (exit_with (ctrlResult, None))))
        (seq (must (ret err) (\<lambda>e.
                seq (set_error DBSyncReadyCondition ''DBSyncReadyErrorMessage'' e)
                    (exit_with (EmptyResult, Some e))))
        (seq (whenever changed (set_status (\<lambda>s. s\<lparr>s_Hash :=
                map_option (AList.update DbSyncHash hash) (s_Hash s)\<rparr>)))
             (mark_true DBSyncReadyCondition ''DBSyncReadyMessage'')))))"

definition Glance_reconcileInit ::
  "env \<Rightarrow> string gomap \<Rightarrow> string gomap \<Rightarrow> (Glance world, 'r, reconcile_result) act" where
  "Glance_reconcileInit E serviceLabels serviceAnnotations =
     fn (seq (init_keystone E serviceLabels)
        (seq (init_dbsync E serviceLabels serviceAnnotations)
        (seq (mark_true NetworkAttachmentsReadyCondition ''NetworkAttachmentsReadyMessage'')
             (ret (EmptyResult, None)))))"

section \<open>Databases, configuration, limits, the purge job\<close>

definition ensureDB :: "env \<Rightarrow> (Glance world, 'r, Database option \<times> reconcile_result) act" where
  "ensureDB E =
     fn (bind (read (\<lambda>i. i)) (\<lambda>i.
       seq (must (call (CEnsureMariaDBAccount (g_DatabaseAccount (Spec i)) (o_Namespace i)) (resp_err E)) (\<lambda>e.
              seq (set_error MariaDBAccountReadyCondition ''MariaDBAccountNotReadyMessage'' e)
                  (exit_with (None, EmptyResult, Some e))))
      (seq (mark_true MariaDBAccountReadyCondition ''MariaDBAccountReadyMessage'')
      (bind (call (CCreateOrPatchDB (g_DatabaseInstance (Spec i)) DatabaseName (g_DatabaseAccount (Spec i)))
               (\<lambda>tr. (resp_res E tr, resp_db E tr))) (\<lambda>((ctrlResult, err), db).
       seq (must (ret err) (\<lambda>e.
              seq (set_error DBReadyCondition ''DBReadyErrorMessage'' e)
                  (exit_with (Some db, EmptyResult, Some e))))
      (seq (whenever (ctrlResult \<noteq> EmptyResult)
              (seq (set_false DBReadyCondition RequestedReason SeverityInfo
                      (LibMsg ''DBReadyRunningMessage'' []))
                   (exit_with (Some db, ctrlResult, None))))
      (bind (call CWaitForDBCreated (\<lambda>tr. (resp_res E tr, resp_db E tr))) (\<lambda>((ctrlResult, err), db).
       seq (must (ret err) (\<lambda>e.
              seq (set_error DBReadyCondition ''DBReadyErrorMessage'' e)
                  (exit_with (Some db, ctrlResult, Some e))))
      (seq (whenever (ctrlResult \<noteq> EmptyResult)
              (seq (set_false DBReadyCondition RequestedReason SeverityInfo
                      (LibMsg ''DBReadyRunningMessage'' []))
                   (exit_with (Some db, ctrlResult, None))))
      (seq (set_status (\<lambda>s. s\<lparr>s_DatabaseHostname := db_Hostname db\<rparr>))
      (seq (mark_true DBReadyCondition ''DBReadyMessage'')
           (ret (Some db, ctrlResult, None)))))))))))))"

definition database_connection :: "Database \<Rightarrow> string \<Rightarrow> string" where
  "database_connection db hostname =
     ''mysql+pymysql://'' @ db_UserName db @ '':'' @ db_Password db @ ''@'' @ hostname @ ''/'' @
     DatabaseName @ ''?read_default_file=/etc/my.cnf''"

text \<open>The parameters of the image cache, if it is enabled.\<close>

definition cache_params :: "env \<Rightarrow> string \<Rightarrow> go_error + params" where
  "cache_params E sz =
     (if length sz > 0 then
        (case ParseQuantity (k8s E) sz of
           Inl err \<Rightarrow> Inl err
         | Inr q \<Rightarrow> Inr [(''CacheEnabled'', TBool True), (''CacheMaxSize'', TInt (QuantityValue E q)),
                         (''ImageCacheDir'', TStr ImageCacheDir)])
      else Inr [])"

definition Glance_generateServiceConfig ::
  "env \<Rightarrow> string gomap \<Rightarrow> Database \<Rightarrow> (Glance world, 'r, go_error option) act" where
  "Glance_generateServiceConfig E serviceLabels db =
     fn (bind (read (\<lambda>i. i)) (\<lambda>i.
       let labels = GetLabels E (o_Name i) ServiceName serviceLabels;
           base = [(''MinimalConfig'', TBool True),
                   (''DatabaseConnection'', TStr (database_connection db (s_DatabaseHostname (Status i))))] in
       attempt (ret (cache_params E (Size (g_ImageCache (Spec i))))) (\<lambda>e. exit_with (Some e)) (\<lambda>cache.
         let customData = [(CustomConfigFileName, g_CustomServiceConfig (Spec i)),
                           (''my.cnf'', db_ClientConfig db (job_bundle i \<noteq> None))] in
         bind (GenerateConfigsGeneric E (o_Name i) (o_Namespace i) ''Glance'' (base @ cache) customData labels True)
           (\<lambda>(vars, err). ret err))))"

definition ensureRegisteredLimits ::
  "env \<Rightarrow> int gomap \<Rightarrow> (Glance world, 'r, go_error option) act" where
  "ensureRegisteredLimits E quota =
     fn (bind (read (\<lambda>i. i)) (\<lambda>i.
       attempt (call (CGetKeystoneAPI (o_Namespace i)) (resp_keystoneapi E)) (\<lambda>e. exit_with (Some e)) (\<lambda>_.
       attempt (call CGetScopedAdminServiceClient (resp_str E)) (\<lambda>e. exit_with (Some e)) (\<lambda>region.
       seq (for_each (\<lambda>lName.
              let m = \<lparr>rl_RegionID = region, rl_ServiceID = s_ServiceID (Status i),
                       rl_Description = ''default limit for  '' @ lName, rl_ResourceName = lName,
                       rl_DefaultLimit = (case lookup quota lName of None \<Rightarrow> 0 | Some v \<Rightarrow> v)\<rparr> in
              must (call (CCreateOrUpdateRegisteredLimit m) (resp_err E)) (\<lambda>e. exit_with (Some e)))
            (sorted_keys quota))
           (ret None)))))"

definition purge_spec :: "Glance \<Rightarrow> string gomap \<Rightarrow> string gomap \<Rightarrow> CronJobSpec" where
  "purge_spec i serviceLabels serviceAnnotations =
     \<lparr>cs_Name = o_Name i @ ''-db-purge'', cs_PvcClaim = None, cs_Schedule = Schedule (g_DBPurge (Spec i)),
      cs_Command = GlanceManage, cs_CjType = CjDBPurge, cs_Labels = serviceLabels,
      cs_Annotations = serviceAnnotations\<rparr>"

definition ensureDBPurgeJob ::
  "env \<Rightarrow> string gomap \<Rightarrow> string gomap \<Rightarrow> (Glance world, 'r, reconcile_result) act" where
  "ensureDBPurgeJob E serviceLabels serviceAnnotations =
     bind (read (\<lambda>i. i)) (\<lambda>i.
       call (CCronJob (DBPurgeJob (k8s E) i (purge_spec i serviceLabels serviceAnnotations))) (resp_res E))"

section \<open>transportURLCreateOrUpdate\<close>

text \<open>The secret name in the status of the object written.\<close>

definition transportURLCreateOrUpdate ::
  "env \<Rightarrow> string gomap \<Rightarrow> RabbitMqConfig \<Rightarrow> string \<Rightarrow> (Glance world, 'r, go_error + string) act" where
  "transportURLCreateOrUpdate E serviceLabels rabbitMqConfig bus =
     bind (read (\<lambda>i. i)) (\<lambda>i.
       call (CTransportURL
          \<lparr>tu_Name = o_Name i @ ''-glance-transport'', tu_Namespace = o_Namespace i,
           tu_Labels = serviceLabels, tu_RabbitmqClusterName = bus,
           tu_Username = rmq_User rabbitMqConfig, tu_Vhost = rmq_Vhost rabbitMqConfig\<rparr>) (resp_str E))"

section \<open>The GlanceAPIs\<close>

text \<open>What an instance inherits from the resource.\<close>

definition zero_api_status :: GlanceAPIStatus where
  "zero_api_status =
     \<lparr>as_ReadyCount = 0, as_Hash = None, as_APIEndpoints = None, as_Conditions = None,
      as_NetworkAttachments = None, as_Domain = [], as_ObservedGeneration = 0,
      as_LastAppliedTopology = None, as_NotificationBusSecret = [],
      as_ApplicationCredentialSecret = []\<rparr>"

definition str_option :: "'a option \<Rightarrow> 'a option \<Rightarrow> 'a option" where
  "str_option x d = (case x of None \<Rightarrow> d | Some _ \<Rightarrow> x)"

definition inherit_template :: "Glance \<Rightarrow> GlanceAPITemplate \<Rightarrow> GlanceAPITemplate" where
  "inherit_template i t =
     t\<lparr>t_NodeSelector := str_option (t_NodeSelector t) (g_NodeSelector (Spec i)),
       t_ImageCache := (t_ImageCache t)\<lparr>Size := str_or (Size (t_ImageCache t)) (Size (g_ImageCache (Spec i)))\<rparr>,
       t_Storage :=
         \<lparr>StorageClass = str_or (StorageClass (t_Storage t)) (StorageClass (g_Storage (Spec i))),
          StorageRequest = str_or (StorageRequest (t_Storage t)) (StorageRequest (g_Storage (Spec i))),
          External = (External (t_Storage t) \<or> External (g_Storage (Spec i)))\<rparr>,
       t_TopologyRef := str_option (t_TopologyRef t) (g_TopologyRef (Spec i))\<rparr>"

definition api_spec :: "Glance \<Rightarrow> GlanceAPITemplate \<Rightarrow> string \<Rightarrow> GlanceAPISpec" where
  "api_spec i t apiType =
     GlanceAPITemplate.extend (inherit_template i t)
       (GlanceAPISpec.fields (g_ContainerImage (Spec i)) apiType (g_ServiceUser (Spec i))
          (RbacResourceName i) (s_DatabaseHostname (Status i)) (g_DatabaseAccount (Spec i))
          (g_Secret (Spec i)) (g_PasswordSelectors (Spec i)) (g_ExtraMounts (Spec i)) (IsQuotaEnabled i)
          (g_MemcachedInstance (Spec i)) (s_NotificationBusSecret (Status i)))"

definition bool_str :: "bool \<Rightarrow> string" where
  "bool_str b = (if b then ''true'' else ''false'')"

definition api_annotations :: "Glance \<Rightarrow> string \<Rightarrow> bool \<Rightarrow> string gomap" where
  "api_annotations i apiName wsgi =
     (if g_KeystoneEndpoint (Spec i) = apiName then [(KeystoneEndpointAnnotation, ''true'')] else []) @
     [(GlanceWSGILabel, bool_str wsgi)]"

definition api_object_name :: "Glance \<Rightarrow> string \<Rightarrow> string \<Rightarrow> string" where
  "api_object_name i apiName apiType = o_Name i @ ''-'' @ apiName @ ''-'' @ apiType"

definition api_skeleton ::
  "Glance \<Rightarrow> GlanceAPITemplate \<Rightarrow> string \<Rightarrow> string \<Rightarrow> string gomap \<Rightarrow> bool \<Rightarrow> GlanceAPI" where
  "api_skeleton i t apiType apiName serviceLabels wsgi =
     \<lparr>o_Name = api_object_name i apiName apiType, o_Namespace = o_Namespace i,
      o_Labels = AList.update APINameLabel apiName serviceLabels,
      o_Annotations = api_annotations i apiName wsgi, o_Finalizers = [], o_OwnerReferences = [],
      o_Generation = 0, o_Deleted = False, ASpec = api_spec i t apiType, AStatus = zero_api_status\<rparr>"

text \<open>The first part of the callback: annotations, spec, and the inherited configuration.\<close>

definition desired_api :: "Glance \<Rightarrow> string gomap \<Rightarrow> GlanceAPISpec \<Rightarrow> GlanceAPI \<Rightarrow> GlanceAPI" where
  "desired_api i annotations spec api =
     api\<lparr>o_Annotations := annotations,
         ASpec := spec
           \<lparr>t_CustomServiceConfig := str_or (t_CustomServiceConfig spec) (g_CustomServiceConfig (Spec i)),
            t_CustomServiceConfigSecrets :=
              (if t_CustomServiceConfigSecrets spec = [] then g_CustomServiceConfigSecrets (Spec i)
               else t_CustomServiceConfigSecrets spec)\<rparr>\<rparr>"

definition apiDeploymentCreateOrUpdate ::
  "env \<Rightarrow> GlanceAPITemplate \<Rightarrow> string \<Rightarrow> string \<Rightarrow> string gomap \<Rightarrow> bool \<Rightarrow>
     (Glance world, 'r, go_error + GlanceAPI) act" where
  "apiDeploymentCreateOrUpdate E apiTemplate apiType apiName serviceLabels wsgi =
     fn (bind (read (\<lambda>i. i)) (\<lambda>i.
       let skeleton = api_skeleton i apiTemplate apiType apiName serviceLabels wsgi in
       attempt (call (CReadGlanceAPI (o_Namespace i) (o_Name skeleton)) (resp_found E)) (\<lambda>e. exit_with (Inl e)) (\<lambda>found.
         let seen = (case found of None \<Rightarrow> skeleton | Some api \<Rightarrow> api);
             api = desired_api i (api_annotations i apiName wsgi) (api_spec i apiTemplate apiType) seen in
         seq (whenever (IsQuotaEnabled i)
                (must (ensureRegisteredLimits E (GetQuotaLimits i)) (\<lambda>e. exit_with (Inl e))))
             (attempt (ret (SetControllerReference E (o_Name i) api)) (\<lambda>e. exit_with (Inl e)) (\<lambda>owned.
                call (CWriteGlanceAPI owned) (resp_api E))))))"

section \<open>apiDeployment\<close>

definition external_type :: "string \<Rightarrow> string" where
  "external_type type =
     (if type = APIEdge then APIEdge else if type = APISingle then APISingle else APIExternal)"

text \<open>The layouts without a location API that the operator refuses.\<close>

definition check_layout ::
  "Glance \<Rightarrow> GlanceAPITemplate \<Rightarrow> bool \<Rightarrow> (Glance world, go_error option, unit) act" where
  "check_layout i current locationAPI =
     bind (of_go (IsFileBackend (g_CustomServiceConfig (Spec i)) True)) (\<lambda>topLevelFileBackend.
     whenever (\<not> locationAPI \<and> t_Type current = APISingle)
       (bind (of_go (IsFileBackend (t_CustomServiceConfig current) topLevelFileBackend)) (\<lambda>onFile.
          whenever (\<not> onFile)
            (seq (set_false GlanceAPIReadyCondition ErrorReason SeverityWarning
                    (Msg (error_text ErrInvalidBackend) []))
                 (exit_with (Some ErrInvalidBackend))))))"

definition api_error :: "go_error \<Rightarrow> (Glance world, go_error option, 'a) act" where
  "api_error e =
     seq (set_false GlanceAPIReadyCondition ErrorReason SeverityWarning
            (Msg ''GlanceAPI error occured %s'' [error_text e]))
         (exit_with (Some e))"

text \<open>Mirroring the status of the external instance.\<close>

definition mirror_external ::
  "string \<Rightarrow> GlanceAPITemplate \<Rightarrow> GlanceAPI \<Rightarrow> (Glance world, go_error option, unit) act" where
  "mirror_external name current glanceAPI =
     seq (set_status (\<lambda>s. s\<lparr>s_GlanceAPIReadyCounts :=
            Some (AList.update name (as_ReadyCount (AStatus glanceAPI)) (the_map (s_GlanceAPIReadyCounts s)))\<rparr>))
         (case as_APIEndpoints (AStatus glanceAPI) of
            None \<Rightarrow> ret ()
          | Some eps \<Rightarrow>
              seq (whenever (t_Type current \<noteq> APIEdge)
                     (set_api_endpoint (name @ ''-'' @ endpoint_str EndpointPublic)
                        (map_str eps (endpoint_str EndpointPublic))))
                  (whenever (t_Type current = APISingle \<or> t_Type current = APIEdge)
                     (set_api_endpoint (name @ ''-'' @ endpoint_str EndpointInternal)
                        (map_str eps (endpoint_str EndpointInternal)))))"

definition api_mirror :: "env \<Rightarrow> GlanceAPI \<Rightarrow> condition option" where
  "api_mirror E api =
     mirror E (case as_Conditions (AStatus api) of None \<Rightarrow> [] | Some l \<Rightarrow> l) GlanceAPIReadyCondition"

text \<open>The internal instance of a split layout; the condition to report.\<close>

definition deploy_internal ::
  "env \<Rightarrow> string \<Rightarrow> GlanceAPITemplate \<Rightarrow> string gomap \<Rightarrow> bool \<Rightarrow> condition option \<Rightarrow>
     (Glance world, go_error option, condition option) act" where
  "deploy_internal E name current serviceLabels wsgi apiCondition =
     attempt (apiDeploymentCreateOrUpdate E current APIInternal name serviceLabels wsgi) api_error (\<lambda>glanceAPI.
       seq (set_status (\<lambda>s. s\<lparr>s_APIEndpoints := Some (the_map (s_APIEndpoints s))\<rparr>))
      (seq (case as_APIEndpoints (AStatus glanceAPI) of
              None \<Rightarrow> ret ()
            | Some eps \<Rightarrow>
                set_api_endpoint (name @ ''-'' @ endpoint_str EndpointInternal)
                  (map_str eps (endpoint_str EndpointInternal)))
           (ret (higher_prio E (api_mirror E glanceAPI) apiCondition))))"

definition apiDeployment ::
  "env \<Rightarrow> string \<Rightarrow> GlanceAPITemplate \<Rightarrow> string gomap \<Rightarrow> bool \<Rightarrow> (Glance world, 'r, go_error option) act" where
  "apiDeployment E name current serviceLabels locationAPI =
     fn (bind (read (\<lambda>i. i)) (\<lambda>i.
         seq (check_layout i current locationAPI)
        (attempt (ret (GetBoolFromAnnotation E (o_Annotations i) GlanceWSGILabel)) api_error (\<lambda>(flag, exists).
           let wsgi = (if \<not> exists then True else flag) in
         attempt (apiDeploymentCreateOrUpdate E current (external_type (t_Type current)) name serviceLabels wsgi)
           api_error (\<lambda>glanceAPI.
         seq (mirror_external name current glanceAPI)
        (bind (if t_Type current = ''split'' \<or> t_Type current = []
               then deploy_internal E name current serviceLabels wsgi (api_mirror E glanceAPI)
               else ret (api_mirror E glanceAPI)) (\<lambda>apiCondition.
         seq (whenever (apiCondition \<noteq> None) (cond (CSet apiCondition)))
             (ret None))))))))"

section \<open>Cleanup and generations\<close>

definition drop_status :: "string \<Rightarrow> GlanceStatus \<Rightarrow> GlanceStatus" where
  "drop_status apiName s =
     s\<lparr>s_APIEndpoints := map_option (AList.delete (apiName @ ''-'' @ endpoint_str EndpointInternal) \<circ>
          AList.delete (apiName @ ''-'' @ endpoint_str EndpointPublic)) (s_APIEndpoints s),
       s_GlanceAPIReadyCounts := map_option (AList.delete apiName) (s_GlanceAPIReadyCounts s)\<rparr>"

definition cleanup_one :: "env \<Rightarrow> Glance \<Rightarrow> GlanceAPI \<Rightarrow> (Glance world, go_error option, unit) act" where
  "cleanup_one E i glanceAPI =
     (if GetOwningGlanceName glanceAPI \<noteq> o_Name i then ret ()
      else let apiName = APIName glanceAPI in
        if apiName = [] then exit_with None
        else whenever (lookup (g_GlanceAPIs (Spec i)) apiName = None \<and> \<not> o_Deleted glanceAPI)
          (seq (must (call (CDeleteGlanceAPI glanceAPI) (resp_err E)) (\<lambda>err.
                  if IsNotFound err then ret ()
                  else exit_with (Some (Wrapped (''error cleaning up '' @ o_Name glanceAPI @ '': '') err))))
               (set_status (drop_status apiName))))"

definition glanceAPICleanup :: "env \<Rightarrow> (Glance world, 'r, go_error option) act" where
  "glanceAPICleanup E =
     fn (bind (read (\<lambda>i. i)) (\<lambda>i.
         attempt (call (CListGlanceAPIs (o_Namespace i)) (resp_apis E)) (\<lambda>_. exit_with None) (\<lambda>apis.
         seq (for_each (cleanup_one E i) apis) (ret None))))"

definition checkGlanceAPIsGeneration :: "env \<Rightarrow> (Glance world, 'r, go_error + bool) act" where
  "checkGlanceAPIsGeneration E =
     bind (read o_Namespace) (\<lambda>ns.
     bind (call (CListGlanceAPIs ns) (resp_apis E)) (\<lambda>r.
       ret (case r of
              Inl e \<Rightarrow> Inl e
            | Inr apis \<Rightarrow> Inr (list_all (\<lambda>a. o_Generation a = as_ObservedGeneration (AStatus a)) apis))))"

section \<open>reconcileNormal\<close>

definition normal_rbac :: "env \<Rightarrow> (Glance world, reconcile_result, unit) act" where
  "normal_rbac E =
     bind (call CReconcileRbac (resp_rbac E)) (\<lambda>((rbacResult, err), conds).
       seq (for_each (\<lambda>c. cond (CSet (Some c))) conds)
      (seq (whenever (err \<noteq> None) (exit_with (rbacResult, err)))
           (whenever (rbacResult \<noteq> EmptyResult) (exit_with (rbacResult, None)))))"

definition normal_transport :: "env \<Rightarrow> string gomap \<Rightarrow> (Glance world, reconcile_result, unit) act" where
  "normal_transport E serviceLabels =
     bind (read (\<lambda>i. i)) (\<lambda>i.
     seq (case g_NotificationBusInstance (Spec i) of
            Some bus \<Rightarrow>
              if bus \<noteq> [] then
                (let config = (case g_NotificationsBus (Spec i) of
                                 None \<Rightarrow> \<lparr>rmq_Cluster = [], rmq_User = [], rmq_Vhost = []\<rparr>
                               | Some c \<Rightarrow> c) in
                 attempt (transportURLCreateOrUpdate E serviceLabels config bus) (\<lambda>e.
                     seq (set_error NotificationBusInstanceReadyCondition
                            ''NotificationBusInstanceReadyErrorMessage'' e)
                         (exit_with (EmptyResult, Some e))) (\<lambda>secretName.
                   seq (set_status (\<lambda>s. s\<lparr>s_NotificationBusSecret := secretName\<rparr>))
                       (whenever (secretName = [])
                          (seq (set_false NotificationBusInstanceReadyCondition RequestedReason SeverityInfo
                                 (LibMsg ''NotificationBusInstanceReadyRunningMessage'' []))
                               (exit_with (ResultRequeue, None))))))
              else set_status (\<lambda>s. s\<lparr>s_NotificationBusSecret := []\<rparr>)
          | None \<Rightarrow> set_status (\<lambda>s. s\<lparr>s_NotificationBusSecret := []\<rparr>))
         (mark_true NotificationBusInstanceReadyCondition ''NotificationBusInstanceReadyMessage''))"

text \<open>Memcached, the same text in both controllers.\<close>

definition ensure_memcached ::
  "env \<Rightarrow> string \<Rightarrow> string \<Rightarrow> ('i world, reconcile_result, MemcachedObj) act" where
  "ensure_memcached E name ns =
     attempt (call (CGetMemcachedByName name ns) (resp_memcached E)) (\<lambda>err.
       if IsNotFound err then
         seq (set_false MemcachedReadyCondition ErrorReason SeverityWarning
                (LibMsg ''MemcachedReadyWaitingMessage'' []))
             (exit_with (ResultRequeue, None))
       else
         seq (set_error MemcachedReadyCondition ''MemcachedReadyErrorMessage'' err)
             (exit_with (EmptyResult, Some err))) (\<lambda>memcached.
     seq (whenever (\<not> mc_Ready memcached)
            (seq (set_false MemcachedReadyCondition RequestedReason SeverityInfo
                    (LibMsg ''MemcachedReadyWaitingMessage'' []))
                 (exit_with (ResultRequeue, None))))
    (seq (mark_true MemcachedReadyCondition ''MemcachedReadyMessage'')
         (ret memcached)))"

text \<open>The error of the secret is not returned: only its result is.\<close>

definition normal_secret :: "env \<Rightarrow> (Glance world, reconcile_result, unit) act" where
  "normal_secret E =
     bind (read (\<lambda>i. i)) (\<lambda>i.
     bind (verifyServiceSecret E (o_Namespace i) (g_Secret (Spec i))
             [ps_Service (g_PasswordSelectors (Spec i))] NormalDuration []) (\<lambda>((ctrlResult, err), configVars).
       seq (whenever (err \<noteq> None \<or> ctrlResult \<noteq> EmptyResult) (exit_with (ctrlResult, None)))
           (mark_true InputReadyCondition ''InputReadyMessage'')))"

definition normal_db :: "env \<Rightarrow> (Glance world, reconcile_result, Database) act" where
  "normal_db E =
     bind (ensureDB E) (\<lambda>(db, ctrlResult, err).
       seq (must (ret err) (\<lambda>e.
              seq (set_error DBReadyCondition ''DBReadyErrorMessage'' e)
                  (exit_with (EmptyResult, Some e))))
      (seq (whenever (ctrlResult \<noteq> EmptyResult)
              (seq (cond (CSet (Some (UnknownCondition DBReadyCondition RequestedReason
                                        (LibMsg ''DBReadyRunningMessage'' [])))))
                   (exit_with (ctrlResult, None))))
           (case db of None \<Rightarrow> crash NilDereference | Some d \<Rightarrow> ret d)))"

definition normal_config ::
  "env \<Rightarrow> string gomap \<Rightarrow> Database \<Rightarrow> (Glance world, reconcile_result, unit) act" where
  "normal_config E serviceLabels db =
     seq (must (Glance_generateServiceConfig E serviceLabels db) (\<lambda>e.
            seq (set_error ServiceConfigReadyCondition ''ServiceConfigReadyErrorMessage'' e)
                (exit_with (EmptyResult, Some e))))
         (mark_true ServiceConfigReadyCondition ''ServiceConfigReadyMessage'')"

text \<open>The annotations of the last instance win; a requeue asked for is dropped.\<close>

definition normal_networks :: "env \<Rightarrow> (Glance world, reconcile_result, string gomap) act" where
  "normal_networks E =
     bind (read (\<lambda>i. i)) (\<lambda>i.
     for_acc (\<lambda>name _.
         bind (ensureNAD E (o_Namespace i)
                 (case lookup (g_GlanceAPIs (Spec i)) name of None \<Rightarrow> [] | Some a \<Rightarrow> t_NetworkAttachments a))
           (\<lambda>(annotations, ctrlResult, err).
             seq (whenever (err \<noteq> None) (exit_with (ctrlResult, err))) (ret annotations)))
       (sorted_keys (g_GlanceAPIs (Spec i))) [])"

definition normal_init ::
  "env \<Rightarrow> string gomap \<Rightarrow> string gomap \<Rightarrow> (Glance world, reconcile_result, unit) act" where
  "normal_init E serviceLabels serviceAnnotations =
     bind (Glance_reconcileInit E serviceLabels serviceAnnotations) (\<lambda>(ctrlResult, err).
       seq (whenever (err \<noteq> None) (exit_with (ctrlResult, err)))
           (whenever (ctrlResult \<noteq> EmptyResult) (exit_with (ctrlResult, None))))"

text \<open>A wrong location annotation is reported in the condition, and the value is false.\<close>

definition normal_location :: "env \<Rightarrow> (Glance world, reconcile_result, bool) act" where
  "normal_location E =
     bind (read (\<lambda>i. i)) (\<lambda>i.
     let (locationAPI, err) = GetLocationAPI (GetBoolFromAnnotation E) i in
     seq (must (ret err) (\<lambda>e. set_false GlanceAPIReadyCondition ErrorReason SeverityWarning
            (Msg ''GlanceAPI error occured %s'' [error_text e])))
         (ret locationAPI))"

definition normal_apis ::
  "env \<Rightarrow> string gomap \<Rightarrow> bool \<Rightarrow> (Glance world, reconcile_result, unit) act" where
  "normal_apis E serviceLabels locationAPI =
     bind (read (\<lambda>i. i)) (\<lambda>i.
     for_each (\<lambda>name.
         case lookup (g_GlanceAPIs (Spec i)) name of
           None \<Rightarrow> ret ()
         | Some current \<Rightarrow>
             must (apiDeployment E name current serviceLabels locationAPI) (\<lambda>e. exit_with (EmptyResult, Some e)))
       (sorted_keys (g_GlanceAPIs (Spec i))))"

definition normal_cleanup :: "env \<Rightarrow> (Glance world, reconcile_result, unit) act" where
  "normal_cleanup E =
     seq (must (glanceAPICleanup E) (\<lambda>e. exit_with (EmptyResult, Some e)))
         (bind (read (\<lambda>i. i)) (\<lambda>i.
            must (call (CDeleteUnusedMariaDBAccountFinalizers DatabaseName (g_DatabaseAccount (Spec i)) (o_Namespace i))
                    (resp_err E)) (\<lambda>e. exit_with (EmptyResult, Some e))))"

definition normal_purge ::
  "env \<Rightarrow> string gomap \<Rightarrow> string gomap \<Rightarrow> (Glance world, reconcile_result, ctrl_result) act" where
  "normal_purge E serviceLabels serviceAnnotations =
     bind (ensureDBPurgeJob E serviceLabels serviceAnnotations) (\<lambda>(ctrlResult, err).
       seq (must (ret err) (\<lambda>e.
              seq (set_error CronJobReadyCondition ''CronJobReadyErrorMessage'' e)
                  (exit_with (ctrlResult, Some e))))
      (seq (mark_true CronJobReadyCondition ''CronJobReadyMessage'')
           (ret ctrlResult)))"

text \<open>The last step: the Ready condition.\<close>

definition normal_ready :: "env \<Rightarrow> ctrl_result \<Rightarrow> (Glance world, reconcile_result, unit) act" where
  "normal_ready E ctrlResult =
     attempt (checkGlanceAPIsGeneration E) (\<lambda>e. exit_with (ctrlResult, Some e)) (\<lambda>subGen.
     bind (gets w_conds) (\<lambda>conds.
       whenever (all_sub_true E conds \<and> subGen) (mark_true ReadyCondition ''ReadyMessage'')))"

definition Glance_reconcileNormal :: "env \<Rightarrow> (Glance world, 'r, reconcile_result) act" where
  "Glance_reconcileNormal E =
     (let serviceLabels = [(AppSelector (k8s E), ServiceName)] in
      fn (seq (normal_rbac E)
         (seq (normal_transport E serviceLabels)
         (bind (read (\<lambda>i. i)) (\<lambda>i.
         (bind (ensure_memcached E (g_MemcachedInstance (Spec i)) (o_Namespace i)) (\<lambda>_.
          seq (normal_secret E)
         (bind (normal_db E) (\<lambda>db.
          seq (normal_config E serviceLabels db)
         (bind (normal_networks E) (\<lambda>serviceAnnotations.
          seq (normal_init E serviceLabels serviceAnnotations)
         (bind (normal_location E) (\<lambda>locationAPI.
          seq (normal_apis E serviceLabels locationAPI)
         (seq (normal_cleanup E)
         (bind (normal_purge E serviceLabels serviceAnnotations) (\<lambda>ctrlResult.
          seq (normal_ready E ctrlResult)
              (ret (EmptyResult, None))))))))))))))))))"

section \<open>Reconcile\<close>

definition glance_conditions :: "Glance \<Rightarrow> condition list" where
  "glance_conditions i =
     map (\<lambda>(t, m). UnknownCondition t InitReason m)
       [(ReadyCondition, LibMsg ''ReadyInitMessage'' []),
        (DBReadyCondition, LibMsg ''DBReadyInitMessage'' []),
        (DBSyncReadyCondition, LibMsg ''DBSyncReadyInitMessage'' []),
        (MemcachedReadyCondition, LibMsg ''MemcachedReadyInitMessage'' []),
        (InputReadyCondition, LibMsg ''InputReadyInitMessage'' []),
        (ServiceConfigReadyCondition, LibMsg ''ServiceConfigReadyInitMessage'' []),
        (GlanceAPIReadyCondition, Msg ''GlanceAPI not started'' []),
        (KeystoneServiceReadyCondition, Msg [] []),
        (ServiceAccountReadyCondition, LibMsg ''ServiceAccountReadyInitMessage'' []),
        (RoleReadyCondition, LibMsg ''RoleReadyInitMessage'' []),
        (RoleBindingReadyCondition, LibMsg ''RoleBindingReadyInitMessage'' []),
        (CronJobReadyCondition, LibMsg ''CronJobReadyInitMessage'' [])] @
     (case g_NotificationBusInstance (Spec i) of
        None \<Rightarrow> []
      | Some _ \<Rightarrow> [UnknownCondition NotificationBusInstanceReadyCondition InitReason
                    (LibMsg ''NotificationBusInstanceReadyInitMessage'' [])])"

text \<open>After the initialisation of the conditions: the finalizer, the maps of the status, the handler.\<close>

definition Glance_handle :: "env \<Rightarrow> bool \<Rightarrow> Glance \<Rightarrow> (Glance world, reconcile_result, reconcile_result) act" where
  "Glance_handle E isNewInstance i =
     (let (fs, added) = AddFinalizer E (o_Finalizers i);
          deleting = o_Deleted i in
      seq (set_status (\<lambda>s. s\<lparr>s_ObservedGeneration := o_Generation i\<rparr>))
     (seq (whenever (\<not> deleting) (set_inst (\<lambda>i. i\<lparr>o_Finalizers := fs\<rparr>)))
     (seq (whenever ((\<not> deleting \<and> added) \<or> isNewInstance) (exit_with (EmptyResult, None)))
     (seq (set_status (\<lambda>s. s\<lparr>s_Hash := Some (the_map (s_Hash s)),
                            s_APIEndpoints := Some (the_map (s_APIEndpoints s)),
                            s_GlanceAPIReadyCounts := Some (the_map (s_GlanceAPIReadyCounts s))\<rparr>))
          (if deleting then Glance_reconcileDelete E else Glance_reconcileNormal E)))))"

definition Glance_body :: "env \<Rightarrow> bool \<Rightarrow> (Glance world, 'r, reconcile_result) act" where
  "Glance_body E isNewInstance =
     fn (bind (read (\<lambda>i. i)) (\<lambda>i.
         seq (cond (CInit (glance_conditions i))) (Glance_handle E isNewInstance i)))"

text \<open>
  The deferred function restores the times, mirrors the Ready condition when it is unknown,
  and patches the instance; a panic leaves before any of it.
\<close>

definition deferred_conditions :: "env \<Rightarrow> cond_log \<Rightarrow> cond_log" where
  "deferred_conditions E conds =
     (let l = CRestoreTimes # conds in
      if is_unknown E l ReadyCondition then CSet (mirror E l ReadyCondition) # l else l)"

definition Glance_Reconcile :: "env \<Rightarrow> string \<Rightarrow> string \<Rightarrow> call list \<Rightarrow> reconcile_result go \<times> call list" where
  "Glance_Reconcile E ns name tr0 =
     (let tr1 = CGetGlance ns name # tr0 in
      case resp_glance E tr1 of
        Inl err \<Rightarrow> (Ret (EmptyResult, if IsNotFound err then None else Some err), tr1)
      | Inr i \<Rightarrow>
          (let tr2 = CNewHelper # tr1 in
           case resp_err E tr2 of
             Some err \<Rightarrow> (Ret (EmptyResult, Some err), tr2)
           | None \<Rightarrow>
               (let conds = s_Conditions (Status i) in
                case Glance_body E (conds = None)
                       \<lparr>w_inst = i, w_conds = (case conds of None \<Rightarrow> [] | Some l \<Rightarrow> l), w_trace = tr2\<rparr> of
                  (Crash p, w) \<Rightarrow> (Panic p, w_trace w)
                | (Return r, w) \<Rightarrow> (Ret r, w_trace w)
                | (Next (result, err), w) \<Rightarrow>
                    (let tr3 = CPatchGlance (w_inst w) (deferred_conditions E (w_conds w)) # w_trace w in
                     case resp_err E tr3 of
                       Some e \<Rightarrow> (Ret (result, Some e), tr3)
                     | None \<Rightarrow> (Ret (result, err), tr3)))))"

section \<open>Memcached, of both controllers\<close>

lemma checked_memcached: "checked (memcached_ready E) (ensure_memcached E n ns)"
  by (rule checkedI) (auto simp: ensure_memcached_def run_iffs memcached_ready_def evidence_Cons
    split: if_splits sum.splits)

end
