(* ===== verification/GlanceRun.thy ===== *)
theory GlanceRun
  imports Sample GlanceCtl
begin

text \<open>
  A run of the Glance controller in the sample environment: a plain resource with one split
  instance becomes Ready in one reconcile.
\<close>

lemmas run_simps = run_defs world_defs Let_def set_status_def

definition plain_glance :: "Glance \<Rightarrow> bool" where
  "plain_glance i \<longleftrightarrow> \<not> IsQuotaEnabled i \<and> Size (g_ImageCache (Spec i)) = [] \<and>
     g_NotificationBusInstance (Spec i) = None \<and> o_Annotations i = [] \<and> g_CustomServiceConfig (Spec i) = []"

lemma empty_file: "IsFileBackend [] True = Ret True" by code_simp

definition new_api :: "Glance \<Rightarrow> GlanceAPITemplate \<Rightarrow> string \<Rightarrow> string \<Rightarrow> string gomap \<Rightarrow> bool \<Rightarrow> GlanceAPI" where
  "new_api i t ty n sl ws =
     (desired_api i (api_annotations i n ws) (api_spec i t ty) (api_skeleton i t ty n sl ws))
       \<lparr>o_OwnerReferences := [(''Glance'', o_Name i)]\<rparr>"

lemma api_create_run:
  "\<not> IsQuotaEnabled (w_inst w) \<Longrightarrow> apiDeploymentCreateOrUpdate (sample_env g a) t ty n sl ws w =
     (Next (Inr (observed (new_api (w_inst w) t ty n sl ws))),
      w\<lparr>w_trace := CWriteGlanceAPI (new_api (w_inst w) t ty n sl ws) #
        CReadGlanceAPI (o_Namespace (w_inst w)) (o_Name (api_skeleton (w_inst w) t ty n sl ws)) # w_trace w\<rparr>)"
  by (simp add: apiDeploymentCreateOrUpdate_def run_simps new_api_def)

lemma quota_status [simp]:
  "IsQuotaEnabled (i\<lparr>Status := s\<rparr>) = IsQuotaEnabled i"
  "IsQuotaEnabled (i\<lparr>o_Finalizers := fs\<rparr>) = IsQuotaEnabled i"
  by (simp_all add: IsQuotaEnabled_def)

definition after_api ::
  "env \<Rightarrow> string \<Rightarrow> GlanceAPITemplate \<Rightarrow> string gomap \<Rightarrow> Glance world \<Rightarrow> Glance world" where
  "after_api E n t sl w =
     snd ((apiDeployment E n t sl False :: (Glance world, reconcile_result, go_error option) act) w)"

lemma api_run:
  assumes "\<not> IsQuotaEnabled (w_inst w)" "g_CustomServiceConfig (Spec (w_inst w)) = []"
    "o_Annotations (w_inst w) = []" "t_Type t = ''split''" "s_APIEndpoints (Status (w_inst w)) = Some m"
  shows "\<exists>tr s api. apiDeployment (sample_env g a) n t sl False w =
     (Next None, w\<lparr>w_trace := CWriteGlanceAPI api # tr, w_inst := (w_inst w)\<lparr>Status := s\<rparr>,
        w_conds := CSet (Some (TrueCondition GlanceAPIReadyCondition (LibMsg [] []))) # w_conds w\<rparr>)"
  using assms
  apply (simp add: apiDeployment_def check_layout_def empty_file of_go_def run_simps external_type_def
      api_create_run api_type_defs mirror_external_def)
  apply (simp add: observed_def set_api_endpoint_def write_map_def of_go_def run_simps api_type_defs
      deploy_internal_def api_create_run)
  apply (simp add: the_map_def api_mirror_def)
  apply (intro exI)
  apply (rule refl)
  done

lemma after_api:
  fixes g :: Glance and a :: GlanceAPI and n :: string and sl :: "string gomap"
  assumes "\<not> IsQuotaEnabled (w_inst w)" "g_CustomServiceConfig (Spec (w_inst w)) = []"
    "o_Annotations (w_inst w) = []" "t_Type t = ''split''" "s_APIEndpoints (Status (w_inst w)) = Some m"
  defines "w' \<equiv> after_api (sample_env g a) n t sl w"
  shows "(apiDeployment (sample_env g a) n t sl False ::
       (Glance world, reconcile_result, go_error option) act) w = (Next None, w')"
    and "w_conds w' = CSet (Some (TrueCondition GlanceAPIReadyCondition (LibMsg [] []))) # w_conds w"
    and "Spec (w_inst w') = Spec (w_inst w)" and "o_Name (w_inst w') = o_Name (w_inst w)"
    and "o_Namespace (w_inst w') = o_Namespace (w_inst w)"
    and "\<exists>api. CWriteGlanceAPI api \<in> set (w_trace w')"
proof -
  from api_run [OF assms(1-5), of g a n sl] obtain tr s api where
    run: "(apiDeployment (sample_env g a) n t sl False ::
       (Glance world, reconcile_result, go_error option) act) w =
     (Next None, w\<lparr>w_trace := CWriteGlanceAPI api # tr, w_inst := (w_inst w)\<lparr>Status := s\<rparr>,
        w_conds := CSet (Some (TrueCondition GlanceAPIReadyCondition (LibMsg [] []))) # w_conds w\<rparr>)"
    by blast
  then have w': "w' = w\<lparr>w_trace := CWriteGlanceAPI api # tr, w_inst := (w_inst w)\<lparr>Status := s\<rparr>,
      w_conds := CSet (Some (TrueCondition GlanceAPIReadyCondition (LibMsg [] []))) # w_conds w\<rparr>"
    by (simp add: w'_def after_api_def)
  with run show "(apiDeployment (sample_env g a) n t sl False ::
       (Glance world, reconcile_result, go_error option) act) w = (Next None, w')" by simp
  from w' show "w_conds w' = CSet (Some (TrueCondition GlanceAPIReadyCondition (LibMsg [] []))) # w_conds w"
    "Spec (w_inst w') = Spec (w_inst w)" "o_Name (w_inst w') = o_Name (w_inst w)"
    "o_Namespace (w_inst w') = o_Namespace (w_inst w)" "\<exists>api. CWriteGlanceAPI api \<in> set (w_trace w')"
    by auto
qed

lemma normal_run:
  assumes "GetOwningGlanceName (observed a) = o_Name i" "APIName (observed a) \<noteq> []" "\<not> o_Deleted a" "plain_glance i"
    "g_GlanceAPIs (Spec i) = [(n, t)]" "t_Type t = ''split''" "t_NetworkAttachments t = []"
    "s_APIEndpoints (Status i) = Some m" "s_Hash (Status i) = Some h"
  shows "\<exists>w' l. Glance_reconcileNormal (sample_env g a)
       \<lparr>w_inst = i, w_conds = [CInit (glance_conditions i)], w_trace = tr\<rparr> = (Next (EmptyResult, None), w') \<and>
       w_conds w' = CMarkTrue ReadyCondition (LibMsg ''ReadyMessage'' []) # l \<and>
       (\<exists>api. CWriteGlanceAPI api \<in> set (w_trace w')) \<and>
       (APIName (observed a) \<noteq> n \<longrightarrow> CDeleteGlanceAPI (observed a) \<in> set (w_trace w'))"
  using assms
  apply (simp add: Glance_reconcileNormal_def normal_rbac_def run_simps sample_rbac_def plain_glance_def)
  apply (simp add: normal_transport_def run_simps)
  apply (simp add: ensure_memcached_def normal_secret_def verifyServiceSecret_def run_simps)
  apply (simp add: normal_db_def ensureDB_def run_simps yes_def)
  apply (simp add: normal_config_def Glance_generateServiceConfig_def cache_params_def GenerateConfigsGeneric_def
      run_simps)
  apply (simp add: normal_networks_def sorted_keys_def keys_def ensureNAD_def run_simps)
  apply (simp add: normal_init_def Glance_reconcileInit_def init_keystone_def init_dbsync_def run_simps)
  apply (simp add: normal_location_def GetLocationAPI_def normal_apis_def sorted_keys_def keys_def run_simps)
  apply (simp add: after_api the_map_def)
  apply (simp add: normal_cleanup_def glanceAPICleanup_def cleanup_one_def run_simps after_api)
  apply (simp add: normal_purge_def ensureDBPurgeJob_def yes_def run_simps after_api)
  apply (simp add: normal_ready_def checkGlanceAPIsGeneration_def run_simps after_api)
  apply (simp add: cond_all_sub_true_def all_ctypes_def glance_conditions_def UnknownCondition_def TrueCondition_def
      observed_def after_api)
  done

definition waiting_glance :: Glance where
  "waiting_glance =
     (sample_glance [] ''a'' [(''a'', sample_template 1 ''split'' [])])
       \<lparr>o_Finalizers := [''fin''],
        Status := (Status (sample_glance [] [] []))
          \<lparr>s_Conditions := Some [], s_APIEndpoints := Some [], s_Hash := Some []\<rparr>\<rparr>"

section \<open>A reconcile\<close>

text \<open>The resource after the steps before the handler.\<close>

definition handled_glance :: Glance where
  "handled_glance = waiting_glance\<lparr>Status := (Status waiting_glance)
     \<lparr>s_ObservedGeneration := o_Generation waiting_glance, s_GlanceAPIReadyCounts := Some []\<rparr>\<rparr>"

text \<open>The API server lists one GlanceAPI, of the name \<open>x\<close>.\<close>

lemma sample_normal:
  assumes "x \<noteq> []"
  shows "\<exists>w' l. Glance_reconcileNormal (sample_env g (sample_api x ''internal''))
       \<lparr>w_inst = handled_glance, w_conds = [CInit (glance_conditions handled_glance)], w_trace = tr\<rparr> =
       (Next (EmptyResult, None), w') \<and>
       w_conds w' = CMarkTrue ReadyCondition (LibMsg ''ReadyMessage'' []) # l \<and>
       (\<exists>api. CWriteGlanceAPI api \<in> set (w_trace w')) \<and>
       (x \<noteq> ''a'' \<longrightarrow> CDeleteGlanceAPI (observed (sample_api x ''internal'')) \<in> set (w_trace w'))"
proof -
  have name: "APIName (observed (sample_api x ''internal'')) = x"
    by (simp add: sample_api_def observed_def APIName_def map_str_def)
  show ?thesis
    by (rule normal_run [where a = "sample_api x ''internal''" and n = "''a''" and t = "sample_template 1 ''split'' []",
          unfolded name])
      (simp_all add: assms handled_glance_def waiting_glance_def sample_glance_def plain_glance_def IsQuotaEnabled_def
        sample_api_def observed_def GetOwningGlanceName_def sample_template_def zero_template_def)
qed

lemma sample_reconcile:
  assumes "x \<noteq> []"
  shows "\<exists>r inst log tr. Glance_Reconcile (sample_env waiting_glance (sample_api x ''internal'')) ''ns'' ''glance'' [] =
     (Ret r, CPatchGlance inst log # tr) \<and> marked ReadyCondition (since_init log) \<and>
     (\<exists>api. CWriteGlanceAPI api \<in> set tr) \<and>
     (x \<noteq> ''a'' \<longrightarrow> CDeleteGlanceAPI (observed (sample_api x ''internal'')) \<in> set tr)"
proof -
  let ?E = "sample_env waiting_glance (sample_api x ''internal'')"
  from sample_normal [OF assms, of waiting_glance "[CNewHelper, CGetGlance ''ns'' ''glance'']"] obtain w' l where
    run: "Glance_reconcileNormal ?E
       \<lparr>w_inst = handled_glance, w_conds = [CInit (glance_conditions handled_glance)],
        w_trace = [CNewHelper, CGetGlance ''ns'' ''glance'']\<rparr> =
       ((Next (EmptyResult, None), w') :: (reconcile_result, reconcile_result) out \<times> Glance world)"
    and ready: "w_conds w' = CMarkTrue ReadyCondition (LibMsg ''ReadyMessage'' []) # l"
    and calls: "\<exists>api. CWriteGlanceAPI api \<in> set (w_trace w')"
      "x \<noteq> ''a'' \<longrightarrow> CDeleteGlanceAPI (observed (sample_api x ''internal'')) \<in> set (w_trace w')" by blast
  have conds: "glance_conditions handled_glance = glance_conditions waiting_glance"
    by (simp add: glance_conditions_def handled_glance_def)
  have "Glance_body ?E False
      \<lparr>w_inst = waiting_glance, w_conds = [], w_trace = [CNewHelper, CGetGlance ''ns'' ''glance'']\<rparr> =
      ((Next (EmptyResult, None), w') :: (reconcile_result, reconcile_result) out \<times> Glance world)"
    using run unfolding conds
    by (simp add: Glance_body_def Glance_handle_def run_simps handled_glance_def waiting_glance_def
        sample_glance_def the_map_def)
  with calls show ?thesis
    by (simp add: Glance_Reconcile_def Let_def waiting_glance_def ready deferred_conditions_def
        cond_is_unknown_def since_init_def marked_def TrueCondition_def)
qed

end
