(* ===== verification/GlanceProps.thy ===== *)
theory GlanceProps
  imports GlanceRun
begin

text \<open>
  What the Glance controller guarantees: what it waits for before it writes an instance, when
  it reports Ready, what it deletes, and when it panics.
\<close>

section \<open>The evidence for each prerequisite\<close>

definition rbac_done :: "env \<Rightarrow> call list \<Rightarrow> bool" where
  "rbac_done E tr \<longleftrightarrow> tr \<noteq> [] \<and> hd tr = CReconcileRbac \<and> proceeds (fst (resp_rbac E tr))"

definition database_created :: "env \<Rightarrow> call list \<Rightarrow> bool" where
  "database_created E tr \<longleftrightarrow> tr \<noteq> [] \<and> hd tr = CWaitForDBCreated \<and> proceeds (resp_res E tr)"

definition service_registered :: "env \<Rightarrow> call list \<Rightarrow> bool" where
  "service_registered E tr \<longleftrightarrow>
     (case tr of CKeystoneService s ns l d # _ \<Rightarrow> proceeds (fst (resp_keystone E tr)) | _ \<Rightarrow> False)"

definition database_synced :: "env \<Rightarrow> call list \<Rightarrow> bool" where
  "database_synced E tr \<longleftrightarrow>
     (case tr of CDoJob j p d h # _ \<Rightarrow> proceeds (fst (resp_job E tr)) | _ \<Rightarrow> False)"

lemma only_set_status: "keeps (only C D) (set_status f)" "keeps (only C D) (set_api_endpoint k v)"
  unfolding set_status_def set_api_endpoint_def by (intro only_rules)+

lemmas glance_rules = only_set_status only_shared only_rules

lemma conds_only:
  "for_each (\<lambda>c. cond (CSet (Some c))) cs w = (out, w') \<Longrightarrow> w_trace w' = w_trace w"
  by (induction cs arbitrary: w out)
    (auto simp: seq_def bind_def cond_def modify_def split: prod.splits out.splits)

lemma checked_rbac: "checked (rbac_done E) (normal_rbac E)"
  by (rule checkedI) (auto simp: normal_rbac_def checked_simps rbac_done_def proceeds_def
    dest!: conds_only split: if_splits)

lemma checked_secret: "checked (secret_verified E) (normal_secret E)"
  by (rule checkedI) (auto simp: normal_secret_def verifyServiceSecret_def checked_simps
    secret_verified_def proceeds_def split: if_splits option.splits)

lemma checked_db: "checked (database_created E) (normal_db E)"
  by (rule checkedI) (auto simp: normal_db_def ensureDB_def checked_simps set_status_def
    database_created_def proceeds_def suffix_ConsI split: if_splits option.splits)

lemma checked_config: "checked (config_written E) (normal_config E sl db)"
  by (rule checkedI) (auto simp: normal_config_def Glance_generateServiceConfig_def
    GenerateConfigsGeneric_def checked_simps config_written_def split: if_splits option.splits)

lemma init_run:
  "normal_init E sl sa w = (Next x, w') \<Longrightarrow>
     evidence (service_registered E) (w_trace w) (w_trace w') \<and>
     evidence (database_synced E) (w_trace w) (w_trace w')"
  by (auto simp: normal_init_def Glance_reconcileInit_def init_keystone_def init_dbsync_def checked_simps
    set_status_def service_registered_def database_synced_def proceeds_def suffix_ConsI
    split: if_splits option.splits)

section \<open>The steps of the phases\<close>

lemmas phase_defs =
  normal_rbac_def normal_transport_def ensure_memcached_def normal_secret_def normal_db_def normal_config_def
  normal_networks_def normal_init_def normal_location_def normal_apis_def normal_cleanup_def normal_purge_def
  transportURLCreateOrUpdate_def ensureDB_def Glance_generateServiceConfig_def Glance_reconcileInit_def
  init_keystone_def init_dbsync_def glanceAPICleanup_def cleanup_one_def ensureDBPurgeJob_def

lemmas api_defs =
  ensureRegisteredLimits_def apiDeploymentCreateOrUpdate_def apiDeployment_def check_layout_def api_error_def
  mirror_external_def deploy_internal_def

lemmas delete_defs =
  Glance_reconcileDelete_def delete_database_def delete_keystone_service_def removeAPIFinalizer_def
  remove_one_finalizer_def delete_limits_def registeredLimitsDelete_def

lemma phases_not_ready:
  "keeps (only any_call not_ready) (normal_rbac E)"
  "keeps (only any_call not_ready) (normal_transport E sl)"
  "keeps (only any_call not_ready) (ensure_memcached E n ns)"
  "keeps (only any_call not_ready) (normal_secret E)"
  "keeps (only any_call not_ready) (normal_db E)"
  "keeps (only any_call not_ready) (normal_config E sl db)"
  "keeps (only any_call not_ready) (normal_networks E)"
  "keeps (only any_call not_ready) (normal_init E sl sa)"
  "keeps (only any_call not_ready) (normal_location E)"
  "keeps (only any_call not_ready) (normal_apis E sl loc)"
  "keeps (only any_call not_ready) (normal_cleanup E)"
  "keeps (only any_call not_ready) (normal_purge E sl sa)"
  "keeps (only any_call not_ready) (Glance_reconcileDelete E)"
  unfolding phase_defs api_defs delete_defs by (intro glance_rules; simp)+

lemma phases_extend:
  "keeps extends (normal_apis E sl loc)"
  "keeps extends (normal_cleanup E)"
  "keeps extends (normal_purge E sl sa)"
  "keeps extends (normal_ready E cr)"
  unfolding phase_defs api_defs normal_ready_def checkGlanceAPIsGeneration_def by (intro glance_rules; simp)+

definition writes_api :: "call \<Rightarrow> bool" where
  "writes_api c \<longleftrightarrow> (case c of CWriteGlanceAPI _ \<Rightarrow> True | _ \<Rightarrow> False)"

lemma phases_write_no_api:
  "keeps (only (\<lambda>c. \<not> writes_api c) any_op) (normal_rbac E)"
  "keeps (only (\<lambda>c. \<not> writes_api c) any_op) (normal_transport E sl)"
  "keeps (only (\<lambda>c. \<not> writes_api c) any_op) (ensure_memcached E n ns)"
  "keeps (only (\<lambda>c. \<not> writes_api c) any_op) (normal_secret E)"
  "keeps (only (\<lambda>c. \<not> writes_api c) any_op) (normal_db E)"
  "keeps (only (\<lambda>c. \<not> writes_api c) any_op) (normal_config E sl db)"
  "keeps (only (\<lambda>c. \<not> writes_api c) any_op) (normal_networks E)"
  "keeps (only (\<lambda>c. \<not> writes_api c) any_op) (normal_init E sl sa)"
  "keeps (only (\<lambda>c. \<not> writes_api c) any_op) (normal_location E)"
  unfolding phase_defs by (intro glance_rules; simp add: writes_api_def)+

section \<open>No instance is written before its prerequisites\<close>

lemma normal_guarded:
  "guarded writes_api
     ({rbac_done E} \<union> ({} \<union> ({} \<union> ({memcached_ready E} \<union> ({secret_verified E} \<union> ({database_created E} \<union>
      ({config_written E} \<union> ({} \<union> ({service_registered E, database_synced E} \<union> ({} \<union> {}))))))))))
     (Glance_reconcileNormal E)"
proof -
  have init: "checked P (normal_init E sl sa)" if "P \<in> {service_registered E, database_synced E}" for P sl sa
    using that init_run unfolding checked_def by blast
  have read: "keeps (only (\<lambda>c. \<not> writes_api c) any_op) (read f)" for f :: "Glance \<Rightarrow> Glance"
    by (rule only_read)
  show ?thesis
    unfolding Glance_reconcileNormal_def Let_def
    by (intro guarded_fn guarded_seq guarded_bind guarded_extends phases_write_no_api read init
        phases_extend glance_rules)
      (auto intro: checked_rbac checked_memcached checked_secret checked_db checked_config)
qed

lemma delete_writes_no_api: "keeps (only (\<lambda>c. \<not> writes_api c) any_op) (Glance_reconcileDelete E)"
  unfolding delete_defs by (intro glance_rules; simp add: writes_api_def)+

lemma guarded_quiet: "keeps (only (\<lambda>c. \<not> G c) any_op) m \<Longrightarrow> guarded G Ps m"
  unfolding guarded_def
proof (intro allI impI)
  fix w out w'
  assume quiet: "keeps (only (\<lambda>c. \<not> G c) any_op) m" and run: "m w = (out, w')"
  from only_trace [OF keepsD [OF quiet run]] obtain tr where
    tr: "w_trace w' = tr @ w_trace w" "list_all (\<lambda>c. \<not> G c) tr" by blast
  show "suffix (w_trace w) (w_trace w') \<and> (\<forall>u c v. w_trace w' = u @ c # v \<and> G c \<and> suffix (w_trace w) v \<longrightarrow>
          (\<forall>P \<in> Ps. evidence P (w_trace w) v))"
  proof (intro conjI allI impI)
    show "suffix (w_trace w) (w_trace w')" using tr(1) by (simp add: suffix_def)
    fix u c v
    assume "w_trace w' = u @ c # v \<and> G c \<and> suffix (w_trace w) v"
    then show "\<forall>P \<in> Ps. evidence P (w_trace w) v"
      using quiet_no_call [OF tr, of c v] by (auto simp: suffix_def)
  qed
qed

text \<open>The prerequisites of a write, in the order of the source.\<close>

definition prerequisites :: "env \<Rightarrow> (call list \<Rightarrow> bool) set" where
  "prerequisites E =
     {rbac_done E, memcached_ready E, secret_verified E, database_created E, config_written E, service_registered E,
      database_synced E}"

lemma handle_guarded: "guarded writes_api (prerequisites E) (Glance_handle E new i)"
proof -
  let ?Q = "prerequisites E"
  have normal: "guarded writes_api ?Q (Glance_reconcileNormal E)"
    using normal_guarded [of E] unfolding prerequisites_def guarded_def by blast
  have last: "guarded writes_api ?Q (if o_Deleted i then Glance_reconcileDelete E else Glance_reconcileNormal E)"
    by (simp add: normal guarded_quiet delete_writes_no_api)
  have step: "guarded writes_api ?Q (seq m n)"
    if "keeps (only (\<lambda>c. \<not> writes_api c) any_op) m" and "guarded writes_api ?Q n"
    for m :: "(Glance world, reconcile_result, unit) act" and n :: "(Glance world, reconcile_result, reconcile_result) act"
    using guarded_seq [where Us = "{}", OF that(1) _ that(2)] by simp
  show ?thesis
    unfolding Glance_handle_def Let_def case_prod_unfold by (intro step last glance_rules)
qed

text \<open>
  Property C4. A reconcile of a Glance writes a GlanceAPI, by the create-or-update of
  \<^verbatim>\<open>apiDeploymentCreateOrUpdate\<close>, only after, in the same reconcile, the service account and
  its roles were reconciled, memcached was found ready, the password secret was verified, the
  database was created, the configuration secrets were written, the service was registered with
  Keystone and the database sync job was done. This holds of every such write of every
  reconcile, also of one that fails or panics later. The update by which a deletion takes the
  finalizer off a GlanceAPI is not such a write.
\<close>

theorem apis_written_after_prerequisites:
  assumes "Glance_Reconcile E ns name tr0 = (r, later @ CWriteGlanceAPI api # earlier @ tr0)"
  shows "\<forall>P \<in> {rbac_done E, memcached_ready E, secret_verified E, database_created E,
                config_written E, service_registered E, database_synced E}.
           evidence P tr0 (earlier @ tr0)"
proof -
  let ?tr1 = "[CNewHelper, CGetGlance ns name]"
  have no: "later @ CWriteGlanceAPI api # earlier @ tr0 \<noteq> CGetGlance ns name # tr0"
    "later @ CWriteGlanceAPI api # earlier @ tr0 \<noteq> ?tr1 @ tr0"
  proof -
    have "later @ CWriteGlanceAPI api # earlier \<noteq> [CGetGlance ns name]" by (cases later) auto
    moreover have "later @ CWriteGlanceAPI api # earlier \<noteq> ?tr1" by (auto simp: append_eq_Cons_conv)
    ultimately show "later @ CWriteGlanceAPI api # earlier @ tr0 \<noteq> CGetGlance ns name # tr0"
      "later @ CWriteGlanceAPI api # earlier @ tr0 \<noteq> ?tr1 @ tr0"
      by (metis append.assoc append_Cons append_Nil append_same_eq)+
  qed
  with assms obtain i where i: "resp_glance E (CGetGlance ns name # tr0) = Inr i" and err: "resp_err E (?tr1 @ tr0) = None"
    by (auto simp: Glance_Reconcile_def Let_def split: sum.splits option.splits)
  define w where "w = \<lparr>w_inst = i, w_conds = (case s_Conditions (Status i) of None \<Rightarrow> [] | Some l \<Rightarrow> l), w_trace = ?tr1 @ tr0\<rparr>"
  obtain out w' where body: "Glance_body E (s_Conditions (Status i) = None) w =
      ((out, w') :: (reconcile_result, reconcile_result) out \<times> Glance world)" by fastforce
  define tr where "tr = later @ CWriteGlanceAPI api # earlier @ tr0"
  have "tr = w_trace w' \<or> (\<exists>l. tr = CPatchGlance (w_inst w') l # w_trace w')"
    using assms [folded tr_def] i err body
    by (auto simp: Glance_Reconcile_def Let_def w_def split: option.splits out.splits)
  moreover have "suffix (CWriteGlanceAPI api # earlier @ tr0) tr" by (simp add: tr_def suffix_def)
  ultimately obtain later' where trace: "w_trace w' = later' @ CWriteGlanceAPI api # earlier @ tr0"
    by (auto simp: suffix_Cons) (auto simp: suffix_def)
  obtain out' where "Glance_handle E (s_Conditions (Status i) = None) i (w\<lparr>w_conds := CInit (glance_conditions i) # w_conds w\<rparr>) = (out', w')"
    using body by (auto simp: Glance_body_def run_defs world_defs w_def split: prod.splits out.splits)
  with handle_guarded [of E "s_Conditions (Status i) = None" i]
  have run: "suffix (?tr1 @ tr0) (w_trace w')" and
    ev: "\<And>u c v. w_trace w' = u @ c # v \<Longrightarrow> writes_api c \<Longrightarrow> suffix (?tr1 @ tr0) v \<Longrightarrow>
      \<forall>P \<in> prerequisites E. evidence P (?tr1 @ tr0) v"
    unfolding guarded_def by (fastforce simp: w_def)+
  from run trace obtain x where "x @ ?tr1 = later' @ CWriteGlanceAPI api # earlier"
    unfolding suffix_def by (metis append.assoc append_Cons append_same_eq)
  then have "suffix ?tr1 earlier" by (auto simp: append_eq_append_conv2 Cons_eq_append_conv append_eq_Cons_conv suffix_def)
  then have "suffix (?tr1 @ tr0) (earlier @ tr0)" by (auto simp: suffix_def)
  from ev [OF trace _ this] have "\<forall>P \<in> prerequisites E. evidence P (?tr1 @ tr0) (earlier @ tr0)"
    by (simp add: writes_api_def)
  then show ?thesis
    unfolding prerequisites_def by (blast intro: evidence_mono suffixI suffix_order.refl)
qed

theorem apis_written_after_prerequisites_witness:
  "\<exists>(E :: env) r later api earlier.
     Glance_Reconcile E ''ns'' ''glance'' [] = (r, later @ CWriteGlanceAPI api # earlier) \<and>
     evidence (rbac_done E) [] earlier \<and> evidence (secret_verified E) [] earlier \<and>
     evidence (database_synced E) [] earlier"
proof -
  let ?E = "sample_env waiting_glance (sample_api ''a'' ''internal'')"
  from sample_reconcile [of "''a''"] obtain r inst log tr api where
    run: "Glance_Reconcile ?E ''ns'' ''glance'' [] = (Ret r, CPatchGlance inst log # tr)"
    and "CWriteGlanceAPI api \<in> set tr" by auto
  then obtain later earlier where "tr = later @ CWriteGlanceAPI api # earlier" by (meson split_list)
  with run have run': "Glance_Reconcile ?E ''ns'' ''glance'' [] =
      (Ret r, (CPatchGlance inst log # later) @ CWriteGlanceAPI api # earlier @ [])" by simp
  from apis_written_after_prerequisites [OF this] have
    "evidence (rbac_done ?E) [] earlier \<and> evidence (secret_verified ?E) [] earlier \<and> evidence (database_synced ?E) [] earlier"
    by simp
  with run' show ?thesis unfolding append_Nil2 by blast
qed

section \<open>Ready is earned\<close>

text \<open>Every GlanceAPI in the list has been observed by its own controller.\<close>

definition generations_observed :: "GlanceAPI list \<Rightarrow> bool" where
  "generations_observed apis \<longleftrightarrow>
     list_all (\<lambda>a. o_Generation a = as_ObservedGeneration (AStatus a)) apis"

definition ready_earned :: "env \<Rightarrow> Glance world \<Rightarrow> bool" where
  "ready_earned E w \<longleftrightarrow>
     (\<exists>l tr apis. w_conds w = CMarkTrue ReadyCondition (LibMsg ''ReadyMessage'' []) # l \<and> all_sub_true E l \<and>
        w_trace w = CListGlanceAPIs (o_Namespace (w_inst w)) # tr \<and>
        resp_apis E (w_trace w) = Inr apis \<and> generations_observed apis)"

lemma ready_earns: "earns (ready_earned E) (seq (normal_ready E cr) (ret (EmptyResult, None)))"
  unfolding earns_def
proof (intro allI impI)
  fix w out w'
  assume run: "seq (normal_ready E cr) (ret (EmptyResult, None)) w = (out, w')"
  let ?tr = "CListGlanceAPIs (o_Namespace (w_inst w)) # w_trace w"
  consider (err) e where "resp_apis E ?tr = Inl e" | (quiet) apis where "resp_apis E ?tr = Inr apis"
      "\<not> (all_sub_true E (w_conds w) \<and> generations_observed apis)"
    | (ready) apis where "resp_apis E ?tr = Inr apis" "all_sub_true E (w_conds w)" "generations_observed apis"
    by (cases "resp_apis E ?tr") auto
  then show "\<exists>l. w_conds w' = l @ w_conds w \<and> (list_all not_ready l \<or> ready_earned E w')"
  proof cases
    case err
    with run have "w_conds w' = w_conds w"
      by (auto simp: normal_ready_def checkGlanceAPIsGeneration_def run_defs world_defs)
    then show ?thesis by auto
  next
    case quiet
    with run have "w_conds w' = w_conds w"
      by (auto simp: normal_ready_def checkGlanceAPIsGeneration_def run_defs world_defs generations_observed_def)
    then show ?thesis by auto
  next
    case ready
    with run have "w' = w\<lparr>w_trace := ?tr,
        w_conds := CMarkTrue ReadyCondition (LibMsg ''ReadyMessage'' []) # w_conds w\<rparr>"
      by (auto simp: normal_ready_def checkGlanceAPIsGeneration_def run_defs world_defs generations_observed_def)
    with ready show ?thesis
      by (intro exI [of _ "[CMarkTrue ReadyCondition (LibMsg ''ReadyMessage'' [])]"])
        (auto simp: ready_earned_def)
  qed
qed

lemma normal_earns: "earns (ready_earned E) (Glance_reconcileNormal E)"
  unfolding Glance_reconcileNormal_def Let_def
  by (intro earns_fn earns_seq earns_bind ready_earns phases_not_ready glance_rules)

lemma normal_extends: "keeps extends (Glance_reconcileNormal E)"
  unfolding Glance_reconcileNormal_def Let_def phase_defs api_defs normal_ready_def checkGlanceAPIsGeneration_def
  by (intro glance_rules; simp)

lemma handle_extends: "keeps extends (Glance_handle E new i)"
  unfolding Glance_handle_def
  by (intro glance_rules normal_extends keeps_mono [OF phases_not_ready(13)]) (simp_all add: only_extends)

lemma handle_earns: "earns (ready_earned E) (Glance_handle E new i)"
  unfolding Glance_handle_def Let_def case_prod_unfold
  by (intro earns_seq glance_rules) (simp_all add: normal_earns earns_none phases_not_ready)

lemma body_run:
  assumes "Glance_body E new w = (out, w')"
  obtains (quiet) l where "w_conds w' = l @ CInit (glance_conditions (w_inst w)) # w_conds w"
      "\<not> marked ReadyCondition l"
    | (ready) l where "w_conds w' = l @ CInit (glance_conditions (w_inst w)) # w_conds w" "ready_earned E w'"
proof -
  let ?w = "w\<lparr>w_conds := CInit (glance_conditions (w_inst w)) # w_conds w\<rparr>"
  from assms obtain out' where run: "Glance_handle E new (w_inst w) ?w = (out', w')"
    by (auto simp: Glance_body_def run_defs world_defs split: prod.splits out.splits)
  from handle_earns run obtain l where l: "w_conds w' = l @ w_conds ?w"
    and "list_all not_ready l \<or> ready_earned E w'" unfolding earns_def by blast
  then show thesis using that not_ready_marked by auto
qed

lemma Reconcile_patched:
  assumes "Glance_Reconcile E ns name tr0 = (Ret result, CPatchGlance inst log # tr)"
  obtains i new conds r w where
    "resp_glance E (CGetGlance ns name # tr0) = Inr i" "conds = (case s_Conditions (Status i) of None \<Rightarrow> [] | Some l \<Rightarrow> l)"
    "Glance_body E new \<lparr>w_inst = i, w_conds = conds, w_trace = CNewHelper # CGetGlance ns name # tr0\<rparr> =
       ((Next r, w) :: (reconcile_result, reconcile_result) out \<times> Glance world)"
    "inst = w_inst w" "log = deferred_conditions E (w_conds w)" "tr = w_trace w"
proof -
  let ?tr = "CNewHelper # CGetGlance ns name # tr0"
  from assms obtain i where i: "resp_glance E (CGetGlance ns name # tr0) = Inr i"
    by (cases "resp_glance E (CGetGlance ns name # tr0)") (auto simp: Glance_Reconcile_def)
  with assms have no_err: "resp_err E ?tr = None"
    by (cases "resp_err E ?tr") (auto simp: Glance_Reconcile_def)
  define w0 where "w0 = \<lparr>w_inst = i, w_conds = (case s_Conditions (Status i) of None \<Rightarrow> [] | Some l \<Rightarrow> l),
    w_trace = ?tr\<rparr>"
  obtain out w where body: "Glance_body E (s_Conditions (Status i) = None) w0 =
      ((out, w) :: (reconcile_result, reconcile_result) out \<times> Glance world)" by fastforce
  show thesis
  proof (cases out)
    case (Next r)
    obtain res err where r: "r = (res, err)" by fastforce
    have "inst = w_inst w \<and> log = deferred_conditions E (w_conds w) \<and> tr = w_trace w"
      using assms i no_err body Next r by (auto simp: Glance_Reconcile_def Let_def w0_def split: option.splits)
    with body Next i w0_def that show thesis by blast
  next
    case (Return r)
    with body show thesis by (simp add: Glance_body_def)
  next
    case (Crash p)
    with assms i no_err body show thesis by (simp add: Glance_Reconcile_def Let_def w0_def)
  qed
qed

text \<open>
  Property C3. The status a reconcile patches has Ready marked true in that reconcile only if
  the mark is the last thing the reconcile did to the conditions, the deferred function apart,
  that it came after the conditions were initialised in the same reconcile, every other
  condition was true when it was set, and the list of GlanceAPIs read just before shows each of
  them observed by its own controller at its current generation.
\<close>

theorem ready_is_earned:
  assumes "Glance_Reconcile E ns name tr0 = (Ret result, CPatchGlance inst log # tr)"
    and "marked ReadyCondition (since_init log)"
  shows "\<exists>i l tr' apis. resp_glance E (CGetGlance ns name # tr0) = Inr i \<and>
           log = deferred_conditions E (CMarkTrue ReadyCondition (LibMsg ''ReadyMessage'' []) # l) \<and>
           suffix (CInit (glance_conditions i) # (case s_Conditions (Status i) of None \<Rightarrow> [] | Some old \<Rightarrow> old)) l \<and>
           all_sub_true E l \<and>
           tr = CListGlanceAPIs (o_Namespace inst) # tr' \<and> resp_apis E tr = Inr apis \<and>
           generations_observed apis"
proof -
  from Reconcile_patched [OF assms(1)] obtain i new conds r w where
    read: "resp_glance E (CGetGlance ns name # tr0) = Inr i"
    and conds: "conds = (case s_Conditions (Status i) of None \<Rightarrow> [] | Some l \<Rightarrow> l)"
    and body: "Glance_body E new \<lparr>w_inst = i, w_conds = conds, w_trace = CNewHelper # CGetGlance ns name # tr0\<rparr> =
      ((Next r, w) :: (reconcile_result, reconcile_result) out \<times> Glance world)"
    and eq: "inst = w_inst w" "log = deferred_conditions E (w_conds w)" "tr = w_trace w"
    by metis
  obtain pre where pre: "log = pre @ w_conds w" "\<not> marked ReadyCondition pre"
    unfolding eq deferred_conditions_def by (cases "is_unknown E (CRestoreTimes # w_conds w) ReadyCondition")
      (auto simp: Let_def marked_def intro: that [of "[_]"] that [of "[_, _]"])
  from body show ?thesis
  proof (cases rule: body_run)
    case (quiet l)
    with pre have "log = (pre @ l) @ CInit (glance_conditions i) # conds" by simp
    with assms(2) since_init_append have "marked ReadyCondition (pre @ l)" by metis
    with quiet pre show ?thesis by simp
  next
    case (ready l)
    then obtain m tr' apis where m: "w_conds w = CMarkTrue ReadyCondition (LibMsg ''ReadyMessage'' []) # m" "all_sub_true E m"
      "w_trace w = CListGlanceAPIs (o_Namespace (w_inst w)) # tr'" "resp_apis E (w_trace w) = Inr apis" "generations_observed apis"
      by (auto simp: ready_earned_def)
    with ready(1) have "suffix (CInit (glance_conditions i) # conds) m"
      by (cases l) (auto simp: suffix_def)
    then show ?thesis using read m unfolding eq conds by auto
  qed
qed

theorem ready_is_earned_witness:
  "\<exists>(E :: env) r inst log tr l. Glance_Reconcile E ''ns'' ''glance'' [] = (Ret r, CPatchGlance inst log # tr) \<and>
     log = deferred_conditions E (CMarkTrue ReadyCondition (LibMsg ''ReadyMessage'' []) # l) \<and>
     suffix [CInit (glance_conditions waiting_glance)] l \<and> cond_all_sub_true l"
proof -
  let ?E = "sample_env waiting_glance (sample_api ''a'' ''internal'')"
  from sample_reconcile [of "''a''"] obtain r inst log tr where
    run: "Glance_Reconcile ?E ''ns'' ''glance'' [] = (Ret r, CPatchGlance inst log # tr)"
    and "marked ReadyCondition (since_init log)" by blast
  from ready_is_earned [OF this] obtain l where
    "log = deferred_conditions ?E (CMarkTrue ReadyCondition (LibMsg ''ReadyMessage'' []) # l)" "all_sub_true ?E l"
    "suffix (CInit (glance_conditions waiting_glance) #
       (case s_Conditions (Status waiting_glance) of None \<Rightarrow> [] | Some old \<Rightarrow> old)) l" by auto
  moreover have "s_Conditions (Status waiting_glance) = Some []" by (simp add: waiting_glance_def)
  ultimately show ?thesis using run by (intro exI conjI) (assumption, simp_all)
qed

end
