(* ===== verification/Triples.thy ===== *)
theory Triples
  imports Common
begin

text \<open>
  Triples for the actions of a controller: a precondition, and what holds of the state when the
  run goes on with a value, when it returns from the enclosing function, and when it panics.
\<close>

section \<open>Triples\<close>

definition triple ::
  "('s \<Rightarrow> bool) \<Rightarrow> ('s, 'r, 'a) act \<Rightarrow> ('a \<Rightarrow> 's \<Rightarrow> bool) \<Rightarrow> ('r \<Rightarrow> 's \<Rightarrow> bool) \<Rightarrow> ('s \<Rightarrow> bool) \<Rightarrow> bool" where
  "triple P m Q X C \<longleftrightarrow>
     (\<forall>s. P s \<longrightarrow>
        (case m s of (Next x, s') \<Rightarrow> Q x s' | (Return r, s') \<Rightarrow> X r s' | (Crash p, s') \<Rightarrow> C s'))"

lemma tripleI:
  assumes "\<And>s x s'. P s \<Longrightarrow> m s = (Next x, s') \<Longrightarrow> Q x s'"
    and "\<And>s r s'. P s \<Longrightarrow> m s = (Return r, s') \<Longrightarrow> X r s'"
    and "\<And>s p s'. P s \<Longrightarrow> m s = (Crash p, s') \<Longrightarrow> C s'"
  shows "triple P m Q X C"
  unfolding triple_def using assms by (auto split: prod.splits out.splits)

lemma tripleD:
  assumes "triple P m Q X C" and "P s"
  shows "m s = (Next x, s') \<Longrightarrow> Q x s'" and "m s = (Return r, s') \<Longrightarrow> X r s'" and "m s = (Crash p, s') \<Longrightarrow> C s'"
  using assms unfolding triple_def by fastforce+

lemma triple_weaken:
  assumes "triple P' m Q' X' C'" and "\<And>s. P s \<Longrightarrow> P' s" and "\<And>x s. Q' x s \<Longrightarrow> Q x s"
    and "\<And>r s. X' r s \<Longrightarrow> X r s" and "\<And>s. C' s \<Longrightarrow> C s"
  shows "triple P m Q X C"
  using assms tripleD [OF assms(1)] by (intro tripleI) blast+

lemma triple_pre: "triple P' m Q X C \<Longrightarrow> (\<And>s. P s \<Longrightarrow> P' s) \<Longrightarrow> triple P m Q X C"
  by (rule triple_weaken)

lemma triple_bind:
  assumes "triple P m Q X C" and "\<And>x. triple (Q x) (f x) Q' X C"
  shows "triple P (bind m f) Q' X C"
  using assms unfolding triple_def bind_def by (fastforce split: prod.splits out.splits)

lemma triple_seq: "triple P m (\<lambda>_. M) X C \<Longrightarrow> triple M n Q X C \<Longrightarrow> triple P (seq m n) Q X C"
  unfolding seq_def by (rule triple_bind)

lemma triple_fn: "triple P m Q Q C \<Longrightarrow> triple P (fn m) Q X C"
  unfolding triple_def fn_def by (fastforce split: prod.splits out.splits)

lemma triple_ret: "(\<And>s. P s \<Longrightarrow> Q x s) \<Longrightarrow> triple P (ret x) Q X C"
  by (simp add: triple_def ret_def)

lemma triple_exit: "(\<And>s. P s \<Longrightarrow> X r s) \<Longrightarrow> triple P (exit_with r) Q X C"
  by (simp add: triple_def exit_with_def)

lemma triple_crash: "(\<And>s. P s \<Longrightarrow> C s) \<Longrightarrow> triple P (crash p) Q X C"
  by (simp add: triple_def crash_def)

lemma triple_modify: "(\<And>s. P s \<Longrightarrow> Q () (g s)) \<Longrightarrow> triple P (modify g) Q X C"
  by (simp add: triple_def modify_def)

lemma triple_gets: "(\<And>s. P s \<Longrightarrow> Q (h s) s) \<Longrightarrow> triple P (gets h) Q X C"
  by (simp add: triple_def gets_def)

lemma triple_pure: "(b \<Longrightarrow> triple P m Q X C) \<Longrightarrow> triple (\<lambda>s. P s \<and> b) m Q X C"
  by (auto simp: triple_def)

lemma triple_prod: "(\<And>x y. triple P (f x y) Q X C) \<Longrightarrow> triple P (case p of (x, y) \<Rightarrow> f x y) Q X C"
  by (cases p) simp

lemma triple_if:
  "(b \<Longrightarrow> triple P m Q X C) \<Longrightarrow> (\<not> b \<Longrightarrow> triple P n Q X C) \<Longrightarrow> triple P (if b then m else n) Q X C"
  by simp

lemma triple_whenever:
  "(b \<Longrightarrow> triple P m (\<lambda>_. M) X C) \<Longrightarrow> (\<And>s. \<not> b \<Longrightarrow> P s \<Longrightarrow> M s) \<Longrightarrow> triple P (whenever b m) (\<lambda>_. M) X C"
  by (simp add: whenever_def triple_ret)

lemma triple_of_go:
  "(\<And>x s. g = Ret x \<Longrightarrow> P s \<Longrightarrow> Q x s) \<Longrightarrow> (\<And>p s. g = Panic p \<Longrightarrow> P s \<Longrightarrow> C s) \<Longrightarrow>
     triple P (of_go g) Q X C"
  by (cases g) (simp_all add: of_go_def triple_ret triple_crash)

lemma triple_must:
  assumes "triple P m (\<lambda>err s. case err of None \<Rightarrow> M s | Some e \<Rightarrow> H e s) X C" and "\<And>e. triple (H e) (h e) (\<lambda>_. M) X C"
  shows "triple P (must m h) (\<lambda>_. M) X C"
  unfolding must_def
proof (rule triple_bind [OF assms(1)])
  fix err
  show "triple (\<lambda>s. case err of None \<Rightarrow> M s | Some e \<Rightarrow> H e s) (case err of Some e \<Rightarrow> h e | None \<Rightarrow> ret ())
          (\<lambda>_. M) X C"
    using assms(2) by (cases err) (simp_all add: triple_ret)
qed

lemma triple_attempt:
  assumes "triple P m (\<lambda>v s. case v of Inl e \<Rightarrow> H e s | Inr x \<Rightarrow> M x s) X C"
    and "\<And>e. triple (H e) (h e) Q X C" and "\<And>x. triple (M x) (f x) Q X C"
  shows "triple P (attempt m h f) Q X C"
  unfolding attempt_def
proof (rule triple_bind [OF assms(1)])
  fix v
  show "triple (\<lambda>s. case v of Inl e \<Rightarrow> H e s | Inr x \<Rightarrow> M x s) (case v of Inl e \<Rightarrow> h e | Inr x \<Rightarrow> f x) Q X C"
    using assms(2,3) by (cases v) simp_all
qed

lemma triple_for_each: "(\<And>x. x \<in> set xs \<Longrightarrow> triple I (f x) (\<lambda>_. I) X C) \<Longrightarrow> triple I (for_each f xs) (\<lambda>_. I) X C"
  by (induction xs) (auto intro: triple_ret triple_seq)

lemma triple_for_acc:
  "(\<And>x acc. x \<in> set xs \<Longrightarrow> triple (I acc) (f x acc) I X C) \<Longrightarrow> triple (I acc) (for_acc f xs acc) I X C"
  by (induction xs arbitrary: acc) (auto intro: triple_ret triple_bind)

lemma triple_call:
  "(\<And>w. P w \<Longrightarrow> Q (f (c # w_trace w)) (w\<lparr>w_trace := c # w_trace w\<rparr>)) \<Longrightarrow> triple P (call c f) Q X C"
  by (simp add: triple_def call_def)

lemma triple_cond: "(\<And>w. P w \<Longrightarrow> Q () (w\<lparr>w_conds := op # w_conds w\<rparr>)) \<Longrightarrow> triple P (cond op) Q X C"
  unfolding cond_def by (rule triple_modify)

lemma triple_read: "(\<And>w. P w \<Longrightarrow> Q (h (w_inst w)) w) \<Longrightarrow> triple P (read h) Q X C"
  unfolding read_def by (rule triple_gets)

lemma triple_set_inst: "(\<And>w. P w \<Longrightarrow> Q () (w\<lparr>w_inst := g (w_inst w)\<rparr>)) \<Longrightarrow> triple P (set_inst g) Q X C"
  unfolding set_inst_def by (rule triple_modify)

text \<open>A predicate that a relation on the steps carries over, whatever the outcome.\<close>

lemma triple_keeps:
  assumes "keeps R m" and "\<And>s s'. P s \<Longrightarrow> R s s' \<Longrightarrow> M s'"
  shows "triple P m (\<lambda>_. M) (\<lambda>_. M) M"
  using assms unfolding triple_def keeps_def by (auto split: prod.splits out.splits) (metis snd_conv)+

text \<open>The common case: one predicate for all ends of a run.\<close>

abbreviation holds :: "('s \<Rightarrow> bool) \<Rightarrow> ('s, 'r, 'a) act \<Rightarrow> ('s \<Rightarrow> bool) \<Rightarrow> ('s \<Rightarrow> bool) \<Rightarrow> bool" where
  "holds P m M J \<equiv> triple P m (\<lambda>_. M) (\<lambda>_. J) J"

lemma holds_keeps:
  "keeps R m \<Longrightarrow> (\<And>s s'. P s \<Longrightarrow> R s s' \<Longrightarrow> M s') \<Longrightarrow> (\<And>s. M s \<Longrightarrow> J s) \<Longrightarrow> holds P m M J"
  by (rule tripleI) (blast dest: keepsD)+

text \<open>
  \<open>stays I C m\<close>: a run of \<open>m\<close> from a state that satisfies \<open>I\<close> ends in one, or panics in one that
  satisfies \<open>C\<close>. With no such \<open>C\<close>, it does not panic.
\<close>

abbreviation stays :: "('s \<Rightarrow> bool) \<Rightarrow> ('s \<Rightarrow> bool) \<Rightarrow> ('s, 'r, 'a) act \<Rightarrow> bool" where
  "stays I C m \<equiv> triple I m (\<lambda>_. I) (\<lambda>_. I) C"

abbreviation safe :: "('s \<Rightarrow> bool) \<Rightarrow> ('s, 'r, 'a) act \<Rightarrow> bool" where
  "safe I m \<equiv> stays I (\<lambda>_. False) m"

lemma stays_basic: "stays I C (ret x)" "stays I C (exit_with r)" "stays I C (gets g)"
  by (simp_all add: triple_def ret_def exit_with_def gets_def)

lemma stays_if: "(b \<Longrightarrow> stays I C m) \<Longrightarrow> (\<not> b \<Longrightarrow> stays I C n) \<Longrightarrow> stays I C (if b then m else n)"
  by simp

lemma stays_option:
  "stays I C m \<Longrightarrow> (\<And>x. stays I C (f x)) \<Longrightarrow> stays I C (case v of None \<Rightarrow> m | Some x \<Rightarrow> f x)"
  by (cases v) simp_all

lemma stays_sum:
  "(\<And>e. stays I C (m e)) \<Longrightarrow> (\<And>x. stays I C (f x)) \<Longrightarrow> stays I C (case v of Inl e \<Rightarrow> m e | Inr x \<Rightarrow> f x)"
  by (cases v) simp_all

lemma stays_prod: "(\<And>x y. p = (x, y) \<Longrightarrow> stays I C (f x y)) \<Longrightarrow> stays I C (case p of (x, y) \<Rightarrow> f x y)"
  by (cases p) simp

lemma stays_prod2: "(\<And>x y. stays I C (f x y z)) \<Longrightarrow> stays I C ((case p of (x, y) \<Rightarrow> f x y) z)"
  by (cases p) simp

lemma stays_bind: "stays I C m \<Longrightarrow> (\<And>x. stays I C (f x)) \<Longrightarrow> stays I C (bind m f)"
  by (rule triple_bind)

lemma stays_seq: "stays I C m \<Longrightarrow> stays I C n \<Longrightarrow> stays I C (seq m n)"
  by (rule triple_seq)

lemma stays_fn: "triple I m (\<lambda>_. I) (\<lambda>_. I) C \<Longrightarrow> stays I C (fn m)"
  by (rule triple_fn)

lemma stays_attempt:
  "stays I C m \<Longrightarrow> (\<And>e. stays I C (h e)) \<Longrightarrow> (\<And>x. stays I C (f x)) \<Longrightarrow> stays I C (attempt m h f)"
  unfolding attempt_def by (intro stays_bind stays_sum)

lemma stays_must: "stays I C m \<Longrightarrow> (\<And>e. stays I C (h e)) \<Longrightarrow> stays I C (must m h)"
  unfolding must_def by (intro stays_bind stays_option stays_basic)

lemma stays_whenever: "(b \<Longrightarrow> stays I C m) \<Longrightarrow> stays I C (whenever b m)"
  by (rule triple_whenever)

lemma stays_for_each: "(\<And>x. x \<in> set xs \<Longrightarrow> stays I C (f x)) \<Longrightarrow> stays I C (for_each f xs)"
  by (rule triple_for_each)

lemma stays_for_acc: "(\<And>x acc. x \<in> set xs \<Longrightarrow> stays I C (f x acc)) \<Longrightarrow> stays I C (for_acc f xs acc)"
  by (rule triple_for_acc)

text \<open>The value of an expression that may panic is known where it is used.\<close>

lemma stays_go:
  "\<not> panics g \<Longrightarrow> (\<And>x. g = Ret x \<Longrightarrow> stays I C (f x)) \<Longrightarrow> stays I C (bind (of_go g) f)"
  by (cases g) (simp_all add: of_go_def triple_def run_defs)

lemma stays_read: "stays I C (read h)"
  by (rule triple_read)

text \<open>Where a panic is no concern.\<close>

lemma stays_crash: "stays I I (crash p)" "stays I I (of_go g)"
  by (simp_all add: triple_def crash_def of_go_def ret_def split: go.splits)

lemmas stays_rules =
  stays_basic stays_attempt stays_must stays_whenever stays_fn stays_seq stays_for_each stays_for_acc stays_if
  stays_option stays_sum stays_prod stays_prod2 stays_bind stays_read

end
