(* ===== verification/GlanceWrites.thy ===== *)
theory GlanceWrites
  imports GlanceRun Triples
begin

text \<open>
  What the Glance controller does to the GlanceAPIs: which ones it writes for the instances of
  the specification, with what in them, and which ones it deletes.
\<close>

section \<open>The instances of a layout\<close>

text \<open>The types a template is deployed with: the external or only one, and the internal one of a split.\<close>

definition deployed_types :: "GlanceAPITemplate \<Rightarrow> string list" where
  "deployed_types t =
     external_type (t_Type t) # (if t_Type t = ''split'' \<or> t_Type t = [] then [APIInternal] else [])"

lemma deployed_types_api: "ty \<in> set (deployed_types t) \<Longrightarrow> api_type ty"
  by (auto simp: deployed_types_def external_type_def api_type_def split: if_splits)

text \<open>
  What a written instance has: its type; from the template alone; from the template, or from the
  resource where the template leaves it out; from the resource alone; the annotations. The two
  fields left, the host of the database and the secret of the notification bus, are what the
  status of the resource holds at the write.
\<close>

definition instance_of :: "Glance \<Rightarrow> string \<Rightarrow> GlanceAPITemplate \<Rightarrow> string \<Rightarrow> GlanceAPI \<Rightarrow> bool" where
  "instance_of i name t ty api \<longleftrightarrow>
     a_APIType (ASpec api) = ty \<and>
     t_Replicas (ASpec api) = t_Replicas t \<and> t_Resources (ASpec api) = t_Resources t \<and>
     t_NetworkAttachments (ASpec api) = t_NetworkAttachments t \<and> t_Override (ASpec api) = t_Override t \<and>
     t_Type (ASpec api) = t_Type t \<and> t_TLS (ASpec api) = t_TLS t \<and> t_Auth (ASpec api) = t_Auth t \<and>
     t_APITimeout (ASpec api) = t_APITimeout t \<and>
     t_NodeSelector (ASpec api) = (if t_NodeSelector t = None then g_NodeSelector (Spec i) else t_NodeSelector t) \<and>
     t_TopologyRef (ASpec api) = (if t_TopologyRef t = None then g_TopologyRef (Spec i) else t_TopologyRef t) \<and>
     t_CustomServiceConfig (ASpec api) = str_or (t_CustomServiceConfig t) (g_CustomServiceConfig (Spec i)) \<and>
     t_CustomServiceConfigSecrets (ASpec api) =
       (if t_CustomServiceConfigSecrets t = [] then g_CustomServiceConfigSecrets (Spec i) else t_CustomServiceConfigSecrets t) \<and>
     Size (t_ImageCache (ASpec api)) = str_or (Size (t_ImageCache t)) (Size (g_ImageCache (Spec i))) \<and>
     CleanerScheduler (t_ImageCache (ASpec api)) = CleanerScheduler (t_ImageCache t) \<and>
     PrunerScheduler (t_ImageCache (ASpec api)) = PrunerScheduler (t_ImageCache t) \<and>
     StorageClass (t_Storage (ASpec api)) = str_or (StorageClass (t_Storage t)) (StorageClass (g_Storage (Spec i))) \<and>
     StorageRequest (t_Storage (ASpec api)) = str_or (StorageRequest (t_Storage t)) (StorageRequest (g_Storage (Spec i))) \<and>
     External (t_Storage (ASpec api)) = (External (t_Storage t) \<or> External (g_Storage (Spec i))) \<and>
     a_ContainerImage (ASpec api) = g_ContainerImage (Spec i) \<and> a_ServiceUser (ASpec api) = g_ServiceUser (Spec i) \<and>
     a_ServiceAccount (ASpec api) = ''glance-'' @ o_Name i \<and>
     a_DatabaseAccount (ASpec api) = g_DatabaseAccount (Spec i) \<and> a_Secret (ASpec api) = g_Secret (Spec i) \<and>
     a_PasswordSelectors (ASpec api) = g_PasswordSelectors (Spec i) \<and> a_ExtraMounts (ASpec api) = g_ExtraMounts (Spec i) \<and>
     a_Quota (ASpec api) = IsQuotaEnabled i \<and> a_MemcachedInstance (ASpec api) = g_MemcachedInstance (Spec i) \<and>
     (\<exists>wsgi. lookup (o_Annotations api) GlanceWSGILabel = Some (bool_str wsgi)) \<and>
     (map_str (o_Annotations api) KeystoneEndpointAnnotation = ''true'' \<longleftrightarrow> g_KeystoneEndpoint (Spec i) = name)"

text \<open>The object a write starts from: the one read under the name of the instance, or a new one.\<close>

definition starts_from :: "env \<Rightarrow> Glance \<Rightarrow> string \<Rightarrow> string \<Rightarrow> GlanceAPI \<Rightarrow> bool" where
  "starts_from E i name ty api \<longleftrightarrow>
     (\<exists>tr found. resp_found E (CReadGlanceAPI (o_Namespace i) (api_object_name i name ty) # tr) = Inr found \<and>
        (case found of
           None \<Rightarrow> o_Name api = api_object_name i name ty \<and> o_Namespace api = o_Namespace i \<and> APIName api = name \<and>
             o_Finalizers api = [] \<and> \<not> o_Deleted api \<and> AStatus api = zero_api_status
         | Some old \<Rightarrow> o_Name api = o_Name old \<and> o_Namespace api = o_Namespace old \<and> APIName api = APIName old \<and>
             o_Finalizers api = o_Finalizers old \<and> o_Deleted api = o_Deleted old \<and> AStatus api = AStatus old))"

text \<open>A write the specification asks for, and a deletion it allows.\<close>

definition asked_for :: "env \<Rightarrow> Glance \<Rightarrow> GlanceAPI \<Rightarrow> bool" where
  "asked_for E i owned \<longleftrightarrow>
     (\<exists>name t ty api. lookup (g_GlanceAPIs (Spec i)) name = Some t \<and> ty \<in> set (deployed_types t) \<and>
        starts_from E i name ty api \<and> instance_of i name t ty api \<and>
        SetControllerReference E (o_Name i) api = Inr owned)"

definition listed :: "env \<Rightarrow> Glance \<Rightarrow> GlanceAPI \<Rightarrow> bool" where
  "listed E i api \<longleftrightarrow> (\<exists>tr apis. resp_apis E (CListGlanceAPIs (o_Namespace i) # tr) = Inr apis \<and> api \<in> set apis)"

definition abandoned :: "env \<Rightarrow> Glance \<Rightarrow> GlanceAPI \<Rightarrow> bool" where
  "abandoned E i api \<longleftrightarrow>
     listed E i api \<and>
     GetOwningGlanceName api = o_Name i \<and> APIName api \<noteq> [] \<and> \<not> o_Deleted api \<and>
     lookup (g_GlanceAPIs (Spec i)) (APIName api) = None"

text \<open>A transport URL of the resource: the name its watch derives the resource from.\<close>

definition own_transport :: "Glance \<Rightarrow> TransportURLSpec \<Rightarrow> bool" where
  "own_transport i u \<longleftrightarrow> tu_Name u = o_Name i @ ''-glance-transport'' \<and> tu_Namespace u = o_Namespace i"

definition good_call :: "env \<Rightarrow> Glance \<Rightarrow> call \<Rightarrow> bool" where
  "good_call E i c \<longleftrightarrow>
     (case c of
        CWriteGlanceAPI api \<Rightarrow> asked_for E i api
      | CDeleteGlanceAPI api \<Rightarrow> abandoned E i api
      | CTransportURL u \<Rightarrow> own_transport i u
      | _ \<Rightarrow> True)"

section \<open>Every step does only that\<close>

definition same_glance :: "Glance \<Rightarrow> Glance \<Rightarrow> bool" where
  "same_glance i j \<longleftrightarrow>
     Spec j = Spec i \<and> o_Name j = o_Name i \<and> o_Namespace j = o_Namespace i \<and> o_Annotations j = o_Annotations i \<and>
     o_Deleted j = o_Deleted i"

lemma instance_of_same: "same_glance i j \<Longrightarrow> instance_of j = instance_of i"
proof -
  assume same: "same_glance i j"
  then have "IsQuotaEnabled j = IsQuotaEnabled i" by (simp add: IsQuotaEnabled_def same_glance_def)
  moreover have "Spec j = Spec i" "o_Name j = o_Name i" using same by (simp_all add: same_glance_def)
  ultimately show ?thesis by (intro ext) (simp only: instance_of_def)
qed

definition good_run :: "env \<Rightarrow> Glance \<Rightarrow> call list \<Rightarrow> Glance world \<Rightarrow> bool" where
  "good_run E i tr0 w \<longleftrightarrow>
     same_glance i (w_inst w) \<and> (\<exists>tr. w_trace w = tr @ tr0 \<and> list_all (good_call E i) tr)"

abbreviation good :: "env \<Rightarrow> Glance \<Rightarrow> call list \<Rightarrow> (Glance world, 'r, 'a) act \<Rightarrow> bool" where
  "good E i tr0 m \<equiv> stays (good_run E i tr0) (good_run E i tr0) m"

lemma good_call: "good_call E i c \<Longrightarrow> good E i tr0 (call c f)"
  by (auto simp: triple_def call_def good_run_def)

lemma good_world:
  "good E i tr0 (cond op)" "good E i tr0 (set_false t r s m)" "good E i tr0 (set_error t msg e)"
  "good E i tr0 (mark_true t msg)" "good E i tr0 (mark_false t r s m)" "good E i tr0 (set_status u)"
  "good E i tr0 (set_inst (\<lambda>j. j\<lparr>o_Finalizers := fs j\<rparr>))"
  by (simp_all add: triple_def run_defs world_defs set_status_def good_run_def same_glance_def)

lemma good_set_endpoint: "good E i tr0 (set_api_endpoint k v)"
  unfolding set_api_endpoint_def by (intro good_world stays_crash stays_rules)

lemma good_read: "(\<And>j. same_glance i j \<Longrightarrow> good E i tr0 (f j)) \<Longrightarrow> good E i tr0 (bind (read (\<lambda>j. j)) f)"
  by (simp add: triple_def run_defs world_defs good_run_def)

lemmas good_rules = good_read good_world good_set_endpoint stays_crash stays_rules good_call

lemma good_shared:
  "good E i tr0 (verifyServiceSecret E ns n fs d vars)" "good E i tr0 (ensureNAD E ns nAttach)"
  "good E i tr0 (GenerateConfigsGeneric E name ns kind ps cd ls scripts)" "good E i tr0 (ensure_memcached E n ns)"
  "good E i tr0 (ensureRegisteredLimits E q)"
  unfolding verifyServiceSecret_def ensureNAD_def nad_step_def GenerateConfigsGeneric_def ensure_memcached_def
    ensureRegisteredLimits_def Let_def
  by (intro good_rules; simp add: good_call_def)+

lemma good_cleanup_one: "same_glance i j \<Longrightarrow> listed E i api \<Longrightarrow> good E i tr0 (cleanup_one E j api)"
  unfolding cleanup_one_def Let_def
  by (intro good_rules) (auto simp: good_call_def abandoned_def same_glance_def)

lemma desired_fields:
  "o_Name (desired_api j ann sp api) = o_Name api" "o_Namespace (desired_api j ann sp api) = o_Namespace api"
  "APIName (desired_api j ann sp api) = APIName api" "o_Finalizers (desired_api j ann sp api) = o_Finalizers api"
  "o_Deleted (desired_api j ann sp api) = o_Deleted api" "AStatus (desired_api j ann sp api) = AStatus api"
  by (simp_all add: desired_api_def APIName_def)

lemma desired_instance:
  "same_glance i j \<Longrightarrow> instance_of i name t ty (desired_api j (api_annotations j name wsgi) (api_spec j t ty) seen)"
  by (auto simp: instance_of_def desired_api_def api_spec_def inherit_template_def api_annotations_def str_option_def
      RbacResourceName_def IsQuotaEnabled_def same_glance_def map_str_def GlanceAPITemplate.defs GlanceAPISpec.defs
      KeystoneEndpointAnnotation_def GlanceWSGILabel_def split: option.splits)

text \<open>The object a write starts from, and that what is written from it is asked for.\<close>

lemma seen_starts:
  assumes "same_glance i j" and "resp_found E (CReadGlanceAPI (o_Namespace i) (api_object_name i name ty) # tr) = Inr found"
  shows "starts_from E i name ty (case found of None \<Rightarrow> api_skeleton j t ty name labels wsgi | Some api \<Rightarrow> api)"
  unfolding starts_from_def using assms
  by (intro exI [of _ tr] exI [of _ found] conjI)
    (cases found; simp add: api_skeleton_def api_object_name_def APIName_def map_str_def same_glance_def update_conv)+

lemma skeleton_name:
  "same_glance i j \<Longrightarrow> o_Name (api_skeleton j t ty name labels wsgi) = api_object_name i name ty"
  by (simp add: api_skeleton_def api_object_name_def same_glance_def)

lemma written_asked_for:
  assumes "lookup (g_GlanceAPIs (Spec i)) name = Some t" and "ty \<in> set (deployed_types t)" and "same_glance i j"
    and "starts_from E i name ty seen"
    and "SetControllerReference E (o_Name j) (desired_api j (api_annotations j name wsgi) (api_spec j t ty) seen) = Inr owned"
  shows "asked_for E i owned"
proof -
  have "starts_from E i name ty (desired_api j (api_annotations j name wsgi) (api_spec j t ty) seen)"
    using assms(4) by (simp only: starts_from_def desired_fields)
  moreover have "o_Name j = o_Name i" using assms(3) by (simp add: same_glance_def)
  ultimately show ?thesis
    unfolding asked_for_def using assms(1,2,5) desired_instance [OF assms(3)] by metis
qed

lemma good_deploy:
  assumes "lookup (g_GlanceAPIs (Spec i)) name = Some t" and "ty \<in> set (deployed_types t)"
  shows "good E i tr0 (apiDeploymentCreateOrUpdate E t ty name labels wsgi)"
proof -
  have owned: "good E i tr0 (attempt (ret (SetControllerReference E (o_Name j)
        (desired_api j (api_annotations j name wsgi) (api_spec j t ty) seen)))
        (\<lambda>e. exit_with (Inl e)) (\<lambda>owned. call (CWriteGlanceAPI owned) (resp_api E)))"
    if "same_glance i j" and "starts_from E i name ty seen" for j seen
  proof (cases "SetControllerReference E (o_Name j) (desired_api j (api_annotations j name wsgi) (api_spec j t ty) seen)")
    case (Inl e)
    then show ?thesis by (simp add: triple_def run_defs)
  next
    case (Inr owned)
    with written_asked_for [OF assms that] have "good_call E i (CWriteGlanceAPI owned)"
      by (simp add: good_call_def)
    with Inr show ?thesis by (auto simp: triple_def run_defs call_def good_run_def)
  qed
  have quota: "good E i tr0 (whenever q (must (ensureRegisteredLimits E l) (\<lambda>e. exit_with (Inl e))))" for q l
    by (intro good_shared good_rules)
  have rest: "triple (\<lambda>w. good_run E i tr0 w \<and> (\<exists>tr. resp_found E (CReadGlanceAPI (o_Namespace i) (api_object_name i name ty) # tr) = Inr found))
      (seq (whenever (IsQuotaEnabled j) (must (ensureRegisteredLimits E (GetQuotaLimits j)) (\<lambda>e. exit_with (Inl e))))
         (attempt (ret (SetControllerReference E (o_Name j) (desired_api j (api_annotations j name wsgi) (api_spec j t ty)
            (case found of None \<Rightarrow> api_skeleton j t ty name labels wsgi | Some api \<Rightarrow> api))))
           (\<lambda>e. exit_with (Inl e)) (\<lambda>owned. call (CWriteGlanceAPI owned) (resp_api E))))
      (\<lambda>_. good_run E i tr0) (\<lambda>_. good_run E i tr0) (good_run E i tr0)" if "same_glance i j" for j found
    by (rule triple_pure, elim exE) (rule triple_seq [OF quota owned [OF that seen_starts [OF that]]])
  have ask: "triple (good_run E i tr0) (call (CReadGlanceAPI (o_Namespace j) (o_Name (api_skeleton j t ty name labels wsgi))) (resp_found E))
      (\<lambda>v w. case v of Inl e \<Rightarrow> good_run E i tr0 w
         | Inr x \<Rightarrow> good_run E i tr0 w \<and>
             (\<exists>tr. resp_found E (CReadGlanceAPI (o_Namespace i) (api_object_name i name ty) # tr) = Inr x))
      (\<lambda>_. good_run E i tr0) (good_run E i tr0)" if "same_glance i j" for j
  proof -
    have "o_Namespace j = o_Namespace i" using that by (simp add: same_glance_def)
    with skeleton_name [OF that] show ?thesis
      by (auto simp: triple_def call_def good_run_def good_call_def split: sum.splits)
  qed
  show ?thesis
    unfolding apiDeploymentCreateOrUpdate_def Let_def
    by (intro stays_fn good_read triple_attempt [OF ask] rest stays_basic)
qed

lemma good_apiDeployment:
  assumes "lookup (g_GlanceAPIs (Spec i)) name = Some t"
  shows "good E i tr0 (apiDeployment E name t labels loc)"
proof -
  have ext: "good E i tr0 (apiDeploymentCreateOrUpdate E t (external_type (t_Type t)) name labels ws)" for ws
    by (rule good_deploy [OF assms]) (simp add: deployed_types_def)
  have int: "good E i tr0 (deploy_internal E name t labels ws c)"
    if "t_Type t = ''split'' \<or> t_Type t = []" for ws c
  proof -
    have "good E i tr0 (apiDeploymentCreateOrUpdate E t APIInternal name labels ws)"
      by (rule good_deploy [OF assms]) (use that in \<open>simp add: deployed_types_def\<close>)
    then show ?thesis unfolding deploy_internal_def api_error_def by (intro good_rules)
  qed
  show ?thesis
    unfolding apiDeployment_def check_layout_def mirror_external_def api_error_def Let_def
    by (intro ext int good_rules)
qed

lemma good_phases:
  "good E i tr0 (normal_rbac E)" "good E i tr0 (normal_transport E sl)" "good E i tr0 (normal_secret E)"
  "good E i tr0 (normal_db E)" "good E i tr0 (normal_config E sl db)" "good E i tr0 (normal_networks E)"
  "good E i tr0 (normal_init E sl sa)" "good E i tr0 (normal_location E)" "good E i tr0 (normal_purge E sl sa)"
  "good E i tr0 (normal_ready E cr)"
  unfolding normal_rbac_def normal_transport_def normal_secret_def normal_db_def normal_config_def
    normal_networks_def normal_init_def normal_location_def normal_purge_def normal_ready_def
    transportURLCreateOrUpdate_def ensureDB_def Glance_generateServiceConfig_def Glance_reconcileInit_def
    init_keystone_def init_dbsync_def ensureDBPurgeJob_def checkGlanceAPIsGeneration_def Let_def
  by (intro good_shared good_rules; simp add: good_call_def own_transport_def same_glance_def)+

lemma good_normal_apis: "good E i tr0 (normal_apis E sl loc)"
  unfolding normal_apis_def
proof (intro good_read stays_for_each)
  fix j name
  assume "same_glance i j"
  then have "lookup (g_GlanceAPIs (Spec j)) name = lookup (g_GlanceAPIs (Spec i)) name" by (simp add: same_glance_def)
  then show "good E i tr0 (case lookup (g_GlanceAPIs (Spec j)) name of None \<Rightarrow> ret ()
      | Some current \<Rightarrow> must (apiDeployment E name current sl loc) (\<lambda>e. exit_with (EmptyResult, Some e)))"
    by (cases "lookup (g_GlanceAPIs (Spec i)) name") (auto intro: good_rules good_apiDeployment)
qed

lemma good_cleanup: "good E i tr0 (normal_cleanup E)"
proof -
  have list: "triple (good_run E i tr0) (call (CListGlanceAPIs (o_Namespace j)) (resp_apis E))
      (\<lambda>v w. case v of Inl e \<Rightarrow> good_run E i tr0 w
         | Inr apis \<Rightarrow> good_run E i tr0 w \<and> (\<forall>api \<in> set apis. listed E i api))
      (\<lambda>_. good_run E i tr0) (good_run E i tr0)" if "same_glance i j" for j
  proof -
    have "o_Namespace j = o_Namespace i" using that by (simp add: same_glance_def)
    then show ?thesis
      by (fastforce simp: triple_def call_def good_run_def good_call_def listed_def split: sum.splits)
  qed
  have "good E i tr0 (glanceAPICleanup E)"
    unfolding glanceAPICleanup_def
    by (intro stays_fn good_read triple_attempt [OF list] stays_basic triple_pure triple_seq [OF stays_for_each])
      (auto intro: good_cleanup_one)
  then show ?thesis unfolding normal_cleanup_def
    by (intro stays_seq stays_must good_read good_rules) (simp_all add: good_call_def)
qed

lemma good_normal: "good E i tr0 (Glance_reconcileNormal E)"
  unfolding Glance_reconcileNormal_def Let_def
  by (intro good_phases good_normal_apis good_cleanup good_shared good_rules)

lemma good_delete: "good E i tr0 (Glance_reconcileDelete E)"
  unfolding Glance_reconcileDelete_def delete_database_def delete_keystone_service_def removeAPIFinalizer_def
    remove_one_finalizer_def delete_limits_def registeredLimitsDelete_def Let_def
  by (intro good_rules; simp add: good_call_def)

lemma good_handle: "good E i tr0 (Glance_handle E new j)"
  unfolding Glance_handle_def Let_def case_prod_unfold
  by (intro good_normal good_delete good_rules)

lemma reconcile_good:
  assumes read: "resp_glance E (CGetGlance ns name # tr0) = Inr i" and run: "Glance_Reconcile E ns name tr0 = (r, tr')"
  shows "\<exists>tr. tr' = tr @ tr0 \<and> list_all (good_call E i) tr"
proof -
  let ?tr = "CNewHelper # CGetGlance ns name # tr0"
  define w where "w = \<lparr>w_inst = i, w_conds = (case s_Conditions (Status i) of None \<Rightarrow> [] | Some l \<Rightarrow> l), w_trace = ?tr\<rparr>"
  obtain out w' where body: "Glance_body E (s_Conditions (Status i) = None) w =
      ((out, w') :: (reconcile_result, reconcile_result) out \<times> Glance world)" by fastforce
  have "good_run E i tr0 (w\<lparr>w_conds := CInit (glance_conditions i) # w_conds w\<rparr>)"
    by (auto simp: good_run_def same_glance_def w_def good_call_def)
  from tripleD [OF good_handle this] body have "good_run E i tr0 w'"
    unfolding Glance_body_def by (auto simp: run_defs world_defs w_def split: prod.splits out.splits)
  then obtain tr where tr: "w_trace w' = tr @ tr0" "list_all (good_call E i) tr" by (auto simp: good_run_def)
  have "tr' = ?tr \<or> tr' = w_trace w' \<or> (\<exists>l. tr' = CPatchGlance (w_inst w') l # w_trace w')"
    using run read body by (auto simp: Glance_Reconcile_def Let_def w_def split: option.splits out.splits)
  then show ?thesis
  proof (elim disjE exE)
    assume "tr' = ?tr"
    then have "tr' = [CNewHelper, CGetGlance ns name] @ tr0" by simp
    then show ?thesis by (intro exI conjI) (assumption, simp add: good_call_def)
  next
    assume "tr' = w_trace w'"
    with tr show ?thesis by blast
  next
    fix l
    assume "tr' = CPatchGlance (w_inst w') l # w_trace w'"
    with tr have "tr' = (CPatchGlance (w_inst w') l # tr) @ tr0" by simp
    then show ?thesis using tr(2) by (intro exI conjI) (assumption, simp add: good_call_def)
  qed
qed

section \<open>Properties\<close>

text \<open>\<^verbatim>\<open>controllerutil.SetControllerReference\<close> changes the owner references only.\<close>

definition sets_owner_only :: "env \<Rightarrow> bool" where
  "sets_owner_only E \<longleftrightarrow>
     (\<forall>n api owned. SetControllerReference E n api = Inr owned \<longrightarrow>
        (\<exists>refs. owned = api\<lparr>o_OwnerReferences := refs\<rparr>))"

text \<open>
  Property C11. Every GlanceAPI a reconcile writes is an instance of the specification it read:
  its type is one the layout of its template is deployed with and one of the four types the
  custom resource admits; each field of its specification has the value of the template, or of
  the resource where the template leaves the node selector, topology, configuration,
  configuration secrets, cache size or storage out, or of the resource alone (image, user,
  service account, database account, secret, selectors, extra mounts, quota, memcached), apart
  from the database host and the notification secret, which come from the status; its
  annotations have a WSGI mode and name it the Keystone endpoint exactly when it is the chosen
  instance; and it is written over the object read under its name, whose status and finalizers
  it keeps, or under a new one of that name.
\<close>

theorem written_apis_fit_layout:
  assumes "sets_owner_only E" and "resp_glance E (CGetGlance ns name # tr0) = Inr i"
    and "Glance_Reconcile E ns name tr0 = (r, tr @ tr0)" and "CWriteGlanceAPI api \<in> set tr"
  shows "\<exists>key t ty. lookup (g_GlanceAPIs (Spec i)) key = Some t \<and> ty \<in> set (deployed_types t) \<and> api_type ty \<and>
           instance_of i key t ty api \<and> starts_from E i key ty api"
proof -
  from reconcile_good [OF assms(2,3)] assms(4) have "asked_for E i api"
    by (auto simp: list_all_iff good_call_def dest!: bspec)
  then obtain key t ty a where
    a: "lookup (g_GlanceAPIs (Spec i)) key = Some t" "ty \<in> set (deployed_types t)" "starts_from E i key ty a"
      "instance_of i key t ty a" "SetControllerReference E (o_Name i) a = Inr api"
    by (auto simp: asked_for_def)
  from assms(1) a(5) obtain refs where "api = a\<lparr>o_OwnerReferences := refs\<rparr>"
    unfolding sets_owner_only_def by blast
  then have same: "o_Name api = o_Name a" "o_Namespace api = o_Namespace a" "APIName api = APIName a"
      "o_Annotations api = o_Annotations a" "ASpec api = ASpec a" "o_Finalizers api = o_Finalizers a"
      "o_Deleted api = o_Deleted a" "AStatus api = AStatus a"
    by (simp_all add: APIName_def)
  from a(3,4) have "instance_of i key t ty api" "starts_from E i key ty api"
    by (simp_all only: instance_of_def starts_from_def same)
  with a deployed_types_api show ?thesis by blast
qed

theorem written_apis_fit_layout_witness:
  "\<exists>(E :: env) r tr api t ty. Glance_Reconcile E ''ns'' ''glance'' [] = (r, tr @ []) \<and> CWriteGlanceAPI api \<in> set tr \<and>
     ty \<in> set (deployed_types t) \<and> a_APIType (ASpec api) = ty"
proof -
  let ?E = "sample_env waiting_glance (sample_api ''a'' ''internal'')"
  from sample_reconcile [of "''a''"] obtain r inst log tr api where
    run: "Glance_Reconcile ?E ''ns'' ''glance'' [] = (Ret r, (CPatchGlance inst log # tr) @ [])"
    and api: "CWriteGlanceAPI api \<in> set (CPatchGlance inst log # tr)" by auto
  have "sets_owner_only ?E" by (auto simp: sets_owner_only_def)
  from written_apis_fit_layout [OF this _ run api] obtain key t ty where
    "ty \<in> set (deployed_types t)" "instance_of waiting_glance key t ty api" by fastforce
  then have "ty \<in> set (deployed_types t) \<and> a_APIType (ASpec api) = ty" by (simp add: instance_of_def)
  with run api show ?thesis by fast
qed

text \<open>
  Property C12. The GlanceAPIs a reconcile deletes are only such as the API server listed for
  the namespace, that the resource owns, that carry a name, that are not being deleted already,
  and whose name is not in the specification it read.
\<close>

theorem only_abandoned_apis_deleted:
  assumes "resp_glance E (CGetGlance ns name # tr0) = Inr i"
    and "Glance_Reconcile E ns name tr0 = (r, tr @ tr0)" and "CDeleteGlanceAPI api \<in> set tr"
  shows "listed E i api \<and> GetOwningGlanceName api = o_Name i \<and> APIName api \<noteq> [] \<and> \<not> o_Deleted api \<and>
         lookup (g_GlanceAPIs (Spec i)) (APIName api) = None"
proof -
  from reconcile_good [OF assms(1,2)] assms(3) have "abandoned E i api"
    by (auto simp: list_all_iff good_call_def dest!: bspec)
  then show ?thesis by (simp add: abandoned_def)
qed

theorem only_abandoned_apis_deleted_witness:
  "\<exists>(E :: env) r tr api. Glance_Reconcile E ''ns'' ''glance'' [] = (r, tr) \<and> CDeleteGlanceAPI api \<in> set tr \<and>
     lookup (g_GlanceAPIs (Spec waiting_glance)) (APIName api) = None"
proof -
  let ?E = "sample_env waiting_glance (sample_api ''b'' ''internal'')"
  from sample_reconcile [of "''b''"] obtain r inst log tr where
    run: "Glance_Reconcile ?E ''ns'' ''glance'' [] = (Ret r, (CPatchGlance inst log # tr) @ [])"
    and del: "CDeleteGlanceAPI (observed (sample_api ''b'' ''internal'')) \<in> set (CPatchGlance inst log # tr)" by auto
  from only_abandoned_apis_deleted [OF _ run del] run del show ?thesis by force
qed

end
