(* ===== verification/Progress.thy ===== *)
theory Progress
  imports Triples GlanceCtl
begin

text \<open>
  Progress of the controllers: the rules for runs that go on. A condition list starts with a set
  of conditions still to be set to true; each step of a run that is answered well sets some of
  them, and none is set to false.
\<close>

section \<open>What is still to be set\<close>

definition is_true :: "ctype \<Rightarrow> condition option \<Rightarrow> bool" where
  "is_true t c \<longleftrightarrow> (case c of None \<Rightarrow> False | Some c \<Rightarrow> c_Type c = t \<and> c_Status c = CTrue)"

text \<open>\<open>settled S l\<close>: no condition outside \<open>S\<close>, Ready apart, is other than true.\<close>

definition settled :: "ctype set \<Rightarrow> cond_log \<Rightarrow> bool" where
  "settled S l \<longleftrightarrow> (\<forall>t c. t \<noteq> ReadyCondition \<and> t \<notin> S \<and> cond_get l t = Some c \<longrightarrow> c_Status c = CTrue)"

lemma settled_mark: "settled (insert t S) l \<Longrightarrow> settled S (CMarkTrue t m # l)"
  by (auto simp: settled_def TrueCondition_def)

lemma settled_set: "is_true t c \<Longrightarrow> settled (insert t S) l \<Longrightarrow> settled S (CSet c # l)"
  by (cases c) (auto simp: settled_def is_true_def)

lemma settled_mono: "settled S l \<Longrightarrow> S \<subseteq> T \<Longrightarrow> settled T l"
  by (auto simp: settled_def)

lemma settled_empty: "settled {} l \<longleftrightarrow> cond_all_sub_true l"
  unfolding settled_def cond_all_sub_true_iff by blast

lemma settled_init:
  assumes "settled S l" and "c_Type ` set cs \<subseteq> insert ReadyCondition S"
  shows "settled S (CInit cs # l)"
proof -
  have "find (\<lambda>c. c_Type c = t) cs = None" if "t \<notin> insert ReadyCondition S" for t
    using that assms(2) by (auto simp: find_None_iff)
  then show ?thesis using assms(1) unfolding settled_def by (intro allI impI; elim conjE) simp
qed

text \<open>The deferred function touches Ready only.\<close>

lemma settled_deferred:
  assumes "settled S l" and "\<And>l t c. mirror E l t = Some c \<Longrightarrow> c_Type c = t"
  shows "settled S (deferred_conditions E l)"
  using assms(1) assms(2) [of "CRestoreTimes # l" ReadyCondition]
  by (cases "mirror E (CRestoreTimes # l) ReadyCondition") (simp_all add: deferred_conditions_def Let_def settled_def)

lemma cond_get_type: "cond_get l t = Some c \<Longrightarrow> c_Type c = t"
  by (induction l t rule: cond_get.induct) (auto simp: find_Some_iff TrueCondition_def FalseCondition_def
      split: option.splits if_splits)

text \<open>Ready is set, and read back.\<close>

definition ready_now :: "cond_log \<Rightarrow> bool" where
  "ready_now l \<longleftrightarrow> is_true ReadyCondition (cond_get l ReadyCondition)"

definition true_in :: "cond_log \<Rightarrow> ctype \<Rightarrow> bool" where
  "true_in l t \<longleftrightarrow> is_true t (cond_get l t)"

section \<open>Runs that go on\<close>

text \<open>
  \<open>yields I S T P m\<close>: a run of \<open>m\<close> on an instance that satisfies \<open>I\<close>, with \<open>S\<close> to be set, goes
  on with a value that satisfies \<open>P\<close>, on such an instance and with \<open>T\<close> to be set.
\<close>

definition on_way :: "('i \<Rightarrow> bool) \<Rightarrow> ctype set \<Rightarrow> 'i world \<Rightarrow> bool" where
  "on_way I S w \<longleftrightarrow> I (w_inst w) \<and> settled S (w_conds w)"

definition yields ::
  "('i \<Rightarrow> bool) \<Rightarrow> ctype set \<Rightarrow> ctype set \<Rightarrow> ('a \<Rightarrow> bool) \<Rightarrow> ('i world, 'r, 'a) act \<Rightarrow> bool" where
  "yields I S T P m \<longleftrightarrow>
     triple (on_way I S) m (\<lambda>x w. on_way I T w \<and> P x) (\<lambda>_ _. False) (\<lambda>_. False)"

abbreviation goes :: "('i \<Rightarrow> bool) \<Rightarrow> ctype set \<Rightarrow> ctype set \<Rightarrow> ('i world, 'r, 'a) act \<Rightarrow> bool" where
  "goes I S T m \<equiv> yields I S T (\<lambda>_. True) m"

lemma on_way_mono: "on_way I S w \<Longrightarrow> S \<subseteq> T \<Longrightarrow> on_way I T w"
  by (auto simp: on_way_def intro: settled_mono)

lemma yieldsD:
  assumes "yields I S T P m" and "on_way I S w"
  shows "\<exists>x w'. m w = (Next x, w') \<and> on_way I T w' \<and> P x"
proof -
  obtain out w' where "m w = (out, w')" by fastforce
  with tripleD [OF assms(1) [unfolded yields_def] assms(2)] show ?thesis by (cases out) auto
qed

lemma yieldsI:
  assumes "\<And>w. on_way I S w \<Longrightarrow> \<exists>x w'. m w = (Next x, w') \<and> on_way I T w' \<and> P x"
  shows "yields I S T P m"
  unfolding yields_def by (rule tripleI) (use assms in \<open>fastforce\<close>)+

lemma yields_weaken:
  "yields I S' T' P' m \<Longrightarrow> S \<subseteq> S' \<Longrightarrow> T' \<subseteq> T \<Longrightarrow> (\<And>x. P' x \<Longrightarrow> P x) \<Longrightarrow> yields I S T P m"
  unfolding yields_def by (erule triple_weaken) (auto intro: on_way_mono)

lemma yields_value: "yields I S T P m \<Longrightarrow> (\<And>x. P x \<Longrightarrow> Q x) \<Longrightarrow> yields I S T Q m"
  by (rule yields_weaken [where S' = S and T' = T and P' = P]) auto

lemma yields_goes: "yields I S T P m \<Longrightarrow> goes I S T m"
  by (erule yields_value) simp

lemma yields_ret: "P x \<Longrightarrow> yields I S S P (ret x)"
  by (simp add: yields_def triple_ret)

lemma yields_call: "(\<And>tr. P (f (c # tr))) \<Longrightarrow> yields I S S P (call c f)"
  by (rule yieldsI) (simp add: on_way_def)

lemma goes_mark: "goes I (insert t S) S (mark_true t m)" "goes I (insert t S) S (cond (CMarkTrue t m'))"
  by (rule yieldsI, auto simp: on_way_def intro: settled_mark)+

lemma goes_set: "is_true t c \<Longrightarrow> goes I (insert t S) S (cond (CSet c))"
  by (rule yieldsI) (auto simp: on_way_def intro: settled_set)

lemma goes_modify: "(\<And>j. I j \<Longrightarrow> I (g j)) \<Longrightarrow> goes I S S (set_inst g)"
  by (rule yieldsI) (simp add: on_way_def)

lemma yields_read: "(\<And>j. I j \<Longrightarrow> P (h j)) \<Longrightarrow> yields I S S P (read h)"
  by (rule yieldsI) (simp add: on_way_def)

lemma yields_log: "(\<And>l. settled S l \<Longrightarrow> P l) \<Longrightarrow> yields I S S P (gets w_conds)"
  by (rule yieldsI) (simp add: on_way_def)

lemma yields_go: "g = Ret x \<Longrightarrow> P x \<Longrightarrow> yields I S S P (of_go g)"
  by (simp add: of_go_def yields_ret)

lemma goes_total: "\<not> panics g \<Longrightarrow> goes I S S (of_go g)"
  by (cases g) (simp_all add: yields_go)

lemma yields_bind:
  assumes "yields I S T P m" and "\<And>x. P x \<Longrightarrow> yields I T U Q (f x)"
  shows "yields I S U Q (bind m f)"
  unfolding yields_def
  by (rule triple_bind [OF assms(1) [unfolded yields_def]], rule triple_pure, rule assms(2) [unfolded yields_def])

lemma yields_seq: "yields I S T P m \<Longrightarrow> yields I T U Q n \<Longrightarrow> yields I S U Q (seq m n)"
  unfolding seq_def by (rule yields_bind)

text \<open>A step that sets nothing.\<close>

lemma yields_then: "goes I S S m \<Longrightarrow> yields I S T Q n \<Longrightarrow> yields I S T Q (seq m n)"
  by (rule yields_seq)

lemma yields_mark: "yields I S T Q n \<Longrightarrow> yields I (insert t S) T Q (seq (mark_true t m) n)"
  by (rule yields_seq [OF goes_mark(1)])

lemma yields_fn: "yields I S T P m \<Longrightarrow> yields I S T P (fn m)"
  unfolding yields_def by (rule triple_fn) (erule triple_weaken, simp_all)

lemma goes_must: "yields I S T (\<lambda>e. e = None) m \<Longrightarrow> goes I S T (must m h)"
  unfolding must_def by (erule yields_bind) (simp add: yields_ret)

lemma yields_attempt:
  assumes "yields I S T (\<lambda>v. \<exists>x. v = Inr x \<and> P x) m" and "\<And>x. P x \<Longrightarrow> yields I T U Q (f x)"
  shows "yields I S U Q (attempt m h f)"
  unfolding attempt_def by (rule yields_bind [OF assms(1)]) (auto intro: assms(2))

lemma yields_try:
  "yields I S T (\<lambda>v. \<exists>x. v = Inr x) m \<Longrightarrow> (\<And>x. yields I T U Q (f x)) \<Longrightarrow> yields I S U Q (attempt m h f)"
  by (rule yields_attempt [where P = "\<lambda>_. True"]) simp_all

text \<open>A computation that is known to succeed.\<close>

lemma yields_computed: "v = Inr x \<Longrightarrow> yields I S T Q (f x) \<Longrightarrow> yields I S T Q (attempt (ret v) h f)"
  unfolding attempt_def by (rule yields_bind [where P = "\<lambda>u. u = Inr x"]) (auto intro!: yields_ret)

lemma goes_whenever: "(b \<Longrightarrow> goes I S S m) \<Longrightarrow> goes I S S (whenever b m)"
  by (simp add: whenever_def yields_ret)

text \<open>A guard that is not met.\<close>

lemma goes_unless: "\<not> b \<Longrightarrow> goes I S S (whenever b m)"
  by (simp add: whenever_def yields_ret)

lemma yields_if:
  "(b \<Longrightarrow> yields I S T P m) \<Longrightarrow> (\<not> b \<Longrightarrow> yields I S T P n) \<Longrightarrow> yields I S T P (if b then m else n)"
  by simp

lemma yields_for_each:
  "(\<And>x. x \<in> set xs \<Longrightarrow> goes I S S (f x)) \<Longrightarrow> goes I S S (for_each f xs)"
  by (induction xs) (auto intro: yields_ret yields_seq)

lemma yields_for_acc:
  "(\<And>x acc. x \<in> set xs \<Longrightarrow> P acc \<Longrightarrow> yields I S S P (f x acc)) \<Longrightarrow> P acc \<Longrightarrow> yields I S S P (for_acc f xs acc)"
  by (induction xs arbitrary: acc) (auto intro: yields_ret yields_bind)

lemma yields_inst: "(\<And>j. I j \<Longrightarrow> yields I S T P (f j)) \<Longrightarrow> yields I S T P (bind (read (\<lambda>j. j)) f)"
  by (rule yields_bind [where P = I]) (auto intro: yields_read)

text \<open>A step after which more is known of the instance.\<close>

lemma yields_change:
  assumes "\<And>j. I j \<Longrightarrow> J (g j)" and "yields J S T Q m" and "\<And>j. J j \<Longrightarrow> I j"
  shows "yields I S T Q (seq (set_inst g) m)"
proof (rule yieldsI)
  fix w
  assume "on_way I S w"
  then have "on_way J S (w\<lparr>w_inst := g (w_inst w)\<rparr>)" using assms(1) by (simp add: on_way_def)
  from yieldsD [OF assms(2) this] obtain x w' where
    "m (w\<lparr>w_inst := g (w_inst w)\<rparr>) = (Next x, w')" "on_way J T w'" "Q x" by blast
  then show "\<exists>x w'. seq (set_inst g) m w = (Next x, w') \<and> on_way I T w' \<and> Q x"
    using assms(3) by (simp add: seq_def bind_def set_inst_def modify_def on_way_def)
qed

section \<open>The functions both controllers share\<close>

text \<open>
  What both controllers ask for, answered without an error or a wait, whatever was asked before.
\<close>

definition serves_well :: "env \<Rightarrow> bool" where
  "serves_well E \<longleftrightarrow>
     (\<forall>tr. resp_err E tr = None \<and> resp_res E tr = (EmptyResult, None)) \<and>
     (\<forall>tr. \<exists>hash. resp_verify E tr = (hash, EmptyResult, None)) \<and>
     (\<forall>tr. \<exists>nad. resp_nad E tr = Inr nad) \<and>
     (\<forall>tr. \<exists>a. resp_annotations E tr = (a, None)) \<and>
     (\<forall>tr. \<exists>vars. resp_env E tr = (vars, None)) \<and>
     (\<forall>tr. \<exists>mc. resp_memcached E tr = Inr mc \<and> mc_Ready mc) \<and>
     (\<forall>tr. \<exists>s. resp_str E tr = Inr s \<and> s \<noteq> []) \<and>
     (\<forall>tr. \<exists>k. resp_keystoneapi E tr = Inr k)"

lemma yields_err: "serves_well E \<Longrightarrow> yields I S S (\<lambda>e. e = None) (call c (resp_err E))"
  by (rule yields_call) (simp add: serves_well_def)

lemma yields_res: "serves_well E \<Longrightarrow> yields I S S (\<lambda>r. r = (EmptyResult, None)) (call c (resp_res E))"
  by (rule yields_call) (simp add: serves_well_def)

lemma yields_str: "serves_well E \<Longrightarrow> yields I S S (\<lambda>r. \<exists>s. r = Inr s \<and> s \<noteq> []) (call c (resp_str E))"
  by (rule yields_call) (simp add: serves_well_def)

lemma goes_err: "serves_well E \<Longrightarrow> goes I S S (must (call c (resp_err E)) h)"
  by (intro goes_must yields_err)

lemma yields_answers:
  assumes "serves_well E"
  shows "yields I S S (\<lambda>r. snd r = (EmptyResult, None)) (call c (resp_verify E))"
    and "yields I S S (\<lambda>r. \<exists>x. r = Inr x) (call c (resp_nad E))"
    and "yields I S S (\<lambda>r. snd r = None) (call c (resp_annotations E))"
    and "yields I S S (\<lambda>r. snd r = None) (call c (resp_env E))"
    and "yields I S S (\<lambda>r. \<exists>mc. r = Inr mc \<and> mc_Ready mc) (call c (resp_memcached E))"
    and "yields I S S (\<lambda>r. \<exists>k. r = Inr k) (call c (resp_keystoneapi E))"
  by (rule yields_call, use assms in \<open>metis serves_well_def snd_conv\<close>)+

lemma yields_verify:
  assumes "serves_well E"
  shows "yields I S S (\<lambda>r. fst r = (EmptyResult, None)) (verifyServiceSecret E ns n fs d vars)"
  unfolding verifyServiceSecret_def
  by (intro yields_fn yields_bind [OF yields_answers(1) [OF assms]]) (auto intro!: yields_ret)

lemma yields_nad:
  assumes "serves_well E"
  shows "yields I S S (\<lambda>r. snd r = (EmptyResult, None)) (ensureNAD E ns nAttach)"
proof -
  have step: "yields I S S (\<lambda>_. True) (nad_step E ns x l)" for x l
    unfolding nad_step_def
    by (intro yields_bind [OF yields_answers(2) [OF assms]]) (auto split: option.split intro: yields_ret)
  show ?thesis unfolding ensureNAD_def
    by (intro yields_fn yields_bind [OF yields_for_acc [OF step]] yields_bind [OF yields_answers(3) [OF assms]])
      (auto intro!: yields_ret)
qed

lemma yields_configs:
  "serves_well E \<Longrightarrow> yields I S S (\<lambda>r. snd r = None) (GenerateConfigsGeneric E n ns k ps cd ls sc)"
  unfolding GenerateConfigsGeneric_def by (rule yields_answers)

lemma goes_ensure_memcached:
  "serves_well E \<Longrightarrow> goes I (insert MemcachedReadyCondition S) S (ensure_memcached E n ns)"
  unfolding ensure_memcached_def
  by (rule yields_attempt [OF yields_answers(5)], assumption)
    (auto intro!: yields_seq goes_unless goes_mark yields_ret)

section \<open>The end of a run\<close>

text \<open>What holds of the last state.\<close>

abbreviation ends_in :: "('i \<Rightarrow> bool) \<Rightarrow> ctype set \<Rightarrow> ('a \<Rightarrow> 'i world \<Rightarrow> bool) \<Rightarrow> ('i world, 'r, 'a) act \<Rightarrow> bool" where
  "ends_in I S Q m \<equiv> triple (on_way I S) m Q (\<lambda>_ _. False) (\<lambda>_. False)"

lemma ends_bind:
  assumes "yields I S T P m" and "\<And>x. P x \<Longrightarrow> ends_in I T Q (f x)"
  shows "ends_in I S Q (bind m f)"
  by (rule triple_bind [OF assms(1) [unfolded yields_def]], rule triple_pure, rule assms(2))

lemma ends_seq: "yields I S T P m \<Longrightarrow> ends_in I T Q n \<Longrightarrow> ends_in I S Q (seq m n)"
  unfolding seq_def by (rule ends_bind)

lemma ends_inst: "(\<And>j. I j \<Longrightarrow> ends_in I S Q (f j)) \<Longrightarrow> ends_in I S Q (bind (read (\<lambda>j. j)) f)"
  by (rule ends_bind [where P = I]) (auto intro: yields_read)

lemma ends_fn: "ends_in I S Q m \<Longrightarrow> ends_in I S Q (fn m)"
  by (rule triple_fn) (erule triple_weaken, simp_all)

text \<open>Ready is the last condition to be marked.\<close>

lemma ends_ready:
  assumes "all_sub_true E = cond_all_sub_true"
  shows "ends_in I {} (\<lambda>_ w. on_way I {} w \<and> ready_now (w_conds w))
    (bind (gets w_conds) (\<lambda>conds. whenever (all_sub_true E conds) (mark_true ReadyCondition m)))"
  by (auto simp: triple_def run_defs world_defs on_way_def assms settled_empty cond_all_sub_true_iff
      ready_now_def is_true_def TrueCondition_def)

end
