(* ===== verification/GlanceLive.thy ===== *)
theory GlanceLive
  imports GlanceProps GlanceWrites Progress
begin

text \<open>
  The Glance controller makes progress: where everything it asks for is answered well, a
  resource becomes Ready within two reconciles.
\<close>

section \<open>An environment that answers well\<close>

text \<open>The conditions \<^verbatim>\<open>ReconcileRbac\<close> sets: the account, the role and the binding, all true.\<close>

definition roles_ready :: "condition list \<Rightarrow> bool" where
  "roles_ready cs \<longleftrightarrow>
     map c_Type cs = [ServiceAccountReadyCondition, RoleReadyCondition, RoleBindingReadyCondition] \<and>
     list_all (\<lambda>c. c_Status c = CTrue) cs"

text \<open>
  Whatever was asked before: no error, no wait, and the objects beside the GlanceAPIs report
  themselves ready.
\<close>

definition glance_served :: "env \<Rightarrow> bool" where
  "glance_served E \<longleftrightarrow>
     serves_well E \<and>
     (\<forall>tr. \<exists>apis. resp_apis E tr = Inr apis) \<and>
     (\<forall>tr. \<exists>found. resp_found E tr = Inr found) \<and>
     (\<forall>tr. \<exists>cs. resp_rbac E tr = ((EmptyResult, None), cs) \<and> roles_ready cs) \<and>
     (\<forall>s ns l d tr. \<exists>c sid. resp_keystone E (CKeystoneService s ns l d # tr) = ((EmptyResult, None), c, sid) \<and>
        is_true KeystoneServiceReadyCondition c) \<and>
     (\<forall>tr. \<exists>changed hash. resp_job E tr = ((EmptyResult, None), changed, hash))"

text \<open>What the GlanceAPIs the resource asks for report when they are written.\<close>

definition reports :: "env \<Rightarrow> Glance \<Rightarrow> (condition option \<Rightarrow> bool) \<Rightarrow> bool" where
  "reports E i A \<longleftrightarrow>
     (\<forall>api tr. asked_for E i api \<longrightarrow> (\<exists>a. resp_api E (CWriteGlanceAPI api # tr) = Inr a \<and> A (api_mirror E a)))"

text \<open>They report ready, and their own controller has observed them.\<close>

definition answers_well :: "env \<Rightarrow> Glance \<Rightarrow> bool" where
  "answers_well E i \<longleftrightarrow>
     glance_served E \<and> reports E i (is_true GlanceAPIReadyCondition) \<and>
     (\<forall>tr apis. resp_apis E tr = Inr apis \<longrightarrow> generations_observed apis)"

text \<open>The pure functions of the libraries, as documented.\<close>

definition lawful_lib_functions :: "env \<Rightarrow> bool" where
  "lawful_lib_functions E \<longleftrightarrow>
     all_sub_true E = cond_all_sub_true \<and> is_unknown E = cond_is_unknown \<and>
     (\<forall>l t c. mirror E l t = Some c \<longrightarrow> c_Type c = t) \<and>
     (\<forall>x y. higher_prio E x y = x \<or> higher_prio E x y = y) \<and>
     (\<forall>n a. \<exists>b. SetControllerReference E n a = Inr b) \<and>
     (\<forall>fs. \<not> snd (AddFinalizer E (fst (AddFinalizer E fs))))"

text \<open>
  The resource: at least one instance, a cache size that is a quantity, annotations that are
  booleans, backends that can be read, and no single instance on a backend other than a file
  unless the location API is on.
\<close>

definition single_on_file :: "Glance \<Rightarrow> bool \<Rightarrow> GlanceAPITemplate \<Rightarrow> bool" where
  "single_on_file i loc t \<longleftrightarrow>
     (\<exists>top. IsFileBackend (g_CustomServiceConfig (Spec i)) True = Ret top \<and>
        (\<not> loc \<and> t_Type t = APISingle \<longrightarrow> IsFileBackend (t_CustomServiceConfig t) top = Ret True))"

definition deployable_glance :: "env \<Rightarrow> Glance \<Rightarrow> bool" where
  "deployable_glance E i \<longleftrightarrow>
     \<not> o_Deleted i \<and> g_GlanceAPIs (Spec i) \<noteq> [] \<and>
     (\<exists>ps. cache_params E (Size (g_ImageCache (Spec i))) = Inr ps) \<and>
     (\<exists>v. GetBoolFromAnnotation E (o_Annotations i) GlanceWSGILabel = Inr v) \<and>
     (\<exists>loc. GetLocationAPI (GetBoolFromAnnotation E) i = (loc, None) \<and>
        list_all (\<lambda>(n, t). single_on_file i loc t) (g_GlanceAPIs (Spec i)))"

section \<open>The phases\<close>

text \<open>The resource during a reconcile: the maps of its status have been made.\<close>

definition going :: "Glance \<Rightarrow> Glance \<Rightarrow> bool" where
  "going i j \<longleftrightarrow> same_glance i j \<and> s_Hash (Status j) \<noteq> None \<and> s_APIEndpoints (Status j) \<noteq> None"

lemma goes_status:
  "(\<And>s. s_Hash s \<noteq> None \<Longrightarrow> s_Hash (f s) \<noteq> None) \<Longrightarrow>
   (\<And>s. s_APIEndpoints s \<noteq> None \<Longrightarrow> s_APIEndpoints (f s) \<noteq> None) \<Longrightarrow> goes (going i) S S (set_status f)"
  unfolding set_status_def by (rule goes_modify) (simp add: going_def same_glance_def)

lemma serving: "glance_served E \<Longrightarrow> serves_well E"
  by (simp add: glance_served_def)

lemma glance_answers:
  assumes "glance_served E"
  shows "yields I S S (\<lambda>r. \<exists>apis. r = Inr apis) (call c (resp_apis E))"
    and "yields I S S (\<lambda>r. \<exists>found. r = Inr found) (call c (resp_found E))"
    and "yields I S S (\<lambda>r. fst r = (EmptyResult, None) \<and> roles_ready (snd r)) (call c (resp_rbac E))"
    and "yields I S S (\<lambda>r. fst r = (EmptyResult, None) \<and> is_true KeystoneServiceReadyCondition (fst (snd r)))
           (call (CKeystoneService s ns l d) (resp_keystone E))"
    and "yields I S S (\<lambda>r. fst r = (EmptyResult, None)) (call c (resp_job E))"
  by (rule yields_call, use assms in \<open>unfold glance_served_def, metis fst_conv snd_conv\<close>)+

text \<open>A step after which no error or wait is seen.\<close>

lemmas passes = yields_then goes_unless goes_must yields_ret

lemma goes_roles:
  assumes "roles_ready cs"
  shows "goes I (insert ServiceAccountReadyCondition (insert RoleReadyCondition (insert RoleBindingReadyCondition S))) S
    (for_each (\<lambda>c. cond (CSet (Some c))) cs)"
proof -
  from assms obtain a b c where cs: "cs = [a, b, c]" "is_true ServiceAccountReadyCondition (Some a)"
    "is_true RoleReadyCondition (Some b)" "is_true RoleBindingReadyCondition (Some c)"
    by (auto simp: roles_ready_def is_true_def Cons_eq_map_conv map_eq_Cons_conv)
  show ?thesis unfolding cs(1) for_each.simps
    by (rule yields_seq goes_set yields_ret cs TrueI)+
qed

lemma goes_rbac:
  assumes "glance_served E"
  shows "goes I (insert ServiceAccountReadyCondition (insert RoleReadyCondition (insert RoleBindingReadyCondition S))) S
    (normal_rbac E)"
  unfolding normal_rbac_def
  by (rule yields_bind [OF glance_answers(3) [OF assms]], clarsimp, rule yields_seq [OF goes_roles], assumption)
    (intro passes; simp)

lemma goes_transport:
  assumes "glance_served E"
  shows "goes (going i) (insert NotificationBusInstanceReadyCondition S) S (normal_transport E sl)"
proof -
  have url: "yields (going i) T T (\<lambda>r. \<exists>s. r = Inr s \<and> s \<noteq> []) (transportURLCreateOrUpdate E sl c b)" for c b T
    unfolding transportURLCreateOrUpdate_def by (intro yields_inst yields_str serving assms)
  have st: "goes (going i) T T (set_status (\<lambda>s. s\<lparr>s_NotificationBusSecret := x\<rparr>))" for x T
    by (rule goes_status) simp_all
  show ?thesis unfolding normal_transport_def
    by (intro yields_inst yields_seq [OF _ goes_mark(1)])
      (auto simp: Let_def split: option.split intro!: st yields_attempt [OF url] passes)
qed

lemma goes_secret:
  assumes "glance_served E"
  shows "goes I (insert InputReadyCondition S) S (normal_secret E)"
  unfolding normal_secret_def
  by (intro yields_inst yields_bind [OF yields_verify [OF serving [OF assms]]]) (auto intro!: passes goes_mark(1))

lemma goes_db:
  assumes "glance_served E"
  shows "goes (going i) (insert MariaDBAccountReadyCondition (insert DBReadyCondition S)) S (normal_db E)"
proof -
  have ask: "yields (going i) T T (\<lambda>r. fst r = (EmptyResult, None)) (call c (\<lambda>tr. (resp_res E tr, resp_db E tr)))" for T c
    by (rule yields_call) (use serving [OF assms] in \<open>simp add: serves_well_def\<close>)
  have host: "goes (going i) T T (set_status (\<lambda>s. s\<lparr>s_DatabaseHostname := h\<rparr>))" for h T
    by (rule goes_status) simp_all
  have "yields (going i) (insert MariaDBAccountReadyCondition (insert DBReadyCondition S)) S
      (\<lambda>x. \<exists>db. x = (Some db, EmptyResult, None)) (ensureDB E)"
    unfolding ensureDB_def
    by (intro yields_fn yields_inst yields_then [OF goes_err [OF serving [OF assms]]] yields_mark yields_bind [OF ask])
      (auto intro!: passes yields_mark host yields_bind [OF ask])
  then show ?thesis unfolding normal_db_def
    by (rule yields_bind) (auto intro!: passes)
qed

lemma goes_config:
  assumes "glance_served E" and "\<exists>ps. cache_params E (Size (g_ImageCache (Spec i))) = Inr ps"
  shows "goes (going i) (insert ServiceConfigReadyCondition S) S (normal_config E sl db)"
proof -
  from assms(2) obtain ps where ps: "cache_params E (Size (g_ImageCache (Spec j))) = Inr ps" if "going i j" for j
    by (auto simp: going_def same_glance_def)
  have config: "yields (going i) T T (\<lambda>e. e = None) (Glance_generateServiceConfig E sl db)" for T
    unfolding Glance_generateServiceConfig_def Let_def
    by (intro yields_fn yields_inst, rule yields_computed [OF ps], assumption)
      (rule yields_bind [OF yields_configs [OF serving [OF assms(1)]]], auto intro!: yields_ret)
  then show ?thesis unfolding normal_config_def by (intro yields_then goes_must goes_mark(1))
qed

lemma goes_networks:
  assumes "glance_served E"
  shows "goes I S S (normal_networks E)"
  unfolding normal_networks_def
  by (intro yields_inst yields_for_acc yields_bind [OF yields_nad [OF serving [OF assms]]]) (auto intro!: passes)

lemma goes_init:
  assumes "glance_served E"
  shows "goes (going i) (insert KeystoneServiceReadyCondition (insert DBSyncReadyCondition
      (insert NetworkAttachmentsReadyCondition S))) S (normal_init E sl sa)"
proof -
  have report: "yields (going i) (insert KeystoneServiceReadyCondition T) T Q (seq (whenever (c \<noteq> None) (cond (CSet c))) n)"
    if "is_true KeystoneServiceReadyCondition c" "yields (going i) T T Q n" 
    for c T Q and n :: "(Glance world, reconcile_result, unit) act"
  proof -
    from that(1) obtain x where "c = Some x" by (cases c) (auto simp: is_true_def)
    with that show ?thesis by (auto simp: whenever_def intro!: yields_seq [OF goes_set])
  qed
  have id: "goes (going i) T T (set_status (\<lambda>s. s\<lparr>s_ServiceID := x, s_Hash := Some (the_map (s_Hash s))\<rparr>))" for x T
    by (rule goes_status) simp_all
  have hash: "goes (going i) T T (set_status (\<lambda>s. s\<lparr>s_Hash := map_option (AList.update DbSyncHash h) (s_Hash s)\<rparr>))" for h T
    by (rule goes_status) auto
  have keystone: "goes (going i) (insert KeystoneServiceReadyCondition T) T (init_keystone E sl)" for T
    unfolding init_keystone_def
    by (intro yields_inst yields_bind [OF glance_answers(4) [OF assms]], simp only: split_paired_all prod.case,
        rule yields_then, simp add: goes_unless, rule report) (auto intro!: id passes)
  have dbsync: "goes (going i) (insert DBSyncReadyCondition T) T (init_dbsync E sl sa)" for T
    unfolding init_dbsync_def Let_def
    by (intro yields_inst yields_bind [OF glance_answers(5) [OF assms]])
      (auto intro!: passes goes_whenever hash goes_mark(1))
  have "yields (going i) (insert KeystoneServiceReadyCondition (insert DBSyncReadyCondition
      (insert NetworkAttachmentsReadyCondition S))) S (\<lambda>r. r = (EmptyResult, None)) (Glance_reconcileInit E sl sa)"
    unfolding Glance_reconcileInit_def
    by (intro yields_fn yields_seq [OF keystone] yields_seq [OF dbsync] yields_mark yields_ret refl)
  then show ?thesis unfolding normal_init_def by (rule yields_bind) (auto intro!: passes)
qed

section \<open>The instances\<close>

lemma yields_limits:
  assumes "glance_served E"
  shows "yields I S S (\<lambda>e. e = None) (ensureRegisteredLimits E q)"
  unfolding ensureRegisteredLimits_def Let_def
  by (intro yields_fn yields_inst yields_try [OF yields_answers(6) [OF serving [OF assms]]]
      yields_attempt [OF yields_str [OF serving [OF assms]]] yields_then yields_for_each goes_err [OF serving [OF assms]]
      yields_ret refl)

lemma yields_create:
  assumes "glance_served E" and "lawful_lib_functions E" and "reports E i A"
    and "lookup (g_GlanceAPIs (Spec i)) n = Some t" and "ty \<in> set (deployed_types t)"
  shows "yields (going i) S S (\<lambda>r. \<exists>a. r = Inr a \<and> A (api_mirror E a)) (apiDeploymentCreateOrUpdate E t ty n sl ws)"
proof -
  have found: "yields (going i) S S (\<lambda>v. \<exists>f. v = Inr f \<and>
      (\<exists>tr. resp_found E (CReadGlanceAPI (o_Namespace i) (api_object_name i n ty) # tr) = Inr f))
      (call (CReadGlanceAPI (o_Namespace j) (o_Name (api_skeleton j t ty n sl ws))) (resp_found E))" if "going i j" for j
  proof (rule yields_call)
    fix tr
    from that have "o_Namespace j = o_Namespace i" "o_Name (api_skeleton j t ty n sl ws) = api_object_name i n ty"
      by (simp_all add: going_def skeleton_name) (simp add: same_glance_def)
    moreover obtain f where "resp_found E (CReadGlanceAPI (o_Namespace i) (api_object_name i n ty) # tr) = Inr f"
      using assms(1) unfolding glance_served_def by blast
    ultimately show "\<exists>f. resp_found E (CReadGlanceAPI (o_Namespace j) (o_Name (api_skeleton j t ty n sl ws)) # tr) = Inr f \<and>
      (\<exists>tr. resp_found E (CReadGlanceAPI (o_Namespace i) (api_object_name i n ty) # tr) = Inr f)" by auto
  qed
  have own: "yields (going i) S S (\<lambda>r. \<exists>a. r = Inr a \<and> A (api_mirror E a))
      (attempt (ret (SetControllerReference E (o_Name j) (desired_api j (api_annotations j n ws) (api_spec j t ty) seen)))
         (\<lambda>e. exit_with (Inl e)) (\<lambda>owned. call (CWriteGlanceAPI owned) (resp_api E)))"
    if "going i j" "starts_from E i n ty seen" for j seen
  proof -
    from assms(2) obtain owned where owned: "SetControllerReference E (o_Name j)
        (desired_api j (api_annotations j n ws) (api_spec j t ty) seen) = Inr owned"
      unfolding lawful_lib_functions_def by blast
    have "same_glance i j" using that(1) by (simp add: going_def)
    from written_asked_for [OF assms(4,5) this that(2) owned] have "asked_for E i owned" .
    with assms(3) show ?thesis
      by (intro yields_computed [OF owned] yields_call) (simp add: reports_def)
  qed
  show ?thesis unfolding apiDeploymentCreateOrUpdate_def Let_def
    by (intro yields_fn yields_inst yields_attempt [OF found] yields_then goes_whenever goes_must yields_limits [OF assms(1)] own)
      (auto simp: going_def intro: seen_starts)
qed

lemma goes_endpoint: "goes (going i) S S (set_api_endpoint k v)"
  by (rule yieldsI)
    (auto simp: set_api_endpoint_def write_map_def of_go_def run_defs world_defs set_status_def on_way_def going_def same_glance_def)

lemma layout_passes:
  assumes "single_on_file i loc t" and "same_glance i j"
  shows "goes I S S (check_layout j t loc)"
proof -
  from assms obtain top where "IsFileBackend (g_CustomServiceConfig (Spec j)) True = Ret top"
    "\<not> loc \<and> t_Type t = APISingle \<Longrightarrow> IsFileBackend (t_CustomServiceConfig t) top = Ret True"
    by (auto simp: single_on_file_def same_glance_def)
  then show ?thesis unfolding check_layout_def
    by (intro yields_bind [OF yields_go [where P = "\<lambda>x. x = top"]] goes_whenever
        yields_bind [OF yields_go [where P = "\<lambda>x. x = True"]]) (auto intro: goes_unless)
qed

lemma goes_mirror: "goes (going i) S S (mirror_external n t a)"
proof -
  have "goes (going i) S S (set_status (\<lambda>s. s\<lparr>s_GlanceAPIReadyCounts := f s\<rparr>))" for f
    by (rule goes_status) simp_all
  then show ?thesis unfolding mirror_external_def
    by (intro yields_then) (auto split: option.split intro!: passes goes_whenever goes_endpoint)
qed

lemma yields_deployment:
  assumes "glance_served E" and "lawful_lib_functions E" and "reports E i A" and "single_on_file i loc t"
    and "lookup (g_GlanceAPIs (Spec i)) n = Some t"
    and "\<exists>v. GetBoolFromAnnotation E (o_Annotations i) GlanceWSGILabel = Inr v"
    and "\<And>c. A c \<Longrightarrow> yields (going i) S T (\<lambda>e. e = None) (seq (whenever (c \<noteq> None) (cond (CSet c))) (ret None)
           :: (Glance world, go_error option, go_error option) act)"
  shows "yields (going i) S T (\<lambda>e. e = None) (apiDeployment E n t sl loc)"
proof -
  have prio: "A (higher_prio E x y)" if "A x" "A y" for x y
    using that assms(2) unfolding lawful_lib_functions_def by metis
  have map_set: "goes (going i) S S (set_status (\<lambda>s. s\<lparr>s_APIEndpoints := Some (the_map (s_APIEndpoints s))\<rparr>))"
    by (rule goes_status) simp_all
  have internal: "yields (going i) S S A (deploy_internal E n t sl ws c)"
    if "A c" "t_Type t = ''split'' \<or> t_Type t = []" for ws c
  proof -
    have ty: "APIInternal \<in> set (deployed_types t)" using that(2) by (simp add: deployed_types_def)
    show ?thesis unfolding deploy_internal_def
      by (intro yields_attempt [OF yields_create [OF assms(1-3,5) ty]] yields_then [OF map_set])
        (auto split: option.split intro!: yields_then yields_ret goes_endpoint prio that)
  qed
  have ty: "external_type (t_Type t) \<in> set (deployed_types t)" by (simp add: deployed_types_def)
  from assms(6) obtain flag ex where v: "GetBoolFromAnnotation E (o_Annotations j) GlanceWSGILabel = Inr (flag, ex)"
    if "going i j" for j by (fastforce simp: going_def same_glance_def)
  show ?thesis unfolding apiDeployment_def Let_def
    apply (rule yields_fn)
    apply (rule yields_inst)
    apply (rule yields_then [OF layout_passes [OF assms(4)]], simp add: going_def)
    apply (rule yields_computed [OF v], assumption)
    apply (simp only: prod.case)
    apply (rule yields_attempt [OF yields_create [OF assms(1-3,5) ty]])
    apply (rule yields_then [OF goes_mirror])
    apply (rule yields_bind [OF yields_if [where P = A]])
      apply (erule internal, assumption)
     apply (erule yields_ret)
    apply (erule assms(7))
    done
qed

lemma sorted_keys_lookup: "n \<in> set (sorted_keys m) \<Longrightarrow> \<exists>t. lookup m n = Some t \<and> (n, t) \<in> set m"
  by (cases "map_of m n") (auto simp: map_of_eq_None_iff dest: map_of_SomeD)

text \<open>The condition the instances report takes the resource from \<open>S\<close> to \<open>T\<close>, and leaves it there.\<close>

abbreviation takes :: "Glance \<Rightarrow> (condition option \<Rightarrow> bool) \<Rightarrow> ctype set \<Rightarrow> ctype set \<Rightarrow> bool" where
  "takes i A S T \<equiv> (\<forall>c. A c \<longrightarrow> yields (going i) S T (\<lambda>e. e = None) (seq (whenever (c \<noteq> None) (cond (CSet c))) (ret None)
     :: (Glance world, go_error option, go_error option) act))"

lemma goes_apis:
  assumes "glance_served E" and "lawful_lib_functions E" and "deployable_glance E i" and "reports E i A"
    and "loc = fst (GetLocationAPI (GetBoolFromAnnotation E) i)" and "takes i A S T" and "takes i A T T"
  shows "goes (going i) S T (normal_apis E sl loc)"
  unfolding normal_apis_def
proof (rule yields_inst)
  fix j
  assume j: "going i j"
  let ?one = "\<lambda>n. case lookup (g_GlanceAPIs (Spec j)) n of None \<Rightarrow> ret ()
      | Some t \<Rightarrow> must (apiDeployment E n t sl loc) (\<lambda>e. exit_with (EmptyResult, Some e))"
  have one: "goes (going i) U T (?one n)" if "n \<in> set (sorted_keys (g_GlanceAPIs (Spec j)))" "takes i A U T" for n U
  proof -
    from that(1) obtain t where t: "lookup (g_GlanceAPIs (Spec j)) n = Some t" "(n, t) \<in> set (g_GlanceAPIs (Spec j))"
      using sorted_keys_lookup by blast
    with j assms(3,5) have "single_on_file i loc t" "lookup (g_GlanceAPIs (Spec i)) n = Some t"
      by (auto simp: deployable_glance_def list_all_iff going_def same_glance_def)
    moreover from assms(3) have "\<exists>v. GetBoolFromAnnotation E (o_Annotations i) GlanceWSGILabel = Inr v"
      by (simp add: deployable_glance_def)
    ultimately show ?thesis
      unfolding t(1) option.case by (intro goes_must yields_deployment [OF assms(1,2,4)]) (assumption | rule that(2) [rule_format])+
  qed
  from j assms(3) have "set (sorted_keys (g_GlanceAPIs (Spec j))) \<noteq> {}"
    by (auto simp: deployable_glance_def going_def same_glance_def)
  then obtain n ns where keys: "sorted_keys (g_GlanceAPIs (Spec j)) = n # ns"
    by (cases "sorted_keys (g_GlanceAPIs (Spec j))") auto
  have "goes (going i) T T (for_each ?one ns)"
    by (rule yields_for_each, rule one [OF _ assms(7)]) (simp add: keys)
  then show "goes (going i) S T (for_each ?one (sorted_keys (g_GlanceAPIs (Spec j))))"
    unfolding keys for_each.simps by (intro yields_seq [OF one [OF _ assms(6)]]) (simp_all add: keys)
qed

lemma takes_ready:
  "takes i (is_true GlanceAPIReadyCondition) (insert GlanceAPIReadyCondition S) S"
  "takes i (is_true GlanceAPIReadyCondition) S S"
proof -
  show first: "takes i (is_true GlanceAPIReadyCondition) (insert GlanceAPIReadyCondition S) S" for S
  proof (intro allI impI)
    fix c
    assume "is_true GlanceAPIReadyCondition c"
    moreover from this obtain x where "c = Some x" by (cases c) (auto simp: is_true_def)
    ultimately show "yields (going i) (insert GlanceAPIReadyCondition S) S (\<lambda>e. e = None)
        (seq (whenever (c \<noteq> None) (cond (CSet c))) (ret None) :: (Glance world, go_error option, go_error option) act)"
      by (auto simp: whenever_def intro!: yields_seq [OF goes_set] yields_ret)
  qed
  show "takes i (is_true GlanceAPIReadyCondition) S S"
    by (intro allI impI yields_weaken [OF first [rule_format]]) auto
qed

text \<open>The clean-up may stop early, which is no error.\<close>

lemma goes_cleanup:
  assumes "glance_served E"
  shows "goes (going i) S S (normal_cleanup E)"
proof -
  let ?X = "\<lambda>x w. on_way (going i) S w \<and> x = (None :: go_error option)"
  have err: "resp_err E tr = None" for tr using serving [OF assms] by (simp add: serves_well_def)
  have one: "triple (on_way (going i) S) (cleanup_one E j x) (\<lambda>_. on_way (going i) S) ?X (\<lambda>_. False)" for j x
    by (auto simp: cleanup_one_def triple_def run_defs world_defs set_status_def on_way_def going_def same_glance_def
        Let_def err drop_status_def)
  have "yields (going i) S S (\<lambda>e. e = None) (glanceAPICleanup E)"
    unfolding glanceAPICleanup_def yields_def
  proof (rule triple_fn, rule triple_bind)
    show "triple (on_way (going i) S) (read (\<lambda>i. i)) (\<lambda>_. on_way (going i) S) ?X (\<lambda>_. False)"
      by (rule triple_read)
  next
    fix j
    have "triple (on_way (going i) S) (call c (resp_apis E))
        (\<lambda>v w. on_way (going i) S w \<and> (\<exists>apis. v = Inr apis)) ?X (\<lambda>_. False)" for c
      by (rule triple_weaken [OF glance_answers(1) [OF assms, unfolded yields_def]]) simp_all
    then show "triple (on_way (going i) S) (attempt (call c (resp_apis E)) (\<lambda>_. exit_with None)
        (\<lambda>apis. seq (for_each (cleanup_one E j) apis) (ret None))) ?X ?X (\<lambda>_. False)" for c
      unfolding attempt_def
      by (rule triple_bind, intro triple_pure, elim exE)
        (simp, rule triple_seq [OF triple_for_each [OF one]], rule triple_ret, simp)
  qed
  then show ?thesis unfolding normal_cleanup_def
    by (intro yields_then goes_must yields_inst yields_err serving assms)
qed

lemma goes_location:
  assumes "deployable_glance E i"
  shows "yields (going i) S S (\<lambda>x. x = fst (GetLocationAPI (GetBoolFromAnnotation E) i)) (normal_location E)"
proof -
  from assms obtain loc where loc: "GetLocationAPI (GetBoolFromAnnotation E) i = (loc, None)"
    by (auto simp: deployable_glance_def)
  then have "GetLocationAPI (GetBoolFromAnnotation E) j = (loc, None)" if "going i j" for j
    using that by (simp add: GetLocationAPI_def going_def same_glance_def)
  with loc show ?thesis unfolding normal_location_def
    by (intro yields_inst) (auto intro!: passes)
qed

lemma goes_purge:
  assumes "glance_served E"
  shows "goes I (insert CronJobReadyCondition S) S (normal_purge E sl sa)"
proof -
  have "yields I S S (\<lambda>r. r = (EmptyResult, None)) (ensureDBPurgeJob E sl sa)" for S
    unfolding ensureDBPurgeJob_def by (intro yields_inst yields_res serving assms)
  then show ?thesis unfolding normal_purge_def
    by (rule yields_bind) (auto intro!: passes yields_mark)
qed

text \<open>The last phase: Ready.\<close>

lemma ends_normal_ready:
  assumes "answers_well E i" and "lawful_lib_functions E"
  shows "ends_in I {} (\<lambda>_ w. ready_now (w_conds w)) (normal_ready E cr)"
proof -
  have lib: "all_sub_true E = cond_all_sub_true" using assms(2) by (simp add: lawful_lib_functions_def)
  have list: "yields I {} {} (\<lambda>r. \<exists>apis. r = Inr apis \<and> generations_observed apis) (call c (resp_apis E))" for c
    by (rule yields_call) (use assms(1) in \<open>unfold answers_well_def glance_served_def, metis\<close>)
  have seen: "yields I {} {} (\<lambda>v. v = Inr True) (checkGlanceAPIsGeneration E)"
    unfolding checkGlanceAPIsGeneration_def
    by (intro yields_bind [OF yields_read [where P = "\<lambda>_. True"]] yields_bind [OF list])
      (auto simp: generations_observed_def intro!: yields_ret)
  have "ends_in I {} (\<lambda>_ w. ready_now (w_conds w)) (bind (gets w_conds) (\<lambda>conds.
       whenever (all_sub_true E conds \<and> True) (mark_true ReadyCondition m)))" for m
    using ends_ready [OF lib, of I m] by (auto elim: triple_weaken)
  then show ?thesis unfolding normal_ready_def attempt_def
    by (intro ends_bind [OF seen]) simp
qed

section \<open>Reconciling until Ready\<close>

definition own_types :: "ctype set" where
  "own_types =
     {ServiceAccountReadyCondition, RoleReadyCondition, RoleBindingReadyCondition,
      NotificationBusInstanceReadyCondition, MemcachedReadyCondition, InputReadyCondition,
      MariaDBAccountReadyCondition, DBReadyCondition, ServiceConfigReadyCondition, KeystoneServiceReadyCondition,
      DBSyncReadyCondition, NetworkAttachmentsReadyCondition, GlanceAPIReadyCondition, CronJobReadyCondition}"

text \<open>A reconcile up to the GlanceAPIs, and what follows them.\<close>

lemma ends_glance_steps:
  assumes "glance_served E" and "deployable_glance E i"
    and apis: "\<And>sl. triple (on_way (going i) {GlanceAPIReadyCondition, CronJobReadyCondition})
        (normal_apis E sl (fst (GetLocationAPI (GetBoolFromAnnotation E) i))) (\<lambda>_. M) (\<lambda>_ _. False) (\<lambda>_. False)"
    and rest: "\<And>sl sa. triple M (seq (normal_cleanup E) (bind (normal_purge E sl sa) (\<lambda>ctrlResult.
        seq (normal_ready E ctrlResult) (ret (EmptyResult, None))))) Q (\<lambda>_ _. False) (\<lambda>_. False)"
  shows "ends_in (going i) own_types Q (Glance_reconcileNormal E)"
proof -
  have cache: "\<exists>ps. cache_params E (Size (g_ImageCache (Spec i))) = Inr ps"
    using assms(2) by (simp add: deployable_glance_def)
  show ?thesis
    unfolding Glance_reconcileNormal_def own_types_def Let_def
    apply (rule ends_fn)
    apply (rule ends_seq [OF goes_rbac [OF assms(1)]])
    apply (rule ends_seq [OF goes_transport [OF assms(1)]])
    apply (rule ends_inst)
    apply (rule ends_bind [OF goes_ensure_memcached [OF serving [OF assms(1)]]])
    apply (rule ends_seq [OF goes_secret [OF assms(1)]])
    apply (rule ends_bind [OF goes_db [OF assms(1)]])
    apply (rule ends_seq [OF goes_config [OF assms(1) cache]])
    apply (rule ends_bind [OF goes_networks [OF assms(1)]])
    apply (rule ends_seq [OF goes_init [OF assms(1)]])
    apply (rule ends_bind [OF goes_location [OF assms(2)]])
    apply (simp only:)
    apply (rule triple_seq [OF apis rest])
    done
qed

lemma ends_glance_normal:
  assumes "answers_well E i" and "lawful_lib_functions E" and "deployable_glance E i"
  shows "ends_in (going i) own_types (\<lambda>x w. x = (EmptyResult, None) \<and> ready_now (w_conds w)) (Glance_reconcileNormal E)"
proof -
  from assms(1) have served: "glance_served E" "reports E i (is_true GlanceAPIReadyCondition)"
    by (simp_all add: answers_well_def)
  show ?thesis
  proof (rule ends_glance_steps [OF served(1) assms(3), where M = "on_way (going i) {CronJobReadyCondition}"])
    show "triple (on_way (going i) {GlanceAPIReadyCondition, CronJobReadyCondition})
        (normal_apis E sl (fst (GetLocationAPI (GetBoolFromAnnotation E) i)))
        (\<lambda>_. on_way (going i) {CronJobReadyCondition}) (\<lambda>_ _. False) (\<lambda>_. False)" for sl
    proof -
      have "goes (going i) {GlanceAPIReadyCondition, CronJobReadyCondition} {CronJobReadyCondition}
          (normal_apis E sl (fst (GetLocationAPI (GetBoolFromAnnotation E) i)))"
        by (rule goes_apis [OF served(1) assms(2,3) served(2) refl takes_ready])
      then show ?thesis by (simp add: yields_def)
    qed
    show "ends_in (going i) {CronJobReadyCondition} (\<lambda>x w. x = (EmptyResult, None) \<and> ready_now (w_conds w))
        (seq (normal_cleanup E) (bind (normal_purge E sl sa) (\<lambda>cr. seq (normal_ready E cr) (ret (EmptyResult, None)))))" for sl sa
      by (rule ends_seq [OF goes_cleanup [OF served(1)]], rule ends_bind [OF goes_purge [OF served(1)]],
          rule triple_seq [OF ends_normal_ready [OF assms(1,2)]], rule triple_ret, simp)
  qed
qed

text \<open>The resource as the API server keeps it after a reconcile that ended without an error or a wait.\<close>

definition after_reconcile :: "env \<Rightarrow> string \<Rightarrow> string \<Rightarrow> Glance \<Rightarrow> Glance option" where
  "after_reconcile E ns name i =
     (case Glance_Reconcile (E\<lparr>resp_glance := \<lambda>_. Inr i\<rparr>) ns name [] of
        (Ret r, CPatchGlance j log # tr) \<Rightarrow>
          if r = (EmptyResult, None) then Some (j\<lparr>Status := (Status j)\<lparr>s_Conditions := Some log\<rparr>\<rparr>) else None
      | _ \<Rightarrow> None)"

text \<open>The log a resource is read with, and: it has no unmet condition the controller never sets.\<close>

definition read_log :: "Glance \<Rightarrow> cond_log" where
  "read_log i = (case s_Conditions (Status i) of None \<Rightarrow> [] | Some l \<Rightarrow> l)"

lemma init_settles: "settled own_types l \<Longrightarrow> settled own_types (CInit (glance_conditions i) # l)"
  by (erule settled_init) (auto simp: glance_conditions_def own_types_def split: option.splits)

lemma read_cache_params: "cache_params (E\<lparr>resp_glance := g\<rparr>) sz = cache_params E sz"
  by (simp add: cache_params_def split: sum.split)

lemma asked_for_same: "same_glance i j \<Longrightarrow> asked_for E j = asked_for E i"
proof -
  assume same: "same_glance i j"
  then have "api_object_name j = api_object_name i" by (simp add: fun_eq_iff api_object_name_def same_glance_def)
  with same show ?thesis
    by (simp add: fun_eq_iff asked_for_def starts_from_def instance_of_same [OF same] same_glance_def cong: option.case_cong)
qed

lemma answers_same: "same_glance i j \<Longrightarrow> answers_well E j = answers_well E i"
  by (simp add: answers_well_def reports_def asked_for_same)

lemma read_env:
  "answers_well (E\<lparr>resp_glance := g\<rparr>) i = answers_well E i"
  "glance_served (E\<lparr>resp_glance := g\<rparr>) = glance_served E"
  "lawful_lib_functions (E\<lparr>resp_glance := g\<rparr>) = lawful_lib_functions E"
  "deployable_glance (E\<lparr>resp_glance := g\<rparr>) i = deployable_glance E i"
  by (simp_all add: answers_well_def glance_served_def serves_well_def reports_def asked_for_def starts_from_def
      lawful_lib_functions_def deployable_glance_def api_mirror_def read_cache_params)

text \<open>
  What a reconcile leaves as it was: the metadata and the specification. The trace only grows,
  and no GlanceAPI that was read is updated.
\<close>

definition untouched :: "Glance world \<Rightarrow> Glance world \<Rightarrow> bool" where
  "untouched w w' \<longleftrightarrow>
     ObjectMeta.truncate (w_inst w') = ObjectMeta.truncate (w_inst w) \<and> Spec (w_inst w') = Spec (w_inst w) \<and>
     suffix (w_trace w) (w_trace w') \<and>
     (\<forall>a. CUpdateGlanceAPI a \<in> set (w_trace w') \<longrightarrow> CUpdateGlanceAPI a \<in> set (w_trace w))"

lemma untouched_fields:
  "untouched w w' \<Longrightarrow> o_Name (w_inst w') = o_Name (w_inst w)" "untouched w w' \<Longrightarrow> o_Namespace (w_inst w') = o_Namespace (w_inst w)"
  "untouched w w' \<Longrightarrow> o_Finalizers (w_inst w') = o_Finalizers (w_inst w)"
  by (simp_all add: untouched_def ObjectMeta.truncate_def)

interpretation leaving: step_order untouched
  by unfold_locales (auto simp: untouched_def intro: suffix_order.trans)

lemma untouched_steps:
  "(\<And>a. c \<noteq> CUpdateGlanceAPI a) \<Longrightarrow> keeps untouched (call c f)" "keeps untouched (cond op)" "keeps untouched (read h)"
  "keeps untouched (set_false t r s m)" "keeps untouched (set_error t msg e)" "keeps untouched (mark_true t msg)"
  "keeps untouched (mark_false t r s m)" "keeps untouched (set_status u)"
  by (auto simp: keeps_def run_defs world_defs set_status_def untouched_def ObjectMeta.truncate_def suffix_ConsI)

lemma untouched_shared:
  "keeps untouched (verifyServiceSecret E ns n fs d vars)" "keeps untouched (ensureNAD E ns nAttach)"
  "keeps untouched (GenerateConfigsGeneric E name ns kind ps cd ls scripts)" "keeps untouched (ensure_memcached E n ns)"
  "keeps untouched (ensureRegisteredLimits E q)" "keeps untouched (set_api_endpoint k v)"
  unfolding verifyServiceSecret_def ensureNAD_def nad_step_def GenerateConfigsGeneric_def ensure_memcached_def
    ensureRegisteredLimits_def set_api_endpoint_def Let_def
  by (intro untouched_steps leaving.keeps_rules; simp)+

lemma untouched_create: "keeps untouched (apiDeploymentCreateOrUpdate E t ty n sl ws)"
  unfolding apiDeploymentCreateOrUpdate_def Let_def
  by (intro untouched_shared untouched_steps leaving.keeps_rules; simp)

lemma untouched_deployment: "keeps untouched (apiDeployment E n t sl loc)"
  unfolding apiDeployment_def check_layout_def mirror_external_def deploy_internal_def api_error_def Let_def
  by (intro untouched_create untouched_shared untouched_steps leaving.keeps_rules; simp)

lemma untouched_phases:
  "keeps untouched (normal_rbac E)" "keeps untouched (normal_transport E sl)" "keeps untouched (normal_secret E)"
  "keeps untouched (normal_db E)" "keeps untouched (normal_config E sl db)" "keeps untouched (normal_networks E)"
  "keeps untouched (normal_init E sl sa)" "keeps untouched (normal_location E)" "keeps untouched (normal_purge E sl sa)"
  "keeps untouched (normal_ready E cr)" "keeps untouched (normal_apis E sl loc)" "keeps untouched (normal_cleanup E)"
  unfolding normal_rbac_def normal_transport_def normal_secret_def normal_db_def normal_config_def
    normal_networks_def normal_init_def normal_location_def normal_purge_def normal_ready_def normal_apis_def
    normal_cleanup_def glanceAPICleanup_def cleanup_one_def transportURLCreateOrUpdate_def ensureDB_def
    Glance_generateServiceConfig_def Glance_reconcileInit_def init_keystone_def init_dbsync_def ensureDBPurgeJob_def
    checkGlanceAPIsGeneration_def Let_def
  by (intro untouched_deployment untouched_shared untouched_steps leaving.keeps_rules; simp)+

lemma untouched_normal: "keeps untouched (Glance_reconcileNormal E)"
  unfolding Glance_reconcileNormal_def Let_def
  by (intro untouched_phases untouched_shared untouched_steps leaving.keeps_rules)

text \<open>A reconcile of a resource that is set up is a run of \<^verbatim>\<open>reconcileNormal\<close> and the patch.\<close>

lemma normal_round:
  assumes "glance_served E" and "lawful_lib_functions E" and "\<not> o_Deleted i"
    and "s_Conditions (Status i) = Some l" and "settled own_types l" and "\<not> snd (AddFinalizer E (o_Finalizers i))"
    and normal: "ends_in (going i) own_types (\<lambda>x w. x = (EmptyResult, None) \<and> R w) (Glance_reconcileNormal (E\<lparr>resp_glance := \<lambda>_. Inr i\<rparr>)
        :: (Glance world, reconcile_result, reconcile_result) act)"
  shows "\<exists>w. Glance_Reconcile (E\<lparr>resp_glance := \<lambda>_. Inr i\<rparr>) ns name [] =
           (Ret (EmptyResult, None), CPatchGlance (w_inst w) (deferred_conditions E (w_conds w)) # w_trace w) \<and>
           R w \<and> \<not> snd (AddFinalizer E (o_Finalizers (w_inst w))) \<and> (\<forall>a. CUpdateGlanceAPI a \<notin> set (w_trace w))"
proof -
  let ?E = "E\<lparr>resp_glance := \<lambda>_. Inr i\<rparr>"
  obtain fs where fs: "AddFinalizer E (o_Finalizers i) = (fs, False)"
    using assms(6) by (cases "AddFinalizer E (o_Finalizers i)") simp
  let ?h = "i\<lparr>o_Finalizers := fs, Status := (Status i)\<lparr>s_ObservedGeneration := o_Generation i,
    s_Hash := Some (the_map (s_Hash (Status i))), s_APIEndpoints := Some (the_map (s_APIEndpoints (Status i))),
    s_GlanceAPIReadyCounts := Some (the_map (s_GlanceAPIReadyCounts (Status i)))\<rparr>\<rparr>"
  let ?w = "\<lparr>w_inst = ?h, w_conds = CInit (glance_conditions i) # l, w_trace = [CNewHelper, CGetGlance ns name]\<rparr>"
  have way: "on_way (going i) own_types ?w"
    using init_settles [OF assms(5)] by (simp add: on_way_def going_def same_glance_def)
  obtain out w' where run: "Glance_reconcileNormal ?E ?w =
      ((out, w') :: (reconcile_result, reconcile_result) out \<times> Glance world)" by fastforce
  have "case out of Next x \<Rightarrow> x = (EmptyResult, None) \<and> R w' | _ \<Rightarrow> False"
    using tripleD [OF normal way] run by (cases out) simp_all
  then have ready: "out = Next (EmptyResult, None)" "R w'" by (simp_all split: out.splits)
  with run assms(3) fs have body: "Glance_body ?E False
      \<lparr>w_inst = i, w_conds = l, w_trace = [CNewHelper, CGetGlance ns name]\<rparr> =
      ((Next (EmptyResult, None), w') :: (reconcile_result, reconcile_result) out \<times> Glance world)"
    by (simp add: Glance_body_def Glance_handle_def run_defs world_defs set_status_def the_map_def)
  have err: "resp_err E tr = None" for tr using assms(1) by (simp add: glance_served_def serves_well_def)
  have "deferred_conditions ?E (w_conds w') = deferred_conditions E (w_conds w')"
    by (simp add: deferred_conditions_def Let_def)
  with body assms(4) err have "Glance_Reconcile ?E ns name [] =
      (Ret (EmptyResult, None), CPatchGlance (w_inst w') (deferred_conditions E (w_conds w')) # w_trace w')"
    by (simp add: Glance_Reconcile_def)
  moreover have "untouched ?w w'" by (rule keepsD [OF untouched_normal run])
  moreover have "\<not> snd (AddFinalizer E fs)"
    using assms(2) fs unfolding lawful_lib_functions_def by (metis fst_conv)
  ultimately show ?thesis using ready(2) by (intro exI [of _ w']) (auto simp: untouched_def ObjectMeta.truncate_def)
qed

text \<open>A resource that is set up becomes Ready in one reconcile.\<close>

lemma ready_in_one:
  assumes "answers_well E i" and "lawful_lib_functions E" and "deployable_glance E i"
    and "s_Conditions (Status i) = Some l" and "settled own_types l" and "\<not> snd (AddFinalizer E (o_Finalizers i))"
  shows "\<exists>j. after_reconcile E ns name i = Some j \<and> IsReady true_in j"
proof -
  let ?E = "E\<lparr>resp_glance := \<lambda>_. Inr i\<rparr>"
  have served: "glance_served E" and del: "\<not> o_Deleted i"
    using assms(1,3) by (simp_all add: answers_well_def deployable_glance_def)
  have "ends_in (going i) own_types (\<lambda>x w. x = (EmptyResult, None) \<and> ready_now (w_conds w))
      (Glance_reconcileNormal ?E :: (Glance world, reconcile_result, reconcile_result) act)"
    by (rule ends_glance_normal) (use assms(1-3) in \<open>simp_all only: read_env\<close>)
  from normal_round [OF served assms(2) del assms(4-6) this, of ns name] obtain w :: "Glance world" where
    run: "Glance_Reconcile ?E ns name [] =
      (Ret (EmptyResult, None), CPatchGlance (w_inst w) (deferred_conditions E (w_conds w)) # w_trace w)"
    and ready: "ready_now (w_conds w)" by blast
  have "deferred_conditions E (w_conds w) = CRestoreTimes # w_conds w"
    using ready assms(2)
    by (auto simp: deferred_conditions_def Let_def lawful_lib_functions_def cond_is_unknown_def ready_now_def is_true_def
        split: option.splits)
  with run ready show ?thesis
    by (simp add: after_reconcile_def IsReady_def true_in_def ready_now_def)
qed

text \<open>A new resource is set up by its first reconcile.\<close>

lemma set_up_in_one:
  assumes "glance_served E" and "lawful_lib_functions E" and "deployable_glance E i"
    and "settled own_types (read_log i)" and "s_Conditions (Status i) = None \<or> snd (AddFinalizer E (o_Finalizers i))"
  shows "\<exists>m l. Glance_Reconcile (E\<lparr>resp_glance := \<lambda>_. Inr i\<rparr>) ns name [] =
             (Ret (EmptyResult, None), [CPatchGlance m l, CNewHelper, CGetGlance ns name]) \<and>
           same_glance i m \<and> settled own_types l \<and> \<not> snd (AddFinalizer E (o_Finalizers m))"
proof -
  let ?E = "E\<lparr>resp_glance := \<lambda>_. Inr i\<rparr>"
  obtain fs added where fs: "AddFinalizer E (o_Finalizers i) = (fs, added)" by fastforce
  have del: "\<not> o_Deleted i" using assms(3) by (simp add: deployable_glance_def)
  have lib: "is_unknown E = cond_is_unknown" "resp_err E tr = None" "\<not> snd (AddFinalizer E fs)"
    "mirror E x t = Some c \<Longrightarrow> c_Type c = t" for tr x t c
    using assms(1,2) fs by (auto simp: glance_served_def serves_well_def lawful_lib_functions_def) (metis fst_conv snd_conv)
  define m where "m = i\<lparr>o_Finalizers := fs, Status := (Status i)\<lparr>s_ObservedGeneration := o_Generation i\<rparr>\<rparr>"
  define log where "log = deferred_conditions ?E (CInit (glance_conditions i) # read_log i)"
  have "Glance_body ?E (s_Conditions (Status i) = None)
      \<lparr>w_inst = i, w_conds = read_log i, w_trace = [CNewHelper, CGetGlance ns name]\<rparr> =
      ((Next (EmptyResult, None), \<lparr>w_inst = m, w_conds = CInit (glance_conditions i) # read_log i,
        w_trace = [CNewHelper, CGetGlance ns name]\<rparr>) :: (reconcile_result, reconcile_result) out \<times> Glance world)"
    using assms(5) fs del by (auto simp: Glance_body_def Glance_handle_def run_defs world_defs set_status_def m_def)
  then have run: "Glance_Reconcile ?E ns name [] = (Ret (EmptyResult, None), [CPatchGlance m log, CNewHelper, CGetGlance ns name])"
    by (simp add: Glance_Reconcile_def Let_def lib log_def flip: read_log_def)
  have "settled own_types (CInit (glance_conditions i) # read_log i)" by (rule init_settles [OF assms(4)])
  then have "settled own_types log" unfolding log_def by (rule settled_deferred) (simp add: lib(4))
  with run lib(3) show ?thesis by (auto simp: m_def same_glance_def)
qed

lemma deployable_glance_same: "same_glance i j \<Longrightarrow> deployable_glance E j = deployable_glance E i"
  by (simp add: deployable_glance_def same_glance_def GetLocationAPI_def single_on_file_def)

text \<open>
  Property C8. Progress: where everything the controller asks for is answered without an error
  or a wait, the GlanceAPIs report ready and at their generation, and the libraries behave as
  documented, a resource is Ready after at most two reconciles if it is not being deleted, has
  at least one instance, a cache size that parses, annotations that can be read and a layout its
  backends admit, and if no stored condition is other than true, Ready and those that every
  reconcile sets again apart. The first reconcile of a new resource only adds the finalizer and
  the conditions.
\<close>

theorem glance_becomes_ready:
  assumes "answers_well E i" and "lawful_lib_functions E" and "deployable_glance E i"
    and "settled own_types (read_log i)"
  shows "\<exists>j. IsReady true_in j \<and>
    (after_reconcile E ns name i = Some j \<or>
     (\<exists>m. after_reconcile E ns name i = Some m \<and> after_reconcile E ns name m = Some j))"
proof (cases "s_Conditions (Status i) = None \<or> snd (AddFinalizer E (o_Finalizers i))")
  case True
  from assms(1) have served: "glance_served E" by (simp add: answers_well_def)
  from set_up_in_one [OF served assms(2-4) True, of ns name] obtain j l where
    j: "Glance_Reconcile (E\<lparr>resp_glance := \<lambda>_. Inr i\<rparr>) ns name [] =
        (Ret (EmptyResult, None), [CPatchGlance j l, CNewHelper, CGetGlance ns name])"
      "same_glance i j" "settled own_types l" "\<not> snd (AddFinalizer E (o_Finalizers j))" by blast
  define m where "m = j\<lparr>Status := (Status j)\<lparr>s_Conditions := Some l\<rparr>\<rparr>"
  from j have m: "after_reconcile E ns name i = Some m" "same_glance i m" "s_Conditions (Status m) = Some l"
      "\<not> snd (AddFinalizer E (o_Finalizers m))"
    by (simp_all add: after_reconcile_def m_def same_glance_def)
  with assms(1,3) have "answers_well E m" "deployable_glance E m" by (simp_all add: answers_same deployable_glance_same)
  with ready_in_one [OF _ assms(2) _ m(3) j(3) m(4)] m(1) show ?thesis by blast
next
  case False
  then obtain l where "s_Conditions (Status i) = Some l" by auto
  with ready_in_one [OF assms(1-3), of l ns name] assms(4) False show ?thesis by (auto simp: read_log_def)
qed

theorem glance_becomes_ready_witness:
  "\<exists>j. IsReady true_in j \<and>
    (\<exists>E :: env. after_reconcile E ''ns'' ''glance'' waiting_glance = Some j \<or>
     (\<exists>m. after_reconcile E ''ns'' ''glance'' waiting_glance = Some m \<and> after_reconcile E ''ns'' ''glance'' m = Some j))"
proof -
  let ?E = "sample_env waiting_glance (sample_api ''a'' ''internal'')"
  have "answers_well ?E waiting_glance"
    by (auto simp: answers_well_def glance_served_def reports_def serves_well_def yes_def sample_rbac_def roles_ready_def is_true_def api_mirror_def
        observed_def generations_observed_def sample_api_def TrueCondition_def)
  moreover have "lawful_lib_functions ?E"
    by (auto simp: lawful_lib_functions_def dest: cond_get_type)
  moreover have "deployable_glance ?E waiting_glance"
    by (auto simp: deployable_glance_def APISingle_def waiting_glance_def sample_glance_def sample_template_def zero_template_def
        cache_params_def GetLocationAPI_def single_on_file_def empty_file)
  moreover have "settled own_types (read_log waiting_glance)"
    by (simp add: settled_def read_log_def waiting_glance_def)
  ultimately show ?thesis using glance_becomes_ready [of ?E waiting_glance "''ns''" "''glance''"] by blast
qed

end
