(* ===== verification/Costs.thy ===== *)
theory Costs
  imports Triples GlanceCtl
begin

text \<open>
  A cost calculus for the controllers: how many calls a run makes at most, with one rule for
  each construct of the language.
\<close>

section \<open>Costs\<close>

text \<open>
  \<open>spends I n m\<close>: a run of \<open>m\<close> on an instance that satisfies \<open>I\<close> keeps it so and makes at most
  \<open>n\<close> calls, however it ends.
\<close>

definition spends :: "('i \<Rightarrow> bool) \<Rightarrow> nat \<Rightarrow> ('i world, 'r, 'a) act \<Rightarrow> bool" where
  "spends I n m \<longleftrightarrow>
     (\<forall>w out w'. I (w_inst w) \<and> m w = (out, w') \<longrightarrow>
        I (w_inst w') \<and> (\<exists>tr. w_trace w' = tr @ w_trace w \<and> length tr \<le> n))"

lemma spends_mono: "spends I n m \<Longrightarrow> n \<le> k \<Longrightarrow> spends I k m"
  unfolding spends_def by (meson order_trans)

lemma spends_free:
  "spends I 0 (ret x)" "spends I 0 (exit_with r)" "spends I 0 (crash p)" "spends I 0 (gets g)" "spends I 0 (read h)"
  "spends I 0 (cond op)" "spends I 0 (set_false t rs s msg)" "spends I 0 (set_error t txt e)" "spends I 0 (mark_true t txt)"
  "spends I 0 (mark_false t rs s msg)" "spends I 0 (of_go g')"
  by (auto simp: spends_def of_go_def split: go.splits)

lemma spends_set: "(\<And>j. I j \<Longrightarrow> I (g j)) \<Longrightarrow> spends I 0 (set_inst g)"
  by (auto simp: spends_def)

lemma spends_call: "spends I 1 (call c f)"
  by (auto simp: spends_def)

lemma spends_bind:
  assumes "spends I n m" and "\<And>x. spends I k (f x)"
  shows "spends I (n + k) (bind m f)"
  unfolding spends_def
proof (intro allI impI, elim conjE)
  fix w out w'
  assume w: "I (w_inst w)" and run: "bind m f w = (out, w')"
  obtain o1 s where m: "m w = (o1, s)" by fastforce
  with assms(1) w obtain t where s: "I (w_inst s)" "w_trace s = t @ w_trace w" "length t \<le> n"
    unfolding spends_def by blast
  show "I (w_inst w') \<and> (\<exists>tr. w_trace w' = tr @ w_trace w \<and> length tr \<le> n + k)"
  proof (cases o1)
    case (Next x)
    with run m have "f x s = (out, w')" by (simp add: bind_def)
    with assms(2) [of x] s(1) obtain u where "I (w_inst w')" "w_trace w' = u @ w_trace s" "length u \<le> k"
      unfolding spends_def by blast
    with s show ?thesis by (intro conjI exI [of _ "u @ t"]) simp_all
  next
    case (Return r)
    with run m s show ?thesis by (auto simp: bind_def)
  next
    case (Crash p)
    with run m s show ?thesis by (auto simp: bind_def)
  qed
qed

lemma spends_seq: "spends I n m \<Longrightarrow> spends I k m' \<Longrightarrow> spends I (n + k) (seq m m')"
  unfolding seq_def by (rule spends_bind)

lemma spends_fn: "spends I n m \<Longrightarrow> spends I n (fn m)"
  unfolding spends_def fn_def by (fastforce split: prod.splits out.splits)

lemma spends_max:
  "spends I n m \<Longrightarrow> spends I (max n k) m" "spends I k m \<Longrightarrow> spends I (max n k) m"
  by (auto elim: spends_mono)

lemma spends_if: "spends I n m \<Longrightarrow> spends I k m' \<Longrightarrow> spends I (max n k) (if b then m else m')"
  by (auto elim: spends_mono)

lemma spends_option:
  "spends I n m \<Longrightarrow> (\<And>x. spends I k (f x)) \<Longrightarrow> spends I (max n k) (case v of None \<Rightarrow> m | Some x \<Rightarrow> f x)"
  by (cases v) (simp_all add: spends_mono [OF _ max.cobounded1] spends_mono [OF _ max.cobounded2])

lemma spends_sum:
  "(\<And>e. spends I n (m e)) \<Longrightarrow> (\<And>x. spends I k (f x)) \<Longrightarrow> spends I (max n k) (case v of Inl e \<Rightarrow> m e | Inr x \<Rightarrow> f x)"
  by (cases v) (simp_all add: spends_mono [OF _ max.cobounded1] spends_mono [OF _ max.cobounded2])

lemma spends_prod: "(\<And>x y. spends I n (f x y)) \<Longrightarrow> spends I n (case p of (x, y) \<Rightarrow> f x y)"
  by (cases p) simp

lemma spends_prod2: "(\<And>x y. spends I n (f x y z)) \<Longrightarrow> spends I n ((case p of (x, y) \<Rightarrow> f x y) z)"
  by (cases p) simp

lemma spends_Let: "(\<And>x. spends I n (f x)) \<Longrightarrow> spends I n (Let v f)"
  by simp

lemma spends_whenever: "spends I n m \<Longrightarrow> spends I n (whenever b m)"
  by (auto simp: whenever_def intro: spends_mono [OF spends_free(1)])

lemma spends_attempt:
  "spends I n m \<Longrightarrow> (\<And>e. spends I k (h e)) \<Longrightarrow> (\<And>x. spends I l (f x)) \<Longrightarrow> spends I (n + max k l) (attempt m h f)"
  unfolding attempt_def by (intro spends_bind spends_sum)

lemma spends_must: "spends I n m \<Longrightarrow> (\<And>e. spends I k (h e)) \<Longrightarrow> spends I (n + k) (must m h)"
  unfolding must_def by (rule spends_bind) (auto split: option.split intro: spends_mono [OF spends_free(1)])

lemma spends_for_each: "(\<And>x. x \<in> set xs \<Longrightarrow> spends I n (f x)) \<Longrightarrow> spends I (length xs * n) (for_each f xs)"
  by (induction xs) (auto intro: spends_free spends_seq)

lemma spends_for_acc:
  "(\<And>x acc. x \<in> set xs \<Longrightarrow> spends I n (f x acc)) \<Longrightarrow> spends I (length xs * n) (for_acc f xs acc)"
  by (induction xs arbitrary: acc) (auto intro: spends_free spends_bind)

lemma spends_read: "(\<And>j. I j \<Longrightarrow> spends I n (f j)) \<Longrightarrow> spends I n (bind (read (\<lambda>j. j)) f)"
  unfolding spends_def by (auto simp: run_defs world_defs)

text \<open>A call whose answer is a list of bounded length.\<close>

lemma spends_listing:
  assumes "\<And>tr. P (f (c # tr))" and "\<And>x. P x \<Longrightarrow> spends I n (g x)"
  shows "spends I (1 + n) (bind (call c f) g)"
  unfolding spends_def
proof (intro allI impI, elim conjE)
  fix w out w'
  assume w: "I (w_inst w)" and run: "bind (call c f) g w = (out, w')"
  let ?w = "w\<lparr>w_trace := c # w_trace w\<rparr>"
  from run have "g (f (c # w_trace w)) ?w = (out, w')" by (simp add: run_defs world_defs)
  moreover have "I (w_inst ?w)" using w by simp
  moreover have "spends I n (g (f (c # w_trace w)))" by (rule assms(2) [OF assms(1)])
  ultimately have "I (w_inst w') \<and> (\<exists>tr. w_trace w' = tr @ w_trace ?w \<and> length tr \<le> n)"
    unfolding spends_def by blast
  then obtain u where
    "I (w_inst w')" "w_trace w' = u @ c # w_trace w" "length u \<le> n"
    by auto
  then show "I (w_inst w') \<and> (\<exists>tr. w_trace w' = tr @ w_trace w \<and> length tr \<le> 1 + n)"
    by (intro conjI exI [of _ "u @ [c]"]) simp_all
qed

lemmas spends_rules =
  spends_read spends_free spends_call spends_attempt spends_must spends_whenever spends_fn spends_seq spends_if
  spends_option spends_sum spends_prod spends_prod2 spends_Let spends_bind

section \<open>The functions both controllers share\<close>

lemma spends_verify: "spends I 1 (verifyServiceSecret E ns n fs d vars)"
  unfolding verifyServiceSecret_def by (rule spends_mono, (rule spends_rules)+) simp

lemma spends_nad: "spends I (length nAttach + 1) (ensureNAD E ns nAttach)"
proof -
  have step: "spends I 1 (nad_step E ns x l)" for x l
    unfolding nad_step_def by (rule spends_mono, (rule spends_rules)+) simp
  show ?thesis unfolding ensureNAD_def
    by (rule spends_mono, (rule spends_fn spends_bind spends_for_acc step spends_rules)+) simp
qed

lemma spends_memcached: "spends I 1 (ensure_memcached E n ns)"
  unfolding ensure_memcached_def by (rule spends_mono, (rule spends_rules)+) simp

end
