(* ===== verification/GlanceCosts.thy ===== *)
theory GlanceCosts
  imports GlanceLive Costs
begin

text \<open>
  A reconcile of a Glance ends after a bounded number of calls. The loops of the source range
  over the instances, their networks and the lists the API server returns.
\<close>

section \<open>The phases\<close>

lemma spends_own:
  "spends (same_glance i) 0 (set_status u)"
  "spends (same_glance i) 0 (set_inst (\<lambda>j. j\<lparr>o_Finalizers := fs j\<rparr>))"
  unfolding set_status_def by (rule spends_set, simp add: same_glance_def)+

lemmas glance_spends = spends_own spends_rules

lemma spends_endpoint: "spends (same_glance i) 0 (set_api_endpoint k v)"
  unfolding set_api_endpoint_def by (rule spends_mono, (rule glance_spends)+) simp

lemma spends_limits: "spends (same_glance i) (2 + length q) (ensureRegisteredLimits E q)"
  unfolding ensureRegisteredLimits_def Let_def
  by (rule spends_mono, (rule spends_for_each glance_spends)+) (simp add: sorted_keys_def keys_def)

lemma spends_quota: "spends (same_glance i) 6 (ensureRegisteredLimits E (GetQuotaLimits j))"
  by (rule spends_mono [OF spends_limits]) (simp add: GetQuotaLimits_def Let_def)

lemma spends_create: "spends (same_glance i) 8 (apiDeploymentCreateOrUpdate E t ty n sl ws)"
  unfolding apiDeploymentCreateOrUpdate_def
  by (rule spends_mono, (rule spends_quota glance_spends)+) simp

lemma spends_deployment: "spends (same_glance i) 16 (apiDeployment E n t sl loc)"
  unfolding apiDeployment_def check_layout_def mirror_external_def deploy_internal_def api_error_def
  by (rule spends_mono, (rule spends_create spends_endpoint glance_spends)+) simp

text \<open>The size of a resource: its instances, and the most networks one of them is attached to.\<close>

definition attached_to :: "Glance \<Rightarrow> nat \<Rightarrow> bool" where
  "attached_to i a \<longleftrightarrow> list_all (\<lambda>(n, t). length (t_NetworkAttachments t) \<le> a) (g_GlanceAPIs (Spec i))"

lemma instances: "same_glance i j \<Longrightarrow> length (sorted_keys (g_GlanceAPIs (Spec j))) = length (g_GlanceAPIs (Spec i))"
  by (simp add: same_glance_def sorted_keys_def keys_def)

lemma spends_networks:
  assumes "attached_to i a"
  shows "spends (same_glance i) (length (g_GlanceAPIs (Spec i)) * (a + 1)) (normal_networks E)"
  unfolding normal_networks_def
proof (rule spends_read)
  fix j
  assume j: "same_glance i j"
  have att: "length (case lookup (g_GlanceAPIs (Spec j)) n of None \<Rightarrow> [] | Some t \<Rightarrow> t_NetworkAttachments t) \<le> a" for n
    using assms j by (auto simp: attached_to_def same_glance_def list_all_iff split: option.split dest: map_of_SomeD)
  have step: "spends (same_glance i) (a + 1) (bind (ensureNAD E (o_Namespace j)
                 (case lookup (g_GlanceAPIs (Spec j)) n of None \<Rightarrow> [] | Some t \<Rightarrow> t_NetworkAttachments t))
           (\<lambda>(annotations, ctrlResult, err).
             seq (whenever (err \<noteq> None) (exit_with (ctrlResult, err))) (ret annotations)))" for n
    by (rule spends_mono, rule spends_bind [OF spends_nad], (rule glance_spends)+) (simp add: att)
  show "spends (same_glance i) (length (g_GlanceAPIs (Spec i)) * (a + 1)) (for_acc (\<lambda>n _. bind (ensureNAD E (o_Namespace j)
                 (case lookup (g_GlanceAPIs (Spec j)) n of None \<Rightarrow> [] | Some t \<Rightarrow> t_NetworkAttachments t))
           (\<lambda>(annotations, ctrlResult, err).
             seq (whenever (err \<noteq> None) (exit_with (ctrlResult, err))) (ret annotations)))
       (sorted_keys (g_GlanceAPIs (Spec j))) [])"
    unfolding instances [OF j, symmetric] by (rule spends_for_acc [OF step])
qed

lemma spends_apis: "spends (same_glance i) (length (g_GlanceAPIs (Spec i)) * 16) (normal_apis E sl loc)"
  unfolding normal_apis_def
proof (rule spends_read)
  fix j
  assume j: "same_glance i j"
  have step: "spends (same_glance i) 16 (case lookup (g_GlanceAPIs (Spec j)) n of None \<Rightarrow> ret ()
      | Some t \<Rightarrow> must (apiDeployment E n t sl loc) (\<lambda>e. exit_with (EmptyResult, Some e)))" for n
    by (rule spends_mono, (rule spends_deployment glance_spends)+) simp
  show "spends (same_glance i) (length (g_GlanceAPIs (Spec i)) * 16) (for_each (\<lambda>n. case lookup (g_GlanceAPIs (Spec j)) n of None \<Rightarrow> ret ()
      | Some t \<Rightarrow> must (apiDeployment E n t sl loc) (\<lambda>e. exit_with (EmptyResult, Some e))) (sorted_keys (g_GlanceAPIs (Spec j))))"
    unfolding instances [OF j, symmetric] by (rule spends_for_each [OF step])
qed

text \<open>No list the API server or Keystone answers with is longer than \<open>l\<close>.\<close>

definition lists_within :: "env \<Rightarrow> nat \<Rightarrow> bool" where
  "lists_within E l \<longleftrightarrow>
     (\<forall>tr apis. resp_apis E tr = Inr apis \<longrightarrow> length apis \<le> l) \<and>
     (\<forall>tr ids. resp_strs E tr = Inr ids \<longrightarrow> length ids \<le> l)"

lemma spends_cleanup:
  assumes "lists_within E l"
  shows "spends (same_glance i) (l + 2) (normal_cleanup E)"
proof -
  have one: "spends (same_glance i) 1 (cleanup_one E j x)" for j x
    unfolding cleanup_one_def Let_def by (rule spends_mono, (rule glance_spends)+) simp
  have "spends (same_glance i) l (case v of Inl e \<Rightarrow> exit_with None | Inr apis \<Rightarrow> seq (for_each (cleanup_one E j) apis) (ret None))"
    if "\<forall>apis. v = Inr apis \<longrightarrow> length apis \<le> l" for v :: "go_error + GlanceAPI list" and j
  proof (cases v)
    case (Inr apis)
    with that have "length apis * 1 + 0 \<le> l" by simp
    with Inr show ?thesis by (auto intro: spends_mono [OF spends_seq [OF spends_for_each [OF one] spends_free(1)]])
  qed (auto intro: spends_mono [OF spends_free(2)])
  then have "spends (same_glance i) (1 + l) (attempt (call c (resp_apis E)) (\<lambda>_. exit_with None)
       (\<lambda>apis. seq (for_each (cleanup_one E j) apis) (ret None)))" for c j
    unfolding attempt_def
    by (rule spends_listing [where P = "\<lambda>v. \<forall>apis. v = Inr apis \<longrightarrow> length apis \<le> l", rotated])
      (use assms in \<open>auto simp: lists_within_def\<close>)
  then have "spends (same_glance i) (1 + l) (glanceAPICleanup E)"
    unfolding glanceAPICleanup_def by (intro spends_fn spends_read)
  then show ?thesis unfolding normal_cleanup_def
    by - (rule spends_mono, rule spends_seq, rule spends_must, assumption, (rule glance_spends)+, simp)
qed

lemma spends_config: "spends (same_glance i) 1 (normal_config E sl db)"
  unfolding normal_config_def Glance_generateServiceConfig_def GenerateConfigsGeneric_def
  by (rule spends_mono, (rule glance_spends)+) simp

lemma spends_phases:
  "spends (same_glance i) 1 (normal_transport E sl)" "spends (same_glance i) 1 (normal_secret E)"
  "spends (same_glance i) 3 (normal_db E)" "spends (same_glance i) 2 (normal_init E sl sa)" "spends (same_glance i) 0 (normal_location E)"
  "spends (same_glance i) 1 (normal_purge E sl sa)" "spends (same_glance i) 1 (normal_ready E cr)"
  unfolding normal_transport_def transportURLCreateOrUpdate_def normal_secret_def normal_db_def ensureDB_def
    normal_init_def Glance_reconcileInit_def init_keystone_def init_dbsync_def normal_location_def normal_purge_def
    ensureDBPurgeJob_def normal_ready_def checkGlanceAPIsGeneration_def
  by (rule spends_mono, (rule spends_verify glance_spends)+, simp)+

lemma spends_rbac: "spends (same_glance i) 1 (normal_rbac E)"
proof -
  have "spends (same_glance i) 0 (for_each (\<lambda>c. cond (CSet (Some c))) cs)" for cs
    using spends_for_each [of cs "same_glance i" 0 "\<lambda>c. cond (CSet (Some c))"] by (simp add: spends_free)
  then show ?thesis unfolding normal_rbac_def
    by - (rule spends_mono, rule spends_bind, rule spends_call, rule spends_prod, rule spends_prod2, rule spends_seq,
      assumption, (rule glance_spends)+, simp)
qed

lemma spends_normal:
  assumes "lists_within E l" and "attached_to i a"
  shows "spends (same_glance i) (14 + l + length (g_GlanceAPIs (Spec i)) * (17 + a)) (Glance_reconcileNormal E)"
  unfolding Glance_reconcileNormal_def Let_def
  by (rule spends_mono, rule spends_fn,
      (rule spends_rbac spends_memcached spends_phases spends_config spends_networks [OF assms(2)] spends_apis spends_cleanup [OF assms(1)]
        glance_spends)+)
    (simp add: algebra_simps)

lemma spends_delete:
  assumes "lists_within E l"
  shows "spends (same_glance i) (8 + l + length (g_GlanceAPIs (Spec i)) * 8) (Glance_reconcileDelete E)"
proof -
  have finalizer: "spends (same_glance i) 8 (removeAPIFinalizer E n)" for n
  proof -
    have "spends (same_glance i) 2 (remove_one_finalizer E ns n ty)" for ns ty
      unfolding remove_one_finalizer_def by (rule spends_mono, (rule glance_spends)+) simp
    from spends_for_each [OF this] show ?thesis unfolding removeAPIFinalizer_def
      by - (rule spends_mono, rule spends_fn, rule spends_bind, rule spends_free, rule spends_seq, assumption,
        rule spends_free, simp)
  qed
  have ids: "spends (same_glance i) l (case v of Inl e \<Rightarrow> exit_with (Some e)
       | Inr ids \<Rightarrow> seq (for_each (\<lambda>lid. must (call (CDeleteRegisteredLimit lid) (resp_err E)) (\<lambda>e. exit_with (Some e))) ids) (ret None))"
    if "\<forall>ids. v = Inr ids \<longrightarrow> length ids \<le> l" for v :: "go_error + string list"
  proof (cases v)
    case (Inr ids)
    have "spends (same_glance i) 1 (must (call (CDeleteRegisteredLimit lid) (resp_err E)) (\<lambda>e. exit_with (Some e)))" for lid
      by (rule spends_mono, (rule glance_spends)+) simp
    from spends_mono [OF spends_seq [OF spends_for_each [OF this] spends_free(1)], of ids l] that Inr show ?thesis by simp
  qed (auto intro: spends_mono [OF spends_free(2)])
  have limits: "spends (same_glance i) (3 + l) (registeredLimitsDelete E)"
    unfolding registeredLimitsDelete_def attempt_def
    apply (rule spends_mono)
     apply (rule spends_fn)
     apply (rule spends_read)
     apply (rule spends_bind, rule spends_call)
     apply (rule spends_sum, rule spends_free)
     apply (rule spends_bind, rule spends_call)
     apply (rule spends_sum, rule spends_free)
     apply (rule spends_listing [where P = "\<lambda>v. \<forall>ids. v = Inr ids \<longrightarrow> length ids \<le> l"])
    using assms apply (auto simp: lists_within_def intro: ids)
    done
  show ?thesis unfolding Glance_reconcileDelete_def
  proof (rule spends_fn, rule spends_read)
    fix j
    assume j: "same_glance i j"
    have each: "spends (same_glance i) 8 (must (removeAPIFinalizer E n) (\<lambda>err. exit_with (EmptyResult, Some err)))" for n
      by (rule spends_mono, (rule finalizer glance_spends)+) simp
    show "spends (same_glance i) (8 + l + length (g_GlanceAPIs (Spec i)) * 8) (seq (delete_database E j)
        (seq (delete_keystone_service E j)
        (seq (for_each (\<lambda>name. must (removeAPIFinalizer E name) (\<lambda>err. exit_with (EmptyResult, Some err)))
                (sorted_keys (g_GlanceAPIs (Spec j))))
        (seq (delete_limits E j)
        (seq (set_inst (\<lambda>i. i\<lparr>o_Finalizers := fst (RemoveFinalizer E (o_Finalizers i))\<rparr>))
             (ret (EmptyResult, None)))))))"
      unfolding delete_database_def delete_keystone_service_def delete_limits_def instances [OF j, symmetric]
      by (rule spends_mono, (rule spends_for_each [OF each] limits glance_spends)+) simp
  qed
qed

section \<open>The bound\<close>

lemma spends_handle:
  assumes "lists_within E l" and "attached_to i a"
  shows "spends (same_glance i) (14 + l + length (g_GlanceAPIs (Spec i)) * (17 + a)) (Glance_handle E new j)"
proof -
  have "spends (same_glance i) (14 + l + length (g_GlanceAPIs (Spec i)) * (17 + a)) (Glance_reconcileDelete E)"
  proof (rule spends_mono [OF spends_delete [OF assms(1)]])
    have "length (g_GlanceAPIs (Spec i)) * 8 \<le> length (g_GlanceAPIs (Spec i)) * (17 + a)"
      by (rule mult_le_mono2) simp
    then show "8 + l + length (g_GlanceAPIs (Spec i)) * 8 \<le> 14 + l + length (g_GlanceAPIs (Spec i)) * (17 + a)"
      by (rule add_mono [rotated]) simp
  qed
  then show ?thesis unfolding Glance_handle_def Let_def case_prod_unfold
    by - (rule spends_mono, (rule spends_normal [OF assms] glance_spends | assumption)+, simp)
qed

text \<open>
  Property C25. A reconcile ends after a number of calls that is linear in the size of the
  resource: at most 17 and, for each instance, 17 and the most networks one is attached to,
  beside the lengths of the lists it is answered with. No answer makes it wait or try again
  within the reconcile, whatever fails and however the reconcile ends.
\<close>

theorem reconcile_calls_bounded:
  assumes "resp_glance E (CGetGlance ns name # tr0) = Inr i" and "lists_within E l" and "attached_to i a"
    and "Glance_Reconcile E ns name tr0 = (r, tr')"
  shows "\<exists>tr. tr' = tr @ tr0 \<and> length tr \<le> 17 + l + length (g_GlanceAPIs (Spec i)) * (17 + a)"
proof -
  let ?n = "14 + l + length (g_GlanceAPIs (Spec i)) * (17 + a)"
  let ?tr = "CNewHelper # CGetGlance ns name # tr0"
  define w where "w = \<lparr>w_inst = i, w_conds = read_log i, w_trace = ?tr\<rparr>"
  have body: "spends (same_glance i) ?n (Glance_body E (s_Conditions (Status i) = None) :: (Glance world, reconcile_result, _) act)"
    unfolding Glance_body_def
    by (rule spends_mono, rule spends_fn, rule spends_read, rule spends_seq, rule spends_free,
        rule spends_handle [OF assms(2,3)]) simp
  obtain out w' where run: "Glance_body E (s_Conditions (Status i) = None) w =
      ((out, w') :: (reconcile_result, reconcile_result) out \<times> Glance world)" by fastforce
  have "same_glance i (w_inst w)" "w_trace w = ?tr" by (simp_all add: w_def same_glance_def)
  with body run obtain u where u: "w_trace w' = u @ ?tr" "length u \<le> ?n"
    unfolding spends_def by metis
  have "tr' = ?tr \<or> tr' = w_trace w' \<or> (\<exists>l. tr' = CPatchGlance (w_inst w') l # w_trace w')"
    using assms(1,4) run by (auto simp: Glance_Reconcile_def Let_def w_def read_log_def split: option.splits out.splits)
  then show ?thesis
  proof (elim disjE exE)
    assume "tr' = ?tr"
    then show ?thesis by (intro exI [of _ "[CNewHelper, CGetGlance ns name]"]) simp
  next
    assume "tr' = w_trace w'"
    with u show ?thesis by (intro exI [of _ "u @ [CNewHelper, CGetGlance ns name]"]) simp
  next
    fix log
    assume "tr' = CPatchGlance (w_inst w') log # w_trace w'"
    with u show ?thesis by (intro exI [of _ "CPatchGlance (w_inst w') log # u @ [CNewHelper, CGetGlance ns name]"]) simp
  qed
qed

theorem reconcile_calls_bounded_witness:
  "\<exists>(E :: env) r tr. Glance_Reconcile E ''ns'' ''glance'' [] = (r, tr) \<and> tr \<noteq> [] \<and> length tr \<le> 35"
proof -
  let ?E = "sample_env waiting_glance (sample_api ''a'' ''internal'')"
  from sample_reconcile [of "''a''"] obtain r inst log tr where
    run: "Glance_Reconcile ?E ''ns'' ''glance'' [] = (Ret r, CPatchGlance inst log # tr)" by auto
  have "lists_within ?E 1" by (auto simp: lists_within_def)
  moreover have "attached_to waiting_glance 0"
    by (simp add: attached_to_def waiting_glance_def sample_glance_def sample_template_def zero_template_def)
  moreover have "length (g_GlanceAPIs (Spec waiting_glance)) = 1" by (simp add: waiting_glance_def sample_glance_def)
  ultimately have "length (CPatchGlance inst log # tr) \<le> 35"
    using reconcile_calls_bounded [OF _ _ _ run, of waiting_glance 1 0] by simp
  with run show ?thesis by blast
qed

end
