(* ===== verification/GlanceDeletes.thy ===== *)
theory GlanceDeletes
  imports GlanceProps GlanceWrites
begin

text \<open>
  The deletion of a Glance: what has to have been let go before the resource loses its own
  finalizer, and that an error on the way keeps it.
\<close>

section \<open>What was let go\<close>

text \<open>The database: it is gone, or its finalizer was deleted.\<close>

definition database_let_go :: "env \<Rightarrow> call list \<Rightarrow> bool" where
  "database_let_go E tr \<longleftrightarrow>
     (case tr of
        CGetDatabaseByNameAndAccount n a ns # _ \<Rightarrow> (\<exists>e. resp_getdb E tr = Inl e \<and> IsNotFound e)
      | CDeleteDBFinalizer # _ \<Rightarrow> resp_err E tr = None
      | _ \<Rightarrow> False)"

text \<open>An update that went well, or that found the object gone.\<close>

definition updated :: "env \<Rightarrow> call list \<Rightarrow> bool" where
  "updated E tr \<longleftrightarrow> (\<forall>e. resp_err E tr = Some e \<longrightarrow> IsNotFound e)"

text \<open>The Keystone service: gone, without the finalizer, or updated to be without it.\<close>

definition keystone_let_go :: "env \<Rightarrow> call list \<Rightarrow> bool" where
  "keystone_let_go E tr \<longleftrightarrow>
     (case tr of
        CGetKeystoneServiceWithName n ns # _ \<Rightarrow>
          (case resp_strs E tr of Inl e \<Rightarrow> IsNotFound e | Inr fs \<Rightarrow> \<not> snd (RemoveFinalizer E fs))
      | CUpdateKeystoneService fs # seen \<Rightarrow>
          updated E tr \<and> (\<exists>old. resp_strs E seen = Inr old \<and> fs = fst (RemoveFinalizer E old))
      | _ \<Rightarrow> False)"

text \<open>The GlanceAPI of a name, likewise.\<close>

definition api_let_go :: "env \<Rightarrow> string \<Rightarrow> string \<Rightarrow> call list \<Rightarrow> bool" where
  "api_let_go E ns name tr \<longleftrightarrow>
     (case tr of
        CGetGlanceAPI ns' name' # _ \<Rightarrow>
          ns' = ns \<and> name' = name \<and>
          (case resp_api E tr of Inl e \<Rightarrow> IsNotFound e | Inr api \<Rightarrow> \<not> snd (RemoveFinalizer E (o_Finalizers api)))
      | CUpdateGlanceAPI new # seen \<Rightarrow>
          updated E tr \<and> hd seen = CGetGlanceAPI ns name \<and>
          (\<exists>api. resp_api E seen = Inr api \<and> new = api\<lparr>o_Finalizers := fst (RemoveFinalizer E (o_Finalizers api))\<rparr>)
      | _ \<Rightarrow> False)"

text \<open>\<open>let_go i fs old S w\<close>: the finalizers are still \<open>fs\<close>, and each of \<open>S\<close> has happened since \<open>old\<close>.\<close>

definition let_go :: "Glance \<Rightarrow> string list \<Rightarrow> call list \<Rightarrow> (call list \<Rightarrow> bool) set \<Rightarrow> Glance world \<Rightarrow> bool" where
  "let_go i fs old S w \<longleftrightarrow>
     same_glance i (w_inst w) \<and> o_Finalizers (w_inst w) = fs \<and> suffix old (w_trace w) \<and>
     (\<forall>P\<in>S. evidence P old (w_trace w))"

text \<open>A step of the deletion: it lets go of \<open>T\<close>, or ends it with an error.\<close>

abbreviation lets_go ::
  "Glance \<Rightarrow> string list \<Rightarrow> call list \<Rightarrow> (call list \<Rightarrow> bool) set \<Rightarrow> (call list \<Rightarrow> bool) set \<Rightarrow>
     (Glance world, reconcile_result, 'a) act \<Rightarrow> bool" where
  "lets_go i fs old S T m \<equiv>
     triple (let_go i fs old S) m (\<lambda>_. let_go i fs old (T \<union> S))
       (\<lambda>r w. snd r \<noteq> None \<and> o_Finalizers (w_inst w) = fs) (\<lambda>_. False)"

lemmas let_go_defs = triple_def must_def run_defs world_defs let_go_def evidence_Cons suffix_ConsI updated_def

lemma let_go_mono: "let_go i fs old S w \<Longrightarrow> T \<subseteq> S \<Longrightarrow> let_go i fs old T w"
  by (auto simp: let_go_def)

lemma lets_go_database: "lets_go i fs old S {database_let_go E} (delete_database E j)"
  by (auto simp: delete_database_def database_let_go_def let_go_defs split: sum.split option.split)

lemma lets_go_keystone: "lets_go i fs old S {keystone_let_go E} (delete_keystone_service E j)"
  by (auto simp: delete_keystone_service_def keystone_let_go_def let_go_defs Let_def case_prod_unfold
      split: sum.split option.split)

definition api_key :: "string \<Rightarrow> string \<Rightarrow> string" where
  "api_key n ty = ServiceName @ ''-'' @ n @ ''-'' @ ty"

lemma lets_go_finalizer:
  "triple (let_go i fs old S) (remove_one_finalizer E ns n ty)
     (\<lambda>_. let_go i fs old (insert (api_let_go E ns (api_key n ty)) S))
     (\<lambda>err w. err \<noteq> None \<and> o_Finalizers (w_inst w) = fs) (\<lambda>_. False)"
  by (auto simp: remove_one_finalizer_def api_let_go_def api_key_def let_go_defs Let_def case_prod_unfold
      split: sum.split option.split)

definition api_types :: "string set" where
  "api_types = {APIInternal, APIExternal, APISingle, APIEdge}"

lemma lets_go_instance:
  "lets_go i fs old S ((\<lambda>ty. api_let_go E (o_Namespace i) (api_key n ty)) ` api_types)
     (must (removeAPIFinalizer E n) (\<lambda>err. exit_with (EmptyResult, Some err)))"
proof -
  let ?T = "(\<lambda>ty. api_let_go E (o_Namespace i) (api_key n ty)) ` api_types"
  let ?X = "\<lambda>err w. err \<noteq> None \<and> o_Finalizers (w_inst w) = fs"
  let ?R = "\<lambda>err w. (err = None \<longrightarrow> let_go i fs old (?T \<union> S) w) \<and> (err \<noteq> None \<longrightarrow> o_Finalizers (w_inst w) = fs)"
  have each: "triple (let_go i fs old S) (for_each (remove_one_finalizer E (o_Namespace i) n) [APIInternal, APIExternal, APISingle, APIEdge])
      (\<lambda>_. let_go i fs old (?T \<union> S)) ?X (\<lambda>_. False)"
    unfolding for_each.simps
    by (rule triple_seq [OF lets_go_finalizer] triple_ret)+ (auto simp: let_go_def api_types_def)
  have "triple (let_go i fs old S) (removeAPIFinalizer E n)
      (\<lambda>err w. case err of None \<Rightarrow> let_go i fs old (?T \<union> S) w | Some e \<Rightarrow> o_Finalizers (w_inst w) = fs)
      (\<lambda>_ _. False) (\<lambda>_. False)"
    unfolding removeAPIFinalizer_def
  proof (rule triple_weaken [OF triple_fn], rule triple_bind)
    show "triple (let_go i fs old S) (read o_Namespace) (\<lambda>ns w. let_go i fs old S w \<and> ns = o_Namespace i) ?R (\<lambda>_. False)"
      by (auto simp: triple_def run_defs world_defs let_go_def same_glance_def)
    show "triple (\<lambda>w. let_go i fs old S w \<and> ns = o_Namespace i)
        (seq (for_each (remove_one_finalizer E ns n) [APIInternal, APIExternal, APISingle, APIEdge]) (ret None)) ?R ?R (\<lambda>_. False)"
      for ns
    proof (rule triple_pure [where P = "let_go i fs old S"])
      assume "ns = o_Namespace i"
      then show "triple (let_go i fs old S)
        (seq (for_each (remove_one_finalizer E ns n) [APIInternal, APIExternal, APISingle, APIEdge]) (ret None)) ?R ?R (\<lambda>_. False)"
        by (simp only:) (rule triple_seq [OF triple_weaken [OF each]], assumption, assumption, auto simp: triple_def)
    qed
  qed (auto split: option.split)
  from triple_weaken [OF this] have "triple (let_go i fs old S) (removeAPIFinalizer E n)
      (\<lambda>err w. case err of None \<Rightarrow> let_go i fs old (?T \<union> S) w | Some e \<Rightarrow> o_Finalizers (w_inst w) = fs)
      (\<lambda>r w. snd r \<noteq> None \<and> o_Finalizers (w_inst w) = fs) (\<lambda>_. False)" by simp
  then show ?thesis
    by (rule triple_must [where H = "\<lambda>_ w. o_Finalizers (w_inst w) = fs"]) (simp add: triple_def run_defs)
qed

text \<open>All instances: one set of facts for each name of the specification.\<close>

lemma lets_go_instances:
  "lets_go i fs old S (\<Union>n\<in>set ns. (\<lambda>ty. api_let_go E (o_Namespace i) (api_key n ty)) ` api_types)
     (for_each (\<lambda>n. must (removeAPIFinalizer E n) (\<lambda>err. exit_with (EmptyResult, Some err))) ns)"
proof (induction ns arbitrary: S)
  case (Cons n ns)
  show ?case unfolding for_each.simps
    by (rule triple_seq [OF lets_go_instance], rule triple_weaken [OF Cons.IH])
      (auto elim!: let_go_mono)
qed (simp add: triple_ret)

lemma let_go_stays_call: "stays (let_go i fs old S) C (call c f)"
  by (auto simp: let_go_defs)

lemma lets_go_limits: "lets_go i fs old S {} (delete_limits E j)"
proof -
  let ?X = "\<lambda>r w. snd r \<noteq> None \<and> o_Finalizers (w_inst w) = fs"
  have limits: "triple (let_go i fs old S) (registeredLimitsDelete E) (\<lambda>_. let_go i fs old S) ?X (\<lambda>_. False)"
    unfolding registeredLimitsDelete_def by (rule triple_fn) (intro let_go_stays_call stays_rules)
  have "triple (let_go i fs old S) (must (registeredLimitsDelete E) (\<lambda>err. exit_with (EmptyResult, Some err)))
      (\<lambda>_. let_go i fs old S) ?X (\<lambda>_. False)"
    unfolding must_def
    by (rule triple_bind [OF limits]) (auto simp: let_go_defs split: option.split)
  then show ?thesis unfolding delete_limits_def
    by - (rule triple_bind [OF triple_call [where Q = "\<lambda>_. let_go i fs old S"]],
      auto simp: let_go_defs intro!: triple_whenever)
qed

section \<open>The finalizer goes last\<close>

lemma lets_go_all:
  "triple (let_go i fs old {}) (Glance_reconcileDelete E)
     (\<lambda>r w. if snd r = None then o_Finalizers (w_inst w) = fst (RemoveFinalizer E fs) \<and>
          (\<forall>P \<in> {database_let_go E, keystone_let_go E} \<union>
             (\<Union>(n, t)\<in>set (g_GlanceAPIs (Spec i)). (\<lambda>ty. api_let_go E (o_Namespace i) (api_key n ty)) ` api_types).
             evidence P old (w_trace w))
        else o_Finalizers (w_inst w) = fs)
     X (\<lambda>_. False)"
proof -
  let ?A = "\<Union>n\<in>set (sorted_keys (g_GlanceAPIs (Spec i))). (\<lambda>ty. api_let_go E (o_Namespace i) (api_key n ty)) ` api_types"
  have A: "(\<Union>(n, t)\<in>set (g_GlanceAPIs (Spec i)). (\<lambda>ty. api_let_go E (o_Namespace i) (api_key n ty)) ` api_types) = ?A"
    by auto
  let ?Q = "\<lambda>r w. if snd r = None then o_Finalizers (w_inst w) = fst (RemoveFinalizer E fs) \<and>
          (\<forall>P \<in> {database_let_go E, keystone_let_go E} \<union> ?A. evidence P old (w_trace w))
        else o_Finalizers (w_inst w) = fs"
  have up: "triple P m Q ?Q (\<lambda>_. False)"
    if "triple P m Q (\<lambda>r w. snd r \<noteq> None \<and> o_Finalizers (w_inst w) = fs) (\<lambda>_. False)"
    for P Q and m :: "(Glance world, reconcile_result, 'x) act"
    by (rule triple_weaken [OF that]) auto
  have body: "triple (let_go i fs old {}) (seq (delete_database E j)
        (seq (delete_keystone_service E j)
        (seq (for_each (\<lambda>name. must (removeAPIFinalizer E name) (\<lambda>err. exit_with (EmptyResult, Some err)))
                (sorted_keys (g_GlanceAPIs (Spec j))))
        (seq (delete_limits E j)
        (seq (set_inst (\<lambda>i. i\<lparr>o_Finalizers := fst (RemoveFinalizer E (o_Finalizers i))\<rparr>))
             (ret (EmptyResult, None))))))) ?Q ?Q (\<lambda>_. False)" if "same_glance i j" for j
  proof -
    have "Spec j = Spec i" using that by (simp add: same_glance_def)
    then show ?thesis unfolding \<open>Spec j = Spec i\<close>
      by - (rule triple_seq [OF up [OF lets_go_database]], rule triple_seq [OF up [OF lets_go_keystone]],
        rule triple_seq [OF up [OF lets_go_instances]], rule triple_seq [OF up [OF lets_go_limits]],
        auto simp: triple_def run_defs world_defs let_go_def)
  qed
  show ?thesis unfolding Glance_reconcileDelete_def A
  proof (rule triple_fn, rule triple_bind)
    show "triple (let_go i fs old {}) (read (\<lambda>i. i)) (\<lambda>j w. let_go i fs old {} w \<and> same_glance i j) ?Q (\<lambda>_. False)"
      by (auto simp: triple_def run_defs world_defs let_go_def)
  qed (rule triple_pure [where P = "let_go i fs old {}", OF body])
qed

text \<open>
  The name the deletion looks a GlanceAPI up by is the one it was written under only for a
  resource that has the name of the service.
\<close>

lemma api_key_object_name: "api_key n ty = api_object_name i n ty \<longleftrightarrow> o_Name i = ServiceName"
  by (auto simp: api_key_def api_object_name_def)

text \<open>
  Property C10. A Glance that is being deleted loses its finalizer last: only after, in that run,
  its database was found gone or had its finalizer deleted, its Keystone service was found gone
  or without the finalizer or was updated to be without it, and so was, for each instance in the
  specification and each of the four types, whatever GlanceAPI has the name
  "glance-<instance>-<type>". If any of this fails, the run ends with an error and the
  finalizers are what they were. The run never panics. That name is the one the instance was
  written under exactly for a resource called "glance".
\<close>

theorem finalizer_goes_last:
  "(\<forall>n ty. api_key n ty = api_object_name (w_inst w) n ty \<longleftrightarrow> o_Name (w_inst w) = ServiceName) \<and>
   (case (Glance_reconcileDelete E w :: (reconcile_result, reconcile_result) out \<times> Glance world) of
     (Next (res, err), w') \<Rightarrow>
       (case err of
          Some e \<Rightarrow> o_Finalizers (w_inst w') = o_Finalizers (w_inst w)
        | None \<Rightarrow>
            o_Finalizers (w_inst w') = fst (RemoveFinalizer E (o_Finalizers (w_inst w))) \<and>
            (\<forall>P. P \<in> {database_let_go E, keystone_let_go E} \<union>
                (\<Union>(n, t)\<in>set (g_GlanceAPIs (Spec (w_inst w))).
                   (\<lambda>ty. api_let_go E (o_Namespace (w_inst w)) (api_key n ty)) ` api_types) \<longrightarrow>
               evidence P (w_trace w) (w_trace w')))
   | _ \<Rightarrow> False)"
proof (rule conjI, simp add: api_key_object_name)
  have "let_go (w_inst w) (o_Finalizers (w_inst w)) (w_trace w) {} w"
    by (simp add: let_go_def same_glance_def)
  with lets_go_all [of "w_inst w" "o_Finalizers (w_inst w)" "w_trace w" E "\<lambda>_ _. False"] show "case (Glance_reconcileDelete E w :: (reconcile_result, reconcile_result) out \<times> Glance world) of
     (Next (res, err), w') \<Rightarrow>
       (case err of
          Some e \<Rightarrow> o_Finalizers (w_inst w') = o_Finalizers (w_inst w)
        | None \<Rightarrow>
            o_Finalizers (w_inst w') = fst (RemoveFinalizer E (o_Finalizers (w_inst w))) \<and>
            (\<forall>P. P \<in> {database_let_go E, keystone_let_go E} \<union>
                (\<Union>(n, t)\<in>set (g_GlanceAPIs (Spec (w_inst w))).
                   (\<lambda>ty. api_let_go E (o_Namespace (w_inst w)) (api_key n ty)) ` api_types) \<longrightarrow>
               evidence P (w_trace w) (w_trace w')))
   | _ \<Rightarrow> False"
    unfolding triple_def by (fastforce split: prod.splits out.splits option.splits if_splits)
qed

lemma sample_delete:
  "\<exists>w'. Glance_reconcileDelete (sample_env waiting_glance (sample_api ''a'' ''internal''))
       \<lparr>w_inst = waiting_glance, w_conds = [], w_trace = []\<rparr> = (Next (EmptyResult, None), w')"
  by (simp add: Glance_reconcileDelete_def delete_database_def delete_keystone_service_def removeAPIFinalizer_def
      remove_one_finalizer_def delete_limits_def must_def run_defs world_defs Let_def sorted_keys_def keys_def
      waiting_glance_def sample_glance_def sample_template_def zero_template_def IsQuotaEnabled_def sample_api_def)

theorem finalizer_goes_last_witness:
  "\<exists>(E :: env) w w'. Glance_reconcileDelete E w =
       ((Next (EmptyResult, None), w') :: (reconcile_result, reconcile_result) out \<times> Glance world) \<and>
     evidence (database_let_go E) (w_trace w) (w_trace w')"
proof -
  let ?E = "sample_env waiting_glance (sample_api ''a'' ''internal'')"
  let ?w = "\<lparr>w_inst = waiting_glance, w_conds = [], w_trace = []\<rparr>"
  from sample_delete obtain w' where
    run: "Glance_reconcileDelete ?E ?w = ((Next (EmptyResult, None), w') :: (reconcile_result, reconcile_result) out \<times> Glance world)"
    by blast
  from finalizer_goes_last [where E = ?E and w = ?w] have "evidence (database_let_go ?E) (w_trace ?w) (w_trace w')"
    unfolding run by simp
  with run show ?thesis by blast
qed

end
