(* ===== verification/GlanceAPICtl.thy ===== *)
theory GlanceAPICtl
  imports GlanceCtl
begin

text \<open>
  The GlanceAPI controller (internal/controller/glanceapi_controller.go). Each function of the
  source is a definition of the same name (with the prefix \<open>API_\<close> where the Glance controller has
  one too); \<^verbatim>\<open>reconcileNormal\<close> and \<^verbatim>\<open>generateServiceConfig\<close> are split at the comments that divide
  them. The local variables that later parts read are passed on.
\<close>

section \<open>Setting fields of the instance\<close>

definition set_api :: "(GlanceAPIStatus \<Rightarrow> GlanceAPIStatus) \<Rightarrow> (GlanceAPI world, 'r, unit) act" where
  "set_api f = set_inst (\<lambda>i. i\<lparr>AStatus := f (AStatus i)\<rparr>)"

section \<open>Hashes\<close>

definition createHashOfInputHashes ::
  "env \<Rightarrow> string gomap \<Rightarrow> (GlanceAPI world, 'r, go_error + string \<times> bool) act" where
  "createHashOfInputHashes E envVars =
     fn (attempt (ret (ObjectHash E (HashEnv (MergeEnvs (k8s E) envVars)))) (\<lambda>e. exit_with (Inl e)) (\<lambda>hash.
         bind (read (\<lambda>i. as_Hash (AStatus i))) (\<lambda>old.
         let (hashMap, changed) = SetHash E old (InputHashName E) hash in
         seq (whenever changed (set_api (\<lambda>s. s\<lparr>as_Hash := hashMap\<rparr>)))
             (ret (Inr (hash, changed))))))"

definition createHashOfBackendConfig ::
  "env \<Rightarrow> string list \<Rightarrow> (GlanceAPI world, 'r, go_error + string \<times> bool) act" where
  "createHashOfBackendConfig E backends =
     fn (bind (read (\<lambda>i. i)) (\<lambda>i.
         attempt (ret (ObjectHash E (HashBackends backends))) (\<lambda>e. exit_with (Inl e)) (\<lambda>backendHash.
         attempt (ret (ObjectHash E (HashStorage (t_Storage (ASpec i))))) (\<lambda>e. exit_with (Inl e)) (\<lambda>storageHash.
         attempt (ret (ObjectHash E (HashString (Size (t_ImageCache (ASpec i)))))) (\<lambda>e. exit_with (Inl e)) (\<lambda>cacheHash.
         attempt (ret (ObjectHash E (HashString (backendHash @ storageHash @ cacheHash)))) (\<lambda>e. exit_with (Inl e)) (\<lambda>hash.
         let (hashMap, changed) = SetHash E (as_Hash (AStatus i)) ''backendHash'' hash in
         seq (whenever changed (set_api (\<lambda>s. s\<lparr>as_Hash := hashMap\<rparr>)))
             (ret (Inr (hash, changed)))))))))"

section \<open>The StatefulSet is deleted when its storage changes\<close>

definition glanceAPIRefresh :: "env \<Rightarrow> (GlanceAPI world, 'r, go_error option) act" where
  "glanceAPIRefresh E =
     fn (bind (read (\<lambda>i. i)) (\<lambda>i.
         seq (must (call (CGetStatefulSetWithName (stsName i) (o_Namespace i)) (resp_err E))
               (\<lambda>e. exit_with (if IsNotFound e then None else Some e)))
        (seq (must (call (CDeleteStatefulSet (stsName i) (o_Namespace i)) (resp_err E))
               (\<lambda>e. if IsNotFound e then ret ()
                     else exit_with (Some (Wrapped (''error deleting '' @ o_Name i @ '': '') e))))
             (ret None))))"

section \<open>Keystone and Horizon endpoints\<close>

definition ensureKeystoneEndpoints ::
  "env \<Rightarrow> string gomap \<Rightarrow> (GlanceAPI world, 'r, reconcile_result) act" where
  "ensureKeystoneEndpoints E serviceLabels =
     fn (bind (read (\<lambda>i. i)) (\<lambda>i.
         if o_Annotations i = [] \<or> map_str (o_Annotations i) KeystoneEndpointAnnotation \<noteq> ''true'' then
           seq (mark_true KeystoneEndpointReadyCondition ''ReadyMessage'')
          (seq (must (call (CDeleteKeystoneEndpointWithName (o_Name i) (o_Namespace i)) (resp_err E))
                  (\<lambda>_. exit_with (ResultRequeue, None)))
               (ret (EmptyResult, None)))
         else
           bind (call (CKeystoneEndpoint (o_Name i) (o_Namespace i)
                   (the_map (as_APIEndpoints (AStatus i))) serviceLabels) (resp_keystone E))
             (\<lambda>((ctrlResult, err), c, _).
               seq (must (ret err) (\<lambda>e. exit_with (ctrlResult, Some e)))
              (seq (whenever (c \<noteq> None) (cond (CSet c)))
                   (ret (ctrlResult, None))))))"

definition ensureDeletedEndpoints :: "env \<Rightarrow> (GlanceAPI world, 'r, reconcile_result) act" where
  "ensureDeletedEndpoints E =
     fn (bind (read (\<lambda>i. i)) (\<lambda>i.
         bind (call (CGetKeystoneEndpointWithName (o_Name i) (o_Namespace i)) (resp_strs E)) (\<lambda>r.
         seq (case r of
                Inl err \<Rightarrow> if IsNotFound err then ret () else exit_with (EmptyResult, Some err)
              | Inr finalizers \<Rightarrow>
                  let (fs, removed) = RemoveFinalizer E finalizers in
                  whenever removed
                    (must (call (CUpdateKeystoneEndpoint fs) (resp_err E))
                      (\<lambda>err. if IsNotFound err then ret () else exit_with (EmptyResult, Some err))))
             (ret (EmptyResult, None)))))"

text \<open>The error of the read is dropped by the source too; the id of a missing type is empty.\<close>

definition getEndpointID :: "env \<Rightarrow> (GlanceAPI world, 'r, string) act" where
  "getEndpointID E =
     bind (read (\<lambda>i. i)) (\<lambda>i.
     let epType = (if a_APIType (ASpec i) = APIExternal then EndpointPublic else EndpointInternal) in
     bind (call (CGetKeystoneEndpointCR (o_Namespace i) (o_Name i)) (resp_map E)) (\<lambda>r.
       ret (case r of Inl _ \<Rightarrow> [] | Inr ids \<Rightarrow> map_str ids (endpoint_str epType))))"

definition GetHorizonEndpoint :: "env \<Rightarrow> (GlanceAPI world, 'r, go_error + string) act" where
  "GetHorizonEndpoint E =
     bind (read o_Namespace) (\<lambda>ns.
     bind (call (CGetHorizon ns) (resp_str E)) (\<lambda>r.
       ret (case r of Inl e \<Rightarrow> Inl e | Inr horizon \<Rightarrow> HorizonEndpoint E horizon)))"

section \<open>The cron jobs of the image cache, and the labels of the claims\<close>

definition cj_str :: "CronJobType \<Rightarrow> string" where
  "cj_str t = (case t of CjDBPurge \<Rightarrow> ''purge'' | CacheCleaner \<Rightarrow> ''cleaner'' | CachePruner \<Rightarrow> ''pruner'')"

definition cron_name :: "string \<Rightarrow> CronJobType \<Rightarrow> string" where
  "cron_name pvcName cj = TrimPrefix pvcName CachePVCPrefix @ ''-'' @ cj_str cj"

definition is_cache :: "PVC \<Rightarrow> bool" where
  "is_cache vc \<longleftrightarrow> lookup (pvc_Annotations vc) ''image-cache'' \<noteq> None"

text \<open>The error of the list is dropped, and the list is dereferenced.\<close>

definition cache_pvcs ::
  "env \<Rightarrow> string gomap \<Rightarrow> (GlanceAPI world, 'r, PVC list) act" where
  "cache_pvcs E serviceLabels =
     bind (read o_Namespace) (\<lambda>ns.
     bind (GetPvcListWithLabel E ns serviceLabels) (\<lambda>r.
       case r of Inl _ \<Rightarrow> crash NilDereference | Inr pvcs \<Rightarrow> ret pvcs))"

definition cache_cron_spec ::
  "GlanceAPI \<Rightarrow> string gomap \<Rightarrow> string gomap \<Rightarrow> CronJobType \<Rightarrow> string \<Rightarrow> CronJobSpec" where
  "cache_cron_spec i serviceLabels serviceAnnotations cjType pvcName =
     \<lparr>cs_Name = cron_name pvcName cjType, cs_PvcClaim = Some pvcName,
      cs_Schedule = (if cjType = CachePruner then PrunerScheduler (t_ImageCache (ASpec i))
                     else CleanerScheduler (t_ImageCache (ASpec i))),
      cs_Command = (if cjType = CachePruner then GlanceCachePruner else GlanceCacheCleaner),
      cs_CjType = cjType, cs_Labels = serviceLabels, cs_Annotations = serviceAnnotations\<rparr>"

definition ensureImageCacheJob ::
  "env \<Rightarrow> string gomap \<Rightarrow> string gomap \<Rightarrow> CronJobType \<Rightarrow> (GlanceAPI world, 'r, reconcile_result) act" where
  "ensureImageCacheJob E serviceLabels serviceAnnotations cjType =
     fn (bind (read (\<lambda>i. i)) (\<lambda>i.
         bind (cache_pvcs E serviceLabels) (\<lambda>pvcs.
         bind (for_acc (\<lambda>vc overall.
             if is_cache vc then
               bind (of_go (ImageCacheJob (k8s E) i
                       (cache_cron_spec i serviceLabels serviceAnnotations cjType (pvc_Name vc)))) (\<lambda>cronjobDef.
               bind (call (CCronJob cronjobDef) (resp_res E)) (\<lambda>(ctrlResult, err).
                 seq (must (ret err) (\<lambda>e. exit_with (ctrlResult, Some e)))
                     (ret (if ctrlResult \<noteq> EmptyResult then ctrlResult else overall))))
             else ret overall) pvcs EmptyResult) (\<lambda>overall.
         ret (overall, None)))))"

definition deleteJob :: "env \<Rightarrow> string \<Rightarrow> (GlanceAPI world, 'r, reconcile_result) act" where
  "deleteJob E pvcName =
     fn (bind (read o_Namespace) (\<lambda>ns.
         seq (for_each (\<lambda>cj.
                bind (call (CGetCronJob ns (cron_name pvcName cj)) (resp_err E)) (\<lambda>r.
                  case r of
                    Some _ \<Rightarrow> ret ()
                  | None \<Rightarrow>
                      must (call (CDeleteCronJob ns (cron_name pvcName cj)) (resp_err E))
                        (\<lambda>e. if IsNotFound e then ret () else exit_with (EmptyResult, Some e))))
              [CachePruner, CacheCleaner])
             (ret (EmptyResult, None))))"

text \<open>The pod has the name of the claim without the prefix.\<close>

definition cleanupImageCacheJob ::
  "env \<Rightarrow> string gomap \<Rightarrow> (GlanceAPI world, 'r, reconcile_result) act" where
  "cleanupImageCacheJob E serviceLabels =
     fn (bind (read (\<lambda>i. i)) (\<lambda>i.
         bind (cache_pvcs E serviceLabels) (\<lambda>pvcs.
         bind (for_acc (\<lambda>vc overall.
             if is_cache vc then
               bind (call (CGetPod (o_Namespace i) (TrimPrefix (pvc_Name vc) CachePVCPrefix)) (resp_err E)) (\<lambda>r.
                 let gone = (case r of None \<Rightarrow> False | Some e \<Rightarrow> IsNotFound e) in
                 if gone \<or> Size (t_ImageCache (ASpec i)) = [] then
                   bind (deleteJob E (pvc_Name vc)) (\<lambda>(ctrlResult, err).
                     case err of
                       Some e \<Rightarrow>
                         if IsNotFound e then ret (if ctrlResult \<noteq> EmptyResult then ctrlResult else overall)
                         else exit_with (ctrlResult, Some e)
                     | None \<Rightarrow> ret (if ctrlResult \<noteq> EmptyResult then ctrlResult else overall))
                 else ret overall)
             else ret overall) pvcs EmptyResult) (\<lambda>overall.
         ret (overall, None)))))"

definition reconcilePVCLabels :: "env \<Rightarrow> (GlanceAPI world, 'r, go_error option) act" where
  "reconcilePVCLabels E =
     fn (bind (read (\<lambda>i. i)) (\<lambda>i.
         attempt (call (CListPVCs (o_Namespace i) [(OwnerSelector E, o_Name i), (ComponentSelector E, Component)])
                    (resp_pvcs E))
           (\<lambda>e. exit_with (Some (Wrapped (''listing PVCs for '' @ o_Name i @ '': '') e))) (\<lambda>pvcs.
         seq (for_each (\<lambda>vc.
                if is_cache vc then ret ()
                else must (call (CEnsureBackupLabels vc) (resp_err E)) (\<lambda>e. exit_with (Some e))) pvcs)
             (ret None))))"

section \<open>generateServiceConfig\<close>

text \<open>The parameters of a virtual host, by endpoint.\<close>

definition vhost :: "env \<Rightarrow> GlanceAPI \<Rightarrow> endpoint \<Rightarrow> string \<times> (string \<times> tval) list" where
  "vhost E i endpt =
     (let s = endpoint_str endpt in
      (s, [(''ServerName'', TStr (''glance-'' @ s @ ''.'' @ o_Namespace i @ ''.svc'')),
           (''ServerAlias'', TStr (endpointName i @ ''.'' @ o_Namespace i @ ''.svc'')),
           (''TLS'', TBool (TLS_Enabled (k8s E) (t_TLS (ASpec i)) endpt)),
           (''TimeOut'', TInt (t_APITimeout (ASpec i)))] @
          (if TLS_Enabled (k8s E) (t_TLS (ASpec i)) endpt then
             [(''SSLCertificateFile'', TStr (''/etc/pki/tls/certs/'' @ s @ ''.crt'')),
              (''SSLCertificateKeyFile'', TStr (''/etc/pki/tls/private/'' @ s @ ''.key''))]
           else [])))"

text \<open>The snippets of the secrets, each with a line break after it; a list of ini options.\<close>

definition custom_secrets ::
  "env \<Rightarrow> GlanceAPI \<Rightarrow> (GlanceAPI world, 'r, go_error + string) act" where
  "custom_secrets E i =
     fn (bind (for_acc (\<lambda>secretName acc.
           attempt (call (CGetSecret secretName (o_Namespace i)) (resp_map E)) (\<lambda>e. exit_with (Inl e)) (\<lambda>data.
             ret (acc @ concat (map (\<lambda>key. map_str data key @ [CHR 0x0A]) (sorted_keys data)))))
         (t_CustomServiceConfigSecrets (ASpec i)) []) (\<lambda>text. ret (Inr text)))"

type_synonym ini_option = "string \<times> string \<times> string"

definition extended_config :: "env \<Rightarrow> string \<Rightarrow> ini_option list \<Rightarrow> string" where
  "extended_config E config opts = fold (\<lambda>opt c. ExtendCustomServiceConfig E c opt) opts config"

text \<open>The application credential: both keys must be there and not be empty.\<close>

definition ac_params :: "env \<Rightarrow> GlanceAPI \<Rightarrow> (GlanceAPI world, 'r, go_error + params) act" where
  "ac_params E i =
     (let ac = ApplicationCredentialSecret (t_Auth (ASpec i)) in
      if ac = [] then ret (Inr [])
      else
        attempt (call (CGetSecret ac (o_Namespace i)) (resp_map E))
          (\<lambda>e. ret (Inl (if IsNotFound e then ErrACSecretNotFound ac else e))) (\<lambda>data.
        let acID = map_str data (ACIDSecretKey E); acSecret = map_str data (ACSecretSecretKey E) in
        if length acID > 0 \<and> length acSecret > 0 then
          ret (Inr [(''ApplicationCredentialID'', TStr acID), (''ApplicationCredentialSecret'', TStr acSecret)])
        else ret (Inl (ErrACSecretMissingKeys ac))))"

text \<open>The locations of an image are shown by every type but the external.\<close>

definition location_params :: "GlanceAPI \<Rightarrow> bool \<Rightarrow> params" where
  "location_params i imageConv =
     (if a_APIType (ASpec i) = APIInternal \<or> a_APIType (ASpec i) = APISingle \<or> a_APIType (ASpec i) = APIEdge
      then [(''ShowImageDirectUrl'', TBool True), (''ShowMultipleLocations'', TBool True)]
      else [(''ShowImageDirectUrl'', TBool False), (''ShowMultipleLocations'', TBool False),
            (''ImageConversion'', TBool imageConv)])"

definition memcached_params :: "env \<Rightarrow> opaque \<Rightarrow> params" where
  "memcached_params E memcached =
     [(''MemcachedServersWithInet'', TStr (MemcachedServersWithInet E memcached)),
      (''MemcachedServers'', TStr (MemcachedServers E memcached))] @
     (if GetMemcachedMTLSSecret (k8s E) memcached \<noteq> [] then
        (case MTLSPaths E of (cert, key, ca) \<Rightarrow>
           [(''MemcachedAuthCert'', TStr cert), (''MemcachedAuthKey'', TStr key),
            (''MemcachedAuthCa'', TStr ca)])
      else [])"

definition notification_params :: "env \<Rightarrow> GlanceAPI \<Rightarrow> (GlanceAPI world, 'r, go_error + params) act" where
  "notification_params E i =
     (if a_NotificationBusSecret (ASpec i) = [] then ret (Inr [])
      else
        attempt (call (CGetSecret (a_NotificationBusSecret (ASpec i)) (o_Namespace i)) (resp_map E))
          (\<lambda>e. ret (Inl e)) (\<lambda>data.
        ret (Inr [(''TransportURL'', TStr (map_str data ''transport_url'')),
             (''QuorumQueues'', TBool (map_str data ''quorumqueues'' = ''true''))])))"

definition base_params :: "env \<Rightarrow> GlanceAPI \<Rightarrow> Database \<Rightarrow> string \<Rightarrow> string \<Rightarrow> string \<Rightarrow> bool \<Rightarrow> params" where
  "base_params E i db password internalURL publicURL wsgi =
     [(''ServiceUser'', TStr (a_ServiceUser (ASpec i))), (''ServicePassword'', TStr password),
      (''KeystoneInternalURL'', TStr internalURL), (''KeystonePublicURL'', TStr publicURL),
      (''DatabaseConnection'', TStr (database_connection db (a_DatabaseHostname (ASpec i)))),
      (''QuotaEnabled'', TBool (a_Quota (ASpec i))),
      (''LogFile'', TStr (GlanceLogPath @ o_Name i @ ''.log'')),
      (''VHosts'', TMap (map (vhost E i) (sorted_endpoints (a_APIType (ASpec i))))),
      (''Wsgi'', TBool wsgi)]"

text \<open>The result is the hashes of the secrets written, or the error.\<close>

definition API_generateServiceConfig ::
  "env \<Rightarrow> bool \<Rightarrow> opaque \<Rightarrow> bool \<Rightarrow> ini_option list \<Rightarrow>
     (GlanceAPI world, 'r, go_error + string gomap) act" where
  "API_generateServiceConfig E imageConv memcached wsgi extConfigOptions =
     fn (bind (read (\<lambda>i. i)) (\<lambda>i.
       let fail = (\<lambda>e. exit_with (Inl e)); ns = o_Namespace i;
           labels = GetLabels E (o_Name i) ServiceName (GetServiceLabels E i) in
       attempt (call (CGetDatabaseByNameAndAccount DatabaseName (a_DatabaseAccount (ASpec i)) ns) (resp_getdb E))
         fail (\<lambda>db.
       attempt (custom_secrets E i) fail (\<lambda>customSecrets.
       attempt (call (CGetKeystoneAPI ns) (resp_keystoneapi E)) fail (\<lambda>(keystoneEndpoint, region).
       attempt (ret (keystoneEndpoint EndpointInternal)) fail (\<lambda>internalURL.
       attempt (ret (keystoneEndpoint EndpointPublic)) fail (\<lambda>publicURL.
       attempt (call (CGetSecret (a_Secret (ASpec i)) ns) (resp_map E)) fail (\<lambda>ospSecret.
       bind (getEndpointID E) (\<lambda>endpointID.
       attempt (ac_params E i) fail (\<lambda>ac.
       attempt (ret (cache_params E (Size (t_ImageCache (ASpec i))))) fail (\<lambda>cache.
       attempt (notification_params E i) fail (\<lambda>notifications.
       bind (GetHorizonEndpoint E) (\<lambda>horizon.
       let password = map_str ospSecret (ps_Service (a_PasswordSelectors (ASpec i)));
           params = base_params E i db password internalURL publicURL wsgi @ ac @
             (if length endpointID > 0 then [(''EndpointID'', TStr endpointID), (''Region'', TStr region)] else []) @
             location_params i imageConv @ cache @ memcached_params E memcached @ notifications @
             (case horizon of Inl _ \<Rightarrow> [] | Inr h \<Rightarrow> [(''HorizonEndpoint'', TStr h)]);
           customData =
             [(CustomServiceConfigFileName,
                 extended_config E (t_CustomServiceConfig (ASpec i)) extConfigOptions),
              (''my.cnf'', db_ClientConfig db (CaBundleSecretName (t_TLS (ASpec i)) \<noteq> [])),
              (CustomServiceConfigSecretsFileName, customSecrets)] in
       bind (GenerateConfigsGeneric E (o_Name i) ns ''GlanceAPI'' params customData labels False) (\<lambda>(vars, err).
         ret (case err of Some e \<Rightarrow> Inl e | None \<Rightarrow> Inr vars)))))))))))))))"

section \<open>reconcileInit\<close>

definition zero_override :: RoutedOverrideSpec where
  "zero_override = \<lparr>EmbeddedLabelsAnnotations = None, OverrideSpec = [], EndpointURL = None\<rparr>"

text \<open>The override of an endpoint: never without labels and annotations.\<close>

definition svc_override :: "GlanceAPI \<Rightarrow> endpoint \<Rightarrow> RoutedOverrideSpec" where
  "svc_override i endpt =
     (let o' = (case lookup (Service (t_Override (ASpec i))) (endpoint_str endpt) of
                  None \<Rightarrow> zero_override | Some x \<Rightarrow> x) in
      if EmbeddedLabelsAnnotations o' = None then o'\<lparr>EmbeddedLabelsAnnotations := Some []\<rparr> else o')"

definition endpoint_service :: "env \<Rightarrow> GlanceAPI \<Rightarrow> string gomap \<Rightarrow> endpoint \<Rightarrow> ServiceObj" where
  "endpoint_service E i serviceLabels endpt =
     \<lparr>svc_Name = ServiceName @ ''-'' @ APIName i @ ''-'' @ endpoint_str endpt, svc_Namespace = o_Namespace i,
      svc_Labels = MergeStringMaps (k8s E)
        [serviceLabels, [(AnnotationEndpointKey E, endpoint_str endpt)]],
      svc_Selector = serviceLabels,
      svc_Port = (case map_of (GetGlanceEndpoints (a_APIType (ASpec i))) endpt of None \<Rightarrow> 0 | Some p \<Rightarrow> p),
      svc_ClusterIP = [], svc_Override = Some (svc_override i endpt), svc_Annotations = []\<rparr>"

text \<open>The annotations, in the order they are added; a route is asked for by the last ones.\<close>

definition service_annotations :: "env \<Rightarrow> GlanceAPI \<Rightarrow> endpoint \<Rightarrow> string \<Rightarrow> ServiceObj \<Rightarrow> string gomap" where
  "service_annotations E i endpt headless svc =
     (let host = headless @ ''.'' @ o_Namespace i @ ''.svc'' in
      [(AnnotationEndpointKey E, endpoint_str endpt),
       (AdditionalSubjectNamesKey E, ''*.'' @ host @ '',*.'' @ host @ ''.'' @ DefaultClusterInternalDomain E)] @
      (if map_str (o_Annotations i) KeystoneEndpointAnnotation = ''true'' \<and> endpt = EndpointPublic \<and>
          GetServiceType E svc = ''ClusterIP''
       then [(AnnotationIngressCreateKey E, ''true'')]
       else (AnnotationIngressCreateKey E, ''false'') #
            (if GetServiceType E svc = ''LoadBalancer''
             then [(AnnotationHostnameKey E, GetServiceHostname E svc)] else [])))"

definition expose_one ::
  "env \<Rightarrow> string gomap \<Rightarrow> endpoint \<Rightarrow> string gomap \<Rightarrow> (GlanceAPI world, reconcile_result, string gomap) act" where
  "expose_one E serviceLabels endpt apiEndpoints =
     bind (GetHeadlessService E serviceLabels) (\<lambda>((ctrlResult, err), headless).
     seq (must (ret err) (\<lambda>e. exit_with (ctrlResult, Some e)))
    (bind (read (\<lambda>i. i)) (\<lambda>i.
     let svc = endpoint_service E i serviceLabels endpt in
     seq (must (ret (NewService E svc)) (\<lambda>e.
            seq (set_error CreateServiceReadyCondition ''CreateServiceReadyErrorMessage'' e)
                (exit_with (EmptyResult, Some e))))
    (let svc = svc\<lparr>svc_Annotations := service_annotations E i endpt headless svc\<rparr> in
     bind (call (CService svc) (resp_res E)) (\<lambda>(ctrlResult, err).
     seq (must (ret err) (\<lambda>e.
            seq (set_error CreateServiceReadyCondition ''CreateServiceReadyErrorMessage'' e)
                (exit_with (ctrlResult, Some e))))
    (seq (whenever (ctrlResult \<noteq> EmptyResult)
            (seq (set_false CreateServiceReadyCondition RequestedReason SeverityInfo
                    (LibMsg ''CreateServiceReadyRunningMessage'' []))
                 (exit_with (ctrlResult, None))))
         (attempt (ret (GetAPIEndpoint E svc (EndpointURL (svc_override i endpt))
                          (TLS_Enabled (k8s E) (t_TLS (ASpec i)) endpt)))
            (\<lambda>e. seq (mark_false CreateServiceReadyCondition ErrorReason SeverityWarning
                       (LibMsg ''CreateServiceReadyErrorMessage'' [error_text e]))
                     (exit_with (EmptyResult, Some e)))
            (\<lambda>url. ret (AList.update (endpoint_str endpt) url apiEndpoints)))))))))"

text \<open>The end of \<^verbatim>\<open>reconcileInit\<close>: the Keystone endpoint, and its error in the conditions.\<close>

definition init_keystone_endpoint :: "env \<Rightarrow> string gomap \<Rightarrow> (GlanceAPI world, reconcile_result, reconcile_result) act" where
  "init_keystone_endpoint E serviceLabels =
     bind (ensureKeystoneEndpoints E serviceLabels) (\<lambda>(ctrlResult, err).
       seq (must (ret err) (\<lambda>e.
              seq (mark_false KeystoneEndpointReadyCondition ErrorReason SeverityWarning
                     (Msg ''Creating KeyStoneEndpoint CR %s'' [error_text e]))
                  (exit_with (ctrlResult, Some e))))
      (seq (whenever (ctrlResult \<noteq> EmptyResult) (exit_with (ctrlResult, None)))
           (ret (EmptyResult, None))))"

definition API_reconcileInit :: "env \<Rightarrow> string gomap \<Rightarrow> (GlanceAPI world, 'r, reconcile_result) act" where
  "API_reconcileInit E serviceLabels =
     fn (bind (read (\<lambda>i. i)) (\<lambda>i.
         bind (for_acc (expose_one E serviceLabels) (sorted_endpoints (a_APIType (ASpec i))) []) (\<lambda>apiEndpoints.
         seq (mark_true CreateServiceReadyCondition ''CreateServiceReadyMessage'')
        (seq (set_api (\<lambda>s. s\<lparr>as_APIEndpoints := Some apiEndpoints\<rparr>))
             (init_keystone_endpoint E serviceLabels)))))"

section \<open>reconcileDelete\<close>

definition API_reconcileDelete :: "env \<Rightarrow> (GlanceAPI world, 'r, reconcile_result) act" where
  "API_reconcileDelete E =
     fn (bind (ensureDeletedEndpoints E) (\<lambda>(ctrlResult, err).
         seq (must (ret err) (\<lambda>e. exit_with (ctrlResult, Some e)))
        (bind (read (\<lambda>i. i)) (\<lambda>i.
         seq (for_each (\<lambda>secretName.
                must (call (CRemoveACSecretConsumerFinalizer (o_Namespace i) secretName (ACConsumerFinalizerName i))
                        (resp_err E)) (\<lambda>e. exit_with (EmptyResult, Some e)))
              [as_ApplicationCredentialSecret (AStatus i), ApplicationCredentialSecret (t_Auth (ASpec i))])
        (bind (call (CEnsureDeletedTopologyRef (as_LastAppliedTopology (AStatus i)) (APIName i)) (resp_res E))
           (\<lambda>(ctrlResult, err).
             seq (must (ret err) (\<lambda>e. exit_with (ctrlResult, Some e)))
            (seq (set_inst (\<lambda>i. i\<lparr>o_Finalizers := fst (RemoveFinalizer E (o_Finalizers i))\<rparr>))
                 (ret (EmptyResult, None)))))))))"

section \<open>reconcileNormal\<close>

definition API_normal_secret :: "env \<Rightarrow> (GlanceAPI world, reconcile_result, string gomap) act" where
  "API_normal_secret E =
     bind (read (\<lambda>i. i)) (\<lambda>i.
     bind (verifyServiceSecret E (o_Namespace i) (a_Secret (ASpec i))
             [ps_Service (a_PasswordSelectors (ASpec i))] NormalDuration []) (\<lambda>((ctrlResult, err), configVars).
       seq (whenever (err \<noteq> None \<or> ctrlResult \<noteq> EmptyResult) (exit_with (ctrlResult, err)))
      (seq (mark_true InputReadyCondition ''InputReadyMessage'')
           (ret configVars))))"

text \<open>The storage hash; a change of it deletes the StatefulSet.\<close>

definition API_normal_refresh :: "env \<Rightarrow> string list \<Rightarrow> (GlanceAPI world, reconcile_result, unit) act" where
  "API_normal_refresh E availableBackends =
     attempt (createHashOfBackendConfig E availableBackends) (\<lambda>e.
         seq (set_error InputReadyCondition ''InputReadyErrorMessage'' e)
             (exit_with (EmptyResult, Some e))) (\<lambda>(hash, hashChanged).
       whenever hashChanged
         (must (glanceAPIRefresh E) (\<lambda>e.
            seq (mark_false DeploymentReadyCondition ErrorReason SeverityWarning
                   (LibMsg ''DeploymentReadyErrorMessage'' [error_text e]))
                (exit_with (EmptyResult, Some e)))))"

record backend_config =
  privileged :: bool
  imageConv :: bool
  extConfigOptions :: "ini_option list"

text \<open>The cases of one backend; the token after the colon is indexed without a check.\<close>

definition backend_case ::
  "env \<Rightarrow> string \<Rightarrow> backend_config \<Rightarrow> (GlanceAPI world, reconcile_result, backend_config) act" where
  "backend_case E backend bc =
     bind (read (\<lambda>i. i)) (\<lambda>i.
     case SplitN2 (CHR '':'') backend of
       [name, type] \<Rightarrow>
         if type = ''cinder'' then
           attempt (call (CListCinder (o_Namespace i)) (resp_strs E)) (\<lambda>e.
               seq (mark_false CinderCondition RequestedReason SeverityError
                      (Msg ''Cinder resource error %s'' [error_text e]))
                   (exit_with (ResultRequeue, None))) (\<lambda>cinders.
             if cinders = [] then
               seq (set_false CinderCondition RequestedReason SeverityInfo (Msg ''Waiting for Cinder resources'' []))
                   (exit_with (ResultRequeue, None))
             else ret (bc\<lparr>privileged := True\<rparr>))
         else if type = ''rbd'' then ret (bc\<lparr>imageConv := True\<rparr>)
         else if type = ''s3'' \<and> CaBundleSecretName (t_TLS (ASpec i)) \<noteq> [] then
           ret (bc\<lparr>extConfigOptions := extConfigOptions bc @
                  [(name, ''s3_store_cacert'', ''/etc/pki/tls/certs/ca-bundle.crt'')]\<rparr>)
         else ret bc
     | _ \<Rightarrow> crash IndexOutOfRange)"

definition API_normal_backends :: "env \<Rightarrow> string list \<Rightarrow> (GlanceAPI world, reconcile_result, backend_config) act" where
  "API_normal_backends E availableBackends =
     bind (for_acc (backend_case E) availableBackends
             \<lparr>privileged = False, imageConv = False, extConfigOptions = []\<rparr>) (\<lambda>bc.
     seq (cond (CMarkTrue CinderCondition (Msg ''Cinder resources exist'' [])))
         (ret bc))"

text \<open>A secret that is missing ends the run without an error.\<close>

definition tls_error :: "(go_error \<Rightarrow> condition) \<Rightarrow> go_error \<Rightarrow> (GlanceAPI world, reconcile_result, 'a) act" where
  "tls_error waiting e =
     (if IsNotFound e then
        seq (cond (CSet (Some (waiting e)))) (exit_with (EmptyResult, None))
      else
        seq (set_error TLSInputReadyCondition ''TLSInputErrorMessage'' e) (exit_with (EmptyResult, Some e)))"

definition API_normal_tls ::
  "env \<Rightarrow> string gomap \<Rightarrow> (GlanceAPI world, reconcile_result, string gomap) act" where
  "API_normal_tls E configVars =
     bind (read (\<lambda>i. i)) (\<lambda>i.
     let bundle = CaBundleSecretName (t_TLS (ASpec i)) in
     bind (if bundle \<noteq> [] then
             attempt (call (CValidateCACertSecret bundle (o_Namespace i)) (resp_str E))
               (tls_error (\<lambda>_. FalseCondition TLSInputReadyCondition ErrorReason SeverityWarning
                  (LibMsg ''TLSInputReadyWaitingMessage'' [bundle]))) (\<lambda>hash.
             ret (if hash \<noteq> [] then AList.update (CABundleKey E) hash configVars else configVars))
           else ret configVars) (\<lambda>configVars.
     attempt (call (CValidateCertSecrets (t_TLS (ASpec i)) (o_Namespace i)) (resp_str E))
       (tls_error (\<lambda>e. FalseCondition TLSInputReadyCondition RequestedReason SeverityInfo
          (LibMsg ''TLSInputReadyWaitingMessage'' [error_text e]))) (\<lambda>certsHash.
     seq (mark_true TLSInputReadyCondition ''InputReadyMessage'')
         (ret (AList.update (TLSHashName E) certsHash configVars)))))"

definition API_normal_networks :: "env \<Rightarrow> (GlanceAPI world, reconcile_result, string gomap) act" where
  "API_normal_networks E =
     bind (read (\<lambda>i. i)) (\<lambda>i.
     bind (ensureNAD E (o_Namespace i) (t_NetworkAttachments (ASpec i))) (\<lambda>(serviceAnnotations, ctrlResult, err).
       seq (must (ret err) (\<lambda>e.
              seq (mark_false NetworkAttachmentsReadyCondition ErrorReason SeverityWarning
                     (LibMsg ''NetworkAttachmentsReadyErrorMessage'' [error_text e]))
                  (exit_with (ctrlResult, Some e))))
      (seq (whenever (ctrlResult \<noteq> EmptyResult) (exit_with (ctrlResult, None)))
           (ret serviceAnnotations))))"

definition API_normal_init :: "env \<Rightarrow> (GlanceAPI world, reconcile_result, unit) act" where
  "API_normal_init E =
     bind (read (\<lambda>i. i)) (\<lambda>i.
     bind (API_reconcileInit E (GetServiceLabels E i)) (\<lambda>(ctrlResult, err).
       seq (must (ret err) (\<lambda>e. exit_with (ctrlResult, Some e)))
           (whenever (ctrlResult \<noteq> EmptyResult) (exit_with (ctrlResult, None)))))"

definition config_error :: "ctrl_result \<Rightarrow> go_error \<Rightarrow> (GlanceAPI world, reconcile_result, 'a) act" where
  "config_error result e =
     seq (set_error ServiceConfigReadyCondition ''ServiceConfigReadyErrorMessage'' e)
         (exit_with (result, Some e))"

text \<open>The deployment mode, the configuration, and the hash of all inputs.\<close>

definition API_normal_config ::
  "env \<Rightarrow> opaque \<Rightarrow> backend_config \<Rightarrow> string gomap \<Rightarrow> (GlanceAPI world, reconcile_result, bool \<times> string) act" where
  "API_normal_config E memcached bc configVars =
     bind (read (\<lambda>i. i)) (\<lambda>i.
     attempt (ret (GetBoolFromAnnotation E (o_Annotations i) GlanceWSGILabel)) (config_error EmptyResult) (\<lambda>(flag, exists).
     let wsgi = (if \<not> exists then True else flag) in
     attempt (API_generateServiceConfig E (imageConv bc) memcached wsgi (extConfigOptions bc))
       (config_error ResultRequeue) (\<lambda>hashes.
     let configVars = AList.update KeystoneEndpointAnnotation
           (map_str (o_Annotations i) KeystoneEndpointAnnotation)
           (fold (\<lambda>(k, v). AList.update k v) hashes configVars) in
     attempt (createHashOfInputHashes E configVars) (config_error EmptyResult) (\<lambda>(inputHash, changed).
     ret (wsgi, inputHash)))))"

text \<open>The consumer finalizer of the new credential comes before the deployment.\<close>

definition API_normal_credential :: "env \<Rightarrow> (GlanceAPI world, reconcile_result, unit) act" where
  "API_normal_credential E =
     bind (read (\<lambda>i. i)) (\<lambda>i.
     let ac = ApplicationCredentialSecret (t_Auth (ASpec i)) in
     seq (whenever (ac \<noteq> [])
            (must (call (CManageACSecretFinalizer (o_Namespace i) ac [] (ACConsumerFinalizerName i)) (resp_err E))
               (config_error EmptyResult)))
         (mark_true ServiceConfigReadyCondition ''ServiceConfigReadyMessage''))"

definition API_normal_topology :: "env \<Rightarrow> (GlanceAPI world, reconcile_result, opaque option) act" where
  "API_normal_topology E =
     bind (read (\<lambda>i. i)) (\<lambda>i.
     attempt (call (CEnsureServiceTopology (t_TopologyRef (ASpec i)) (as_LastAppliedTopology (AStatus i))
                      (APIName i) (GetServiceLabels E i)) (resp_topology E)) (\<lambda>e.
         seq (set_error TopologyReadyCondition ''TopologyReadyErrorMessage'' e)
             (exit_with (EmptyResult, Some (Wrapped ''waiting for Topology requirements: '' e)))) (\<lambda>topology.
     seq (set_api (\<lambda>s. s\<lparr>as_LastAppliedTopology := t_TopologyRef (ASpec i)\<rparr>))
    (seq (whenever (t_TopologyRef (ASpec i) \<noteq> None)
            (mark_true TopologyReadyCondition ''TopologyReadyMessage''))
         (ret topology))))"

section \<open>reconcileNormal: the deployment\<close>

text \<open>The replicas are dereferenced.\<close>

definition api_replicas :: "GlanceAPI \<Rightarrow> int go" where
  "api_replicas i = (case t_Replicas (ASpec i) of None \<Rightarrow> Panic NilDereference | Some n \<Rightarrow> Ret n)"

definition network_error :: "go_error \<Rightarrow> (GlanceAPI world, reconcile_result, unit) act" where
  "network_error e =
     seq (mark_false NetworkAttachmentsReadyCondition ErrorReason SeverityWarning
            (LibMsg ''NetworkAttachmentsReadyErrorMessage'' [error_text e]))
         (exit_with (EmptyResult, Some e))"

definition network_list :: "GlanceAPI \<Rightarrow> string" where
  "network_list i = ''['' @ Join (CHR '' '') (t_NetworkAttachments (ASpec i)) @ '']''"

text \<open>The attachments of the pods, when there are pods.\<close>

definition verify_networks :: "env \<Rightarrow> (GlanceAPI world, reconcile_result, unit) act" where
  "verify_networks E =
     bind (read (\<lambda>i. i)) (\<lambda>i.
     bind (of_go (api_replicas i)) (\<lambda>replicas.
     bind (if replicas > 0 then
             attempt (call (CVerifyNetworkStatus (t_NetworkAttachments (ASpec i)) (GetServiceLabels E i)
                              (as_ReadyCount (AStatus i))) (resp_network E))
               (\<lambda>e. bind (network_error (Wrapped (''verifying API NetworkAttachments ('' @ network_list i @ '') '') e))
                      (\<lambda>_. ret (False, []))) ret
           else ret (True, [])) (\<lambda>(networkReady, networkAttachmentStatus).
     seq (set_api (\<lambda>s. s\<lparr>as_NetworkAttachments := Some networkAttachmentStatus\<rparr>))
         (if networkReady then mark_true NetworkAttachmentsReadyCondition ''NetworkAttachmentsReadyMessage''
          else
            let e = ErrNetworkAttachmentConfig (t_NetworkAttachments (ASpec i)) in
            seq (set_error NetworkAttachmentsReadyCondition ''NetworkAttachmentsReadyErrorMessage'' e)
                (exit_with (EmptyResult, Some e))))))"

text \<open>The state of the StatefulSet is taken over only when its controller has seen the last change.\<close>

definition deployment_status :: "env \<Rightarrow> bool \<Rightarrow> int \<Rightarrow> (GlanceAPI world, reconcile_result, unit) act" where
  "deployment_status E observed readyReplicas =
     whenever observed
       (seq (set_api (\<lambda>s. s\<lparr>as_ReadyCount := readyReplicas\<rparr>))
       (seq (verify_networks E)
       (bind (read (\<lambda>i. i)) (\<lambda>i.
        bind (of_go (api_replicas i)) (\<lambda>replicas.
        if as_ReadyCount (AStatus i) = replicas then
          mark_true DeploymentReadyCondition ''DeploymentReadyMessage''
        else
          set_false DeploymentReadyCondition RequestedReason SeverityInfo
            (LibMsg ''DeploymentReadyRunningMessage'' []))))))"

definition API_normal_deploy ::
  "env \<Rightarrow> string \<Rightarrow> string gomap \<Rightarrow> bool \<Rightarrow> opaque option \<Rightarrow> bool \<Rightarrow> opaque \<Rightarrow>
     (GlanceAPI world, reconcile_result, unit) act" where
  "API_normal_deploy E inputHash serviceAnnotations privl topology wsgi memcached =
     bind (read (\<lambda>i. i)) (\<lambda>i.
     bind (of_go (StatefulSet (k8s E) (int32_overflow E) i inputHash (GetServiceLabels E i) serviceAnnotations
             privl topology wsgi memcached)) (\<lambda>(sts, err).
     seq (must (ret err) (\<lambda>e. exit_with (EmptyResult, Some e)))
    (bind (case sts of None \<Rightarrow> crash NilDereference | Some deplDef \<Rightarrow> call (CStatefulSet deplDef) (resp_sts E))
      (\<lambda>((ctrlResult, err), observed, readyReplicas).
        seq (must (ret err) (\<lambda>e.
               seq (set_error DeploymentReadyCondition ''DeploymentReadyErrorMessage'' e)
                   (exit_with (ctrlResult, Some e))))
       (seq (whenever (ctrlResult \<noteq> EmptyResult)
               (seq (set_false DeploymentReadyCondition RequestedReason SeverityInfo
                       (LibMsg ''DeploymentReadyRunningMessage'' []))
                    (exit_with (ctrlResult, None))))
            (deployment_status E observed readyReplicas))))))"

definition API_normal_claims :: "env \<Rightarrow> (GlanceAPI world, reconcile_result, unit) act" where
  "API_normal_claims E =
     bind (read (\<lambda>i. i)) (\<lambda>i.
     whenever (\<not> External (t_Storage (ASpec i)))
       (must (reconcilePVCLabels E) (\<lambda>e. exit_with (EmptyResult, Some e))))"

text \<open>The cron jobs of the image cache; the result of creating them is not looked at.\<close>

definition API_normal_cache :: "env \<Rightarrow> string gomap \<Rightarrow> (GlanceAPI world, reconcile_result, unit) act" where
  "API_normal_cache E serviceAnnotations =
     bind (read (\<lambda>i. i)) (\<lambda>i.
     seq (whenever (length (Size (t_ImageCache (ASpec i))) > 0)
            (for_each (\<lambda>item.
               bind (ensureImageCacheJob E (GetServiceLabels E i) serviceAnnotations item) (\<lambda>(ctrlResult, err).
                 must (ret err) (\<lambda>e.
                   seq (set_error CronJobReadyCondition ''CronJobReadyErrorMessage'' e)
                       (exit_with (ctrlResult, Some e))))) [CacheCleaner, CachePruner]))
    (bind (cleanupImageCacheJob E (GetServiceLabels E i)) (\<lambda>(ctrlResult, err).
     seq (must (ret err) (\<lambda>e. exit_with (ctrlResult, Some e)))
    (seq (whenever (ctrlResult \<noteq> EmptyResult) (exit_with (ctrlResult, None)))
         (mark_true CronJobReadyCondition ''CronJobReadyMessage'')))))"

text \<open>
  The credential of the status is the one whose consumer finalizer may still be held. On a
  rotation the old one is let go only when everything is ready with the new one.
\<close>

definition API_normal_rotation :: "env \<Rightarrow> (GlanceAPI world, reconcile_result, unit) act" where
  "API_normal_rotation E =
     bind (read (\<lambda>i. i)) (\<lambda>i.
     let old = as_ApplicationCredentialSecret (AStatus i); new = ApplicationCredentialSecret (t_Auth (ASpec i)) in
     if old \<noteq> [] \<and> old \<noteq> new then
       bind (gets w_conds) (\<lambda>conds.
       whenever (all_sub_true E conds)
         (seq (must (call (CRemoveACSecretConsumerFinalizer (o_Namespace i) old (ACConsumerFinalizerName i))
                       (resp_err E)) (\<lambda>e. exit_with (EmptyResult, Some e)))
              (set_api (\<lambda>s. s\<lparr>as_ApplicationCredentialSecret := new\<rparr>))))
     else set_api (\<lambda>s. s\<lparr>as_ApplicationCredentialSecret := new\<rparr>))"

definition API_normal_ready :: "env \<Rightarrow> (GlanceAPI world, reconcile_result, unit) act" where
  "API_normal_ready E =
     bind (gets w_conds) (\<lambda>conds.
       whenever (all_sub_true E conds) (mark_true ReadyCondition ''ReadyMessage''))"

definition API_reconcileNormal :: "env \<Rightarrow> (GlanceAPI world, 'r, reconcile_result) act" where
  "API_reconcileNormal E =
     fn (bind (API_normal_secret E) (\<lambda>configVars.
         bind (read (\<lambda>i. i)) (\<lambda>i.
         bind (ensure_memcached E (a_MemcachedInstance (ASpec i)) (o_Namespace i)) (\<lambda>memcached.
         bind (of_go (GetEnabledBackends (t_CustomServiceConfig (ASpec i)))) (\<lambda>availableBackends.
         seq (API_normal_refresh E availableBackends)
        (bind (API_normal_backends E availableBackends) (\<lambda>bc.
         bind (API_normal_tls E configVars) (\<lambda>configVars.
         bind (API_normal_networks E) (\<lambda>serviceAnnotations.
         seq (API_normal_init E)
        (bind (API_normal_config E (mc_obj memcached) bc configVars) (\<lambda>(wsgi, inputHash).
         seq (API_normal_credential E)
        (bind (API_normal_topology E) (\<lambda>topology.
         seq (API_normal_deploy E inputHash serviceAnnotations (privileged bc) topology wsgi (mc_obj memcached))
        (seq (API_normal_claims E)
        (seq (API_normal_cache E serviceAnnotations)
        (seq (API_normal_rotation E)
        (seq (API_normal_ready E)
             (ret (EmptyResult, None)))))))))))))))))))"

section \<open>Reconcile\<close>

definition api_conditions :: "condition list" where
  "api_conditions =
     map (\<lambda>(t, m). UnknownCondition t InitReason m)
       [(ReadyCondition, LibMsg ''ReadyInitMessage'' []),
        (CinderCondition, Msg ''Waiting for Cinder resources'' []),
        (MemcachedReadyCondition, LibMsg ''MemcachedReadyInitMessage'' []),
        (CreateServiceReadyCondition, LibMsg ''CreateServiceReadyInitMessage'' []),
        (InputReadyCondition, LibMsg ''InputReadyInitMessage'' []),
        (ServiceConfigReadyCondition, LibMsg ''ServiceConfigReadyInitMessage'' []),
        (DeploymentReadyCondition, LibMsg ''DeploymentReadyInitMessage'' []),
        (TLSInputReadyCondition, LibMsg ''InputReadyInitMessage'' []),
        (KeystoneEndpointReadyCondition, Msg [] []),
        (NetworkAttachmentsReadyCondition, LibMsg ''NetworkAttachmentsReadyInitMessage'' []),
        (CronJobReadyCondition, LibMsg ''CronJobReadyInitMessage'' [])]"

text \<open>
  The topology condition the source adds to its list after the list was used has no effect, and
  none here.
\<close>

definition API_handle :: "env \<Rightarrow> bool \<Rightarrow> GlanceAPI \<Rightarrow> (GlanceAPI world, reconcile_result, reconcile_result) act" where
  "API_handle E isNewInstance i =
     (let (fs, added) = AddFinalizer E (o_Finalizers i);
          deleting = o_Deleted i in
      seq (set_api (\<lambda>s. s\<lparr>as_ObservedGeneration := o_Generation i\<rparr>))
     (seq (whenever (\<not> deleting) (set_inst (\<lambda>i. i\<lparr>o_Finalizers := fs\<rparr>)))
     (seq (whenever ((\<not> deleting \<and> added) \<or> isNewInstance) (exit_with (EmptyResult, None)))
     (seq (set_api (\<lambda>s. s\<lparr>as_Hash := Some (the_map (as_Hash s)),
                          as_APIEndpoints := Some (the_map (as_APIEndpoints s)),
                          as_NetworkAttachments := Some (the_map (as_NetworkAttachments s))\<rparr>))
          (if deleting then API_reconcileDelete E else API_reconcileNormal E)))))"

definition API_body :: "env \<Rightarrow> bool \<Rightarrow> (GlanceAPI world, 'r, reconcile_result) act" where
  "API_body E isNewInstance =
     fn (bind (read (\<lambda>i. i)) (\<lambda>i.
         seq (cond (CInit api_conditions)) (API_handle E isNewInstance i)))"

definition API_Reconcile :: "env \<Rightarrow> string \<Rightarrow> string \<Rightarrow> call list \<Rightarrow> reconcile_result go \<times> call list" where
  "API_Reconcile E ns name tr0 =
     (let tr1 = CGetGlanceAPI ns name # tr0 in
      case resp_api E tr1 of
        Inl err \<Rightarrow> (Ret (EmptyResult, if IsNotFound err then None else Some err), tr1)
      | Inr i \<Rightarrow>
          (let tr2 = CNewHelper # tr1 in
           case resp_err E tr2 of
             Some err \<Rightarrow> (Ret (EmptyResult, Some err), tr2)
           | None \<Rightarrow>
               (let conds = as_Conditions (AStatus i) in
                case API_body E (conds = None)
                       \<lparr>w_inst = i, w_conds = (case conds of None \<Rightarrow> [] | Some l \<Rightarrow> l), w_trace = tr2\<rparr> of
                  (Crash p, w) \<Rightarrow> (Panic p, w_trace w)
                | (Return r, w) \<Rightarrow> (Ret r, w_trace w)
                | (Next (result, err), w) \<Rightarrow>
                    (let tr3 = CPatchGlanceAPI (w_inst w) (deferred_conditions E (w_conds w)) # w_trace w in
                     case resp_err E tr3 of
                       Some e \<Rightarrow> (Ret (result, Some e), tr3)
                     | None \<Rightarrow> (Ret (result, err), tr3)))))"

end
