(* ===== verification/APISteps.thy ===== *)
theory APISteps
  imports Triples GlanceAPICtl
begin

text \<open>
  The steps of the GlanceAPI controller: what each part of a reconcile may call, and that no
  part changes the specification or the name of the instance.
\<close>

section \<open>The parts of reconcileNormal\<close>

lemmas api_phase_defs =
  API_normal_secret_def API_normal_refresh_def API_normal_backends_def API_normal_tls_def
  API_normal_networks_def API_normal_init_def API_normal_config_def API_normal_credential_def
  API_normal_topology_def API_normal_deploy_def API_normal_claims_def API_normal_cache_def
  API_normal_rotation_def API_normal_ready_def

lemmas api_helper_defs =
  createHashOfInputHashes_def createHashOfBackendConfig_def glanceAPIRefresh_def ensureKeystoneEndpoints_def
  ensureDeletedEndpoints_def getEndpointID_def GetHorizonEndpoint_def cache_pvcs_def ensureImageCacheJob_def
  deleteJob_def cleanupImageCacheJob_def reconcilePVCLabels_def custom_secrets_def ac_params_def
  notification_params_def API_generateServiceConfig_def expose_one_def API_reconcileInit_def init_keystone_endpoint_def
  API_reconcileDelete_def backend_case_def tls_error_def config_error_def network_error_def verify_networks_def
  deployment_status_def ensure_memcached_def

section \<open>What stays the same\<close>

definition same_api :: "GlanceAPI world \<Rightarrow> GlanceAPI world \<Rightarrow> bool" where
  "same_api w w' \<longleftrightarrow>
     (let i = w_inst w; i' = w_inst w' in
      ASpec i' = ASpec i \<and> o_Name i' = o_Name i \<and> o_Namespace i' = o_Namespace i \<and>
      o_Labels i' = o_Labels i \<and> o_Annotations i' = o_Annotations i \<and>
      as_ApplicationCredentialSecret (AStatus i') = as_ApplicationCredentialSecret (AStatus i))"

interpretation identity: step_order same_api
  by unfold_locales (auto simp: same_api_def Let_def)

lemma same_world:
  "keeps same_api (call c f)" "keeps same_api (cond op)" "keeps same_api (read h)"
  "keeps same_api (set_false t r s m)" "keeps same_api (set_error t msg e)" "keeps same_api (mark_true t msg)"
  "keeps same_api (mark_false t r s m)"
  by (simp_all add: keeps_def call_def cond_def modify_def read_def gets_def set_false_def set_error_def
      mark_true_def mark_false_def same_api_def)

lemma same_set_api:
  "(\<And>s. as_ApplicationCredentialSecret (f s) = as_ApplicationCredentialSecret s) \<Longrightarrow> keeps same_api (set_api f)"
  by (simp add: keeps_def set_api_def set_inst_def modify_def same_api_def Let_def)

lemma same_shared:
  "keeps same_api (verifyServiceSecret E ns n fs d vars)" "keeps same_api (ensureNAD E ns nAttach)"
  "keeps same_api (GenerateConfigsGeneric E name ns kind ps cd ls scripts)"
  "keeps same_api (GetPvcListWithLabel E ns labels)" "keeps same_api (GetHeadlessService E labels)"
proof -
  have dom: "keeps same_api (set_inst (\<lambda>i. i\<lparr>AStatus := (AStatus i)\<lparr>as_Domain := d\<rparr>\<rparr>))" for d
    by (simp add: keeps_def set_inst_def modify_def same_api_def Let_def)
  show "keeps same_api (verifyServiceSecret E ns n fs d vars)" "keeps same_api (ensureNAD E ns nAttach)"
    "keeps same_api (GenerateConfigsGeneric E name ns kind ps cd ls scripts)"
    "keeps same_api (GetPvcListWithLabel E ns labels)" "keeps same_api (GetHeadlessService E labels)"
    unfolding verifyServiceSecret_def ensureNAD_def nad_step_def GenerateConfigsGeneric_def
      GetPvcListWithLabel_def GetHeadlessService_def
    by (intro same_world dom identity.keeps_rules)+
qed

lemmas same_rules = same_shared same_world same_set_api identity.keeps_rules

lemma phases_same:
  "keeps same_api (API_normal_secret E)" "keeps same_api (ensure_memcached E n ns)"
  "keeps same_api (API_normal_refresh E bs)" "keeps same_api (API_normal_backends E bs)"
  "keeps same_api (API_normal_tls E vars)" "keeps same_api (API_normal_networks E)"
  "keeps same_api (API_normal_init E)" "keeps same_api (API_normal_config E mc bc vars)"
  "keeps same_api (API_normal_credential E)" "keeps same_api (API_normal_topology E)"
  "keeps same_api (API_normal_deploy E h sa p t ws mc)" "keeps same_api (API_normal_claims E)"
  "keeps same_api (API_normal_cache E sa)" "keeps same_api (API_normal_ready E)"
  unfolding api_phase_defs api_helper_defs Let_def by (intro same_rules; simp)+

section \<open>What is called\<close>

lemma only_set_api: "keeps (only C D) (set_api f)"
  unfolding set_api_def by (rule only_read)

lemmas api_rules = only_set_api only_shared only_rules

text \<open>The calls of a reconcile that touch a StatefulSet, or a finalizer of a credential.\<close>

definition writes_sts :: "call \<Rightarrow> bool" where
  "writes_sts c \<longleftrightarrow> (case c of CStatefulSet d \<Rightarrow> True | _ \<Rightarrow> False)"

definition holds_credential :: "call \<Rightarrow> bool" where
  "holds_credential c \<longleftrightarrow>
     (case c of CManageACSecretFinalizer _ _ _ _ \<Rightarrow> True | CRemoveACSecretConsumerFinalizer _ _ _ \<Rightarrow> True
      | _ \<Rightarrow> False)"

definition reads_api :: "call \<Rightarrow> bool" where
  "reads_api c \<longleftrightarrow> (case c of CGetGlanceAPI _ _ \<Rightarrow> True | _ \<Rightarrow> False)"

definition plain_call :: "call \<Rightarrow> bool" where
  "plain_call c \<longleftrightarrow> \<not> writes_sts c \<and> \<not> holds_credential c \<and> \<not> reads_api c"

lemmas call_kinds = plain_call_def writes_sts_def holds_credential_def reads_api_def

lemma phases_plain:
  "keeps (only plain_call not_ready) (API_normal_secret E)"
  "keeps (only plain_call not_ready) (ensure_memcached E n ns)"
  "keeps (only plain_call not_ready) (API_normal_refresh E bs)"
  "keeps (only plain_call not_ready) (API_normal_backends E bs)"
  "keeps (only plain_call not_ready) (API_normal_tls E vars)"
  "keeps (only plain_call not_ready) (API_normal_networks E)"
  "keeps (only plain_call not_ready) (API_normal_init E)"
  "keeps (only plain_call not_ready) (API_normal_config E mc bc vars)"
  "keeps (only plain_call not_ready) (API_normal_topology E)"
  "keeps (only plain_call not_ready) (API_normal_claims E)"
  "keeps (only plain_call not_ready) (API_normal_cache E sa)"
  unfolding api_phase_defs api_helper_defs Let_def by (intro api_rules; simp add: call_kinds)+

end
