(* ===== verification/APIRun.thy ===== *)
theory APIRun
  imports Sample GlanceAPICtl
begin

text \<open>
  A run of the GlanceAPI controller in the sample environment: an instance whose application
  credential was rotated is deployed with the new one, becomes Ready, and lets the old one go.
\<close>

lemmas api_run_simps = run_defs world_defs Let_def set_api_def

lemma sts_run:
  assumes "a_APIType (ASpec i) = ''internal''" "a_ExtraMounts (ASpec i) = []"
    "t_TLS (ASpec i) = \<lparr>CaBundleSecretName = [], TLSInternalSecretName = None, TLSPublicSecretName = None\<rparr>"
    "Size (t_ImageCache (ASpec i)) = []" "StorageRequest (t_Storage (ASpec i)) \<noteq> []"
  shows "\<exists>sts. StatefulSet ref_lib ov i h labels ann p t ws [] = Ret (Some sts, None)"
proof -
  have "sorted_endpoints ''internal'' = [EndpointInternal]" by code_simp
  then have "\<exists>vs ms. api_volumes ref_lib i [] = Inr (vs, ms)"
    using assms by (simp add: api_volumes_def tls_mounts_def ref_lib_def Let_def endpoint_secret_def)
  moreover have "\<exists>claims. claim_templates ref_lib i labels = (claims, None)"
    using assms by (simp add: claim_templates_def GetPvc_def ref_lib_def Let_def)
  moreover have "\<exists>vols. GetVolumes ref_lib (o_Name i) p ss (a_ExtraMounts (ASpec i)) svc = Ret vols" for ss svc
    using assms by (simp add: GetVolumes_def)
  moreover have "\<exists>probes. CreateProbeSet ref_lib pt u o' d = Inr probes" for pt u o' d
    by (simp add: ref_lib_def)
  ultimately obtain vs ms claims vols probes where
    "api_volumes ref_lib i [] = Inr (vs, ms)" "claim_templates ref_lib i labels = (claims, None)"
    "GetVolumes ref_lib (o_Name i) p (t_CustomServiceConfigSecrets (ASpec i)) (a_ExtraMounts (ASpec i)) (propagation i) =
       Ret vols"
    "CreateProbeSet ref_lib (sts_port i) (glanceURIScheme ref_lib i) (Probes (t_Override (ASpec i)))
       (GetDefaultProbesAPI ov (t_APITimeout (ASpec i))) = Inr probes"
    by blast
  then show ?thesis by (simp add: StatefulSet_def Let_def)
qed


definition sample_sts ::
  "GlanceAPI \<Rightarrow> string \<Rightarrow> string gomap \<Rightarrow> string gomap \<Rightarrow> bool \<Rightarrow> opaque option \<Rightarrow> bool \<Rightarrow> StatefulSetObj" where
  "sample_sts i h labels ann p t ws =
     (case StatefulSet ref_lib (\<lambda>_. 0) i h labels ann p t ws [] of Ret (Some s, None) \<Rightarrow> s)"

lemma sample_sts:
  assumes "a_APIType (ASpec i) = ''internal''" "a_ExtraMounts (ASpec i) = []"
    "t_TLS (ASpec i) = \<lparr>CaBundleSecretName = [], TLSInternalSecretName = None, TLSPublicSecretName = None\<rparr>"
    "Size (t_ImageCache (ASpec i)) = []" "StorageRequest (t_Storage (ASpec i)) \<noteq> []"
  shows "StatefulSet ref_lib (\<lambda>_. 0) i h labels ann p t ws [] = Ret (Some (sample_sts i h labels ann p t ws), None)"
  using sts_run [OF assms, of "\<lambda>_. 0" h labels ann p t ws] by (auto simp: sample_sts_def)

text \<open>An internal API without TLS, image cache, extra configuration, networks and overrides.\<close>

definition plain_api :: "GlanceAPI \<Rightarrow> bool" where
  "plain_api i \<longleftrightarrow>
     a_APIType (ASpec i) = ''internal'' \<and> a_ExtraMounts (ASpec i) = [] \<and> Size (t_ImageCache (ASpec i)) = [] \<and>
     t_TLS (ASpec i) = \<lparr>CaBundleSecretName = [], TLSInternalSecretName = None, TLSPublicSecretName = None\<rparr> \<and>
     StorageRequest (t_Storage (ASpec i)) \<noteq> [] \<and> t_CustomServiceConfig (ASpec i) = [] \<and>
     t_CustomServiceConfigSecrets (ASpec i) = [] \<and> t_NetworkAttachments (ASpec i) = [] \<and>
     Service (t_Override (ASpec i)) = [] \<and> a_NotificationBusSecret (ASpec i) = [] \<and>
     t_TopologyRef (ASpec i) = None \<and> t_Replicas (ASpec i) = Some 1 \<and> o_Annotations i = [] \<and>
     a_Secret (ASpec i) = ''osp'' \<and> a_PasswordSelectors (ASpec i) = \<lparr>ps_Service = ''GlancePassword''\<rparr> \<and>
     ApplicationCredentialSecret (t_Auth (ASpec i)) \<noteq> [] \<and> as_Hash (AStatus i) = Some []"

text \<open>The phases, in the order of \<^verbatim>\<open>reconcileNormal\<close>.\<close>

lemma no_backends: "GetEnabledBackends [] = Ret []" by code_simp

lemma one_endpoint: "sorted_endpoints ''internal'' = [EndpointInternal]" by code_simp

lemma api_normal_run:
  assumes "plain_api i"
  shows "\<exists>w' l. API_reconcileNormal (sample_env g a)
       \<lparr>w_inst = i, w_conds = [CInit api_conditions], w_trace = tr\<rparr> = (Next (EmptyResult, None), w') \<and>
       w_conds w' = CMarkTrue ReadyCondition (LibMsg ''ReadyMessage'' []) # l \<and>
       (\<exists>d. CStatefulSet d \<in> set (w_trace w'))"
  using assms
  apply (simp add: API_reconcileNormal_def API_normal_secret_def verifyServiceSecret_def api_run_simps plain_api_def)
  apply (simp add: ensure_memcached_def no_backends api_run_simps)
  apply (simp add: API_normal_refresh_def createHashOfBackendConfig_def api_run_simps)
  apply (simp add: glanceAPIRefresh_def API_normal_backends_def API_normal_tls_def api_run_simps)
  apply (simp add: API_normal_networks_def ensureNAD_def api_run_simps)
  apply (simp add: API_normal_init_def API_reconcileInit_def init_keystone_endpoint_def one_endpoint expose_one_def GetHeadlessService_def api_run_simps yes_def)
  apply (simp add: ensureKeystoneEndpoints_def api_run_simps)
  apply (simp add: API_normal_config_def API_generateServiceConfig_def custom_secrets_def getEndpointID_def
      api_run_simps map_str_def)
  apply (simp add: ac_params_def cache_params_def notification_params_def GetHorizonEndpoint_def GenerateConfigsGeneric_def
      createHashOfInputHashes_def api_run_simps map_str_def KeystoneEndpointAnnotation_def)
  apply (simp add: API_normal_credential_def API_normal_topology_def api_run_simps)
  apply (simp add: API_normal_deploy_def sample_sts api_run_simps)
  apply (simp add: deployment_status_def verify_networks_def api_replicas_def api_run_simps)
  apply (simp add: API_normal_claims_def reconcilePVCLabels_def api_run_simps)
  apply (simp add: API_normal_cache_def cleanupImageCacheJob_def cache_pvcs_def GetPvcListWithLabel_def api_run_simps)
  apply (simp add: API_normal_rotation_def API_normal_ready_def api_run_simps)
  apply (simp add: cond_all_sub_true_def all_ctypes_def api_conditions_def UnknownCondition_def TrueCondition_def)
  apply blast
  done

definition rotated_api :: GlanceAPI where
  "rotated_api =
     (let i = sample_api ''a'' ''internal'' in
      i\<lparr>o_Finalizers := [''fin''],
        ASpec := (ASpec i)\<lparr>t_Auth := \<lparr>ApplicationCredentialSecret = ''new''\<rparr>, a_Secret := ''osp'',
          t_Storage := \<lparr>StorageClass = [], StorageRequest = ''1G'', External = False\<rparr>\<rparr>,
        AStatus := (AStatus i)\<lparr>as_Conditions := Some [], as_ApplicationCredentialSecret := ''old''\<rparr>\<rparr>)"

definition handled_api :: GlanceAPI where
  "handled_api = rotated_api\<lparr>AStatus := (AStatus rotated_api)
     \<lparr>as_ObservedGeneration := o_Generation rotated_api, as_Hash := Some [], as_APIEndpoints := Some [],
      as_NetworkAttachments := Some []\<rparr>\<rparr>"

lemma plain_handled: "plain_api handled_api"
  by (simp add: plain_api_def handled_api_def rotated_api_def sample_api_def Let_def)

lemma api_reconcile_run:
  "\<exists>r inst log tr. API_Reconcile (sample_env g rotated_api) ''ns'' ''a'' tr0 = (Ret r, CPatchGlanceAPI inst log # tr) \<and>
     marked ReadyCondition (since_init log) \<and> (\<exists>d. CStatefulSet d \<in> set tr)"
proof -
  let ?E = "sample_env g rotated_api"
  from api_normal_run [OF plain_handled, of g rotated_api "CNewHelper # CGetGlanceAPI ''ns'' ''a'' # tr0"] obtain w' l d where
    run: "API_reconcileNormal ?E
       \<lparr>w_inst = handled_api, w_conds = [CInit api_conditions], w_trace = CNewHelper # CGetGlanceAPI ''ns'' ''a'' # tr0\<rparr> =
       ((Next (EmptyResult, None), w') :: (reconcile_result, reconcile_result) out \<times> GlanceAPI world)"
    and w': "w_conds w' = CMarkTrue ReadyCondition (LibMsg ''ReadyMessage'' []) # l" "CStatefulSet d \<in> set (w_trace w')"
    by blast
  have "API_body ?E False
      \<lparr>w_inst = rotated_api, w_conds = [], w_trace = CNewHelper # CGetGlanceAPI ''ns'' ''a'' # tr0\<rparr> =
      ((Next (EmptyResult, None), w') :: (reconcile_result, reconcile_result) out \<times> GlanceAPI world)"
    using run
    by (simp add: API_body_def API_handle_def api_run_simps handled_api_def rotated_api_def sample_api_def the_map_def)
  then show ?thesis using w'
    by (simp add: API_Reconcile_def Let_def rotated_api_def sample_api_def deferred_conditions_def cond_is_unknown_def
        TrueCondition_def since_init_def marked_def) metis
qed
end
