(* ===== verification/Credentials.thy ===== *)
theory Credentials
  imports APISteps APIRun
begin

text \<open>
  Who holds an application credential. A GlanceAPI protects the secret of the credential its pods
  use with a consumer finalizer; a rotation changes the secret named by the specification. The
  abstract protocol has three steps: acquire the finalizer of a secret, deploy the pods with a
  secret that is held, release a secret that is not deployed. The reconciles of the controller,
  in any order, with any answers of the environment and any change of the specification between
  them, refine it.
\<close>

section \<open>The protocol\<close>

record credential_state =
  held :: "string set"
  deployed :: string

inductive uses :: "credential_state \<Rightarrow> credential_state \<Rightarrow> bool" where
  acquire: "uses s (s\<lparr>held := insert c (held s)\<rparr>)"
| deploy: "c = [] \<or> c \<in> held s \<Longrightarrow> uses s (s\<lparr>deployed := c\<rparr>)"
| release: "c \<noteq> deployed s \<Longrightarrow> uses s (s\<lparr>held := held s - {c}\<rparr>)"

definition protected :: "credential_state \<Rightarrow> bool" where
  "protected s \<longleftrightarrow> deployed s = [] \<or> deployed s \<in> held s"

lemma uses_protected: "uses s s' \<Longrightarrow> protected s \<Longrightarrow> protected s'"
  by (induction rule: uses.induct) (auto simp: protected_def)

section \<open>The interface: a concrete system that simulates an abstract one\<close>

locale simulation =
  fixes cstep :: "'c \<Rightarrow> 'c \<Rightarrow> bool" and abstraction :: "'c \<Rightarrow> 'a" and astep :: "'a \<Rightarrow> 'a \<Rightarrow> bool"
  assumes simulates: "cstep c c' \<Longrightarrow> astep\<^sup>*\<^sup>* (abstraction c) (abstraction c')"
begin

lemma simulates_many: "cstep\<^sup>*\<^sup>* c c' \<Longrightarrow> astep\<^sup>*\<^sup>* (abstraction c) (abstraction c')"
  by (induction rule: rtranclp_induct) (auto dest: simulates intro: rtranclp_trans)

lemma invariant:
  assumes "\<And>a a'. astep a a' \<Longrightarrow> I a \<Longrightarrow> I a'" and "cstep\<^sup>*\<^sup>* c c'" and "I (abstraction c)"
  shows "I (abstraction c')"
proof -
  from simulates_many [OF assms(2)] have "astep\<^sup>*\<^sup>* (abstraction c) (abstraction c')" .
  then show ?thesis using assms(3) by (induction rule: rtranclp_induct) (auto dest: assms(1))
qed

end

section \<open>The state of the protocol in a trace\<close>

text \<open>
  \<open>spec_credential\<close> is the secret named by the last read of the instance. A call that adds a
  finalizer counts when it succeeds, one that removes a finalizer counts in any case, and so
  does one that writes the StatefulSet. The trace is that of the reconciles of one instance.
\<close>

definition credential_of :: "GlanceAPI \<Rightarrow> string" where
  "credential_of i = ApplicationCredentialSecret (t_Auth (ASpec i))"

primrec spec_credential :: "env \<Rightarrow> call list \<Rightarrow> string" where
  "spec_credential E [] = []"
| "spec_credential E (c # tr) =
     (case c of
        CGetGlanceAPI n m \<Rightarrow> (case resp_api E (c # tr) of Inr i \<Rightarrow> credential_of i | Inl _ \<Rightarrow> spec_credential E tr)
      | _ \<Rightarrow> spec_credential E tr)"

primrec credentials :: "env \<Rightarrow> string \<Rightarrow> string \<Rightarrow> call list \<Rightarrow> credential_state" where
  "credentials E ns fin [] = \<lparr>held = {}, deployed = []\<rparr>"
| "credentials E ns fin (c # tr) =
     (let s = credentials E ns fin tr in
      case c of
        CManageACSecretFinalizer n new old f \<Rightarrow>
          if n = ns \<and> f = fin \<and> resp_err E (c # tr) = None
          then s\<lparr>held := insert new (held s - (if old = [] then {} else {old}))\<rparr> else s
      | CRemoveACSecretConsumerFinalizer n secret f \<Rightarrow>
          if n = ns \<and> f = fin then s\<lparr>held := held s - {secret}\<rparr> else s
      | CStatefulSet d \<Rightarrow> s\<lparr>deployed := spec_credential E tr\<rparr>
      | _ \<Rightarrow> s)"

lemma credentials_plain [simp]:
  "plain_call c \<Longrightarrow> credentials E ns fin (c # tr) = credentials E ns fin tr"
  "plain_call c \<Longrightarrow> spec_credential E (c # tr) = spec_credential E tr"
  by (cases c; simp add: call_kinds)+

lemma credentials_calls [simp]:
  "credentials E ns fin (CStatefulSet d # tr) =
     (credentials E ns fin tr)\<lparr>deployed := spec_credential E tr\<rparr>"
  "spec_credential E (CStatefulSet d # tr) = spec_credential E tr"
  "credentials E ns fin (CManageACSecretFinalizer ns new [] fin # tr) =
     (let s = credentials E ns fin tr in
      if resp_err E (CManageACSecretFinalizer ns new [] fin # tr) = None then s\<lparr>held := insert new (held s)\<rparr> else s)"
  "spec_credential E (CManageACSecretFinalizer n new old f # tr) = spec_credential E tr"
  "credentials E ns fin (CRemoveACSecretConsumerFinalizer ns c fin # tr) =
     (let s = credentials E ns fin tr in s\<lparr>held := held s - {c}\<rparr>)"
  "spec_credential E (CRemoveACSecretConsumerFinalizer n c f # tr) = spec_credential E tr"
  "credentials E ns fin (CGetGlanceAPI n m # tr) = credentials E ns fin tr"
  "resp_api E (CGetGlanceAPI n m # tr) = Inr i \<Longrightarrow> spec_credential E (CGetGlanceAPI n m # tr) = credential_of i"
  by (simp_all add: Let_def)

declare credentials.simps(2) [simp del] and spec_credential.simps(2) [simp del]

lemma credentials_plains:
  "list_all plain_call l \<Longrightarrow> credentials E ns fin (l @ tr) = credentials E ns fin tr"
  "list_all plain_call l \<Longrightarrow> spec_credential E (l @ tr) = spec_credential E tr"
  by (induction l) simp_all

section \<open>A reconcile of a live instance\<close>

text \<open>\<open>live E i tr0 w\<close>: the run began with \<open>i\<close> and has followed the protocol from \<open>tr0\<close> on.\<close>

definition follows :: "env \<Rightarrow> GlanceAPI \<Rightarrow> call list \<Rightarrow> GlanceAPI world \<Rightarrow> bool" where
  "follows E i tr0 w \<longleftrightarrow>
     uses\<^sup>*\<^sup>* (credentials E (o_Namespace i) (ACConsumerFinalizerName i) tr0)
            (credentials E (o_Namespace i) (ACConsumerFinalizerName i) (w_trace w))"

definition same_as :: "GlanceAPI \<Rightarrow> GlanceAPI \<Rightarrow> bool" where
  "same_as i j \<longleftrightarrow>
     ASpec j = ASpec i \<and> o_Name j = o_Name i \<and> o_Namespace j = o_Namespace i \<and> o_Labels j = o_Labels i \<and>
     as_ApplicationCredentialSecret (AStatus j) = as_ApplicationCredentialSecret (AStatus i)"

definition live :: "env \<Rightarrow> GlanceAPI \<Rightarrow> call list \<Rightarrow> GlanceAPI world \<Rightarrow> bool" where
  "live E i tr0 w \<longleftrightarrow>
     follows E i tr0 w \<and> same_as i (w_inst w) \<and> spec_credential E (w_trace w) = credential_of i"

abbreviation creds :: "env \<Rightarrow> GlanceAPI \<Rightarrow> GlanceAPI world \<Rightarrow> credential_state" where
  "creds E i w \<equiv> credentials E (o_Namespace i) (ACConsumerFinalizerName i) (w_trace w)"

definition acquired :: "env \<Rightarrow> GlanceAPI \<Rightarrow> call list \<Rightarrow> GlanceAPI world \<Rightarrow> bool" where
  "acquired E i tr0 w \<longleftrightarrow>
     live E i tr0 w \<and> (credential_of i = [] \<or> credential_of i \<in> held (creds E i w))"

definition rolled_out :: "env \<Rightarrow> GlanceAPI \<Rightarrow> call list \<Rightarrow> GlanceAPI world \<Rightarrow> bool" where
  "rolled_out E i tr0 w \<longleftrightarrow> live E i tr0 w \<and> deployed (creds E i w) = credential_of i"

lemma same_as_fields:
  "same_as i j \<Longrightarrow> o_Namespace j = o_Namespace i" "same_as i j \<Longrightarrow> ACConsumerFinalizerName j = ACConsumerFinalizerName i"
  "same_as i j \<Longrightarrow> credential_of j = credential_of i" "same_as i j \<Longrightarrow> ASpec j = ASpec i"
  by (simp_all add: same_as_def ACConsumerFinalizerName_def APIName_def credential_of_def)

lemma same_as_step: "same_as i (w_inst w) \<Longrightarrow> same_api w w' \<Longrightarrow> same_as i (w_inst w')"
  by (auto simp: same_as_def same_api_def Let_def)

text \<open>The parts of the run that are plain keep all of these.\<close>

definition plain_step :: "GlanceAPI world \<Rightarrow> GlanceAPI world \<Rightarrow> bool" where
  "plain_step w w' \<longleftrightarrow> same_api w w' \<and> only plain_call any_op w w'"

lemma plain_step_creds:
  assumes "plain_step w w'"
  shows "credentials E ns fin (w_trace w') = credentials E ns fin (w_trace w)"
    and "spec_credential E (w_trace w') = spec_credential E (w_trace w)"
  using assms by (auto simp: plain_step_def only_def credentials_plains)

lemma plain_keeps:
  "keeps same_api m \<Longrightarrow> keeps (only plain_call D) m \<Longrightarrow> keeps plain_step m"
  by (auto simp: keeps_def plain_step_def intro: only_mono)

lemmas plain_phases =
  plain_keeps [OF phases_same(1) phases_plain(1)] plain_keeps [OF phases_same(2) phases_plain(2)]
  plain_keeps [OF phases_same(3) phases_plain(3)] plain_keeps [OF phases_same(4) phases_plain(4)]
  plain_keeps [OF phases_same(5) phases_plain(5)] plain_keeps [OF phases_same(6) phases_plain(6)]
  plain_keeps [OF phases_same(7) phases_plain(7)] plain_keeps [OF phases_same(8) phases_plain(8)]
  plain_keeps [OF phases_same(10) phases_plain(9)] plain_keeps [OF phases_same(12) phases_plain(10)]
  plain_keeps [OF phases_same(13) phases_plain(11)]

lemma plain_live: "live E i tr0 w \<Longrightarrow> plain_step w w' \<Longrightarrow> live E i tr0 w'"
  using same_as_step by (auto simp: live_def follows_def plain_step_creds) (auto simp: plain_step_def)

lemma plain_acquired: "acquired E i tr0 w \<Longrightarrow> plain_step w w' \<Longrightarrow> acquired E i tr0 w'"
  using plain_live by (auto simp: acquired_def plain_step_creds)

lemma plain_rolled_out: "rolled_out E i tr0 w \<Longrightarrow> plain_step w w' \<Longrightarrow> rolled_out E i tr0 w'"
  using plain_live by (auto simp: rolled_out_def plain_step_creds)

lemma followed:
  "live E i tr0 w \<Longrightarrow> follows E i tr0 w" "acquired E i tr0 w \<Longrightarrow> follows E i tr0 w"
  "rolled_out E i tr0 w \<Longrightarrow> follows E i tr0 w"
  by (simp_all add: live_def acquired_def rolled_out_def)

lemma plain_holds:
  assumes "keeps plain_step m"
  shows "holds (live E i tr0) m (live E i tr0) (follows E i tr0)"
    and "holds (acquired E i tr0) m (acquired E i tr0) (follows E i tr0)"
    and "holds (rolled_out E i tr0) m (rolled_out E i tr0) (follows E i tr0)"
  by (intro holds_keeps [OF assms]; (elim plain_live plain_acquired plain_rolled_out | rule followed); assumption)+

section \<open>The steps that are not plain\<close>

lemma follows_step:
  "follows E i tr0 w \<Longrightarrow> uses (creds E i w) (creds E i w') \<Longrightarrow> follows E i tr0 w'"
  unfolding follows_def by (rule rtranclp.rtrancl_into_rtrancl)

lemma acquire_step:
  assumes "live E i tr0 w" and c: "c = CManageACSecretFinalizer (o_Namespace i) (credential_of i) [] (ACConsumerFinalizerName i)"
    and "w_trace w' = c # w_trace w" and "w_inst w' = w_inst w"
  shows "live E i tr0 w'" and "resp_err E (c # w_trace w) = None \<Longrightarrow> acquired E i tr0 w'"
proof -
  have "follows E i tr0 w'"
    using assms(1,3) followed(1) follows_step [of E i tr0 w w'] uses.acquire [of "creds E i w" "credential_of i"]
    by (cases "resp_err E (c # w_trace w)") (auto simp: c follows_def Let_def)
  then show "live E i tr0 w'" using assms by (simp add: live_def)
  then show "resp_err E (c # w_trace w) = None \<Longrightarrow> acquired E i tr0 w'"
    using assms(3) by (simp add: acquired_def c Let_def)
qed

lemma deploy_step:
  assumes "acquired E i tr0 w" and "w_trace w' = CStatefulSet d # w_trace w" and "w_inst w' = w_inst w"
  shows "rolled_out E i tr0 w'"
proof -
  have "follows E i tr0 w'"
    using assms followed(2) follows_step [of E i tr0 w w'] uses.deploy [of "credential_of i" "creds E i w"]
    by (auto simp: acquired_def live_def)
  then show ?thesis using assms by (simp add: rolled_out_def acquired_def live_def)
qed

lemma release_step:
  assumes "rolled_out E i tr0 w" and "c \<noteq> credential_of i"
    and "w_trace w' = CRemoveACSecretConsumerFinalizer (o_Namespace i) c (ACConsumerFinalizerName i) # w_trace w"
  shows "follows E i tr0 w'"
  using assms followed(3) follows_step [of E i tr0 w w'] uses.release [of c "creds E i w"]
  by (auto simp: rolled_out_def Let_def)

lemma plain_follows: "follows E i tr0 w \<Longrightarrow> plain_step w w' \<Longrightarrow> follows E i tr0 w'"
  by (simp add: follows_def plain_step_creds)

lemma follows_trace: "follows E i tr0 w \<Longrightarrow> w_trace w' = w_trace w \<Longrightarrow> follows E i tr0 w'"
  by (simp add: follows_def)

lemma acquired_same: "acquired E i tr0 w \<Longrightarrow> acquired E i tr0 (w\<lparr>w_conds := l\<rparr>)"
  by (simp add: acquired_def live_def follows_def)

lemma credential_holds:
  "holds (live E i tr0) (API_normal_credential E) (acquired E i tr0) (follows E i tr0)"
  unfolding triple_def
proof (intro allI impI)
  fix w :: "GlanceAPI world"
  assume w: "live E i tr0 w"
  then have i: "o_Namespace (w_inst w) = o_Namespace i" "ACConsumerFinalizerName (w_inst w) = ACConsumerFinalizerName i"
    "ApplicationCredentialSecret (t_Auth (ASpec (w_inst w))) = credential_of i"
    using same_as_fields(1-3) by (auto simp: live_def credential_of_def)
  let ?c = "CManageACSecretFinalizer (o_Namespace i) (credential_of i) [] (ACConsumerFinalizerName i)"
  note acq = acquire_step [OF w refl, of "w\<lparr>w_trace := ?c # w_trace w\<rparr>"]
  consider (none) "credential_of i = []" | (ok) "credential_of i \<noteq> []" "resp_err E (?c # w_trace w) = None"
    | (err) e where "credential_of i \<noteq> []" "resp_err E (?c # w_trace w) = Some e" by fastforce
  then show "case API_normal_credential E w of (Next x, s') \<Rightarrow> acquired E i tr0 s' | (Return r, s') \<Rightarrow> follows E i tr0 s'
        | (Crash p, s') \<Rightarrow> follows E i tr0 s'"
  proof cases
    case none
    with w have "acquired E i tr0 w" by (simp add: acquired_def)
    with none i show ?thesis
      by (simp add: API_normal_credential_def run_defs world_defs Let_def acquired_same)
  next
    case ok
    with acq i show ?thesis
      by (simp add: API_normal_credential_def run_defs world_defs Let_def acquired_same)
  next
    case err
    with acq(1) have "follows E i tr0 (w\<lparr>w_trace := ?c # w_trace w\<rparr>)" by (simp add: followed)
    with err i show ?thesis
      by (simp add: API_normal_credential_def config_error_def run_defs world_defs Let_def follows_def)
  qed
qed

lemma deploy_rest_plain:
  "keeps plain_step (must (ret err) (\<lambda>e. seq (set_error DeploymentReadyCondition ''DeploymentReadyErrorMessage'' e)
     (exit_with (r, Some e))))"
  "keeps plain_step (whenever b (seq (set_false DeploymentReadyCondition RequestedReason SeverityInfo
     (LibMsg ''DeploymentReadyRunningMessage'' [])) (exit_with (r, None :: go_error option))))"
  "keeps plain_step (deployment_status E obs n)"
  unfolding deployment_status_def verify_networks_def network_error_def Let_def
  by (intro plain_keeps [where D = any_op]; (intro same_rules | intro api_rules); simp add: call_kinds)+

lemma deploy_holds:
  "holds (acquired E i tr0) (API_normal_deploy E h sa p t ws mc) (rolled_out E i tr0) (follows E i tr0)"
proof -
  let ?A = "acquired E i tr0" and ?R = "rolled_out E i tr0" and ?F = "follows E i tr0"
  have go: "holds ?A (of_go g) ?A ?F" for g :: "'x go"
    by (rule triple_of_go) (simp_all add: followed)
  have err: "holds ?A (must (ret err) (\<lambda>e. exit_with (EmptyResult, Some e))) ?A ?F" for err
    by (cases err) (auto simp: triple_def run_defs followed)
  have sts: "holds ?A (case sts of None \<Rightarrow> crash NilDereference | Some d \<Rightarrow> call (CStatefulSet d) (resp_sts E)) ?R ?F" for sts
    by (cases sts) (auto simp: triple_def run_defs call_def followed intro: deploy_step)
  have rest: "holds ?R (seq (must (ret err) (\<lambda>e. seq (set_error DeploymentReadyCondition ''DeploymentReadyErrorMessage'' e)
      (exit_with (r, Some e)))) (seq (whenever (r \<noteq> EmptyResult) (seq (set_false DeploymentReadyCondition RequestedReason
      SeverityInfo (LibMsg ''DeploymentReadyRunningMessage'' [])) (exit_with (r, None)))) (deployment_status E obs n))) ?R ?F"
    for err r obs n
    by (rule triple_seq [OF plain_holds(3)], rule deploy_rest_plain)+ (rule plain_holds(3) [OF deploy_rest_plain(3)])
  show ?thesis
    unfolding API_normal_deploy_def
    apply (rule triple_bind [where Q = "\<lambda>_. ?A"], rule triple_read, assumption)
    apply (rule triple_bind [OF go], clarsimp split: prod.splits)
    apply (rule triple_seq [OF err], rule triple_bind [OF sts], clarsimp split: prod.splits)
    apply (rule rest)
    done
qed

lemma rotation_holds:
  "holds (rolled_out E i tr0) (API_normal_rotation E) (follows E i tr0) (follows E i tr0)"
  unfolding triple_def
proof (intro allI impI)
  fix w :: "GlanceAPI world"
  assume w: "rolled_out E i tr0 w"
  then have i: "o_Namespace (w_inst w) = o_Namespace i" "ACConsumerFinalizerName (w_inst w) = ACConsumerFinalizerName i"
    "ApplicationCredentialSecret (t_Auth (ASpec (w_inst w))) = credential_of i"
    using same_as_fields(1-3) by (auto simp: rolled_out_def live_def credential_of_def)
  let ?old = "as_ApplicationCredentialSecret (AStatus (w_inst w))"
  let ?c = "CRemoveACSecretConsumerFinalizer (o_Namespace i) ?old (ACConsumerFinalizerName i)"
  have rel: "?old \<noteq> credential_of i \<Longrightarrow> follows E i tr0 (w\<lparr>w_trace := ?c # w_trace w\<rparr>)"
    by (rule release_step [OF w]) simp_all
  show "case API_normal_rotation E w of (Next x, s') \<Rightarrow> follows E i tr0 s' | (Return r, s') \<Rightarrow> follows E i tr0 s'
        | (Crash p, s') \<Rightarrow> follows E i tr0 s'"
  proof (cases "?old \<noteq> [] \<and> ?old \<noteq> credential_of i \<and> all_sub_true E (w_conds w)")
    case True
    with rel i show ?thesis
      by (cases "resp_err E (?c # w_trace w)")
        (simp_all add: API_normal_rotation_def set_api_def run_defs world_defs Let_def follows_def)
  next
    case False
    with followed(3) [OF w] i show ?thesis
      by (auto simp: API_normal_rotation_def set_api_def run_defs world_defs Let_def follows_def)
  qed
qed

lemma ready_holds: "holds (follows E i tr0) (API_normal_ready E) (follows E i tr0) (follows E i tr0)"
  by (simp add: triple_def API_normal_ready_def run_defs world_defs follows_def)

lemma of_go_holds: "holds (live E i tr0) (of_go g) (live E i tr0) (follows E i tr0)"
  by (rule triple_of_go) (simp_all add: followed)

lemma normal_holds:
  "triple (live E i tr0) (API_reconcileNormal E) (\<lambda>_. follows E i tr0) X (follows E i tr0)"
  unfolding API_reconcileNormal_def
  apply (rule triple_fn)
  apply (rule triple_bind [OF plain_holds(1) [OF plain_phases(1)]])
  apply (rule triple_bind [where Q = "\<lambda>_. live E i tr0"], rule triple_read, assumption)
  apply (rule triple_bind [OF plain_holds(1) [OF plain_phases(2)]])
  apply (rule triple_bind [OF of_go_holds])
  apply (rule triple_seq [OF plain_holds(1) [OF plain_phases(3)]])
  apply (rule triple_bind [OF plain_holds(1) [OF plain_phases(4)]])
  apply (rule triple_bind [OF plain_holds(1) [OF plain_phases(5)]])
  apply (rule triple_bind [OF plain_holds(1) [OF plain_phases(6)]])
  apply (rule triple_seq [OF plain_holds(1) [OF plain_phases(7)]])
  apply (rule triple_bind [OF plain_holds(1) [OF plain_phases(8)]], clarsimp split: prod.splits)
  apply (rule triple_seq [OF credential_holds])
  apply (rule triple_bind [OF plain_holds(2) [OF plain_phases(9)]])
  apply (rule triple_seq [OF deploy_holds])
  apply (rule triple_seq [OF plain_holds(3) [OF plain_phases(10)]])
  apply (rule triple_seq [OF plain_holds(3) [OF plain_phases(11)]])
  apply (rule triple_seq [OF rotation_holds])
  apply (rule triple_seq [OF ready_holds])
  apply (rule triple_ret, assumption)
  done

lemma set_plain:
  "(\<And>s. as_ApplicationCredentialSecret (f s) = as_ApplicationCredentialSecret s) \<Longrightarrow> keeps plain_step (set_api f)"
  "keeps plain_step (whenever b (set_inst (\<lambda>i. i\<lparr>o_Finalizers := fs\<rparr>)))"
  "keeps plain_step (cond op)"
  by (simp_all add: keeps_def plain_step_def only_def set_api_def set_inst_def modify_def whenever_def ret_def
      same_api_def cond_def Let_def)

lemma handle_holds:
  assumes "\<not> o_Deleted j"
  shows "holds (live E i tr0) (API_handle E new j) (follows E i tr0) (follows E i tr0)"
proof -
  have exit: "holds (live E i tr0) (whenever b (exit_with r)) (live E i tr0) (follows E i tr0)" for b and r :: reconcile_result
    by (simp add: triple_def whenever_def run_defs followed)
  show ?thesis
    unfolding API_handle_def Let_def using assms
    apply (simp add: case_prod_unfold)
    apply (rule triple_seq [OF plain_holds(1)], rule set_plain, simp)
    apply (rule triple_seq [OF plain_holds(1)], rule set_plain)
    apply (rule triple_seq [OF exit])
    apply (rule triple_seq [OF plain_holds(1)], rule set_plain, simp)
    apply (rule normal_holds)
    done
qed

lemma body_holds:
  assumes "\<not> o_Deleted (w_inst w)" and "live E i tr0 w" and "API_body E new w = (out, w')"
  shows "follows E i tr0 w'"
proof -
  have "live E i tr0 (w\<lparr>w_conds := CInit api_conditions # w_conds w\<rparr>)"
    using assms(2) by (simp add: live_def follows_def)
  from tripleD [OF handle_holds [OF assms(1)] this] show ?thesis
    using assms(3) unfolding API_body_def
    by (auto simp: run_defs world_defs split: prod.splits out.splits)
qed

section \<open>Sequences of reconciles\<close>

text \<open>
  One step of the history of an instance: a reconcile that reads it while it is not being
  deleted, one that cannot read it, or a call of anybody else that touches neither a
  StatefulSet nor a finalizer.
\<close>

inductive reconciles :: "env \<Rightarrow> string \<Rightarrow> string \<Rightarrow> string \<Rightarrow> call list \<Rightarrow> call list \<Rightarrow> bool"
  for E :: env and ns name fin :: string where
  live: "\<lbrakk>resp_api E (CGetGlanceAPI ns name # tr) = Inr i; o_Namespace i = ns; ACConsumerFinalizerName i = fin;
     \<not> o_Deleted i; API_Reconcile E ns name tr = (r, tr')\<rbrakk> \<Longrightarrow> reconciles E ns name fin tr tr'"
| unread: "\<lbrakk>resp_api E (CGetGlanceAPI ns name # tr) = Inl e; API_Reconcile E ns name tr = (r, tr')\<rbrakk> \<Longrightarrow>
     reconciles E ns name fin tr tr'"
| other: "plain_call c \<Longrightarrow> reconciles E ns name fin tr (c # tr)"

lemma patch_plain: "plain_call (CPatchGlanceAPI i l)" "plain_call CNewHelper"
  by (simp_all add: call_kinds)

lemma live_uses:
  assumes read: "resp_api E (CGetGlanceAPI ns name # tr) = Inr i" and "\<not> o_Deleted i"
    and run: "API_Reconcile E ns name tr = (r, tr')"
  shows "uses\<^sup>*\<^sup>* (credentials E (o_Namespace i) (ACConsumerFinalizerName i) tr)
                 (credentials E (o_Namespace i) (ACConsumerFinalizerName i) tr')"
proof -
  let ?tr = "CNewHelper # CGetGlanceAPI ns name # tr"
  define w where "w = \<lparr>w_inst = i, w_conds = (case as_Conditions (AStatus i) of None \<Rightarrow> [] | Some l \<Rightarrow> l), w_trace = ?tr\<rparr>"
  obtain out w' where body: "API_body E (as_Conditions (AStatus i) = None) w =
      ((out, w') :: (reconcile_result, reconcile_result) out \<times> GlanceAPI world)" by fastforce
  have "live E i tr w" using read patch_plain by (simp add: live_def follows_def same_as_def w_def)
  with body have "follows E i tr w'" using body_holds [of w E i tr] assms(2) by (simp add: w_def)
  moreover have "tr' = ?tr \<or> tr' = w_trace w' \<or> (\<exists>l. tr' = CPatchGlanceAPI (w_inst w') l # w_trace w')"
    using run read body by (auto simp: API_Reconcile_def Let_def w_def split: option.splits out.splits)
  ultimately show ?thesis using read patch_plain by (auto simp: follows_def)
qed

lemma unread_same:
  assumes "resp_api E (CGetGlanceAPI ns name # tr) = Inl e" and "API_Reconcile E ns name tr = (r, tr')"
  shows "credentials E n fin tr' = credentials E n fin tr"
  using assms by (auto simp: API_Reconcile_def Let_def)

interpretation rotation: simulation "reconciles E ns name fin" "credentials E ns fin" uses
proof unfold_locales
  fix tr tr' :: "call list"
  assume "reconciles E ns name fin tr tr'"
  then show "uses\<^sup>*\<^sup>* (credentials E ns fin tr) (credentials E ns fin tr')"
    by (induction rule: reconciles.induct) (auto dest: live_uses simp: unread_same)
qed

section \<open>A history\<close>

lemma sample_history:
  fixes g :: Glance
  shows "\<exists>tr. reconciles (sample_env g rotated_api) ''ns'' ''a'' (ACConsumerFinalizerName rotated_api) [] tr \<and>
     (\<exists>d. CStatefulSet d \<in> set tr)"
proof -
  from api_reconcile_run [of g "[]"] obtain r inst log tr d where
    run: "API_Reconcile (sample_env g rotated_api) ''ns'' ''a'' [] = (Ret r, CPatchGlanceAPI inst log # tr)"
    and "CStatefulSet d \<in> set tr" by blast
  moreover have "reconciles (sample_env g rotated_api) ''ns'' ''a'' (ACConsumerFinalizerName rotated_api) []
      (CPatchGlanceAPI inst log # tr)"
    by (rule reconciles.live [OF _ _ refl _ run]) (simp_all add: rotated_api_def sample_api_def Let_def)
  ultimately show ?thesis by fastforce
qed

section \<open>Properties\<close>

text \<open>
  Property C2. Any sequence of reconciles of a live GlanceAPI, with any answers of the API
  server and the other services, failing status updates and panics included, refines the
  protocol: it acquires finalizers, deploys the pods with a credential that is held, and
  releases a credential that is not deployed.
\<close>

theorem rotation_refines_protocol:
  assumes "(reconciles E ns name fin)\<^sup>*\<^sup>* tr tr'"
  shows "uses\<^sup>*\<^sup>* (credentials E ns fin tr) (credentials E ns fin tr')"
  using assms by (rule rotation.simulates_many)

theorem rotation_refines_protocol_witness:
  "\<exists>(E :: env) fin tr. (\<exists>d. CStatefulSet d \<in> set tr) \<and> uses\<^sup>*\<^sup>* (credentials E ''ns'' fin []) (credentials E ''ns'' fin tr)"
proof -
  obtain tr d where tr: "(reconciles (sample_env undefined rotated_api) ''ns'' ''a'' (ACConsumerFinalizerName rotated_api))\<^sup>*\<^sup>* [] tr"
    and "CStatefulSet d \<in> set tr"
    using sample_history [of undefined] by blast
  with rotation_refines_protocol [OF tr] show ?thesis by blast
qed

text \<open>
  Property C1. In every history of a live GlanceAPI, the application credential the pods were
  last deployed with has the consumer finalizer of this GlanceAPI.
\<close>

theorem deployed_credential_is_held:
  assumes "(reconciles E ns name fin)\<^sup>*\<^sup>* [] tr"
  shows "deployed (credentials E ns fin tr) = [] \<or>
         deployed (credentials E ns fin tr) \<in> held (credentials E ns fin tr)"
proof -
  have "protected (credentials E ns fin tr)"
    by (rule rotation.invariant [OF uses_protected assms]) (simp_all add: protected_def)
  then show ?thesis by (simp add: protected_def)
qed

theorem deployed_credential_is_held_witness:
  "\<exists>(E :: env) fin tr. (\<exists>d. CStatefulSet d \<in> set tr) \<and>
     (deployed (credentials E ''ns'' fin tr) = [] \<or> deployed (credentials E ''ns'' fin tr) \<in> held (credentials E ''ns'' fin tr))"
proof -
  obtain tr d where tr: "(reconciles (sample_env undefined rotated_api) ''ns'' ''a'' (ACConsumerFinalizerName rotated_api))\<^sup>*\<^sup>* [] tr"
    and "CStatefulSet d \<in> set tr"
    using sample_history [of undefined] by blast
  with deployed_credential_is_held [OF tr] show ?thesis by blast
qed

end
