(* ===== verification/Releases.thy ===== *)
theory Releases
  imports Credentials
begin

text \<open>
  Which finalizers of application credentials a reconcile can take off, and the one that a
  rotation leaves behind when another overtakes it.
\<close>

section \<open>What a reconcile cannot release\<close>

text \<open>
  \<open>kept\<close>: a run of an instance that does not name \<open>c\<close>, so far with the finalizer on \<open>c\<close>. \<open>still\<close>: the
  finalizer is there and the status does not name \<open>c\<close>.
\<close>

definition kept :: "env \<Rightarrow> GlanceAPI \<Rightarrow> string \<Rightarrow> GlanceAPI world \<Rightarrow> bool" where
  "kept E i c w \<longleftrightarrow>
     same_as i (w_inst w) \<and> c \<in> held (creds E i w) \<and> c \<noteq> as_ApplicationCredentialSecret (AStatus i) \<and> c \<noteq> credential_of i"

definition still :: "env \<Rightarrow> GlanceAPI \<Rightarrow> string \<Rightarrow> GlanceAPI world \<Rightarrow> bool" where
  "still E i c w \<longleftrightarrow> c \<in> held (creds E i w) \<and> c \<noteq> as_ApplicationCredentialSecret (AStatus (w_inst w))"

lemma kept_still: "kept E i c w \<Longrightarrow> still E i c w"
  by (auto simp: kept_def still_def same_as_def)

lemma held_call:
  "\<not> holds_credential c \<Longrightarrow> held (credentials E ns fin (c # tr)) = held (credentials E ns fin tr)"
  by (cases c; simp add: call_kinds credentials.simps(2))

lemma held_calls:
  "list_all (\<lambda>c. \<not> holds_credential c) l \<Longrightarrow> held (credentials E ns fin (l @ tr)) = held (credentials E ns fin tr)"
  by (induction l) (simp_all add: held_call)

definition quiet_step :: "GlanceAPI world \<Rightarrow> GlanceAPI world \<Rightarrow> bool" where
  "quiet_step w w' \<longleftrightarrow> same_api w w' \<and> only (\<lambda>c. \<not> holds_credential c) any_op w w'"

lemma quiet_step_kept: "kept E i c w \<Longrightarrow> quiet_step w w' \<Longrightarrow> kept E i c w'"
  using same_as_step by (auto simp: kept_def quiet_step_def only_def held_calls)

lemma quiet_kept:
  assumes "keeps same_api m" and "keeps (only (\<lambda>c. \<not> holds_credential c) any_op) m"
  shows "holds (kept E i c) m (kept E i c) (still E i c)"
proof (rule holds_keeps)
  show "keeps quiet_step m" using assms by (simp add: keeps_def quiet_step_def)
qed (erule (1) quiet_step_kept, rule kept_still)

lemma phases_quiet:
  "keeps (only (\<lambda>c. \<not> holds_credential c) any_op) (API_normal_deploy E h sa p t ws mc)"
  "keeps (only (\<lambda>c. \<not> holds_credential c) any_op) (API_normal_ready E)"
  "keeps (only (\<lambda>c. \<not> holds_credential c) any_op) (ensureDeletedEndpoints E)"
  unfolding api_phase_defs api_helper_defs Let_def by (intro api_rules; simp add: call_kinds)+

lemma plain_quiet: "keeps (only plain_call D) m \<Longrightarrow> keeps (only (\<lambda>c. \<not> holds_credential c) any_op) m"
  by (erule keeps_mono) (auto elim: only_mono simp: plain_call_def)

lemma delete_same: "keeps same_api (ensureDeletedEndpoints E)"
  unfolding api_helper_defs Let_def by (intro same_rules)

lemmas kept_phases =
  quiet_kept [OF phases_same(1) plain_quiet [OF phases_plain(1)]] quiet_kept [OF phases_same(2) plain_quiet [OF phases_plain(2)]]
  quiet_kept [OF phases_same(3) plain_quiet [OF phases_plain(3)]] quiet_kept [OF phases_same(4) plain_quiet [OF phases_plain(4)]]
  quiet_kept [OF phases_same(5) plain_quiet [OF phases_plain(5)]] quiet_kept [OF phases_same(6) plain_quiet [OF phases_plain(6)]]
  quiet_kept [OF phases_same(7) plain_quiet [OF phases_plain(7)]] quiet_kept [OF phases_same(8) plain_quiet [OF phases_plain(8)]]
  quiet_kept [OF phases_same(10) plain_quiet [OF phases_plain(9)]] quiet_kept [OF phases_same(11) phases_quiet(1)]
  quiet_kept [OF phases_same(12) plain_quiet [OF phases_plain(10)]] quiet_kept [OF phases_same(13) plain_quiet [OF phases_plain(11)]]

lemma kept_fields:
  "kept E i c w \<Longrightarrow> o_Namespace (w_inst w) = o_Namespace i \<and> ACConsumerFinalizerName (w_inst w) = ACConsumerFinalizerName i \<and>
     ApplicationCredentialSecret (t_Auth (ASpec (w_inst w))) = credential_of i \<and>
     as_ApplicationCredentialSecret (AStatus (w_inst w)) = as_ApplicationCredentialSecret (AStatus i)"
  by (simp add: kept_def same_as_def credential_of_def ACConsumerFinalizerName_def APIName_def)

lemma kept_credential: "holds (kept E i c) (API_normal_credential E) (kept E i c) (still E i c)"
  unfolding triple_def
proof (intro allI impI)
  fix w assume w: "kept E i c w"
  then have "same_as i (w_inst w)" by (simp add: kept_def)
  with w kept_fields [OF w] show "case API_normal_credential E w of (Next x, s') \<Rightarrow> kept E i c s' | (Return r, s') \<Rightarrow> still E i c s'
        | (Crash p, s') \<Rightarrow> still E i c s'"
    by (cases "credential_of i = []"; cases "resp_err E (CManageACSecretFinalizer (o_Namespace i) (credential_of i) []
         (ACConsumerFinalizerName i) # w_trace w)")
      (simp_all add: API_normal_credential_def config_error_def run_defs world_defs Let_def kept_def still_def)
qed

lemma kept_rotation: "holds (kept E i c) (API_normal_rotation E) (still E i c) (still E i c)"
  unfolding triple_def
proof (intro allI impI)
  fix w assume w: "kept E i c w"
  let ?c = "CRemoveACSecretConsumerFinalizer (o_Namespace i) (as_ApplicationCredentialSecret (AStatus i)) (ACConsumerFinalizerName i)"
  from w kept_fields [OF w] show "case API_normal_rotation E w of (Next x, s') \<Rightarrow> still E i c s' | (Return r, s') \<Rightarrow> still E i c s'
        | (Crash p, s') \<Rightarrow> still E i c s'"
    by (cases "resp_err E (?c # w_trace w)"; cases "all_sub_true E (w_conds w)")
      (auto simp: API_normal_rotation_def set_api_def run_defs world_defs Let_def kept_def still_def)
qed

lemma kept_go: "holds (kept E i c) (of_go g) (kept E i c) (still E i c)"
  by (rule triple_of_go) (simp_all add: kept_still)

lemma kept_ready: "holds (still E i c) (API_normal_ready E) (still E i c) (still E i c)"
  by (simp add: triple_def API_normal_ready_def run_defs world_defs still_def)

lemma kept_normal: "triple (kept E i c) (API_reconcileNormal E) (\<lambda>_. still E i c) X (still E i c)"
  unfolding API_reconcileNormal_def
  apply (rule triple_fn)
  apply (rule triple_bind [OF kept_phases(1)])
  apply (rule triple_bind [where Q = "\<lambda>_. kept E i c"], rule triple_read, assumption)
  apply (rule triple_bind [OF kept_phases(2)], rule triple_bind [OF kept_go])
  apply (rule triple_seq [OF kept_phases(3)], rule triple_bind [OF kept_phases(4)])
  apply (rule triple_bind [OF kept_phases(5)], rule triple_bind [OF kept_phases(6)])
  apply (rule triple_seq [OF kept_phases(7)], rule triple_bind [OF kept_phases(8)], clarsimp split: prod.splits)
  apply (rule triple_seq [OF kept_credential], rule triple_bind [OF kept_phases(9)])
  apply (rule triple_seq [OF kept_phases(10)], rule triple_seq [OF kept_phases(11)])
  apply (rule triple_seq [OF kept_phases(12)], rule triple_seq [OF kept_rotation])
  apply (rule triple_seq [OF kept_ready], rule triple_ret, assumption)
  done

lemma kept_exit:
  fixes r :: reconcile_result
  shows "holds (kept E i c) (whenever b (exit_with r)) (kept E i c) (still E i c)"
    and "holds (kept E i c) (must (ret err) (\<lambda>e. exit_with (h e :: reconcile_result))) (kept E i c) (still E i c)"
  by (simp_all add: triple_def whenever_def run_defs kept_still split: option.splits)

lemma kept_set_api:
  "(\<And>s. as_ApplicationCredentialSecret (f s) = as_ApplicationCredentialSecret s) \<Longrightarrow>
     holds (kept E i c) (set_api f) (kept E i c) (still E i c)"
  "holds (kept E i c) (whenever b (set_inst (\<lambda>i. i\<lparr>o_Finalizers := fs\<rparr>))) (kept E i c) (still E i c)"
  by (simp_all add: triple_def set_api_def run_defs world_defs kept_def same_as_def)

lemma kept_delete: "triple (kept E i c) (API_reconcileDelete E) (\<lambda>_. still E i c) X (still E i c)"
proof -
  have remove: "holds (kept E i c)
      (for_each (\<lambda>s. must (call (CRemoveACSecretConsumerFinalizer (o_Namespace j) s (ACConsumerFinalizerName j)) (resp_err E))
         (\<lambda>e. exit_with (EmptyResult, Some e)))
         [as_ApplicationCredentialSecret (AStatus j), ApplicationCredentialSecret (t_Auth (ASpec j))])
      (kept E i c) (still E i c)" if "same_as i j" for j
  proof (rule triple_for_each)
    fix s
    assume "s \<in> set [as_ApplicationCredentialSecret (AStatus j), ApplicationCredentialSecret (t_Auth (ASpec j))]"
    with that have s: "s = as_ApplicationCredentialSecret (AStatus i) \<or> s = credential_of i"
      by (auto simp: same_as_def credential_of_def)
    let ?c = "CRemoveACSecretConsumerFinalizer (o_Namespace i) s (ACConsumerFinalizerName i)"
    have j: "o_Namespace j = o_Namespace i" "ACConsumerFinalizerName j = ACConsumerFinalizerName i"
      using same_as_fields [OF that] by simp_all
    show "holds (kept E i c)
        (must (call (CRemoveACSecretConsumerFinalizer (o_Namespace j) s (ACConsumerFinalizerName j)) (resp_err E))
           (\<lambda>e. exit_with (EmptyResult, Some e))) (kept E i c) (still E i c)"
      unfolding triple_def j
    proof (intro allI impI)
      fix w assume w: "kept E i c w"
      with s have k: "kept E i c (w\<lparr>w_trace := ?c # w_trace w\<rparr>)" by (auto simp: kept_def Let_def)
      from kept_still [OF k] k show "case must (call ?c (resp_err E)) (\<lambda>e. exit_with (EmptyResult, Some e)) w of
            (Next x, s') \<Rightarrow> kept E i c s' | (Return r, s') \<Rightarrow> still E i c s' | (Crash p, s') \<Rightarrow> still E i c s'"
        by (cases "resp_err E (?c # w_trace w)") (simp_all add: run_defs world_defs)
    qed
  qed
  have topology: "holds (kept E i c) (call (CEnsureDeletedTopologyRef t n) f) (kept E i c) (still E i c)" for t n
    and f :: "call list \<Rightarrow> reconcile_result"
    by (rule quiet_kept) (intro same_rules, intro only_rules, simp add: call_kinds)
  show ?thesis
    unfolding API_reconcileDelete_def
    apply (rule triple_fn)
    apply (rule triple_bind [OF quiet_kept [OF delete_same phases_quiet(3)]], rule triple_prod)
    apply (rule triple_seq [OF kept_exit(2)])
    apply (rule triple_bind [where Q = "\<lambda>j w. kept E i c w \<and> same_as i j"], rule triple_read, simp add: kept_def)
    apply (rule triple_pure, rule triple_seq [OF remove], assumption)
    apply (rule triple_bind [OF topology], rule triple_prod)
    apply (rule triple_seq [OF kept_exit(2)])
    apply (auto simp: triple_def run_defs world_defs kept_def still_def same_as_def)
    done
qed

lemma kept_handle: "holds (kept E i c) (API_handle E new j) (still E i c) (still E i c)"
  unfolding API_handle_def Let_def case_prod_unfold
  apply (rule triple_seq [OF kept_set_api(1)], simp)
  apply (rule triple_seq [OF kept_set_api(2)])
  apply (rule triple_seq [OF kept_exit(1)])
  apply (rule triple_seq [OF kept_set_api(1)], simp)
  apply (rule triple_if)
   apply (rule kept_delete)
  apply (rule kept_normal)
  done

section \<open>A reconcile, and a history\<close>

text \<open>The credential the stored status names after a reconcile: what was patched, if that went well.\<close>

definition status_after :: "env \<Rightarrow> string \<Rightarrow> reconcile_result go \<Rightarrow> call list \<Rightarrow> string" where
  "status_after E st r tr =
     (case (r, tr) of
        (Ret _, CPatchGlanceAPI j l # _) \<Rightarrow>
          if resp_err E tr = None then as_ApplicationCredentialSecret (AStatus j) else st
      | _ \<Rightarrow> st)"

lemma reconcile_keeps:
  assumes "resp_api E (CGetGlanceAPI ns name # tr) = Inr i" and "API_Reconcile E ns name tr = (r, tr')"
    and "c \<noteq> as_ApplicationCredentialSecret (AStatus i)" and "c \<noteq> credential_of i"
    and "c \<in> held (credentials E (o_Namespace i) (ACConsumerFinalizerName i) tr)"
  shows "c \<in> held (credentials E (o_Namespace i) (ACConsumerFinalizerName i) tr')"
    and "c \<noteq> status_after E (as_ApplicationCredentialSecret (AStatus i)) r tr'"
proof -
  let ?tr = "CNewHelper # CGetGlanceAPI ns name # tr"
  define w where "w = \<lparr>w_inst = i, w_conds = (case as_Conditions (AStatus i) of None \<Rightarrow> [] | Some l \<Rightarrow> l), w_trace = ?tr\<rparr>"
  obtain out w' where body: "API_body E (as_Conditions (AStatus i) = None) w =
      ((out, w') :: (reconcile_result, reconcile_result) out \<times> GlanceAPI world)" by fastforce
  have "kept E i c (w\<lparr>w_conds := CInit api_conditions # w_conds w\<rparr>)"
    using assms(3-5) patch_plain by (simp add: kept_def same_as_def w_def)
  from tripleD [OF kept_handle this] body have still: "still E i c w'"
    unfolding API_body_def by (auto simp: run_defs world_defs split: prod.splits out.splits)
  have run: "tr' = ?tr \<or> (\<exists>p. r = Panic p) \<and> tr' = w_trace w' \<or> (\<exists>l. tr' = CPatchGlanceAPI (w_inst w') l # w_trace w')"
    using assms(1,2) body by (auto simp: API_Reconcile_def Let_def w_def API_body_def split: option.splits out.splits)
  with still show "c \<in> held (credentials E (o_Namespace i) (ACConsumerFinalizerName i) tr')"
    using assms(5) patch_plain by (auto simp: still_def)
  from run still show "c \<noteq> status_after E (as_ApplicationCredentialSecret (AStatus i)) r tr'"
    using assms(3) by (cases r; cases "resp_err E tr' = None") (auto simp: status_after_def still_def split: call.split list.split)
qed

text \<open>
  A step of the history of an instance after its specification has moved on from the credential
  \<open>b\<close>: a reconcile, also one that deletes the instance, fails or panics; one that cannot read it;
  or a call of anybody else that touches neither a StatefulSet nor a finalizer. The first
  component is the credential the stored status names, which only the controller writes.
\<close>

inductive moves_on :: "env \<Rightarrow> string \<Rightarrow> string \<Rightarrow> string \<Rightarrow> string \<Rightarrow> string \<times> call list \<Rightarrow> string \<times> call list \<Rightarrow> bool"
  for E :: env and ns name fin b :: string where
  reconcile: "\<lbrakk>resp_api E (CGetGlanceAPI ns name # tr) = Inr i; o_Namespace i = ns; ACConsumerFinalizerName i = fin;
     as_ApplicationCredentialSecret (AStatus i) = st; credential_of i \<noteq> b; API_Reconcile E ns name tr = (r, tr')\<rbrakk> \<Longrightarrow>
     moves_on E ns name fin b (st, tr) (status_after E st r tr', tr')"
| unread: "\<lbrakk>resp_api E (CGetGlanceAPI ns name # tr) = Inl e; API_Reconcile E ns name tr = (r, tr')\<rbrakk> \<Longrightarrow>
     moves_on E ns name fin b (st, tr) (st, tr')"
| other: "plain_call c \<Longrightarrow> moves_on E ns name fin b (st, tr) (st, c # tr)"

lemma moves_on_keeps:
  "moves_on E ns name fin b s s' \<Longrightarrow> fst s \<noteq> b \<and> b \<in> held (credentials E ns fin (snd s)) \<Longrightarrow>
     fst s' \<noteq> b \<and> b \<in> held (credentials E ns fin (snd s'))"
proof (induction rule: moves_on.induct)
  case (reconcile tr i st r tr')
  with reconcile_keeps [OF reconcile.hyps(1,6), of b] show ?case by auto
next
  case (unread tr e r tr' st)
  then show ?case by (simp add: unread_same)
qed simp

text \<open>
  Property C19. A credential that a rotation acquired and that another overtakes is never let go:
  once the finalizer is on its secret while the stored status names another one, as a reconcile
  leaves it that could not bring everything up, and the specification has moved on, then after
  any sequence of reconciles, failing and panicking ones and those that delete the instance
  included, the finalizer is still on the secret and the status still does not name it, unless
  the specification names it again.
\<close>

theorem overtaken_credential_is_kept:
  assumes "(moves_on E ns name fin b)\<^sup>*\<^sup>* (st, tr) (st', tr')"
    and "b \<in> held (credentials E ns fin tr)" and "st \<noteq> b"
  shows "b \<in> held (credentials E ns fin tr') \<and> st' \<noteq> b"
proof -
  have "fst s' \<noteq> b \<and> b \<in> held (credentials E ns fin (snd s'))"
    if "(moves_on E ns name fin b)\<^sup>*\<^sup>* s s'" "fst s \<noteq> b \<and> b \<in> held (credentials E ns fin (snd s))" for s s'
    using that
  proof (induction rule: rtranclp_induct)
    case (step y z)
    from moves_on_keeps [OF step.hyps(2)] step.IH [OF step.prems] show ?case by blast
  qed
  from this [OF assms(1)] assms(2,3) show ?thesis by simp
qed

text \<open>
  A rotation from "old" to "new" whose StatefulSet cannot be written, then the deletion of the
  instance, which names "newer" by then.
\<close>

definition newer_api :: GlanceAPI where
  "newer_api = rotated_api\<lparr>o_Deleted := True, ASpec := (ASpec rotated_api)\<lparr>t_Auth := \<lparr>ApplicationCredentialSecret = ''newer''\<rparr>\<rparr>\<rparr>"

definition overtaken_env :: env where
  "overtaken_env = (sample_env undefined rotated_api)
     \<lparr>resp_api := \<lambda>tr. Inr (if length tr = 1 then rotated_api else newer_api),
      resp_sts := \<lambda>tr. ((EmptyResult, Some (ApiError False ''refused'')), False, 0)\<rparr>"

lemma overtaken_normal:
  assumes "plain_api i"
  shows "\<exists>w' e. API_reconcileNormal overtaken_env
       \<lparr>w_inst = i, w_conds = [CInit api_conditions], w_trace = tr\<rparr> = (Next (EmptyResult, Some e), w') \<and>
       as_ApplicationCredentialSecret (AStatus (w_inst w')) = as_ApplicationCredentialSecret (AStatus i) \<and>
       credential_of i \<in> held (credentials overtaken_env (o_Namespace i) (ACConsumerFinalizerName i) (w_trace w'))"
  using assms unfolding overtaken_env_def
  apply (simp add: API_reconcileNormal_def API_normal_secret_def verifyServiceSecret_def api_run_simps plain_api_def)
  apply (simp add: ensure_memcached_def no_backends api_run_simps)
  apply (simp add: API_normal_refresh_def createHashOfBackendConfig_def api_run_simps)
  apply (simp add: glanceAPIRefresh_def API_normal_backends_def API_normal_tls_def api_run_simps)
  apply (simp add: API_normal_networks_def ensureNAD_def api_run_simps)
  apply (simp add: API_normal_init_def API_reconcileInit_def init_keystone_endpoint_def one_endpoint expose_one_def GetHeadlessService_def api_run_simps yes_def)
  apply (simp add: ensureKeystoneEndpoints_def api_run_simps)
  apply (simp add: API_normal_config_def API_generateServiceConfig_def custom_secrets_def getEndpointID_def
      api_run_simps map_str_def)
  apply (simp add: ac_params_def cache_params_def notification_params_def GetHorizonEndpoint_def GenerateConfigsGeneric_def
      createHashOfInputHashes_def api_run_simps map_str_def KeystoneEndpointAnnotation_def)
  apply (simp add: API_normal_credential_def API_normal_topology_def api_run_simps)
  apply (simp add: API_normal_deploy_def sample_sts api_run_simps)
  apply (simp add: credential_of_def credentials.simps(2) Let_def ACConsumerFinalizerName_def APIName_def)
  done

abbreviation overtaken_finalizer :: string where
  "overtaken_finalizer \<equiv> ACConsumerFinalizerName rotated_api"

lemma handled_rotated:
  "ACConsumerFinalizerName handled_api = overtaken_finalizer" "o_Namespace handled_api = ''ns''" "credential_of handled_api = ''new''"
  "as_ApplicationCredentialSecret (AStatus handled_api) = ''old''"
  "ACConsumerFinalizerName newer_api = overtaken_finalizer" "o_Namespace newer_api = ''ns''" "credential_of newer_api = ''newer''"
  "as_ApplicationCredentialSecret (AStatus newer_api) = ''old''"
  by (simp_all add: handled_api_def newer_api_def rotated_api_def sample_api_def ACConsumerFinalizerName_def APIName_def
      credential_of_def Let_def)

lemma overtaken_run:
  "\<exists>r j l tr. API_Reconcile overtaken_env ''ns'' ''a'' [] = (Ret r, CPatchGlanceAPI j l # tr) \<and>
     as_ApplicationCredentialSecret (AStatus j) = ''old'' \<and>
     ''new'' \<in> held (credentials overtaken_env ''ns'' overtaken_finalizer (CPatchGlanceAPI j l # tr))"
proof -
  let ?w = "\<lparr>w_inst = handled_api, w_conds = [CInit api_conditions], w_trace = [CNewHelper, CGetGlanceAPI ''ns'' ''a'']\<rparr>"
  from overtaken_normal [OF plain_handled, of "[CNewHelper, CGetGlanceAPI ''ns'' ''a'']"] obtain w' e where
    run: "API_reconcileNormal overtaken_env ?w =
       ((Next (EmptyResult, Some e), w') :: (reconcile_result, reconcile_result) out \<times> GlanceAPI world)"
    and w': "as_ApplicationCredentialSecret (AStatus (w_inst w')) = ''old''"
      "''new'' \<in> held (credentials overtaken_env ''ns'' overtaken_finalizer (w_trace w'))"
    unfolding handled_rotated by blast
  have "API_body overtaken_env False
      \<lparr>w_inst = rotated_api, w_conds = [], w_trace = [CNewHelper, CGetGlanceAPI ''ns'' ''a'']\<rparr> =
      ((Next (EmptyResult, Some e), w') :: (reconcile_result, reconcile_result) out \<times> GlanceAPI world)"
    using run
    by (simp add: API_body_def API_handle_def api_run_simps handled_api_def rotated_api_def sample_api_def the_map_def
        overtaken_env_def)
  moreover have "as_Conditions (AStatus rotated_api) = Some []" by (simp add: rotated_api_def Let_def)
  moreover have "resp_err overtaken_env tr = None" "resp_api overtaken_env [CGetGlanceAPI ''ns'' ''a''] = Inr rotated_api" for tr
    by (simp_all add: overtaken_env_def)
  ultimately show ?thesis using w' patch_plain by (simp add: API_Reconcile_def Let_def)
qed

lemma newer_run:
  assumes "tr0 \<noteq> []"
  shows "\<exists>i l tr. API_Reconcile overtaken_env ''ns'' ''a'' tr0 = (Ret (EmptyResult, None), CPatchGlanceAPI i l # tr) \<and>
     o_Finalizers i = []"
  using assms
  by (simp add: API_Reconcile_def API_body_def API_handle_def API_reconcileDelete_def ensureDeletedEndpoints_def
      api_run_simps newer_api_def rotated_api_def sample_api_def yes_def overtaken_env_def)

theorem overtaken_credential_is_kept_witness:
  "\<exists>r j l tr i l' tr'.
     API_Reconcile overtaken_env ''ns'' ''a'' [] = (Ret r, CPatchGlanceAPI j l # tr) \<and>
     API_Reconcile overtaken_env ''ns'' ''a'' (CPatchGlanceAPI j l # tr) =
       (Ret (EmptyResult, None), CPatchGlanceAPI i l' # tr') \<and> o_Finalizers i = [] \<and>
     ''new'' \<in> held (credentials overtaken_env ''ns'' overtaken_finalizer (CPatchGlanceAPI i l' # tr'))"
proof -
  from overtaken_run obtain r j l tr where
    first: "API_Reconcile overtaken_env ''ns'' ''a'' [] = (Ret r, CPatchGlanceAPI j l # tr)"
    "''new'' \<in> held (credentials overtaken_env ''ns'' overtaken_finalizer (CPatchGlanceAPI j l # tr))" by blast
  from newer_run [of "CPatchGlanceAPI j l # tr"] obtain i l' tr' where
    second: "API_Reconcile overtaken_env ''ns'' ''a'' (CPatchGlanceAPI j l # tr) =
      (Ret (EmptyResult, None), CPatchGlanceAPI i l' # tr')" "o_Finalizers i = []" by blast
  have "resp_api overtaken_env (CGetGlanceAPI ''ns'' ''a'' # CPatchGlanceAPI j l # tr) = Inr newer_api"
    by (simp add: overtaken_env_def)
  from moves_on.reconcile [OF this handled_rotated(6,5,8) _ second(1), of "''new''"] handled_rotated(7)
  have "moves_on overtaken_env ''ns'' ''a'' overtaken_finalizer ''new'' (''old'', CPatchGlanceAPI j l # tr)
      (status_after overtaken_env ''old'' (Ret (EmptyResult, None)) (CPatchGlanceAPI i l' # tr'), CPatchGlanceAPI i l' # tr')"
    by simp
  then have "''new'' \<in> held (credentials overtaken_env ''ns'' overtaken_finalizer (CPatchGlanceAPI i l' # tr'))"
    using overtaken_credential_is_kept [OF r_into_rtranclp first(2)] by simp
  with first(1) second show ?thesis by blast
qed

end
