(* ===== verification/APIProps.thy ===== *)
theory APIProps
  imports APISteps APIRun
begin

text \<open>
  What the GlanceAPI controller guarantees: what it waits for before it writes the StatefulSet,
  and when it reports Ready.
\<close>

section \<open>No StatefulSet is written before its prerequisites\<close>

definition certs_validated :: "env \<Rightarrow> call list \<Rightarrow> bool" where
  "certs_validated E tr \<longleftrightarrow>
     (case tr of CValidateCertSecrets t ns # _ \<Rightarrow> (case resp_str E tr of Inr _ \<Rightarrow> True | Inl _ \<Rightarrow> False) | _ \<Rightarrow> False)"

definition networks_annotated :: "env \<Rightarrow> call list \<Rightarrow> bool" where
  "networks_annotated E tr \<longleftrightarrow>
     (case tr of CEnsureNetworksAnnotation nads # _ \<Rightarrow> snd (resp_annotations E tr) = None | _ \<Rightarrow> False)"

definition topology_ensured :: "env \<Rightarrow> call list \<Rightarrow> bool" where
  "topology_ensured E tr \<longleftrightarrow>
     (case tr of CEnsureServiceTopology t l n s # _ \<Rightarrow> (case resp_topology E tr of Inr _ \<Rightarrow> True | Inl _ \<Rightarrow> False) | _ \<Rightarrow> False)"

lemma checked_api_secret: "checked (secret_verified E) (API_normal_secret E)"
  by (rule checkedI) (auto simp: API_normal_secret_def verifyServiceSecret_def checked_simps
    secret_verified_def proceeds_def split: if_splits option.splits)

lemma checked_api_certs: "checked (certs_validated E) (API_normal_tls E vars)"
  by (rule checkedI) (auto simp: API_normal_tls_def tls_error_def checked_simps certs_validated_def
    suffix_ConsI split: if_splits sum.splits)

lemma checked_api_topology: "checked (topology_ensured E) (API_normal_topology E)"
  by (rule checkedI) (auto simp: API_normal_topology_def set_api_def checked_simps topology_ensured_def
    split: if_splits sum.splits)


lemma config_error_stops: "config_error r e w \<noteq> (Next x, w')"
  by (simp add: config_error_def run_defs world_defs)

text \<open>\<open>okay P m\<close>: the function boundary around \<open>m\<close> gives a value only with the evidence.\<close>

definition okay :: "(call list \<Rightarrow> bool) \<Rightarrow> ('i world, 'e + 'a, 'e + 'a) act \<Rightarrow> bool" where
  "okay P m \<longleftrightarrow>
     (\<forall>w v w'. m w = (Next (Inr v), w') \<or> m w = (Return (Inr v), w') \<longrightarrow> evidence P (w_trace w) (w_trace w'))"

lemma extends_suffix: "keeps extends m \<Longrightarrow> m w = (out, w') \<Longrightarrow> suffix (w_trace w) (w_trace w')"
  by (auto dest!: keepsD simp: only_def suffix_def)

lemma okay_attempt:
  assumes "keeps extends m" and "\<And>w r w'. m w \<noteq> (Return r, w')" and "\<And>x. okay P (f x)"
  shows "okay P (attempt m (\<lambda>e. exit_with (Inl e)) f)"
  unfolding okay_def
proof (intro allI impI)
  fix w v w'
  assume "attempt m (\<lambda>e. exit_with (Inl e)) f w = (Next (Inr v), w') \<or>
          attempt m (\<lambda>e. exit_with (Inl e)) f w = (Return (Inr v), w')"
  then obtain x w1 where "m w = (Next (Inr x), w1)" "f x w1 = (Next (Inr v), w') \<or> f x w1 = (Return (Inr v), w')"
    using assms(2) by (auto simp: run_iffs)
  then show "evidence P (w_trace w) (w_trace w')"
    using assms(3) [of x] extends_suffix [OF assms(1)] unfolding okay_def
    by (blast intro: evidence_mono suffix_order.refl)
qed

lemma okay_bind:
  assumes "keeps extends m" and "\<And>w r w'. m w \<noteq> (Return r, w')" and "\<And>x. okay P (f x)"
  shows "okay P (bind m f)"
  unfolding okay_def
proof (intro allI impI)
  fix w v w'
  assume "bind m f w = (Next (Inr v), w') \<or> bind m f w = (Return (Inr v), w')"
  then obtain x w1 where "m w = (Next x, w1)" "f x w1 = (Next (Inr v), w') \<or> f x w1 = (Return (Inr v), w')"
    using assms(2) by (auto simp: run_iffs)
  then show "evidence P (w_trace w) (w_trace w')"
    using assms(3) [of x] extends_suffix [OF assms(1)] unfolding okay_def
    by (blast intro: evidence_mono suffix_order.refl)
qed

lemma okay_fn: "okay P m \<Longrightarrow> fn m w = (Next (Inr v), w') \<Longrightarrow> evidence P (w_trace w) (w_trace w')"
  unfolding okay_def fn_Next_iff by blast

lemma params_return:
  "ac_params E i w \<noteq> (Return r, w')" "notification_params E i w \<noteq> (Return r, w')"
  "custom_secrets E i w \<noteq> (Return r, w')" "getEndpointID E w \<noteq> (Return r, w')"
  "GetHorizonEndpoint E w \<noteq> (Return r, w')"
  by (auto simp: ac_params_def notification_params_def custom_secrets_def getEndpointID_def GetHorizonEndpoint_def
      run_iffs Let_def)

lemma params_extend:
  "keeps extends (ac_params E i)" "keeps extends (notification_params E i)" "keeps extends (custom_secrets E i)"
  "keeps extends (getEndpointID E)" "keeps extends (GetHorizonEndpoint E)"
  unfolding api_helper_defs Let_def by (intro api_rules; simp)+

lemma okay_prod: "(\<And>x y. okay P (f x y)) \<Longrightarrow> okay P (case p of (x, y) \<Rightarrow> f x y)"
  by (cases p) simp

lemma okay_configs:
  "okay (config_written E) (bind (GenerateConfigsGeneric E n ns k ps cd ls False)
     (\<lambda>(vars, err). ret (case err of Some e \<Rightarrow> Inl e | None \<Rightarrow> Inr vars)))"
  by (auto simp: okay_def GenerateConfigsGeneric_def checked_simps config_written_def split: option.splits)

lemma generate_written:
  "API_generateServiceConfig E conv mc wsgi opts w = (Next (Inr vars), w') \<Longrightarrow>
     evidence (config_written E) (w_trace w) (w_trace w')"
  unfolding API_generateServiceConfig_def Let_def
  apply (erule okay_fn [rotated])
  apply (intro okay_configs okay_prod okay_bind okay_attempt params_return params_extend api_rules)
  apply simp_all
  done

lemma checked_api_config: "checked (config_written E) (API_normal_config E mc bc vars)"
proof (rule checkedI)
  fix w :: "GlanceAPI world" and x w'
  assume run: "API_normal_config E mc bc vars w = (Next x, w')"
  then obtain wsgi hashes w1 v h where
    gen: "(API_generateServiceConfig E (imageConv bc) mc wsgi (extConfigOptions bc) ::
       (GlanceAPI world, reconcile_result, go_error + string gomap) act) w = (Next (Inr hashes), w1)"
    and hash: "(createHashOfInputHashes E v :: (GlanceAPI world, reconcile_result, go_error + string \<times> bool) act) w1 =
       (Next (Inr h), w')"
    by (fastforce simp: API_normal_config_def run_iffs config_error_stops Let_def case_prod_unfold)
  have "keeps extends (createHashOfInputHashes E v)" for v
    unfolding api_helper_defs Let_def by (intro api_rules; simp)
  from extends_suffix [OF this hash] generate_written [OF gen] show "evidence (config_written E) (w_trace w) (w_trace w')"
    by (blast intro: evidence_mono suffix_order.refl)
qed

lemma nad_step_triple:
  "triple (\<lambda>w. suffix tr0 (w_trace w)) (nad_step E ns n nads) (\<lambda>_ w. suffix tr0 (w_trace w))
     (\<lambda>r _. \<not> proceeds (snd r)) (\<lambda>_. True)"
  by (auto simp: triple_def nad_step_def run_defs world_defs proceeds_def ResultRequeue_def suffix_ConsI
      split: sum.splits option.splits)

lemma ensureNAD_triple:
  "triple (\<lambda>w. suffix tr0 (w_trace w)) (ensureNAD E ns nAttach)
     (\<lambda>r w. proceeds (snd r) \<longrightarrow> evidence (networks_annotated E) tr0 (w_trace w)) X (\<lambda>_. True)"
  unfolding ensureNAD_def
  apply (rule triple_fn)
  apply (rule triple_bind [where Q = "\<lambda>_ w. suffix tr0 (w_trace w)"])
   apply (rule triple_weaken [OF triple_for_acc [where I = "\<lambda>_ w. suffix tr0 (w_trace w)", OF nad_step_triple]])
      apply simp_all
  apply (auto simp: triple_def run_defs world_defs proceeds_def networks_annotated_def evidence_Cons
      split: prod.splits option.splits)
  done

lemma checked_api_networks: "checked (networks_annotated E) (API_normal_networks E)"
proof (rule checkedI)
  fix w :: "GlanceAPI world" and x w'
  assume "API_normal_networks E w = (Next x, w')"
  then obtain a where
    nad: "(ensureNAD E (o_Namespace (w_inst w)) (t_NetworkAttachments (ASpec (w_inst w))) ::
      (GlanceAPI world, reconcile_result, string gomap \<times> reconcile_result) act) w = (Next (a, EmptyResult, None), w')"
    by (fastforce simp: API_normal_networks_def run_iffs split: if_splits option.splits)
  with tripleD(1) [OF ensureNAD_triple, of "w_trace w" w]
  show "evidence (networks_annotated E) (w_trace w) (w_trace w')" by (fastforce simp: proceeds_def)
qed

text \<open>The parts that do not write the StatefulSet.\<close>

lemma plain_writes_no_sts: "keeps (only plain_call D) m \<Longrightarrow> keeps (only (\<lambda>c. \<not> writes_sts c) any_op) m"
  by (erule keeps_mono) (auto elim: only_mono simp: plain_call_def)

lemma credential_writes_no_sts: "keeps (only (\<lambda>c. \<not> writes_sts c) any_op) (API_normal_credential E)"
  unfolding api_phase_defs api_helper_defs Let_def by (intro api_rules; simp add: call_kinds)

lemmas sts_quiet = phases_plain(1-11) [THEN plain_writes_no_sts] credential_writes_no_sts

lemma tail_extends:
  "keeps extends (API_normal_deploy E h sa p t ws mc)" "keeps extends (API_normal_claims E)"
  "keeps extends (API_normal_cache E sa)" "keeps extends (API_normal_rotation E)" "keeps extends (API_normal_ready E)"
  unfolding api_phase_defs api_helper_defs Let_def by (intro api_rules; simp)+

lemma api_normal_guarded:
  "guarded writes_sts
     ({secret_verified E} \<union> ({} \<union> ({memcached_ready E} \<union> ({} \<union> ({} \<union> ({} \<union> ({certs_validated E} \<union>
      ({networks_annotated E} \<union> ({} \<union> ({config_written E} \<union> ({} \<union> ({topology_ensured E} \<union> {}))))))))))))
     (API_reconcileNormal E)"
proof -
  have read: "keeps (only (\<lambda>c. \<not> writes_sts c) any_op) (read f)" for f :: "GlanceAPI \<Rightarrow> GlanceAPI"
    by (rule only_read)
  show ?thesis
    unfolding API_reconcileNormal_def case_prod_unfold
    by (intro guarded_fn guarded_seq guarded_bind guarded_extends sts_quiet read tail_extends api_rules)
      (auto intro: checked_api_secret checked_memcached checked_api_certs checked_api_networks checked_api_config
        checked_api_topology)
qed

text \<open>
  Property C6. The StatefulSet of a GlanceAPI is created or updated only after, in the same
  reconcile, the password secret was verified, memcached was found ready, the certificates of
  the endpoints were validated, the network annotation was made, the configuration secret was
  written and the topology was ensured. This holds of every write in every run, also of a run
  that fails or panics later.
\<close>

theorem statefulset_written_after_prerequisites:
  assumes "API_reconcileNormal E w = (out, w')"
    and "w_trace w' = later @ CStatefulSet d # earlier" and "suffix (w_trace w) earlier"
  shows "\<forall>P \<in> {secret_verified E, memcached_ready E, certs_validated E, networks_annotated E,
                config_written E, topology_ensured E}.
           evidence P (w_trace w) earlier"
  using assms api_normal_guarded [of E] unfolding guarded_def by (fastforce simp: writes_sts_def)

theorem statefulset_written_after_prerequisites_witness:
  "\<exists>(E :: env) w w' later d earlier.
     API_reconcileNormal E w = ((Next (EmptyResult, None), w') :: (reconcile_result, reconcile_result) out \<times> GlanceAPI world) \<and>
     w_trace w = [] \<and> w_trace w' = later @ CStatefulSet d # earlier \<and>
     evidence (certs_validated E) [] earlier \<and> evidence (config_written E) [] earlier"
proof -
  let ?E = "sample_env undefined rotated_api"
  let ?w = "\<lparr>w_inst = handled_api, w_conds = [CInit api_conditions], w_trace = []\<rparr>"
  from api_normal_run [OF plain_handled, of undefined rotated_api "[]"] obtain w' d where
    run: "API_reconcileNormal ?E ?w =
       ((Next (EmptyResult, None), w') :: (reconcile_result, reconcile_result) out \<times> GlanceAPI world)"
    and "CStatefulSet d \<in> set (w_trace w')" by blast
  then obtain later earlier where trace: "w_trace w' = later @ CStatefulSet d # earlier"
    by (meson split_list)
  from statefulset_written_after_prerequisites [OF run trace]
  have "evidence (certs_validated ?E) [] earlier" "evidence (config_written ?E) [] earlier" by simp_all
  moreover have "w_trace ?w = []" by simp
  ultimately show ?thesis using run trace by blast
qed

section \<open>Ready means deployed\<close>

text \<open>The entries that may make a condition of type \<open>t\<close> true.\<close>

definition sets_true :: "ctype \<Rightarrow> cond_op \<Rightarrow> bool" where
  "sets_true t op \<longleftrightarrow>
     (case op of
        CMarkTrue t' _ \<Rightarrow> t' = t
      | CSet (Some c) \<Rightarrow> c_Type c = t \<and> c_Status c = CTrue
      | CLoaded _ \<Rightarrow> True | CInit _ \<Rightarrow> True | _ \<Rightarrow> False)"

lemma sets_true_simps [simp]:
  "sets_true t (CMarkTrue t' m) \<longleftrightarrow> t' = t" "sets_true t (CSet (Some c)) \<longleftrightarrow> c_Type c = t \<and> c_Status c = CTrue"
  "\<not> sets_true t (CSet None)" "\<not> sets_true t (CMarkFalse t' r s m)" "\<not> sets_true t CRestoreTimes"
  by (simp_all add: sets_true_def)

context condition_store
begin

lemma not_set_after_init:
  assumes "distinct (map c_Type cs)" and "c \<in> set cs" and "c_Type c = t" and "c_Status c \<noteq> CTrue"
    and "list_all (\<lambda>op. \<not> sets_true t op) l"
  shows "\<exists>c'. get (l @ CInit cs # l0) t = Some c' \<and> c_Status c' \<noteq> CTrue"
  using assms(5)
proof (induction l)
  case Nil
  then show ?case using assms get_init by auto
next
  case (Cons op l)
  then obtain c' where "get (l @ CInit cs # l0) t = Some c'" "c_Status c' \<noteq> CTrue" by auto
  with Cons.prems show ?case by (cases op) (auto simp: get_simps sets_true_def split: option.splits)
qed

lemma true_was_set:
  assumes "all_sub_true (l @ CInit cs # l0)" and "distinct (map c_Type cs)" and "c \<in> set cs" and "c_Type c = t"
    and "c_Status c \<noteq> CTrue" and "t \<noteq> ReadyCondition"
  shows "\<not> list_all (\<lambda>op. \<not> sets_true t op) l"
  using not_set_after_init [OF assms(2-5)] assms(1,6) false_blocks by blast

end

text \<open>A rollout that is finished: what the StatefulSet answered, and the replicas asked for.\<close>

definition rollout_done :: "env \<Rightarrow> call list \<Rightarrow> GlanceAPI world \<Rightarrow> bool" where
  "rollout_done E tr0 w \<longleftrightarrow>
     (\<exists>d tr n. suffix (CStatefulSet d # tr) (w_trace w) \<and> suffix tr0 tr \<and>
        resp_sts E (CStatefulSet d # tr) = ((EmptyResult, None), True, n) \<and> t_Replicas (ASpec (w_inst w)) = Some n)"

definition rollout_step :: "env \<Rightarrow> GlanceAPI world \<Rightarrow> GlanceAPI world \<Rightarrow> bool" where
  "rollout_step E w w' \<longleftrightarrow>
     ASpec (w_inst w') = ASpec (w_inst w) \<and> suffix (w_trace w) (w_trace w') \<and>
     (\<exists>l. w_conds w' = l @ w_conds w \<and>
        (list_all (\<lambda>op. \<not> sets_true DeploymentReadyCondition op) l \<or> rollout_done E (w_trace w) w'))"

lemma rollout_later:
  "rollout_done E tr0 w \<Longrightarrow> suffix tr1 tr0 \<Longrightarrow> suffix (w_trace w) (w_trace w') \<Longrightarrow>
     ASpec (w_inst w') = ASpec (w_inst w) \<Longrightarrow> rollout_done E tr1 w'"
  unfolding rollout_done_def by (metis suffix_order.trans)

interpretation rollout: step_order "rollout_step E"
proof unfold_locales
  fix w :: "GlanceAPI world"
  show "rollout_step E w w" by (simp add: rollout_step_def)
next
  fix w1 w2 w3 :: "GlanceAPI world"
  assume 12: "rollout_step E w1 w2" and 23: "rollout_step E w2 w3"
  then obtain l1 l2 where l: "w_conds w2 = l1 @ w_conds w1" "w_conds w3 = l2 @ w_conds w2"
    "list_all (\<lambda>op. \<not> sets_true DeploymentReadyCondition op) l1 \<or> rollout_done E (w_trace w1) w2"
    "list_all (\<lambda>op. \<not> sets_true DeploymentReadyCondition op) l2 \<or> rollout_done E (w_trace w2) w3"
    unfolding rollout_step_def by blast
  from 12 23 have s: "suffix (w_trace w1) (w_trace w2)" "suffix (w_trace w2) (w_trace w3)"
    "ASpec (w_inst w2) = ASpec (w_inst w1)" "ASpec (w_inst w3) = ASpec (w_inst w2)"
    by (simp_all add: rollout_step_def)
  then have "list_all (\<lambda>op. \<not> sets_true DeploymentReadyCondition op) (l2 @ l1) \<or> rollout_done E (w_trace w1) w3"
    using l(3,4) rollout_later [of E "w_trace w1" w2 "w_trace w1" w3]
      rollout_later [of E "w_trace w2" w3 "w_trace w1" w3] by auto
  then show "rollout_step E w1 w3"
    using l(1,2) s suffix_order.trans unfolding rollout_step_def by (metis append.assoc)
qed

abbreviation no_rollout :: "cond_op \<Rightarrow> bool" where
  "no_rollout op \<equiv> \<not> sets_true DeploymentReadyCondition op"

lemma rollout_quiet:
  "keeps same_api m \<Longrightarrow> keeps (only any_call no_rollout) m \<Longrightarrow> keeps (rollout_step E) m"
  by (auto simp: keeps_def rollout_step_def same_api_def Let_def only_def suffix_def)

text \<open>A mirrored condition has the type it is mirrored into.\<close>

definition mirrors :: "env \<Rightarrow> bool" where
  "mirrors E \<longleftrightarrow> (\<forall>n ns m sl tr r c s. resp_keystone E (CKeystoneEndpoint n ns m sl # tr) = (r, Some c, s) \<longrightarrow>
       c_Type c = KeystoneEndpointReadyCondition)"

lemma keystone_no_rollout:
  assumes "mirrors E"
  shows "keeps (only any_call no_rollout) (ensureKeystoneEndpoints E sl)"
proof -
  have "keeps (only any_call no_rollout :: GlanceAPI world \<Rightarrow> _)
      (bind (call (CKeystoneEndpoint n ns m sl) (resp_keystone E)) (\<lambda>((ctrlResult, err), c, _).
         seq (must (ret err) (\<lambda>e. exit_with (ctrlResult, Some e)))
        (seq (whenever (c \<noteq> None) (cond (CSet c))) (ret (ctrlResult, None :: go_error option)))))"
    (is "keeps _ ?m") for n ns m
    unfolding keeps_def
  proof
    fix w :: "GlanceAPI world"
    obtain r err c s where resp: "resp_keystone E (CKeystoneEndpoint n ns m sl # w_trace w) = ((r, err), c, s)"
      by (metis surj_pair)
    have "\<not> sets_true DeploymentReadyCondition (CSet c)"
      using assms resp unfolding mirrors_def by (cases c) fastforce+
    with resp show "only any_call no_rollout w (snd (?m w))"
      by (cases err; cases c) (auto simp: run_defs world_defs only_def)
  qed
  note one = this
  show ?thesis
    unfolding ensureKeystoneEndpoints_def
    by (intro one steps.keeps_fn steps.keeps_bind keeps_if only_rules; simp)
qed

lemma phases_no_rollout:
  "keeps (only any_call no_rollout) (API_normal_secret E)"
  "keeps (only any_call no_rollout) (ensure_memcached E n ns)"
  "keeps (only any_call no_rollout) (API_normal_refresh E bs)"
  "keeps (only any_call no_rollout) (API_normal_backends E bs)"
  "keeps (only any_call no_rollout) (API_normal_tls E vars)"
  "keeps (only any_call no_rollout) (API_normal_networks E)"
  "keeps (only any_call no_rollout) (API_normal_config E mc bc vars)"
  "keeps (only any_call no_rollout) (API_normal_credential E)"
  "keeps (only any_call no_rollout) (API_normal_topology E)"
  "keeps (only any_call no_rollout) (API_normal_claims E)"
  "keeps (only any_call no_rollout) (API_normal_cache E sa)"
  "keeps (only any_call no_rollout) (API_normal_ready E)"
  "keeps (only any_call no_rollout) (verify_networks E)"
  unfolding api_phase_defs api_helper_defs Let_def by (intro api_rules; simp)+

lemma init_no_rollout:
  assumes "mirrors E"
  shows "keeps (only any_call no_rollout) (API_normal_init E)"
  unfolding API_normal_init_def API_reconcileInit_def init_keystone_endpoint_def expose_one_def Let_def
  by (intro keystone_no_rollout [OF assms] api_rules; simp)

definition same_count :: "GlanceAPI world \<Rightarrow> GlanceAPI world \<Rightarrow> bool" where
  "same_count w w' \<longleftrightarrow> as_ReadyCount (AStatus (w_inst w')) = as_ReadyCount (AStatus (w_inst w))"

interpretation count: step_order same_count
  by unfold_locales (simp_all add: same_count_def)

lemma verify_count: "keeps same_count (verify_networks E)"
proof -
  have basic: "keeps same_count (call c f)" "keeps same_count (read h)" "keeps same_count (mark_false t r s m)"
    "keeps same_count (mark_true t msg)" "keeps same_count (set_error t msg e)"
    "keeps same_count (set_api (\<lambda>s. s\<lparr>as_NetworkAttachments := x\<rparr>))"
    for c and f :: "call list \<Rightarrow> 'x" and h :: "GlanceAPI \<Rightarrow> GlanceAPI" and t r s m msg e x
    by (simp_all add: keeps_def same_count_def set_api_def run_defs world_defs)
  show ?thesis
    unfolding verify_networks_def network_error_def Let_def by (intro basic count.keeps_rules)
qed

lemma verify_same: "keeps same_api (verify_networks E)"
  unfolding verify_networks_def network_error_def Let_def by (intro same_rules; simp)

lemma status_same: "keeps same_api (deployment_status E obs n)"
  unfolding deployment_status_def verify_networks_def network_error_def Let_def by (intro same_rules; simp)

lemma status_marks:
  assumes "deployment_status E obs n w = (out, w')"
  shows "only any_call no_rollout w w' \<or>
         only any_call any_op w w' \<and> obs \<and> t_Replicas (ASpec (w_inst w)) = Some n"
proof (cases obs)
  case False
  with assms show ?thesis by (simp add: deployment_status_def run_defs only_def)
next
  case True
  let ?w = "w\<lparr>w_inst := (w_inst w)\<lparr>AStatus := (AStatus (w_inst w))\<lparr>as_ReadyCount := n\<rparr>\<rparr>\<rparr>"
  obtain o1 w1 where v: "(verify_networks E :: (GlanceAPI world, reconcile_result, unit) act) ?w = (o1, w1)" by fastforce
  from keepsD [OF phases_no_rollout(13) v] have only1: "only any_call no_rollout w w1"
    by (simp add: only_def)
  have same: "as_ReadyCount (AStatus (w_inst w1)) = n" "ASpec (w_inst w1) = ASpec (w_inst w)"
    using keepsD [OF verify_count v] keepsD [OF verify_same v] by (simp_all add: same_count_def same_api_def Let_def)
  show ?thesis
  proof (cases o1)
    case (Next x)
    obtain tr l where l: "w_trace w1 = tr @ w_trace w" "w_conds w1 = l @ w_conds w" "list_all no_rollout l"
      using only1 by (auto simp: only_def)
    show ?thesis
    proof (cases "t_Replicas (ASpec (w_inst w))")
      case None
      with assms v only1 True Next same show ?thesis
        by (simp add: deployment_status_def set_api_def run_defs world_defs api_replicas_def)
    next
      case (Some m)
      with assms v True Next same have "w' = w1\<lparr>w_conds :=
          (if n = m then CMarkTrue DeploymentReadyCondition (LibMsg ''DeploymentReadyMessage'' [])
           else CSet (Some (FalseCondition DeploymentReadyCondition RequestedReason SeverityInfo
             (LibMsg ''DeploymentReadyRunningMessage'' [])))) # w_conds w1\<rparr>"
        by (auto simp: deployment_status_def set_api_def run_defs world_defs api_replicas_def)
      with Some True l show ?thesis by (auto simp: only_def list_all_iff)
    qed
  next
    case (Return r)
    with assms v only1 True show ?thesis
      by (simp add: deployment_status_def set_api_def run_defs world_defs)
  next
    case (Crash p)
    with assms v only1 True show ?thesis
      by (simp add: deployment_status_def set_api_def run_defs world_defs)
  qed
qed

lemma deploy_rollout: "keeps (rollout_step E) (API_normal_deploy E h sa p t ws mc)"
proof -
  have rest: "keeps (rollout_step E)
     (bind (call (CStatefulSet d) (resp_sts E)) (\<lambda>((ctrlResult, err), observed, readyReplicas).
        seq (must (ret err) (\<lambda>e.
               seq (set_error DeploymentReadyCondition ''DeploymentReadyErrorMessage'' e)
                   (exit_with (ctrlResult, Some e))))
       (seq (whenever (ctrlResult \<noteq> EmptyResult)
               (seq (set_false DeploymentReadyCondition RequestedReason SeverityInfo
                       (LibMsg ''DeploymentReadyRunningMessage'' []))
                    (exit_with (ctrlResult, None))))
            (deployment_status E observed readyReplicas))))" (is "keeps _ ?m") for d
    unfolding keeps_def
  proof
    fix w :: "GlanceAPI world"
    let ?w = "w\<lparr>w_trace := CStatefulSet d # w_trace w\<rparr>"
    obtain r err obs n where resp: "resp_sts E (CStatefulSet d # w_trace w) = ((r, err), obs, n)"
      by (metis surj_pair)
    obtain out w' where st: "deployment_status E obs n ?w = (out, w')" by fastforce
    have same: "ASpec (w_inst w') = ASpec (w_inst w)"
      using keepsD [OF status_same st] by (simp add: same_api_def Let_def)
    from status_marks [OF st] have "rollout_step E w w'" if "r = EmptyResult" "err = None"
    proof
      assume "only any_call no_rollout ?w w'"
      then show ?thesis using same by (auto simp: rollout_step_def only_def suffix_def)
    next
      assume *: "only any_call any_op ?w w' \<and> obs \<and> t_Replicas (ASpec (w_inst ?w)) = Some n"
      then obtain tr l where tr: "w_trace w' = tr @ CStatefulSet d # w_trace w" "w_conds w' = l @ w_conds w"
        by (auto simp: only_def)
      have "rollout_done E (w_trace w) w'"
        unfolding rollout_done_def using * resp that tr same by (intro exI [of _ d] exI) (auto simp: suffix_def)
      then show ?thesis using tr same by (auto simp: rollout_step_def suffix_def)
    qed
    with resp st show "rollout_step E w (snd (?m w))"
      by (cases err; cases "r = EmptyResult") (auto simp: run_defs world_defs rollout_step_def suffix_def)
  qed
  have spec: "keeps (rollout_step E) (must (ret err) (\<lambda>e. exit_with (r, Some e)))" for err and r :: ctrl_result
    by (intro rollout.keeps_rules)
  have read: "keeps (rollout_step E) (read f)" for f :: "GlanceAPI \<Rightarrow> 'x"
    by (simp add: keeps_def rollout_step_def read_def gets_def)
  have sts: "bind (case s of None \<Rightarrow> crash NilDereference | Some d \<Rightarrow> call (CStatefulSet d) (resp_sts E)) f =
      (case s of None \<Rightarrow> crash NilDereference | Some d \<Rightarrow> bind (call (CStatefulSet d) (resp_sts E)) f)" for s f
    by (cases s) (auto simp: bind_def crash_def)
  show ?thesis
    unfolding API_normal_deploy_def sts by (intro rest spec read rollout.keeps_rules)
qed

lemma rollout_basic:
  "keeps (rollout_step E) (call c f)" "keeps (rollout_step E) (read h)" "keeps (rollout_step E) (set_api g)"
  "keeps (rollout_step E) (set_inst (\<lambda>i. i\<lparr>o_Finalizers := fs i\<rparr>))" "no_rollout op \<Longrightarrow> keeps (rollout_step E) (cond op)"
  by (simp_all add: keeps_def rollout_step_def set_api_def run_defs world_defs suffix_def)

lemma rotation_rollout: "keeps (rollout_step E) (API_normal_rotation E)"
  unfolding API_normal_rotation_def Let_def by (intro rollout_basic rollout.keeps_rules)

lemma normal_rollout:
  assumes "mirrors E"
  shows "keeps (rollout_step E) (API_reconcileNormal E)"
proof -
  note quiet = phases_same(1-6,8-10,12-14) [THEN rollout_quiet]
  have m: "keeps (rollout_step E) (ensure_memcached E n ns)" for n ns
    by (rule rollout_quiet [OF phases_same(2) phases_no_rollout(2)])
  show ?thesis
    unfolding API_reconcileNormal_def
    by (intro m quiet phases_no_rollout rollout_quiet [OF phases_same(7) init_no_rollout [OF assms]] deploy_rollout
        rotation_rollout rollout_basic(2) rollout.keeps_rules)
qed

lemma delete_rollout: "keeps (rollout_step E) (API_reconcileDelete E)"
  unfolding API_reconcileDelete_def ensureDeletedEndpoints_def Let_def
  by (intro rollout_basic rollout.keeps_rules)

lemma handle_rollout: "mirrors E \<Longrightarrow> keeps (rollout_step E) (API_handle E new i)"
  unfolding API_handle_def Let_def case_prod_unfold
  by (intro normal_rollout delete_rollout rollout_basic rollout.keeps_rules)

section \<open>Ready is earned\<close>

definition api_ready_earned :: "env \<Rightarrow> GlanceAPI world \<Rightarrow> bool" where
  "api_ready_earned E w \<longleftrightarrow>
     (\<exists>l. w_conds w = CMarkTrue ReadyCondition (LibMsg ''ReadyMessage'' []) # l \<and> all_sub_true E l)"

lemma api_ready_earns: "earns (api_ready_earned E) (seq (API_normal_ready E) (ret (EmptyResult, None)))"
  by (auto simp: earns_def API_normal_ready_def run_defs world_defs api_ready_earned_def)

lemma tail_not_ready:
  "keeps (only any_call not_ready) (API_normal_credential E)"
  "keeps (only any_call not_ready) (API_normal_deploy E h sa p t ws mc)"
  "keeps (only any_call not_ready) (API_normal_rotation E)"
  "keeps (only any_call not_ready) (API_reconcileDelete E)"
  unfolding api_phase_defs api_helper_defs Let_def by (intro api_rules; simp)+

lemma plain_not_ready: "keeps (only plain_call not_ready) m \<Longrightarrow> keeps (only any_call not_ready) m"
  by (erule keeps_mono) (auto elim: only_mono)

lemma api_normal_earns: "earns (api_ready_earned E) (API_reconcileNormal E)"
  unfolding API_reconcileNormal_def case_prod_unfold
  by (intro earns_fn earns_seq earns_bind api_ready_earns phases_plain [THEN plain_not_ready] tail_not_ready api_rules)

lemma api_handle_earns: "earns (api_ready_earned E) (API_handle E new i)"
  unfolding API_handle_def Let_def case_prod_unfold
  by (intro earns_seq api_rules) (simp_all add: api_normal_earns earns_none tail_not_ready)

lemma api_conditions_distinct: "distinct (map c_Type api_conditions)"
  by (simp add: api_conditions_def)

lemma api_deployment_unknown:
  "\<exists>c \<in> set api_conditions. c_Type c = DeploymentReadyCondition \<and> c_Status c \<noteq> CTrue"
  by (simp add: api_conditions_def)

lemma API_Reconcile_patched:
  assumes "API_Reconcile E ns name tr0 = (Ret result, CPatchGlanceAPI inst log # tr)"
  obtains i new conds r w where
    "resp_api E (CGetGlanceAPI ns name # tr0) = Inr i"
    "API_body E new \<lparr>w_inst = i, w_conds = conds, w_trace = CNewHelper # CGetGlanceAPI ns name # tr0\<rparr> =
       ((Next r, w) :: (reconcile_result, reconcile_result) out \<times> GlanceAPI world)"
    "inst = w_inst w" "log = deferred_conditions E (w_conds w)" "tr = w_trace w"
proof -
  let ?tr = "CNewHelper # CGetGlanceAPI ns name # tr0"
  from assms obtain i where i: "resp_api E (CGetGlanceAPI ns name # tr0) = Inr i"
    by (cases "resp_api E (CGetGlanceAPI ns name # tr0)") (auto simp: API_Reconcile_def)
  with assms have no_err: "resp_err E ?tr = None"
    by (cases "resp_err E ?tr") (auto simp: API_Reconcile_def)
  define w0 where "w0 = \<lparr>w_inst = i, w_conds = (case as_Conditions (AStatus i) of None \<Rightarrow> [] | Some l \<Rightarrow> l),
    w_trace = ?tr\<rparr>"
  obtain out w where body: "API_body E (as_Conditions (AStatus i) = None) w0 =
      ((out, w) :: (reconcile_result, reconcile_result) out \<times> GlanceAPI world)" by fastforce
  show thesis
  proof (cases out)
    case (Next r)
    obtain res err where r: "r = (res, err)" by fastforce
    have "inst = w_inst w \<and> log = deferred_conditions E (w_conds w) \<and> tr = w_trace w"
      using assms i no_err body Next r by (auto simp: API_Reconcile_def Let_def w0_def split: option.splits)
    with body Next i w0_def that show thesis by blast
  next
    case (Return r)
    with body show thesis by (simp add: API_body_def)
  next
    case (Crash p)
    with assms i no_err body show thesis by (simp add: API_Reconcile_def Let_def w0_def)
  qed
qed

text \<open>A run that earns Ready has finished the rollout.\<close>

lemma earned_rollout:
  assumes cs: "condition_store get (all_sub_true E) unk" and step: "rollout_step E w0 w"
    and w0: "w_conds w0 = CInit api_conditions # l0" and earned: "api_ready_earned E w"
    and new: "w_conds w = l1 @ w_conds w0" "l1 \<noteq> []"
  shows "rollout_done E (w_trace w0) w"
proof -
  from new(2) obtain op l where "l1 = op # l" by (cases l1) auto
  with earned new w0 have
    l: "l1 = CMarkTrue ReadyCondition (LibMsg ''ReadyMessage'' []) # l" "all_sub_true E (l @ CInit api_conditions # l0)"
    by (auto simp: api_ready_earned_def)
  obtain c where c: "c \<in> set api_conditions" "c_Type c = DeploymentReadyCondition" "c_Status c \<noteq> CTrue"
    using api_deployment_unknown by blast
  have "\<not> list_all no_rollout l"
    using condition_store.true_was_set [OF cs l(2) api_conditions_distinct c] by simp
  then have "\<not> list_all no_rollout l1" using l(1) by simp
  with step new(1) show ?thesis by (auto simp: rollout_step_def)
qed

text \<open>
  Property C5. When the status a reconcile of a GlanceAPI patches has Ready marked true in that
  reconcile, then in that reconcile the StatefulSet was applied without an error, its own
  controller had observed the generation applied, and it had exactly the replicas the
  specification asks for. It needs the laws of the condition package, and that a mirrored
  condition has the type it is mirrored into.
\<close>

theorem api_ready_means_deployed:
  assumes "condition_store get (all_sub_true E) unk" and "mirrors E"
    and "API_Reconcile E ns name tr0 = (Ret result, CPatchGlanceAPI inst log # tr)"
    and "marked ReadyCondition (since_init log)"
  shows "\<exists>d tr' n. suffix (CStatefulSet d # tr') tr \<and> suffix tr0 tr' \<and>
           resp_sts E (CStatefulSet d # tr') = ((EmptyResult, None), True, n) \<and> t_Replicas (ASpec inst) = Some n"
proof -
  from API_Reconcile_patched [OF assms(3)] obtain i new conds r w where
    body: "API_body E new \<lparr>w_inst = i, w_conds = conds, w_trace = CNewHelper # CGetGlanceAPI ns name # tr0\<rparr> =
      ((Next r, w) :: (reconcile_result, reconcile_result) out \<times> GlanceAPI world)"
    and eq: "inst = w_inst w" "log = deferred_conditions E (w_conds w)" "tr = w_trace w"
    by metis
  define w0 where "w0 = \<lparr>w_inst = i, w_conds = CInit api_conditions # conds,
    w_trace = CNewHelper # CGetGlanceAPI ns name # tr0\<rparr>"
  from body obtain out' where run: "API_handle E new i w0 = (out', w)"
    by (auto simp: API_body_def run_defs world_defs w0_def split: prod.splits out.splits)
  from keepsD [OF handle_rollout [OF assms(2)] run] have step: "rollout_step E w0 w" .
  from api_handle_earns run obtain l where l: "w_conds w = l @ w_conds w0"
    "list_all not_ready l \<or> api_ready_earned E w" unfolding earns_def by blast
  obtain pre where pre: "log = pre @ w_conds w" "\<not> marked ReadyCondition pre"
    unfolding eq deferred_conditions_def by (cases "is_unknown E (CRestoreTimes # w_conds w) ReadyCondition")
      (auto simp: Let_def marked_def intro: that [of "[_]"] that [of "[_, _]"])
  from pre(1) l(1) have "log = (pre @ l) @ CInit api_conditions # conds" by (simp add: w0_def)
  with assms(4) since_init_append have "marked ReadyCondition (pre @ l)" by metis
  with pre(2) have marked: "marked ReadyCondition l" by simp
  then have "l \<noteq> []" by (auto simp: marked_def)
  moreover have "api_ready_earned E w" using l(2) marked not_ready_marked by blast
  ultimately have "rollout_done E (w_trace w0) w"
    using earned_rollout [OF assms(1) step _ _ l(1)] by (simp add: w0_def)
  then have "rollout_done E tr0 w"
    by (rule rollout_later) (simp_all add: w0_def suffix_ConsI)
  then show ?thesis unfolding eq rollout_done_def by blast
qed

theorem api_ready_means_deployed_witness:
  "\<exists>(E :: env) inst log tr result. API_Reconcile E ''ns'' ''a'' [] = (Ret result, CPatchGlanceAPI inst log # tr) \<and>
     (\<exists>d tr' n. suffix (CStatefulSet d # tr') tr \<and> resp_sts E (CStatefulSet d # tr') = ((EmptyResult, None), True, n) \<and>
        t_Replicas (ASpec inst) = Some n)"
proof -
  let ?E = "sample_env undefined rotated_api"
  have cs: "condition_store cond_get (all_sub_true ?E) cond_is_unknown" by (simp add: ref_conds.condition_store_axioms)
  from api_reconcile_run [of undefined "[]"] obtain r inst log tr where
    run: "API_Reconcile ?E ''ns'' ''a'' [] = (Ret r, CPatchGlanceAPI inst log # tr)" and "marked ReadyCondition (since_init log)"
    by blast
  moreover have "mirrors ?E" by (simp add: mirrors_def)
  ultimately show ?thesis using api_ready_means_deployed [OF cs _ run] by blast
qed

end
