(* ===== verification/APIPanics.thy ===== *)
theory APIPanics
  imports APISteps APIRun Validation
begin

text \<open>
  When the GlanceAPI controller cannot panic: for a specification whose backends all name a
  type, with replicas and convertible volumes, as long as the lists of claims can be read.
\<close>

section \<open>Runs that cannot panic\<close>

abbreviation spec_is :: "GlanceAPISpec \<Rightarrow> GlanceAPI world \<Rightarrow> bool" where
  "spec_is sp w \<equiv> ASpec (w_inst w) = sp"

lemma safe_world:
  "safe (spec_is sp) (call c f)" "safe (spec_is sp) (cond op)"
  "safe (spec_is sp) (set_false t rs s m)" "safe (spec_is sp) (set_error t msg e)" "safe (spec_is sp) (mark_true t msg)"
  "safe (spec_is sp) (mark_false t rs s m)" "safe (spec_is sp) (set_api u)"
  "safe (spec_is sp) (set_inst (\<lambda>i. i\<lparr>o_Finalizers := fs i\<rparr>))"
  "safe (spec_is sp) (set_inst (\<lambda>i. i\<lparr>AStatus := st i\<rparr>))"
  by (simp_all add: triple_def set_api_def run_defs world_defs)

lemma safe_read_inst:
  "(\<And>i. ASpec i = sp \<Longrightarrow> safe (spec_is sp) (f i)) \<Longrightarrow> safe (spec_is sp) (bind (read (\<lambda>i. i)) f)"
  by (simp add: triple_def run_defs world_defs)

lemmas safe_rules = safe_read_inst safe_world stays_rules

lemma safe_verifyServiceSecret: "safe (spec_is sp) (verifyServiceSecret E ns n fs d vars)"
  unfolding verifyServiceSecret_def by (intro safe_rules)

lemma safe_ensureNAD: "safe (spec_is sp) (ensureNAD E ns nAttach)"
  unfolding ensureNAD_def nad_step_def by (intro safe_rules)

lemma safe_GetHeadlessService: "safe (spec_is sp) (GetHeadlessService E labels)"
  unfolding GetHeadlessService_def Let_def by (intro safe_rules)

lemmas safe_shared = safe_verifyServiceSecret safe_ensureNAD safe_GetHeadlessService

lemma phases_safe:
  "safe (spec_is sp) (API_normal_secret E)" "safe (spec_is sp) (ensure_memcached E n ns)"
  "safe (spec_is sp) (API_normal_refresh E bs)" "safe (spec_is sp) (API_normal_tls E vars)"
  "safe (spec_is sp) (API_normal_networks E)" "safe (spec_is sp) (API_normal_init E)"
  "safe (spec_is sp) (API_normal_config E mc bc vars)" "safe (spec_is sp) (API_normal_credential E)"
  "safe (spec_is sp) (API_normal_topology E)" "safe (spec_is sp) (API_normal_claims E)"
  "safe (spec_is sp) (API_normal_rotation E)" "safe (spec_is sp) (API_normal_ready E)"
  "safe (spec_is sp) (API_reconcileDelete E)"
  unfolding api_phase_defs api_helper_defs GenerateConfigsGeneric_def Let_def by (intro safe_shared safe_rules)+

section \<open>The specifications that can be deployed\<close>

definition deployable :: "env \<Rightarrow> GlanceAPISpec \<Rightarrow> bool" where
  "deployable E sp \<longleftrightarrow>
     t_Replicas sp \<noteq> None \<and>
     (case GetEnabledBackends (t_CustomServiceConfig sp) of
        Ret bs \<Rightarrow> list_all (\<lambda>b. CHR '':'' \<in> set b) bs
      | Panic p \<Rightarrow> False)"

text \<open>Every volume can be converted, and every list of claims can be read.\<close>

definition serves :: "env \<Rightarrow> bool" where
  "serves E \<longleftrightarrow> (\<forall>v. ToCoreVolumeSource (k8s E) v \<noteq> None) \<and> (\<forall>tr e. resp_pvcs E tr \<noteq> Inl e)"

lemma backend_case_safe:
  assumes "CHR '':'' \<in> set b"
  shows "safe (spec_is sp) (backend_case E b bc)"
proof -
  from assms obtain n t where "SplitN2 (CHR '':'') b = [n, t]"
    using length_SplitN2 [of "CHR '':''" b] by (auto simp: length_Suc_conv numeral_2_eq_2)
  then show ?thesis
    unfolding backend_case_def by (simp only: list.case) (intro safe_rules)
qed

lemma backends_safe:
  "list_all (\<lambda>b. CHR '':'' \<in> set b) bs \<Longrightarrow> safe (spec_is sp) (API_normal_backends E bs)"
  unfolding API_normal_backends_def
  by (intro safe_rules backend_case_safe) (auto simp: list_all_iff)

lemma GetVolumes_safe:
  assumes "\<And>v. ToCoreVolumeSource L v \<noteq> None"
  shows "\<not> panics (GetVolumes L n p ss vols svc)"
proof -
  have "\<not> panics (extra_volumes L svc x)" for x
    using assms by (auto simp: extra_volumes_def panics_go_concat_map split: option.splits)
  then have "\<not> panics (go_concat_map (extra_volumes L svc) vols)" by (simp add: panics_go_concat_map)
  then show ?thesis by (cases "go_concat_map (extra_volumes L svc) vols") (simp_all add: GetVolumes_def)
qed

lemma StatefulSet_safe:
  assumes "\<And>v. ToCoreVolumeSource L v \<noteq> None"
  shows "\<not> panics (StatefulSet L ov i h labels ann p t ws mc)"
proof -
  have "\<exists>vols. GetVolumes L (o_Name i) p (t_CustomServiceConfigSecrets (ASpec i)) (a_ExtraMounts (ASpec i)) (propagation i) = Ret vols"
    using GetVolumes_safe [OF assms] by (metis go.exhaust panics.simps(2))
  then show ?thesis by (auto simp: StatefulSet_def Let_def split: sum.splits prod.splits option.splits)
qed

lemma StatefulSet_value: "StatefulSet L ov i h labels ann p t ws mc = Ret (s, None) \<Longrightarrow> \<exists>d. s = Some d"
  by (auto simp: StatefulSet_def Let_def go_bind_def split: sum.splits prod.splits option.splits go.splits)

lemma deployment_safe:
  assumes "t_Replicas sp = Some n"
  shows "safe (spec_is sp) (deployment_status E obs k)"
proof -
  have "\<not> panics (api_replicas i)" if "ASpec i = sp" for i
    using that assms by (simp add: api_replicas_def)
  then show ?thesis
    unfolding deployment_status_def verify_networks_def network_error_def Let_def
    by (intro stays_go safe_rules) simp_all
qed

lemma deploy_safe:
  assumes "t_Replicas sp = Some n" and "\<And>v. ToCoreVolumeSource (k8s E) v \<noteq> None"
  shows "safe (spec_is sp) (API_normal_deploy E h sa p t ws mc)"
proof -
  have rest: "safe (spec_is sp)
    (seq (must (ret err) (\<lambda>e. exit_with (EmptyResult, Some e)))
      (bind (case s of None \<Rightarrow> crash NilDereference | Some d \<Rightarrow> call (CStatefulSet d) (resp_sts E)) f))"
    if "err = None \<Longrightarrow> \<exists>d. s = Some d" and "\<And>x. safe (spec_is sp) (f x)" for s err f
  proof (cases err)
    case None
    with that obtain d where d: "s = Some d" by blast
    show ?thesis unfolding None d option.case by (intro safe_rules that(2))
  next
    case (Some e)
    then show ?thesis by (simp add: triple_def run_defs)
  qed
  show ?thesis
    unfolding API_normal_deploy_def
    by (intro safe_read_inst stays_go stays_prod StatefulSet_safe assms(2) rest safe_rules
        deployment_safe [OF assms(1)]) (use StatefulSet_value in blast)
qed

lemma cache_pvcs_safe: "serves E \<Longrightarrow> safe (spec_is sp) (cache_pvcs E labels)"
proof -
  assume "serves E"
  then have "\<exists>pvcs. resp_pvcs E tr = Inr pvcs" for tr by (cases "resp_pvcs E tr") (auto simp: serves_def)
  then show ?thesis
    unfolding cache_pvcs_def GetPvcListWithLabel_def triple_def run_defs world_defs
    by (auto split: sum.splits) (metis sum.disc sum.distinct(1))+
qed

lemma cache_job_safe: "\<not> panics (ImageCacheJob L i (cache_cron_spec i labels ann cj n))"
  by (simp add: ImageCacheJob_def cache_cron_spec_def Let_def split: prod.splits)

lemma cache_safe: "serves E \<Longrightarrow> safe (spec_is sp) (API_normal_cache E sa)"
  unfolding API_normal_cache_def ensureImageCacheJob_def cleanupImageCacheJob_def deleteJob_def Let_def
  by (intro cache_pvcs_safe stays_go cache_job_safe safe_rules)

lemma api_normal_safe:
  assumes "deployable E sp" and "serves E"
  shows "safe (spec_is sp) (API_reconcileNormal E)"
proof -
  from assms(1) obtain n bs where n: "t_Replicas sp = Some n"
    and bs: "GetEnabledBackends (t_CustomServiceConfig sp) = Ret bs" "list_all (\<lambda>b. CHR '':'' \<in> set b) bs"
    by (auto simp: deployable_def split: go.splits)
  have vol: "ToCoreVolumeSource (k8s E) v \<noteq> None" for v using assms(2) by (simp add: serves_def)
  show ?thesis
    unfolding API_reconcileNormal_def
    by (intro safe_read_inst stays_go phases_safe deploy_safe [OF n vol] cache_safe [OF assms(2)] safe_rules)
      (simp add: bs, metis bs backends_safe go.inject(1))
qed

lemma handle_safe:
  assumes "o_Deleted i \<or> deployable E sp" and "serves E"
  shows "safe (spec_is sp) (API_handle E new i)"
proof -
  have "safe (spec_is sp) (if o_Deleted i then API_reconcileDelete E else API_reconcileNormal E)"
    using assms by (intro stays_if phases_safe api_normal_safe) simp_all
  then show ?thesis
    unfolding API_handle_def Let_def case_prod_unfold by (intro safe_world stays_basic stays_whenever stays_seq)
qed

section \<open>Properties\<close>

text \<open>
  Property C17. A reconcile of a GlanceAPI that is being deleted, or whose backends all name a
  type and whose replicas are set, never panics, whatever the API server, the other services
  and the libraries answer, as long as extra volumes can be converted and lists of claims can
  be read.
\<close>

theorem deployable_api_never_panics:
  assumes "serves E" and "\<And>i. resp_api E (CGetGlanceAPI ns name # tr0) = Inr i \<Longrightarrow> o_Deleted i \<or> deployable E (ASpec i)"
  shows "\<exists>result tr. API_Reconcile E ns name tr0 = (Ret result, tr)"
proof (cases "resp_api E (CGetGlanceAPI ns name # tr0)")
  case (Inl e)
  then show ?thesis by (simp add: API_Reconcile_def)
next
  case (Inr i)
  define w where "w = \<lparr>w_inst = i, w_conds = (case as_Conditions (AStatus i) of None \<Rightarrow> [] | Some l \<Rightarrow> l),
    w_trace = CNewHelper # CGetGlanceAPI ns name # tr0\<rparr>"
  let ?w = "w\<lparr>w_conds := CInit api_conditions # w_conds w\<rparr>" and ?new = "as_Conditions (AStatus i) = None"
  obtain out w' where handle: "API_handle E ?new i ?w = (out, w')" by fastforce
  have "spec_is (ASpec i) ?w" by (simp add: w_def)
  from tripleD(3) [OF handle_safe [OF assms(2) [OF Inr] assms(1)] this] handle have "out \<noteq> Crash p" for p
    by blast
  then obtain r where "out = Next r \<or> out = Return r" by (cases out) auto
  with handle have "API_body E ?new w = ((Next r, w') :: (reconcile_result, reconcile_result) out \<times> GlanceAPI world)"
    unfolding API_body_def by (auto simp: run_defs world_defs w_def)
  then show ?thesis
    using Inr by (cases r) (simp add: API_Reconcile_def Let_def w_def split: option.splits)
qed

theorem deployable_api_never_panics_witness:
  "\<exists>result tr. API_Reconcile (sample_env undefined rotated_api) ''ns'' ''a'' [] = (Ret result, tr)"
proof (rule deployable_api_never_panics)
  show "serves (sample_env undefined rotated_api)" by (simp add: serves_def ref_lib_def)
next
  fix i
  assume "resp_api (sample_env undefined rotated_api) [CGetGlanceAPI ''ns'' ''a''] = Inr i"
  then have "i = rotated_api" by simp
  then show "o_Deleted i \<or> deployable (sample_env undefined rotated_api) (ASpec i)"
    by (simp add: deployable_def rotated_api_def sample_api_def no_backends Let_def)
qed

end
