(* ===== verification/APILive.thy ===== *)
theory APILive
  imports Progress APIPanics
begin

text \<open>
  The GlanceAPI controller makes progress: where everything it asks for is answered well and the
  rollout reports its replicas ready, an instance becomes Ready within two reconciles.
\<close>

section \<open>An environment that answers well\<close>

text \<open>
  Beside what both controllers ask for: claims, secrets and endpoints that can be read, a Cinder
  service, networks that are attached, and a StatefulSet whose controller reports the replicas
  it was asked for.
\<close>

definition deploys_well :: "env \<Rightarrow> bool" where
  "deploys_well E \<longleftrightarrow>
     serves_well E \<and>
     (\<forall>tr. \<exists>ss. resp_strs E tr = Inr ss \<and> ss \<noteq> []) \<and>
     (\<forall>tr. \<exists>m. resp_map E tr = Inr m) \<and>
     (\<forall>tr. \<exists>db. resp_getdb E tr = Inr db) \<and>
     (\<forall>tr. \<exists>ps. resp_pvcs E tr = Inr ps) \<and>
     (\<forall>tr. \<exists>t. resp_topology E tr = Inr t) \<and>
     (\<forall>tr. \<exists>st. resp_network E tr = Inr (True, st)) \<and>
     (\<forall>n ns eps l tr. \<exists>c sid. resp_keystone E (CKeystoneEndpoint n ns eps l # tr) = ((EmptyResult, None), c, sid) \<and>
        is_true KeystoneEndpointReadyCondition c) \<and>
     (\<forall>tr. \<exists>url region. resp_keystoneapi E tr = Inr (url, region) \<and> (\<forall>e. \<exists>u. url e = Inr u)) \<and>
     (\<forall>d n tr. sts_Replicas d = Some n \<longrightarrow> resp_sts E (CStatefulSet d # tr) = ((EmptyResult, None), True, n))"

text \<open>The pure functions of the libraries, where they may fail, do not.\<close>

definition lawful_api_functions :: "env \<Rightarrow> bool" where
  "lawful_api_functions E \<longleftrightarrow>
     all_sub_true E = cond_all_sub_true \<and> is_unknown E = cond_is_unknown \<and>
     (\<forall>l t c. mirror E l t = Some c \<longrightarrow> c_Type c = t) \<and>
     (\<forall>fs. \<not> snd (AddFinalizer E (fst (AddFinalizer E fs)))) \<and>
     (\<forall>svc. NewService E svc = None) \<and>
     (\<forall>svc o' tls. \<exists>url. GetAPIEndpoint E svc o' tls = Inr url) \<and>
     (\<forall>x. \<exists>h. ObjectHash E x = Inr h) \<and>
     (\<forall>p s o' d. \<exists>ps. CreateProbeSet (k8s E) p s o' d = Inr ps) \<and>
     (\<forall>v. ToCoreVolumeSource (k8s E) v \<noteq> None)"

text \<open>
  The instance: backends with a type and replicas that are set, sizes that are quantities, a
  certificate where TLS is on, an application credential with its two keys, and annotations
  that are booleans.
\<close>

definition deployable_api :: "env \<Rightarrow> GlanceAPI \<Rightarrow> bool" where
  "deployable_api E i \<longleftrightarrow>
     \<not> o_Deleted i \<and> deployable E (ASpec i) \<and>
     (\<exists>vm. endpoints_mounts (k8s E) (t_TLS (ASpec i)) (sorted_endpoints (a_APIType (ASpec i))) = Inr vm) \<and>
     (\<not> External (t_Storage (ASpec i)) \<longrightarrow> (\<exists>q. ParseQuantity (k8s E) (StorageRequest (t_Storage (ASpec i))) = Inr q)) \<and>
     (Size (t_ImageCache (ASpec i)) \<noteq> [] \<longrightarrow> (\<exists>q. ParseQuantity (k8s E) (Size (t_ImageCache (ASpec i))) = Inr q)) \<and>
     (\<exists>v. GetBoolFromAnnotation E (o_Annotations i) GlanceWSGILabel = Inr v) \<and>
     (\<forall>ns tr m. ApplicationCredentialSecret (t_Auth (ASpec i)) \<noteq> [] \<and>
        resp_map E (CGetSecret (ApplicationCredentialSecret (t_Auth (ASpec i))) ns # tr) = Inr m \<longrightarrow>
        map_str m (ACIDSecretKey E) \<noteq> [] \<and> map_str m (ACSecretSecretKey E) \<noteq> [])"

definition same_instance :: "GlanceAPI \<Rightarrow> GlanceAPI \<Rightarrow> bool" where
  "same_instance i j \<longleftrightarrow>
     ASpec j = ASpec i \<and> o_Annotations j = o_Annotations i \<and> o_Deleted j = o_Deleted i \<and> o_Name j = o_Name i \<and>
     o_Namespace j = o_Namespace i \<and> o_Labels j = o_Labels i \<and> o_Generation j = o_Generation i"

lemma deployable_same: "same_instance i j \<Longrightarrow> deployable_api E j = deployable_api E i"
  by (simp add: deployable_api_def same_instance_def)

text \<open>The conditions a reconcile sets: the topology only when there is a reference to one.\<close>

definition topology_types :: "GlanceAPI \<Rightarrow> ctype set" where
  "topology_types i = (if t_TopologyRef (ASpec i) = None then {} else {TopologyReadyCondition})"

section \<open>The phases\<close>

lemma goes_api: "goes (same_instance i) S S (set_api f)"
  unfolding set_api_def by (rule goes_modify) (simp add: same_instance_def)

lemmas goes_steps = yields_mark yields_then goes_unless goes_whenever goes_mark yields_ret goes_api

lemma serves: "deploys_well E \<Longrightarrow> serves_well E"
  by (simp add: deploys_well_def)

lemmas shared = yields_verify [OF serves] yields_nad [OF serves] yields_configs [OF serves] goes_err [OF serves]
  yields_res [OF serves] yields_err [OF serves] yields_str [OF serves] goes_ensure_memcached [OF serves]

lemma api_answers:
  assumes "deploys_well E"
  shows "yields I S S (\<lambda>r. \<exists>ss. r = Inr ss \<and> ss \<noteq> []) (call c (resp_strs E))"
    and "yields I S S (\<lambda>r. \<exists>m. r = Inr m) (call c (resp_map E))"
    and "yields I S S (\<lambda>r. \<exists>db. r = Inr db) (call c (resp_getdb E))"
    and "yields I S S (\<lambda>r. \<exists>ps. r = Inr ps) (call c (resp_pvcs E))"
    and "yields I S S (\<lambda>r. \<exists>t. r = Inr t) (call c (resp_topology E))"
    and "yields I S S (\<lambda>r. \<exists>st. r = Inr (True, st)) (call c (resp_network E))"
    and "yields I S S (\<lambda>r. \<exists>k. r = Inr k \<and> (\<forall>e. \<exists>u. fst k e = Inr u)) (call c (resp_keystoneapi E))"
proof -
  have "\<exists>url region. resp_keystoneapi E tr = Inr (url, region) \<and> (\<forall>e. \<exists>u. url e = Inr u)" for tr
    using assms by (simp add: deploys_well_def)
  then show "yields I S S (\<lambda>r. \<exists>k. r = Inr k \<and> (\<forall>e. \<exists>u. fst k e = Inr u)) (call c (resp_keystoneapi E))"
    by (intro yields_call) (metis fst_conv)
qed (rule yields_call, use assms in \<open>simp add: deploys_well_def\<close>)+

lemma goes_api_secret:
  assumes "deploys_well E"
  shows "goes I (insert InputReadyCondition S) S (API_normal_secret E)"
  unfolding API_normal_secret_def
  by (intro yields_inst yields_bind [OF yields_verify [OF serves [OF assms]]])
    (auto intro!: goes_steps)

lemma yields_hash:
  assumes "lawful_api_functions E" and "\<And>h. yields I S T Q (f h)"
  shows "yields I S T Q (attempt (ret (ObjectHash E x)) e f)"
proof (rule yields_attempt [where P = "\<lambda>_. True"])
  show "yields I S S (\<lambda>v. \<exists>h. v = Inr h \<and> True) (ret (ObjectHash E x))"
    by (rule yields_ret) (use assms(1) in \<open>simp add: lawful_api_functions_def\<close>)
qed (rule assms(2))

lemma goes_refresh:
  assumes "deploys_well E" and "lawful_api_functions E"
  shows "goes (same_instance i) S S (API_normal_refresh E bs)"
proof -
  have hash: "yields (same_instance i) S S (\<lambda>v. \<exists>x. v = Inr x \<and> True) (createHashOfBackendConfig E bs)"
    unfolding createHashOfBackendConfig_def Let_def case_prod_unfold
    by (intro yields_fn yields_inst yields_hash [OF assms(2)] goes_steps) simp
  have "yields (same_instance i) S S (\<lambda>e. e = None) (glanceAPIRefresh E)"
    unfolding glanceAPIRefresh_def
    by (intro yields_fn yields_inst yields_seq [OF goes_err [OF serves [OF assms(1)]]] goes_steps refl)
  then show ?thesis unfolding API_normal_refresh_def case_prod_unfold
    by (intro yields_attempt [OF hash] goes_whenever goes_must)
qed

lemma goes_backend:
  assumes "deploys_well E" and "CHR '':'' \<in> set b"
  shows "goes I T T (backend_case E b bc)"
proof -
  from assms(2) obtain n t where b: "SplitN2 (CHR '':'') b = [n, t]"
    using length_SplitN2 [of "CHR '':''" b] by (auto simp: length_Suc_conv numeral_2_eq_2)
  show ?thesis unfolding backend_case_def b list.case
    by (intro yields_inst yields_if yields_attempt [OF api_answers(1) [OF assms(1)]] yields_ret) simp_all
qed

lemma goes_backends:
  assumes "deploys_well E" and "list_all (\<lambda>b. CHR '':'' \<in> set b) bs"
  shows "goes I (insert CinderCondition S) S (API_normal_backends E bs)"
proof -
  have "goes I T T (backend_case E b bc)" if "b \<in> set bs" for b bc T
    by (rule goes_backend [OF assms(1)]) (use that assms(2) in \<open>auto simp: list_all_iff\<close>)
  then show ?thesis unfolding API_normal_backends_def
    by (intro yields_bind [OF yields_for_acc [where P = "\<lambda>_. True"]] yields_seq [OF goes_mark(2)] yields_ret TrueI)
qed

lemma goes_tls:
  assumes "deploys_well E"
  shows "goes I (insert TLSInputReadyCondition S) S (API_normal_tls E vars)"
  unfolding API_normal_tls_def Let_def
  by (intro yields_inst yields_bind [where T = "insert TLSInputReadyCondition S" and P = "\<lambda>_. True"] yields_if
      yields_attempt [OF yields_str [OF serves [OF assms]]] yields_seq [OF goes_mark(1)] yields_ret TrueI)

lemma goes_api_networks:
  assumes "deploys_well E"
  shows "goes I S S (API_normal_networks E)"
  unfolding API_normal_networks_def
  by (intro yields_inst yields_bind [OF yields_nad [OF serves [OF assms]]])
    (auto intro!: goes_steps goes_must)

text \<open>The services and the Keystone endpoint.\<close>

lemma yields_headless:
  assumes "deploys_well E" and "lawful_api_functions E"
  shows "yields (same_instance i) S S (\<lambda>r. fst r = (EmptyResult, None)) (GetHeadlessService E labels)"
proof -
  have "NewService E svc = None" for svc using assms(2) by (simp add: lawful_api_functions_def)
  moreover have "goes (same_instance i) S S (set_inst (\<lambda>i. i\<lparr>AStatus := (AStatus i)\<lparr>as_Domain := d\<rparr>\<rparr>))" for d
    by (rule goes_modify) (simp add: same_instance_def)
  ultimately show ?thesis unfolding GetHeadlessService_def Let_def
    by (intro yields_fn yields_inst)
      (auto intro!: yields_then yields_bind [OF yields_res [OF serves [OF assms(1)]]] yields_ret)
qed

lemma goes_expose:
  assumes "deploys_well E" and "lawful_api_functions E"
  shows "goes (same_instance i) S S (expose_one E labels endpt eps)"
proof -
  have svc: "must (ret (NewService E svc)) h = ret ()" for svc and h :: "go_error \<Rightarrow> (GlanceAPI world, reconcile_result, unit) act"
    using assms(2) by (simp add: lawful_api_functions_def run_defs fun_eq_iff)
  have url: "yields (same_instance i) S S (\<lambda>v. \<exists>x. v = Inr x \<and> True) (ret (GetAPIEndpoint E svc o' tls))" for svc o' tls
    by (rule yields_ret) (use assms(2) in \<open>simp add: lawful_api_functions_def\<close>)
  have service: "goes (same_instance i) S S
    (bind (call c (resp_res E)) (\<lambda>(ctrlResult, err).
       seq (must (ret err) (h ctrlResult))
      (seq (whenever (ctrlResult \<noteq> EmptyResult) (m ctrlResult))
           (attempt (ret (GetAPIEndpoint E svc o' tls)) h' (\<lambda>url. ret (f url))))))" for c h m svc o' tls h' f
    by (rule yields_bind [OF yields_res [OF serves [OF assms(1)]]])
      (auto intro!: yields_then goes_must goes_unless yields_ret yields_attempt [OF url])
  show ?thesis unfolding expose_one_def Let_def svc
    by (rule yields_bind [OF yields_headless [OF assms]])
      (auto intro!: yields_then goes_must yields_ret yields_inst service)
qed

lemma goes_keystone_endpoint:
  assumes "deploys_well E"
  shows "yields I (insert KeystoneEndpointReadyCondition S) S (\<lambda>r. r = (EmptyResult, None)) (ensureKeystoneEndpoints E labels)"
proof -
  have ask: "yields I T T (\<lambda>((r, e), c, _). r = EmptyResult \<and> e = None \<and> is_true KeystoneEndpointReadyCondition c)
      (call (CKeystoneEndpoint n ns eps l) (resp_keystone E))" for T n ns eps l
  proof (rule yields_call)
    fix tr
    have "\<exists>c sid. resp_keystone E (CKeystoneEndpoint n ns eps l # tr) = ((EmptyResult, None), c, sid) \<and>
        is_true KeystoneEndpointReadyCondition c" using assms by (simp add: deploys_well_def)
    then show "case resp_keystone E (CKeystoneEndpoint n ns eps l # tr) of
        (x, xa) \<Rightarrow> (case x of (r, e) \<Rightarrow> \<lambda>(c, uu). r = EmptyResult \<and> e = None \<and> is_true KeystoneEndpointReadyCondition c) xa"
      by auto
  qed
  have report: "yields I (insert KeystoneEndpointReadyCondition S) S (\<lambda>r. r = (EmptyResult, None))
      (seq (must (ret e) (h r)) (seq (whenever (c \<noteq> None) (cond (CSet c))) (ret (r, None))))"
    if "r = EmptyResult \<and> e = None \<and> is_true KeystoneEndpointReadyCondition c" for r e c h
  proof -
    from that obtain x where "c = Some x" by (cases c) (auto simp: is_true_def)
    with that show ?thesis
      by (auto simp: whenever_def intro!: yields_then goes_must yields_seq [OF goes_set] yields_ret)
  qed
  show ?thesis unfolding ensureKeystoneEndpoints_def
    by (intro yields_fn yields_inst yields_if yields_mark yields_then [OF goes_err [OF serves [OF assms]]] yields_ret refl
        yields_bind [OF ask]) (simp only: split_paired_all prod.case, rule report, simp)
qed

lemma goes_api_init:
  assumes "deploys_well E" and "lawful_api_functions E"
  shows "goes (same_instance i) (insert CreateServiceReadyCondition (insert KeystoneEndpointReadyCondition S)) S
    (API_normal_init E)"
proof -
  have "yields (same_instance i) (insert CreateServiceReadyCondition (insert KeystoneEndpointReadyCondition S)) S
      (\<lambda>r. r = (EmptyResult, None)) (API_reconcileInit E labels)" for labels
    unfolding API_reconcileInit_def init_keystone_endpoint_def
    by (intro yields_fn yields_inst
        yields_bind [OF yields_for_acc [where P = "\<lambda>_. True", OF goes_expose [OF assms]]] TrueI
        yields_mark yields_then [OF goes_api] yields_bind [OF goes_keystone_endpoint [OF assms(1)]])
      (auto intro!: goes_steps goes_must)
  then show ?thesis unfolding API_normal_init_def
    by (intro yields_inst yields_bind) (assumption, auto intro!: goes_steps goes_must)
qed

text \<open>The configuration.\<close>

lemma yields_custom_secrets:
  assumes "deploys_well E"
  shows "yields I S S (\<lambda>v. \<exists>x. v = Inr x) (custom_secrets E i)"
  unfolding custom_secrets_def
  by (intro yields_fn yields_bind [OF yields_for_acc [where P = "\<lambda>_. True"]] yields_try [OF api_answers(2) [OF assms]]
      yields_ret) auto

lemma yields_credential:
  assumes "deploys_well E" and "deployable_api E i" and "ApplicationCredentialSecret (t_Auth (ASpec i)) \<noteq> []"
  shows "yields I S S (\<lambda>v. \<exists>m. v = Inr m \<and> map_str m (ACIDSecretKey E) \<noteq> [] \<and> map_str m (ACSecretSecretKey E) \<noteq> [])
    (call (CGetSecret (ApplicationCredentialSecret (t_Auth (ASpec i))) ns) (resp_map E))"
proof (rule yields_call)
  fix tr
  let ?r = "resp_map E (CGetSecret (ApplicationCredentialSecret (t_Auth (ASpec i))) ns # tr)"
  from assms(1) obtain m where m: "?r = Inr m" unfolding deploys_well_def by metis
  with assms(2,3) have "map_str m (ACIDSecretKey E) \<noteq> [] \<and> map_str m (ACSecretSecretKey E) \<noteq> []"
    by (simp add: deployable_api_def)
  with m show "\<exists>m. ?r = Inr m \<and> map_str m (ACIDSecretKey E) \<noteq> [] \<and> map_str m (ACSecretSecretKey E) \<noteq> []" by simp
qed

lemma yields_ac_params:
  assumes "deploys_well E" and "deployable_api E i"
  shows "yields I S S (\<lambda>v. \<exists>x. v = Inr x) (ac_params E i)"
  unfolding ac_params_def Let_def
  by (intro yields_if yields_attempt [OF yields_credential [OF assms]] yields_ret) auto

lemma yields_notifications:
  assumes "deploys_well E"
  shows "yields I S S (\<lambda>v. \<exists>x. v = Inr x) (notification_params E i)"
  unfolding notification_params_def
  by (intro yields_if yields_ret yields_try [OF api_answers(2) [OF assms]]) auto

lemma yields_service_config:
  assumes "deploys_well E" and "lawful_api_functions E" and "deployable_api E i"
  shows "yields (same_instance i) S S (\<lambda>v. \<exists>x. v = Inr x) (API_generateServiceConfig E conv mc wsgi opts)"
proof -
  have id: "goes (same_instance i) S S (getEndpointID E)"
    unfolding getEndpointID_def Let_def
    by (intro yields_inst yields_bind [OF api_answers(2) [OF assms(1)]] yields_ret TrueI)
  have horizon: "goes (same_instance i) S S (GetHorizonEndpoint E)"
    unfolding GetHorizonEndpoint_def
    by (intro yields_bind [OF yields_read [where P = "\<lambda>_. True"]] yields_bind [OF yields_str [OF serves [OF assms(1)]]] yields_ret TrueI)
  have "\<exists>ps. cache_params E (Size (t_ImageCache (ASpec i))) = Inr ps"
    using assms(3) by (auto simp: cache_params_def deployable_api_def)
  then obtain ps where ps: "cache_params E (Size (t_ImageCache (ASpec j))) = Inr ps" if "same_instance i j" for j
    by (auto simp: same_instance_def)
  have ac: "yields (same_instance i) S S (\<lambda>v. \<exists>x. v = Inr x) (ac_params E j)" if "same_instance i j" for j
    using that assms(1,3) by (intro yields_ac_params) (simp_all add: deployable_same)
  show ?thesis
    unfolding API_generateServiceConfig_def Let_def
    apply (intro yields_fn yields_inst)
    apply (rule yields_try [OF api_answers(3) [OF assms(1)]])
    apply (rule yields_try [OF yields_custom_secrets [OF assms(1)]])
    apply (rule yields_attempt [OF api_answers(7) [OF assms(1)]])
    apply (simp only: split_paired_all prod.case fst_conv)
    apply (rule yields_try [OF yields_ret], simp)
    apply (rule yields_try [OF yields_ret], simp)
    apply (rule yields_try [OF api_answers(2) [OF assms(1)]])
    apply (rule yields_bind [OF id])
    apply (rule yields_try [OF ac], assumption)
    apply (rule yields_computed [OF ps], assumption)
    apply (rule yields_try [OF yields_notifications [OF assms(1)]])
    apply (rule yields_bind [OF horizon])
    apply (rule yields_bind [OF yields_configs [OF serves [OF assms(1)]]])
    apply (auto intro!: yields_ret)
    done
qed

lemma goes_api_config:
  assumes "deploys_well E" and "lawful_api_functions E" and "deployable_api E i"
  shows "goes (same_instance i) S S (API_normal_config E mc bc vars)"
proof -
  from assms(3) obtain flag ex where v: "GetBoolFromAnnotation E (o_Annotations i) GlanceWSGILabel = Inr (flag, ex)"
    by (auto simp: deployable_api_def)
  then have v: "GetBoolFromAnnotation E (o_Annotations j) GlanceWSGILabel = Inr (flag, ex)" if "same_instance i j" for j
    using that by (simp add: same_instance_def)
  have hash: "yields (same_instance i) S S (\<lambda>v. \<exists>x. v = Inr x) (createHashOfInputHashes E vs)" for vs
    unfolding createHashOfInputHashes_def Let_def case_prod_unfold
    by (intro yields_fn yields_hash [OF assms(2)] yields_bind [OF yields_read [where P = "\<lambda>_. True"]] goes_steps TrueI) simp
  show ?thesis unfolding API_normal_config_def Let_def
    apply (rule yields_inst)
    apply (rule yields_computed [OF v], assumption)
    apply (simp only: prod.case)
    apply (rule yields_try [OF yields_service_config [OF assms]])
    apply (rule yields_try [OF hash])
    apply (auto intro!: yields_ret)
    done
qed

lemma goes_credential:
  assumes "deploys_well E"
  shows "goes I (insert ServiceConfigReadyCondition S) S (API_normal_credential E)"
  unfolding API_normal_credential_def Let_def
  by (intro yields_inst yields_then goes_whenever goes_err [OF serves [OF assms]] goes_mark)

lemma goes_topology:
  assumes "deploys_well E"
  shows "goes (same_instance i) (topology_types i \<union> S) S (API_normal_topology E)"
proof -
  have mark: "goes (same_instance i) (topology_types i \<union> S) S
      (whenever (t_TopologyRef (ASpec j) \<noteq> None) (mark_true TopologyReadyCondition m))" if "same_instance i j" for j m
    using that goes_mark(1) [of "same_instance i" TopologyReadyCondition S m]
    by (auto simp: topology_types_def same_instance_def whenever_def intro: yields_ret)
  show ?thesis unfolding API_normal_topology_def
    by (intro yields_inst yields_try [OF api_answers(5) [OF assms]] yields_then [OF goes_api] yields_seq [OF mark] yields_ret TrueI)
qed

section \<open>The rollout\<close>

lemma statefulset_built:
  assumes "lawful_api_functions E" and "deployable_api E i"
  shows "\<exists>d. StatefulSet (k8s E) ov i h labels ann p t ws mc = Ret (Some d, None) \<and> sts_Replicas d = t_Replicas (ASpec i)"
proof -
  have "\<not> panics (GetVolumes (k8s E) (o_Name i) p (t_CustomServiceConfigSecrets (ASpec i)) (a_ExtraMounts (ASpec i)) (propagation i))"
    by (rule GetVolumes_safe) (use assms(1) in \<open>simp add: lawful_api_functions_def\<close>)
  then obtain vols where vols: "GetVolumes (k8s E) (o_Name i) p (t_CustomServiceConfigSecrets (ASpec i))
      (a_ExtraMounts (ASpec i)) (propagation i) = Ret vols" by (metis go.exhaust panics.simps(2))
  have "\<forall>p s o' d. \<exists>ps. CreateProbeSet (k8s E) p s o' d = Inr ps" using assms(1) by (simp add: lawful_api_functions_def)
  then obtain probes where "CreateProbeSet (k8s E) (sts_port i) (glanceURIScheme (k8s E) i) (Probes (t_Override (ASpec i)))
      (GetDefaultProbesAPI ov (t_APITimeout (ASpec i))) = Inr probes" by blast
  moreover from assms(2) obtain vs ms where "api_volumes (k8s E) i mc = Inr (vs, ms)"
    by (auto simp: deployable_api_def api_volumes_def Let_def)
  moreover have "\<exists>claims. claim_templates (k8s E) i labels = (claims, None)"
  proof -
    have "External (t_Storage (ASpec i)) \<or> (\<exists>pvc. GetPvc (k8s E) i labels PvcLocal = (pvc, None))"
      "Size (t_ImageCache (ASpec i)) = [] \<or> (\<exists>pvc. GetPvc (k8s E) i labels PvcCache = (pvc, None))"
      using assms(2) by (auto simp: deployable_api_def GetPvc_def Let_def)
    then show ?thesis by (auto simp: claim_templates_def Let_def)
  qed
  ultimately show ?thesis
    using vols by (cases t) (auto simp: StatefulSet_def Let_def base_statefulset_def)
qed

text \<open>The instance once the count of the StatefulSet has been taken over.\<close>

definition rolled :: "GlanceAPI \<Rightarrow> int \<Rightarrow> GlanceAPI \<Rightarrow> bool" where
  "rolled i n j \<longleftrightarrow> same_instance i j \<and> as_ReadyCount (AStatus j) = n"

lemma rolled_replicas: "t_Replicas (ASpec i) = Some n \<Longrightarrow> rolled i n j \<Longrightarrow> api_replicas j = Ret n"
  by (simp add: api_replicas_def rolled_def same_instance_def)

lemma goes_networks_verified:
  assumes "deploys_well E" and "t_Replicas (ASpec i) = Some n"
  shows "goes (rolled i n) (insert NetworkAttachmentsReadyCondition S) S (verify_networks E)"
proof -
  have ask: "yields (rolled i n) T T (\<lambda>r. fst r) (if n > 0 then
             attempt (call c (resp_network E)) h ret else ret (True, []))" for T c h
    by (intro yields_if yields_attempt [OF yields_value [OF api_answers(6) [OF assms(1)]]] yields_ret) auto
  have attached: "goes (rolled i n) T T (set_api (\<lambda>s. s\<lparr>as_NetworkAttachments := x\<rparr>))" for T x
    unfolding set_api_def by (rule goes_modify) (simp add: rolled_def same_instance_def)
  show ?thesis unfolding verify_networks_def Let_def
    apply (rule yields_inst)
    apply (rule yields_bind [OF yields_go [OF rolled_replicas [OF assms(2)], where P = "\<lambda>x. x = n"]], assumption, rule refl)
    apply (simp only:)
    apply (rule yields_bind [OF ask])
    apply (simp only: split_paired_all prod.case fst_conv if_True)
    apply (rule yields_then [OF attached goes_mark(1)])
    done
qed

lemma goes_rollout:
  assumes "deploys_well E" and "t_Replicas (ASpec i) = Some n"
  shows "goes (same_instance i) (insert NetworkAttachmentsReadyCondition (insert DeploymentReadyCondition S)) S
    (deployment_status E True n)"
proof -
  have mark: "goes (rolled i n) (insert DeploymentReadyCondition S) S (bind (of_go (api_replicas j)) (\<lambda>replicas.
        if as_ReadyCount (AStatus j) = replicas then mark_true DeploymentReadyCondition m
        else set_false DeploymentReadyCondition RequestedReason SeverityInfo m'))" if "rolled i n j" for j m m'
    using that goes_mark(1)
    by (auto intro!: yields_bind [OF yields_go [OF rolled_replicas [OF assms(2) that], where P = "\<lambda>x. x = n"]] simp: rolled_def)
  show ?thesis unfolding deployment_status_def whenever_def if_True set_api_def
  proof (rule yields_change [where J = "rolled i n"])
    show "goes (rolled i n) (insert NetworkAttachmentsReadyCondition (insert DeploymentReadyCondition S)) S
       (seq (verify_networks E) (bind (read (\<lambda>i. i)) (\<lambda>i. bind (of_go (api_replicas i)) (\<lambda>replicas.
        if as_ReadyCount (AStatus i) = replicas then mark_true DeploymentReadyCondition ''DeploymentReadyMessage''
        else set_false DeploymentReadyCondition RequestedReason SeverityInfo
               (LibMsg ''DeploymentReadyRunningMessage'' [])))))"
      by (intro yields_seq [OF goes_networks_verified [OF assms]] yields_inst mark)
  qed (simp_all add: rolled_def same_instance_def)
qed

lemma goes_deploy:
  assumes "deploys_well E" and "lawful_api_functions E" and "deployable_api E i"
  shows "goes (same_instance i) (insert NetworkAttachmentsReadyCondition (insert DeploymentReadyCondition S)) S
    (API_normal_deploy E h sa p t ws mc)"
proof -
  from assms(3) obtain n where n: "t_Replicas (ASpec i) = Some n" by (auto simp: deployable_api_def deployable_def)
  let ?S = "insert NetworkAttachmentsReadyCondition (insert DeploymentReadyCondition S)"
  have "goes (same_instance i) ?S S (bind (of_go (StatefulSet (k8s E) (int32_overflow E) j h l sa p t ws mc)) (\<lambda>(sts, err).
       seq (must (ret err) (\<lambda>e. exit_with (EmptyResult, Some e)))
      (bind (case sts of None \<Rightarrow> crash NilDereference | Some deplDef \<Rightarrow> call (CStatefulSet deplDef) (resp_sts E))
        (\<lambda>((ctrlResult, err), observed, readyReplicas).
          seq (must (ret err) (f ctrlResult))
         (seq (whenever (ctrlResult \<noteq> EmptyResult) (g ctrlResult))
              (deployment_status E observed readyReplicas))))))" if same: "same_instance i j" for j l f g
  proof -
    have j: "deployable_api E j" using assms(3) deployable_same [OF same] by simp
    from statefulset_built [OF assms(2) this, of "int32_overflow E" h l sa p t ws mc] obtain d where d: "StatefulSet (k8s E) (int32_overflow E) j h l sa p t ws mc =
      Ret (Some d, None)" "sts_Replicas d = Some n" using same n by (auto simp: same_instance_def)
    then have ask: "yields (same_instance i) ?S ?S (\<lambda>r. r = ((EmptyResult, None), True, n))
        (call (CStatefulSet d) (resp_sts E))"
      by (intro yields_call) (use assms(1) in \<open>simp add: deploys_well_def\<close>)
    show ?thesis
      by (rule yields_bind [OF yields_go [OF d(1), where P = "\<lambda>x. x = (Some d, None)"]])
        (auto intro!: yields_then goes_must yields_ret goes_unless yields_bind [OF ask] goes_rollout [OF assms(1) n])
  qed
  then show ?thesis unfolding API_normal_deploy_def by (intro yields_inst)
qed

lemma goes_claims:
  assumes "deploys_well E"
  shows "goes I S S (API_normal_claims E)"
proof -
  have "yields J T T (\<lambda>e. e = None) (reconcilePVCLabels E)" for T and J :: "GlanceAPI \<Rightarrow> bool"
    unfolding reconcilePVCLabels_def
    by (intro yields_fn yields_inst yields_try [OF api_answers(4) [OF assms]] yields_then yields_for_each yields_if yields_ret
        goes_err [OF serves [OF assms]] refl TrueI)
  then show ?thesis unfolding API_normal_claims_def by (intro yields_inst goes_whenever goes_must)
qed

lemma yields_claims:
  assumes "deploys_well E"
  shows "yields I S S (\<lambda>r. \<exists>ps. r = Inr ps) (GetPvcListWithLabel E ns labels)"
  unfolding GetPvcListWithLabel_def by (rule yields_bind [OF api_answers(4) [OF assms]]) (auto intro!: yields_ret)

lemma goes_cache_pvcs:
  assumes "deploys_well E"
  shows "goes I S S (cache_pvcs E labels)"
  unfolding cache_pvcs_def
  by (intro yields_bind [OF yields_read [where P = "\<lambda>_. True"]] yields_bind [OF yields_claims [OF assms]] TrueI)
    (auto intro!: yields_ret)

lemma yields_cache_job:
  assumes "deploys_well E"
  shows "yields I S S (\<lambda>r. r = (EmptyResult, None)) (ensureImageCacheJob E labels ann cj)"
proof -
  have one: "yields I S S (\<lambda>r. r = EmptyResult) (bind (of_go (ImageCacheJob (k8s E) i (cache_cron_spec i labels ann cj n)))
      (\<lambda>d. bind (call (CCronJob d) (resp_res E)) (\<lambda>(ctrlResult, err).
             seq (must (ret err) (h ctrlResult)) (ret (if ctrlResult \<noteq> EmptyResult then ctrlResult else EmptyResult)))))"
    for i n h
    by (intro yields_bind [OF goes_total [OF cache_job_safe]] yields_bind [OF yields_res [OF serves [OF assms]]])
      (auto intro!: yields_then goes_must yields_ret)
  show ?thesis unfolding ensureImageCacheJob_def
    apply (intro yields_fn yields_inst yields_bind [OF goes_cache_pvcs [OF assms]])
    apply (rule yields_bind [OF yields_for_acc [where P = "\<lambda>r. r = EmptyResult"]])
    apply (auto intro!: one yields_ret)
    done
qed

lemma yields_job_deleted:
  assumes "deploys_well E"
  shows "yields I S S (\<lambda>r. r = (EmptyResult, None)) (deleteJob E n)"
  unfolding deleteJob_def
  by (intro yields_fn yields_bind [OF yields_read [where P = "\<lambda>_. True"]] yields_then yields_for_each
      yields_bind [OF yields_err [OF serves [OF assms]]] TrueI)
    (auto intro!: goes_err [OF serves [OF assms]] yields_ret)

lemma yields_cache_cleaned:
  assumes "deploys_well E"
  shows "yields I S S (\<lambda>r. r = (EmptyResult, None)) (cleanupImageCacheJob E labels)"
  unfolding cleanupImageCacheJob_def Let_def
  apply (intro yields_fn yields_inst yields_bind [OF goes_cache_pvcs [OF assms]])
  apply (rule yields_bind [OF yields_for_acc [where P = "\<lambda>r. r = EmptyResult"]])
    apply (auto intro!: yields_ret yields_bind [OF yields_err [OF serves [OF assms]]] yields_bind [OF yields_job_deleted [OF assms]])
  done

lemma goes_cache:
  assumes "deploys_well E"
  shows "goes I (insert CronJobReadyCondition S) S (API_normal_cache E sa)"
  unfolding API_normal_cache_def
  apply (intro yields_inst yields_then goes_whenever yields_for_each)
   apply (rule yields_bind [OF yields_cache_job [OF assms]], auto intro!: goes_must yields_ret) []
  apply (rule yields_bind [OF yields_cache_cleaned [OF assms]])
  apply (auto intro!: goes_steps goes_must)
  done

lemma goes_rotation:
  assumes "deploys_well E"
  shows "goes (same_instance i) S S (API_normal_rotation E)"
  unfolding API_normal_rotation_def Let_def
  by (intro yields_inst yields_if yields_bind [OF yields_log [where P = "\<lambda>_. True"]] goes_whenever yields_then
      goes_err [OF serves [OF assms]] goes_api TrueI)

section \<open>What a reconcile leaves as it was\<close>

text \<open>The generation that was observed, and the finalizers.\<close>

definition same_observed :: "GlanceAPI world \<Rightarrow> GlanceAPI world \<Rightarrow> bool" where
  "same_observed w w' \<longleftrightarrow>
     as_ObservedGeneration (AStatus (w_inst w')) = as_ObservedGeneration (AStatus (w_inst w)) \<and>
     o_Finalizers (w_inst w') = o_Finalizers (w_inst w)"

interpretation observation: step_order same_observed
  by unfold_locales (auto simp: same_observed_def)

lemma observed_steps:
  "keeps same_observed (call c f)" "keeps same_observed (cond op)" "keeps same_observed (read h)"
  "keeps same_observed (set_false t r s m)" "keeps same_observed (set_error t msg e)" "keeps same_observed (mark_true t msg)"
  "keeps same_observed (mark_false t r s m)"
  "(\<And>s. as_ObservedGeneration (u s) = as_ObservedGeneration s) \<Longrightarrow> keeps same_observed (set_api u)"
  "keeps same_observed (set_inst (\<lambda>i. i\<lparr>AStatus := (AStatus i)\<lparr>as_Domain := d\<rparr>\<rparr>))"
  by (simp_all add: keeps_def run_defs world_defs set_api_def same_observed_def)

lemma observed_shared:
  "keeps same_observed (verifyServiceSecret E ns n fs d vars)" "keeps same_observed (ensureNAD E ns nAttach)"
  "keeps same_observed (GetHeadlessService E labels)" "keeps same_observed (GetPvcListWithLabel E ns labels)"
  unfolding verifyServiceSecret_def ensureNAD_def nad_step_def GetHeadlessService_def GetPvcListWithLabel_def
  by (intro observed_steps observation.keeps_rules)+

lemma observed_normal: "keeps same_observed (API_reconcileNormal E)"
proof -
  have "keeps same_observed (API_normal_secret E)" "keeps same_observed (ensure_memcached E n ns)"
    "keeps same_observed (API_normal_refresh E bs)" "keeps same_observed (API_normal_backends E bs)"
    "keeps same_observed (API_normal_tls E vars)" "keeps same_observed (API_normal_networks E)"
    "keeps same_observed (API_normal_init E)" "keeps same_observed (API_normal_config E mc bc vars)"
    "keeps same_observed (API_normal_credential E)" "keeps same_observed (API_normal_topology E)"
    "keeps same_observed (API_normal_deploy E h sa p t ws mc)" "keeps same_observed (API_normal_claims E)"
    "keeps same_observed (API_normal_cache E sa)" "keeps same_observed (API_normal_rotation E)"
    "keeps same_observed (API_normal_ready E)"
    for n ns bs vars mc bc h sa p t ws
    unfolding api_phase_defs api_helper_defs GenerateConfigsGeneric_def Let_def
    by (intro observed_shared observed_steps observation.keeps_rules; simp)+
  then show ?thesis unfolding API_reconcileNormal_def by (intro observed_steps observation.keeps_rules)
qed

section \<open>Reconciling until Ready\<close>

definition api_types :: "GlanceAPI \<Rightarrow> ctype set" where
  "api_types i =
     {InputReadyCondition, MemcachedReadyCondition, CinderCondition, TLSInputReadyCondition,
      CreateServiceReadyCondition, KeystoneEndpointReadyCondition, ServiceConfigReadyCondition} \<union>
     (topology_types i \<union> {NetworkAttachmentsReadyCondition, DeploymentReadyCondition, CronJobReadyCondition})"

text \<open>The ones every reconcile sets.\<close>

abbreviation usual_types :: "ctype set" where
  "usual_types \<equiv>
     {InputReadyCondition, MemcachedReadyCondition, CinderCondition, TLSInputReadyCondition,
      CreateServiceReadyCondition, KeystoneEndpointReadyCondition, ServiceConfigReadyCondition,
      NetworkAttachmentsReadyCondition, DeploymentReadyCondition, CronJobReadyCondition}"

lemma usual_types: "usual_types \<subseteq> api_types i"
  by (auto simp: api_types_def)

lemma ends_normal:
  assumes "deploys_well E" and "lawful_api_functions E" and "deployable_api E i"
  shows "ends_in (same_instance i) (api_types i) (\<lambda>x w. x = (EmptyResult, None) \<and> on_way (same_instance i) {} w \<and> ready_now (w_conds w)) (API_reconcileNormal E)"
proof -
  from assms(3) obtain bs where bs: "GetEnabledBackends (t_CustomServiceConfig (ASpec i)) = Ret bs"
    "list_all (\<lambda>b. CHR '':'' \<in> set b) bs"
    by (auto simp: deployable_api_def deployable_def split: go.splits)
  then have backends: "GetEnabledBackends (t_CustomServiceConfig (ASpec j)) = Ret bs" if "same_instance i j" for j
    using that by (simp add: same_instance_def)
  have lib: "all_sub_true E = cond_all_sub_true" using assms(2) by (simp add: lawful_api_functions_def)
  have finish: "ends_in (same_instance i) {} (\<lambda>x w. x = (EmptyResult, None) \<and> on_way (same_instance i) {} w \<and> ready_now (w_conds w))
      (seq (API_normal_ready E) (ret (EmptyResult, None)))"
    unfolding API_normal_ready_def
    by (rule triple_seq [OF ends_ready [OF lib]]) (rule triple_ret, simp)
  show ?thesis unfolding API_reconcileNormal_def api_types_def Un_insert_left Un_empty_left
    apply (rule ends_fn)
    apply (rule ends_bind [OF goes_api_secret [OF assms(1)]])
    apply (rule ends_inst)
    apply (rule ends_bind [OF goes_ensure_memcached [OF serves [OF assms(1)]]])
    apply (rule ends_bind [OF yields_go [OF backends, where P = "\<lambda>x. x = bs"]], assumption, rule refl)
    apply (simp only:)
    apply (rule ends_seq [OF goes_refresh [OF assms(1,2)]])
    apply (rule ends_bind [OF goes_backends [OF assms(1) bs(2)]])
    apply (rule ends_bind [OF goes_tls [OF assms(1)]])
    apply (rule ends_bind [OF goes_api_networks [OF assms(1)]])
    apply (rule ends_seq [OF goes_api_init [OF assms(1,2)]])
    apply (rule ends_bind [OF goes_api_config [OF assms]])
    apply (simp only: split_paired_all prod.case)
    apply (rule ends_seq [OF goes_credential [OF assms(1)]])
    apply (rule ends_bind [OF goes_topology [OF assms(1)]])
    apply (rule ends_seq [OF goes_deploy [OF assms]])
    apply (rule ends_seq [OF goes_claims [OF assms(1)]])
    apply (rule ends_seq [OF goes_cache [OF assms(1)]])
    apply (rule ends_seq [OF goes_rotation [OF assms(1)]])
    apply (rule finish)
    done
qed

text \<open>The instance as the API server keeps it after a reconcile that ended without an error or a wait.\<close>

definition api_after_reconcile :: "env \<Rightarrow> string \<Rightarrow> string \<Rightarrow> GlanceAPI \<Rightarrow> GlanceAPI option" where
  "api_after_reconcile E ns name i =
     (case API_Reconcile (E\<lparr>resp_api := \<lambda>_. Inr i\<rparr>) ns name [] of
        (Ret r, CPatchGlanceAPI j log # tr) \<Rightarrow>
          if r = (EmptyResult, None) then Some (j\<lparr>AStatus := (AStatus j)\<lparr>as_Conditions := Some log\<rparr>\<rparr>) else None
      | _ \<Rightarrow> None)"

definition api_log :: "GlanceAPI \<Rightarrow> cond_log" where
  "api_log i = (case as_Conditions (AStatus i) of None \<Rightarrow> [] | Some l \<Rightarrow> l)"

lemma api_init_settles: "settled T l \<Longrightarrow> usual_types \<subseteq> T \<Longrightarrow> settled T (CInit api_conditions # l)"
  by (erule settled_init) (auto simp: api_conditions_def)

lemma read_api_env:
  "deploys_well (E\<lparr>resp_api := g\<rparr>) = deploys_well E"
  "lawful_api_functions (E\<lparr>resp_api := g\<rparr>) = lawful_api_functions E"
  "deployable_api (E\<lparr>resp_api := g\<rparr>) i = deployable_api E i"
  by (simp_all add: deploys_well_def serves_well_def lawful_api_functions_def deployable_api_def deployable_def)

text \<open>An instance that is set up becomes Ready in one reconcile.\<close>

definition api_is_ready :: "GlanceAPI \<Rightarrow> bool" where
  "api_is_ready i \<longleftrightarrow> APIIsReady true_in i \<and> cond_all_sub_true (api_log i)"

lemma api_ready_in_one:
  assumes "deploys_well E" and "lawful_api_functions E" and "deployable_api E i"
    and "as_Conditions (AStatus i) = Some l" and "settled (api_types i) l" and "\<not> snd (AddFinalizer E (o_Finalizers i))"
  shows "\<exists>j. api_after_reconcile E ns name i = Some j \<and> api_is_ready j \<and> same_instance i j \<and>
           as_ObservedGeneration (AStatus j) = o_Generation i \<and> \<not> snd (AddFinalizer E (o_Finalizers j))"
proof -
  let ?E = "E\<lparr>resp_api := \<lambda>_. Inr i\<rparr>"
  obtain fs where fs: "AddFinalizer E (o_Finalizers i) = (fs, False)"
    using assms(6) by (cases "AddFinalizer E (o_Finalizers i)") simp
  let ?h = "i\<lparr>o_Finalizers := fs, AStatus := (AStatus i)\<lparr>as_ObservedGeneration := o_Generation i,
    as_Hash := Some (the_map (as_Hash (AStatus i))), as_APIEndpoints := Some (the_map (as_APIEndpoints (AStatus i))),
    as_NetworkAttachments := Some (the_map (as_NetworkAttachments (AStatus i)))\<rparr>\<rparr>"
  let ?w = "\<lparr>w_inst = ?h, w_conds = CInit api_conditions # l, w_trace = [CNewHelper, CGetGlanceAPI ns name]\<rparr>"
  have way: "on_way (same_instance i) (api_types i) ?w"
    using api_init_settles [OF assms(5) usual_types] by (simp add: on_way_def same_instance_def)
  have normal: "ends_in (same_instance i) (api_types i)
      (\<lambda>x w. x = (EmptyResult, None) \<and> on_way (same_instance i) {} w \<and> ready_now (w_conds w))
      (API_reconcileNormal ?E :: (GlanceAPI world, reconcile_result, reconcile_result) act)"
    by (rule ends_normal) (use assms(1-3) in \<open>simp_all only: read_api_env\<close>)
  obtain out w' where run: "API_reconcileNormal ?E ?w =
      ((out, w') :: (reconcile_result, reconcile_result) out \<times> GlanceAPI world)" by fastforce
  have "case out of Next x \<Rightarrow> x = (EmptyResult, None) \<and> on_way (same_instance i) {} w' \<and> ready_now (w_conds w') | _ \<Rightarrow> False"
    using tripleD [OF normal way] run by (cases out) simp_all
  then have ready: "out = Next (EmptyResult, None)" "on_way (same_instance i) {} w'" "ready_now (w_conds w')"
    by (simp_all split: out.splits)
  from keepsD [OF observed_normal run] have observed: "as_ObservedGeneration (AStatus (w_inst w')) = o_Generation i"
    "o_Finalizers (w_inst w') = fs" by (simp_all add: same_observed_def)
  have again: "\<not> snd (AddFinalizer E fs)"
    using assms(2) fs unfolding lawful_api_functions_def by (metis fst_conv)
  have "\<not> o_Deleted i" using assms(3) by (simp add: deployable_api_def)
  with run ready(1) fs have body: "API_body ?E False
      \<lparr>w_inst = i, w_conds = l, w_trace = [CNewHelper, CGetGlanceAPI ns name]\<rparr> =
      ((Next (EmptyResult, None), w') :: (reconcile_result, reconcile_result) out \<times> GlanceAPI world)"
    by (simp add: API_body_def API_handle_def run_defs world_defs set_api_def the_map_def)
  have lib: "is_unknown E = cond_is_unknown" "resp_err E tr = None" for tr
    using assms(1,2) by (simp_all add: deploys_well_def serves_well_def lawful_api_functions_def)
  obtain c where "cond_get (w_conds w') ReadyCondition = Some c" "c_Type c = ReadyCondition" "c_Status c = CTrue"
    using ready(3) by (auto simp: ready_now_def is_true_def split: option.splits)
  then have log: "deferred_conditions ?E (w_conds w') = CRestoreTimes # w_conds w'"
    by (simp add: deferred_conditions_def lib cond_is_unknown_def)
  show ?thesis
    using body assms(4) ready(2,3) observed again
    by (simp add: api_after_reconcile_def API_Reconcile_def lib log api_is_ready_def APIIsReady_def api_log_def true_in_def
        ready_now_def on_way_def same_instance_def flip: settled_empty) (simp add: settled_def)
qed

text \<open>A new instance is set up by its first reconcile.\<close>

lemma api_set_up_in_one:
  assumes "deploys_well E" and "lawful_api_functions E" and "deployable_api E i"
    and "settled T (api_log i)" and "usual_types \<subseteq> T"
    and "as_Conditions (AStatus i) = None \<or> snd (AddFinalizer E (o_Finalizers i))"
  shows "\<exists>m l. api_after_reconcile E ns name i = Some m \<and> deployable_api E m \<and> same_instance i m \<and> as_Conditions (AStatus m) = Some l \<and>
           settled T l \<and> \<not> snd (AddFinalizer E (o_Finalizers m))"
proof -
  let ?E = "E\<lparr>resp_api := \<lambda>_. Inr i\<rparr>"
  obtain fs added where fs: "AddFinalizer E (o_Finalizers i) = (fs, added)" by fastforce
  have del: "\<not> o_Deleted i" using assms(3) by (simp add: deployable_api_def)
  have lib: "is_unknown E = cond_is_unknown" "resp_err E tr = None" "\<not> snd (AddFinalizer E fs)"
    "mirror E x t = Some c \<Longrightarrow> c_Type c = t" for tr x t c
    using assms(1,2) fs by (auto simp: deploys_well_def serves_well_def lawful_api_functions_def) (metis fst_conv snd_conv)
  define m where "m = i\<lparr>o_Finalizers := fs, AStatus := (AStatus i)\<lparr>as_ObservedGeneration := o_Generation i\<rparr>\<rparr>"
  define log where "log = deferred_conditions ?E (CInit api_conditions # api_log i)"
  have "API_body ?E (as_Conditions (AStatus i) = None)
      \<lparr>w_inst = i, w_conds = api_log i, w_trace = [CNewHelper, CGetGlanceAPI ns name]\<rparr> =
      ((Next (EmptyResult, None), \<lparr>w_inst = m, w_conds = CInit api_conditions # api_log i,
        w_trace = [CNewHelper, CGetGlanceAPI ns name]\<rparr>) :: (reconcile_result, reconcile_result) out \<times> GlanceAPI world)"
    using assms(6) fs del by (auto simp: API_body_def API_handle_def run_defs world_defs set_api_def m_def)
  then have run: "api_after_reconcile E ns name i = Some (m\<lparr>AStatus := (AStatus m)\<lparr>as_Conditions := Some log\<rparr>\<rparr>)"
    by (simp add: api_after_reconcile_def API_Reconcile_def Let_def lib log_def flip: api_log_def)
  have "settled T (CInit api_conditions # api_log i)" by (rule api_init_settles [OF assms(4,5)])
  then have "settled T log" unfolding log_def by (rule settled_deferred) (simp add: lib(4))
  moreover have "deployable_api E (m\<lparr>AStatus := (AStatus m)\<lparr>as_Conditions := Some log\<rparr>\<rparr>)"
    by (subst deployable_same [of i]) (simp_all add: same_instance_def m_def assms(3))
  ultimately show ?thesis using run lib(3) by (auto simp: m_def same_instance_def)
qed

lemma api_types_same: "same_instance i j \<Longrightarrow> api_types j = api_types i"
  by (simp add: api_types_def topology_types_def same_instance_def)

text \<open>
  Property C9. Progress: where everything the controller asks for is answered without an error
  or a wait, the StatefulSet reports the replicas it was asked for, and the libraries behave as
  documented, an instance is Ready after at most two reconciles, with every condition true, if
  it is not being deleted, its replicas are set, its backends name a type, its sizes parse, its
  certificates, its credential and its WSGI annotation can be read, and no stored condition is
  other than true, Ready and those that its reconciles set again apart; the condition on the
  topology is set again only while the instance has a reference to one. The first reconcile of
  a new instance only adds the finalizer and the conditions.
\<close>

theorem api_becomes_ready:
  assumes "deploys_well E" and "lawful_api_functions E" and "deployable_api E i"
    and "settled (api_types i) (api_log i)"
  shows "\<exists>j. api_is_ready j \<and>
    (api_after_reconcile E ns name i = Some j \<or>
     (\<exists>m. api_after_reconcile E ns name i = Some m \<and> api_after_reconcile E ns name m = Some j))"
proof (cases "as_Conditions (AStatus i) = None \<or> snd (AddFinalizer E (o_Finalizers i))")
  case True
  from api_set_up_in_one [OF assms usual_types this, of ns name] obtain m l where
    m: "api_after_reconcile E ns name i = Some m" "deployable_api E m" "same_instance i m" "as_Conditions (AStatus m) = Some l"
      "settled (api_types i) l" "\<not> snd (AddFinalizer E (o_Finalizers m))" by blast
  then have "settled (api_types m) l" by (simp add: api_types_same)
  with m api_ready_in_one [OF assms(1,2), of m l ns name] show ?thesis by blast
next
  case False
  then obtain l where "as_Conditions (AStatus i) = Some l" by auto
  with api_ready_in_one [OF assms(1-3), of l ns name] assms(4) False show ?thesis by (auto simp: api_log_def)
qed

text \<open>The StatefulSet controller of the witness: every replica asked for is ready.\<close>

fun rolls_out :: "call list \<Rightarrow> reconcile_result \<times> bool \<times> int" where
  "rolls_out (CStatefulSet d # tr) = ((EmptyResult, None), True, case sts_Replicas d of None \<Rightarrow> 0 | Some n \<Rightarrow> n)"
| "rolls_out tr = ((EmptyResult, None), False, 0)"

definition api_env :: "Glance \<Rightarrow> GlanceAPI \<Rightarrow> env" where
  "api_env g a = (sample_env g a)\<lparr>resp_sts := rolls_out\<rparr>"

lemma api_env_good: "deploys_well (api_env g a)" "lawful_api_functions (api_env g a)"
proof -
  show "deploys_well (api_env g a)"
    by (auto simp: api_env_def deploys_well_def serves_well_def yes_def is_true_def TrueCondition_def)
  show "lawful_api_functions (api_env g a)"
    by (auto simp: api_env_def lawful_api_functions_def ref_lib_def dest: cond_get_type)
qed

theorem api_becomes_ready_witness:
  "\<exists>j. api_is_ready j \<and>
    (\<exists>E :: env. api_after_reconcile E ''ns'' ''a'' rotated_api = Some j \<or>
     (\<exists>m. api_after_reconcile E ''ns'' ''a'' rotated_api = Some m \<and> api_after_reconcile E ''ns'' ''a'' m = Some j))"
proof -
  let ?E = "api_env undefined rotated_api"
  have "sorted_endpoints ''internal'' = [EndpointInternal]" by code_simp
  then have "deployable_api ?E rotated_api"
    by (auto simp: deployable_api_def deployable_def rotated_api_def sample_api_def no_backends Let_def api_env_def ref_lib_def
        tls_mounts_def map_str_def)
  moreover have "settled (api_types rotated_api) (api_log rotated_api)"
    by (simp add: settled_def api_log_def rotated_api_def Let_def)
  ultimately show ?thesis
    using api_becomes_ready [OF api_env_good, of undefined rotated_api rotated_api "''ns''" "''a''"] by blast
qed

end
