(* ===== verification/Typeless.thy ===== *)
theory Typeless
  imports APILive GlanceWrites Validation
begin

text \<open>
  A backend without a type, as in "enabled_backends = ceph": the check of the webhook has
  nothing against it, and the GlanceAPI controller panics on it.
\<close>

lemma length_typeless: "CHR '':'' \<notin> set b \<Longrightarrow> length (SplitN2 (CHR '':'') b) = 1"
  by (simp add: length_SplitN2)

section \<open>The webhook\<close>

lemma typeless_file_backend:
  assumes "GetEnabledBackends c = Ret bs" and "b \<in> set bs" and "CHR '':'' \<notin> set b"
  shows "IsFileBackend c topLevel = Ret False"
proof -
  have "bs \<noteq> []" using assms(2) by auto
  moreover have "backend_type b \<noteq> Ret ''file''"
    using length_typeless [OF assms(3)] by (simp add: backend_type_def Let_def)
  ultimately have "\<not> only_file bs topLevel" using assms(2) by (auto simp: only_file_named)
  then show ?thesis using assms(1) by (simp add: IsFileBackend_def)
qed

lemma typeless_valid:
  assumes "t_Replicas t \<noteq> None" and "GetEnabledBackends (t_CustomServiceConfig t) = Ret bs"
    and "b \<in> set bs" and "CHR '':'' \<notin> set b"
  shows "isInvalidBackend t topLevel = Ret None"
  using assms typeless_file_backend [OF assms(2-4)] by (simp add: layout_ok_iff layout_ok_def)

section \<open>The controller\<close>

lemma typeless_crash:
  assumes "deploys_well E" and "on_way I S w" and "b \<in> set bs" and "CHR '':'' \<notin> set b"
  shows "\<exists>w'. for_acc (backend_case E) bs bc w = (Crash IndexOutOfRange, w')"
  using assms(2,3)
proof (induction bs arbitrary: bc w)
  case (Cons x xs)
  show ?case
  proof (cases "CHR '':'' \<in> set x")
    case True
    from yieldsD [OF goes_backend [OF assms(1) True] Cons.prems(1)] obtain y w1 where
      "backend_case E x bc w = (Next y, w1)" "on_way I S w1" by blast
    moreover have "b \<in> set xs" using Cons.prems(2) True assms(4) by auto
    ultimately show ?thesis using Cons.IH by (simp add: bind_def)
  next
    case False
    then show ?thesis using length_typeless [OF False]
      by (auto simp: backend_case_def run_defs world_defs length_Suc_conv split: list.splits)
  qed
qed simp

lemma normal_crash:
  assumes E: "deploys_well E" "lawful_api_functions E" and i: "same_instance i (w_inst w)"
    and bs: "GetEnabledBackends (t_CustomServiceConfig (ASpec i)) = Ret bs" "b \<in> set bs" "CHR '':'' \<notin> set b"
  shows "\<exists>w'. API_reconcileNormal E w = (Crash IndexOutOfRange, w')"
proof -
  define S where "S = (UNIV :: ctype set)"
  have S: "insert t S = S" for t by (simp add: S_def)
  have "on_way (same_instance i) S w" using i by (simp add: on_way_def settled_def S_def)
  from yieldsD [OF goes_api_secret [OF E(1), of _ S, unfolded S] this] obtain vars w1 where
    1: "API_normal_secret E w = (Next vars, w1)" "on_way (same_instance i) S w1" by blast
  from yieldsD [OF goes_ensure_memcached [OF serves [OF E(1)], of _ S, unfolded S] 1(2)] obtain mc w2 where
    2: "ensure_memcached E (a_MemcachedInstance (ASpec (w_inst w1))) (o_Namespace (w_inst w1)) w1 = (Next mc, w2)"
      "on_way (same_instance i) S w2" by blast
  have spec: "GetEnabledBackends (t_CustomServiceConfig (ASpec (w_inst w1))) = Ret bs"
    using 1(2) bs(1) by (simp add: on_way_def same_instance_def)
  from yieldsD [OF goes_refresh [OF E] 2(2)] obtain x w3 where
    3: "API_normal_refresh E bs w2 = (Next x, w3)" "on_way (same_instance i) S w3" by blast
  from typeless_crash [OF E(1) 3(2) bs(2,3)] obtain w4 where
    4: "for_acc (backend_case E) bs \<lparr>privileged = False, imageConv = False, extConfigOptions = []\<rparr> w3 =
      (Crash IndexOutOfRange, w4)" by blast
  then have "API_normal_backends E bs w3 = (Crash IndexOutOfRange, w4)"
    by (simp add: API_normal_backends_def bind_def)
  with 1(1) 2(1) 3(1) show ?thesis
    by (simp add: API_reconcileNormal_def fn_def bind_def seq_def read_def gets_def of_go_def spec ret_def)
qed

section \<open>Property\<close>

text \<open>
  Property C18. A backend that names no type panics the GlanceAPI controller: take any GlanceAPI
  of an instance of a resource, as the Glance controller writes it, that is set up and is not
  being deleted, and an instance whose configuration enables a backend without a type. Where
  everything is answered without an error, each of its reconciles panics with an index out of
  range, while the check of the webhook on the backends of that instance, which has its replicas
  set, reports nothing.
\<close>

theorem typeless_backend_panics:
  assumes "deploys_well E" and "lawful_api_functions E"
    and "instance_of g n t ty a" and "\<not> o_Deleted a"
    and "as_Conditions (AStatus a) \<noteq> None" and "\<not> snd (AddFinalizer E (o_Finalizers a))"
    and "t_Replicas t \<noteq> None" and "GetEnabledBackends (t_CustomServiceConfig t) = Ret bs"
    and "b \<in> set bs" and "CHR '':'' \<notin> set b"
  shows "(\<exists>tr. API_Reconcile (E\<lparr>resp_api := \<lambda>_. Inr a\<rparr>) ns name [] = (Panic IndexOutOfRange, tr)) \<and>
         isInvalidBackend t topLevel = Ret None"
proof
  let ?E = "E\<lparr>resp_api := \<lambda>_. Inr a\<rparr>"
  have "t_CustomServiceConfig t \<noteq> []" using assms(8,9) by (auto simp: no_backends)
  then have config: "t_CustomServiceConfig (ASpec a) = t_CustomServiceConfig t"
    using assms(3) by (simp add: instance_of_def str_or_def)
  obtain fs where fs: "AddFinalizer E (o_Finalizers a) = (fs, False)"
    using assms(6) by (cases "AddFinalizer E (o_Finalizers a)") simp
  obtain l where l: "as_Conditions (AStatus a) = Some l" using assms(5) by blast
  let ?h = "a\<lparr>o_Finalizers := fs, AStatus := (AStatus a)\<lparr>as_ObservedGeneration := o_Generation a,
    as_Hash := Some (the_map (as_Hash (AStatus a))), as_APIEndpoints := Some (the_map (as_APIEndpoints (AStatus a))),
    as_NetworkAttachments := Some (the_map (as_NetworkAttachments (AStatus a)))\<rparr>\<rparr>"
  let ?w = "\<lparr>w_inst = ?h, w_conds = CInit api_conditions # l, w_trace = [CNewHelper, CGetGlanceAPI ns name]\<rparr>"
  have "same_instance a (w_inst ?w)" by (simp add: same_instance_def)
  from normal_crash [OF _ _ this _ assms(9,10), of ?E] obtain w' where
    run: "API_reconcileNormal ?E ?w =
      ((Crash IndexOutOfRange, w') :: (reconcile_result, reconcile_result) out \<times> GlanceAPI world)"
    using assms(1,2,8) by (auto simp: read_api_env config)
  have "resp_err E tr = None" for tr using assms(1) by (simp add: deploys_well_def serves_well_def)
  with run fs l assms(4) show "\<exists>tr. API_Reconcile ?E ns name [] = (Panic IndexOutOfRange, tr)"
    by (simp add: API_Reconcile_def API_body_def API_handle_def run_defs world_defs set_api_def the_map_def)
  show "isInvalidBackend t topLevel = Ret None" by (rule typeless_valid [OF assms(7-10)])
qed

definition typeless :: GlanceAPITemplate where
  "typeless = (sample_template 1 ''split'' [])\<lparr>t_CustomServiceConfig := ''enabled_backends=ceph''\<rparr>"

definition typeless_glance :: Glance where
  "typeless_glance = sample_glance [] ''a'' [(''a'', typeless)]"

lemma typeless_backends: "GetEnabledBackends ''enabled_backends=ceph'' = Ret [''ceph'']" by code_simp

lemma typeless_accepted: "accepted (GlanceCustomValidator_ValidateCreate accepting_lib (OGlance (Some typeless_glance)))"
  unfolding accepted_def by (intro exI) code_simp

theorem typeless_backend_panics_witness:
  "\<exists>(E :: env) a tr. accepted (GlanceCustomValidator_ValidateCreate accepting_lib (OGlance (Some typeless_glance))) \<and>
     instance_of typeless_glance ''a'' typeless ''external'' a \<and> o_Name a = api_object_name typeless_glance ''a'' ''external'' \<and>
     API_Reconcile (E\<lparr>resp_api := \<lambda>_. Inr a\<rparr>) ''ns'' (o_Name a) [] = (Panic IndexOutOfRange, tr)"
proof -
  let ?g = typeless_glance and ?E = "api_env undefined undefined"
  let ?new = "desired_api ?g (api_annotations ?g ''a'' True) (api_spec ?g typeless ''external'')
    (api_skeleton ?g typeless ''external'' ''a'' [] True)"
  let ?a = "?new\<lparr>o_Finalizers := [''fin''], AStatus := (AStatus ?new)\<lparr>as_Conditions := Some []\<rparr>\<rparr>"
  have "same_glance ?g ?g" by (simp add: same_glance_def)
  from desired_instance [OF this, of "''a''" typeless "''external''" True] have inst: "instance_of ?g ''a'' typeless ''external'' ?a"
    by (simp add: instance_of_def)
  have "\<exists>tr. API_Reconcile (?E\<lparr>resp_api := \<lambda>_. Inr ?a\<rparr>) ''ns'' (o_Name ?a) [] = (Panic IndexOutOfRange, tr)"
    by (rule typeless_backend_panics [where bs = "[''ceph'']" and b = "''ceph''", OF _ _ inst, THEN conjunct1])
      (use api_env_good [of undefined undefined] in \<open>simp_all add: typeless_def sample_template_def typeless_backends
        zero_template_def
        desired_fields api_skeleton_def api_env_def\<close>)
  moreover have "o_Name ?a = api_object_name ?g ''a'' ''external''" by (simp add: desired_fields api_skeleton_def)
  ultimately show ?thesis using typeless_accepted inst by blast
qed

end
