(* ===== verification/APICosts.thy ===== *)
theory APICosts
  imports APILive Costs
begin

text \<open>
  A reconcile of a GlanceAPI ends after a bounded number of calls: the loops of the source range
  over the backends, the networks, the secrets with configuration, the endpoints and the claims
  of the instance.
\<close>

section \<open>Lists\<close>

text \<open>No list of claims the API server answers with is longer than \<open>l\<close>.\<close>

definition claims_within :: "env \<Rightarrow> nat \<Rightarrow> bool" where
  "claims_within E l \<longleftrightarrow> (\<forall>tr ps. resp_pvcs E tr = Inr ps \<longrightarrow> length ps \<le> l)"

lemma bind_cache_pvcs:
  "bind (cache_pvcs E labels) f =
     bind (read o_Namespace) (\<lambda>ns. bind (call (CListPVCs ns labels) (resp_pvcs E))
       (\<lambda>r. case r of Inl _ \<Rightarrow> crash NilDereference | Inr ps \<Rightarrow> f ps))"
  by (rule ext) (simp add: cache_pvcs_def GetPvcListWithLabel_def run_defs world_defs split: sum.splits)

lemma spends_pvcs:
  assumes "claims_within E l" and "\<And>ps. length ps \<le> l \<Longrightarrow> spends I n (f ps)"
  shows "spends I (1 + n) (bind (cache_pvcs E labels) f)"
proof -
  have "spends I n (case r of Inl _ \<Rightarrow> crash NilDereference | Inr ps \<Rightarrow> f ps)"
    if "\<forall>ps. r = Inr ps \<longrightarrow> length ps \<le> l" for r :: "go_error + PVC list"
    using that assms(2) by (auto split: sum.split intro: spends_mono [OF spends_free(3)])
  then have "spends I (1 + n) (bind (call c (resp_pvcs E)) (\<lambda>r. case r of Inl _ \<Rightarrow> crash NilDereference | Inr ps \<Rightarrow> f ps))" for c
    by (rule spends_listing [where P = "\<lambda>r. \<forall>ps. r = Inr ps \<longrightarrow> length ps \<le> l", rotated])
      (use assms(1) in \<open>simp_all add: claims_within_def\<close>)
  then show ?thesis unfolding bind_cache_pvcs
    by (rule spends_mono [OF spends_bind [OF spends_free(5)]]) simp
qed

section \<open>The phases\<close>

lemma spends_api_own:
  "spends (same_instance i) 0 (set_api u)"
  "spends (same_instance i) 0 (set_inst (\<lambda>j. j\<lparr>o_Finalizers := fs j\<rparr>))"
  "spends (same_instance i) 0 (set_inst (\<lambda>j. j\<lparr>AStatus := st j\<rparr>))"
  unfolding set_api_def by (rule spends_set, simp add: same_instance_def)+

lemmas api_spends = spends_api_own spends_rules

lemma spends_headless: "spends (same_instance i) 1 (GetHeadlessService E labels)"
  unfolding GetHeadlessService_def Let_def by (rule spends_mono, (rule api_spends)+) simp

lemma spends_endpoint_one: "spends (same_instance i) 2 (expose_one E labels endpt eps)"
  unfolding expose_one_def Let_def by (rule spends_mono, (rule spends_headless api_spends)+) simp

lemma two_endpoints: "length (sorted_endpoints t) \<le> 2"
  by (simp add: sorted_endpoints_def GetGlanceEndpoints_def Let_def)

lemma spends_api_init: "spends (same_instance i) 5 (API_normal_init E)"
proof -
  have "spends (same_instance i) 4 (for_acc (expose_one E labels) (sorted_endpoints t) [])" for labels t
    by (rule spends_mono [OF spends_for_acc [OF spends_endpoint_one]]) (use two_endpoints [of t] in simp)
  then have "spends (same_instance i) 5 (API_reconcileInit E labels)" for labels
    unfolding API_reconcileInit_def init_keystone_endpoint_def ensureKeystoneEndpoints_def
    by - (rule spends_mono, rule spends_fn, rule spends_read, rule spends_bind, assumption, (rule api_spends)+, simp)
  then show ?thesis unfolding API_normal_init_def
    by - (rule spends_mono, rule spends_read, rule spends_bind, assumption, (rule api_spends)+, simp)
qed

lemma spends_api_phases:
  "spends (same_instance i) 1 (API_normal_secret E)" "spends (same_instance i) 2 (API_normal_refresh E bs)"
  "spends (same_instance i) 2 (API_normal_tls E vars)" "spends (same_instance i) 1 (API_normal_credential E)"
  "spends (same_instance i) 1 (API_normal_topology E)" "spends (same_instance i) 2 (API_normal_deploy E h sa p t ws mc)"
  "spends (same_instance i) 1 (API_normal_rotation E)" "spends (same_instance i) 0 (API_normal_ready E)"
  unfolding api_phase_defs createHashOfBackendConfig_def glanceAPIRefresh_def tls_error_def config_error_def Let_def
    deployment_status_def verify_networks_def network_error_def
  by (rule spends_mono, (rule spends_verify api_spends)+, simp)+

lemma spends_backends: "spends (same_instance i) (length bs) (API_normal_backends E bs)"
proof -
  have "spends (same_instance i) 1 (backend_case E b bc)" for b bc
  proof (cases "CHR '':'' \<in> set b")
    case True
    then obtain n t where "SplitN2 (CHR '':'') b = [n, t]"
      using length_SplitN2 [of "CHR '':''" b] by (auto simp: length_Suc_conv numeral_2_eq_2)
    then show ?thesis unfolding backend_case_def
      by (simp only: list.case) (rule spends_mono, (rule api_spends)+, simp)
  next
    case False
    then have "length (SplitN2 (CHR '':'') b) = 1" using length_SplitN2 [of "CHR '':''" b] by simp
    then obtain n where "SplitN2 (CHR '':'') b = [n]" by (auto simp: length_Suc_conv)
    then show ?thesis unfolding backend_case_def
      by (simp only: list.case) (rule spends_mono, (rule api_spends)+, simp)
  qed
  then have "spends (same_instance i) (length bs * 1) (for_acc (backend_case E) bs bc)" for bc
    by (rule spends_for_acc)
  then show ?thesis unfolding API_normal_backends_def
    by - (rule spends_mono, rule spends_bind, assumption, (rule api_spends)+, simp)
qed

lemma spends_api_networks:
  "spends (same_instance i) (length (t_NetworkAttachments (ASpec i)) + 1) (API_normal_networks E)"
  unfolding API_normal_networks_def
proof (rule spends_read)
  fix j
  assume "same_instance i j"
  then have "ASpec j = ASpec i" by (simp add: same_instance_def)
  then show "spends (same_instance i) (length (t_NetworkAttachments (ASpec i)) + 1)
    (bind (ensureNAD E (o_Namespace j) (t_NetworkAttachments (ASpec j))) (\<lambda>(serviceAnnotations, ctrlResult, err).
       seq (must (ret err) (\<lambda>e.
              seq (mark_false NetworkAttachmentsReadyCondition ErrorReason SeverityWarning
                     (LibMsg ''NetworkAttachmentsReadyErrorMessage'' [error_text e]))
                  (exit_with (ctrlResult, Some e))))
      (seq (whenever (ctrlResult \<noteq> EmptyResult) (exit_with (ctrlResult, None)))
           (ret serviceAnnotations))))"
    by - (rule spends_mono, rule spends_bind, rule spends_nad, (rule api_spends)+, simp)
qed

lemma spends_service_config:
  "spends (same_instance i) (8 + length (t_CustomServiceConfigSecrets (ASpec i)))
     (API_generateServiceConfig E conv mc wsgi opts)"
proof -
  have "spends (same_instance i) (length (t_CustomServiceConfigSecrets (ASpec j))) (custom_secrets E j)" for j
    unfolding custom_secrets_def
    by (rule spends_mono, rule spends_fn, rule spends_bind, rule spends_for_acc, (rule api_spends)+) simp
  then have secrets: "spends (same_instance i) (length (t_CustomServiceConfigSecrets (ASpec i))) (custom_secrets E j)"
    if "same_instance i j" for j using that by (metis same_instance_def)
  have 1: "spends (same_instance i) 1 (getEndpointID E)" "spends (same_instance i) 1 (ac_params E j)"
    "spends (same_instance i) 1 (notification_params E j)" "spends (same_instance i) 1 (GetHorizonEndpoint E)" for j
    unfolding getEndpointID_def ac_params_def notification_params_def GetHorizonEndpoint_def Let_def
    by (rule spends_mono, (rule api_spends)+, simp)+
  show ?thesis unfolding API_generateServiceConfig_def GenerateConfigsGeneric_def Let_def
    by (rule spends_mono, rule spends_fn, rule spends_read, (rule secrets 1 api_spends | assumption)+) simp
qed

lemma spends_api_config:
  "spends (same_instance i) (8 + length (t_CustomServiceConfigSecrets (ASpec i))) (API_normal_config E mc bc vars)"
  unfolding API_normal_config_def createHashOfInputHashes_def config_error_def Let_def
  by (rule spends_mono, (rule spends_service_config api_spends)+) simp

section \<open>The loops over the claims\<close>

lemma spends_labels:
  assumes "claims_within E l"
  shows "spends (same_instance i) (l + 1) (API_normal_claims E)"
proof -
  let ?f = "\<lambda>vc. if is_cache vc then ret () else must (call (CEnsureBackupLabels vc) (resp_err E)) (\<lambda>e. exit_with (Some e))"
  have one: "spends (same_instance i) 1 (?f vc)" for vc
    by (rule spends_mono, (rule api_spends)+) simp
  have "spends (same_instance i) l (case v of Inl e \<Rightarrow> exit_with (g e) | Inr ps \<Rightarrow> seq (for_each ?f ps) (ret None))"
    if "\<forall>ps. v = Inr ps \<longrightarrow> length ps \<le> l" for v :: "go_error + PVC list" and g
  proof (cases v)
    case (Inr ps)
    with that have "length ps * 1 + 0 \<le> l" by simp
    with Inr show ?thesis by (auto intro: spends_mono [OF spends_seq [OF spends_for_each [OF one] spends_free(1)]])
  qed (auto intro: spends_mono [OF spends_free(2)])
  then have "spends (same_instance i) (1 + l) (attempt (call c (resp_pvcs E)) (\<lambda>e. exit_with (g e))
      (\<lambda>ps. seq (for_each ?f ps) (ret None)))" for c g
    unfolding attempt_def
    by (rule spends_listing [where P = "\<lambda>r. \<forall>ps. r = Inr ps \<longrightarrow> length ps \<le> l", rotated])
      (use assms in \<open>simp_all add: claims_within_def\<close>)
  then have "spends (same_instance i) (1 + l) (reconcilePVCLabels E)"
    unfolding reconcilePVCLabels_def by (intro spends_fn spends_read)
  then show ?thesis unfolding API_normal_claims_def
    by - (rule spends_mono, rule spends_read, rule spends_whenever, rule spends_must, assumption, (rule api_spends)+, simp)
qed

lemma spends_over_claims:
  assumes "\<And>x acc. spends I k (f x acc)" and "length ps \<le> l"
  shows "spends I (l * k) (bind (for_acc f ps z) (\<lambda>r. ret (g r)))"
proof -
  have "spends I (length ps * k + 0) (bind (for_acc f ps z) (\<lambda>r. ret (g r)))"
    by (intro spends_bind spends_for_acc assms(1) spends_free)
  then show ?thesis by (rule spends_mono) (use assms(2) in simp)
qed

lemma spends_cache_job:
  assumes "claims_within E l"
  shows "spends (same_instance i) (1 + l) (ensureImageCacheJob E labels ann cj)"
proof -
  have "spends (same_instance i) 1 (if is_cache vc then
      bind (of_go (job vc)) (\<lambda>d. bind (call (CCronJob d) (resp_res E)) (\<lambda>(ctrlResult, err).
         seq (must (ret err) (\<lambda>e. exit_with (ctrlResult, Some e))) (ret (if ctrlResult \<noteq> EmptyResult then ctrlResult else overall))))
      else ret overall)" for vc overall job
    by (rule spends_mono, (rule api_spends)+) simp
  then have "spends (same_instance i) (l * 1) (bind (for_acc (\<lambda>vc overall. if is_cache vc then
      bind (of_go (job vc)) (\<lambda>d. bind (call (CCronJob d) (resp_res E)) (\<lambda>(ctrlResult, err).
         seq (must (ret err) (\<lambda>e. exit_with (ctrlResult, Some e))) (ret (if ctrlResult \<noteq> EmptyResult then ctrlResult else overall))))
      else ret overall) ps EmptyResult) (\<lambda>overall. ret (overall, None)))" if "length ps \<le> l" for ps job
    by (rule spends_over_claims [OF _ that])
  then show ?thesis unfolding ensureImageCacheJob_def
    by (intro spends_fn spends_read spends_pvcs [OF assms]) simp
qed

lemma spends_cache_cleaned:
  assumes "claims_within E l"
  shows "spends (same_instance i) (1 + l * 5) (cleanupImageCacheJob E labels)"
proof -
  have delete: "spends (same_instance i) 4 (deleteJob E n)" for n
    unfolding deleteJob_def
    by (rule spends_mono, rule spends_fn, rule spends_bind, rule spends_free, rule spends_seq,
        rule spends_for_each [where n = 2], rule spends_mono, (rule api_spends)+) (simp_all add: spends_free)
  have one: "spends (same_instance i) 5 (if is_cache vc then
       bind (call (CGetPod ns n) (resp_err E)) (\<lambda>r.
         if (case r of None \<Rightarrow> False | Some e \<Rightarrow> IsNotFound e) \<or> b then
           bind (deleteJob E (pvc_Name vc)) (\<lambda>(ctrlResult, err).
             case err of
               Some e \<Rightarrow> if IsNotFound e then ret (if ctrlResult \<noteq> EmptyResult then ctrlResult else overall)
                 else exit_with (ctrlResult, Some e)
             | None \<Rightarrow> ret (if ctrlResult \<noteq> EmptyResult then ctrlResult else overall))
         else ret overall)
     else ret overall)" for vc overall ns n b
    by (rule spends_mono, (rule delete api_spends)+) simp
  show ?thesis unfolding cleanupImageCacheJob_def Let_def
    by (intro spends_fn spends_read spends_pvcs [OF assms] spends_over_claims [OF one])
qed

lemma spends_cache:
  assumes "claims_within E l"
  shows "spends (same_instance i) (3 + l * 7) (API_normal_cache E sa)"
proof -
  have job: "spends (same_instance i) (1 + l) (bind (ensureImageCacheJob E labels sa cj) (\<lambda>(ctrlResult, err).
      must (ret err) (\<lambda>e. seq (set_error CronJobReadyCondition ''CronJobReadyErrorMessage'' e) (exit_with (ctrlResult, Some e)))))"
    for labels cj
    by (rule spends_mono, rule spends_bind, rule spends_cache_job [OF assms], (rule api_spends)+) simp
  have "spends (same_instance i) (2 * (1 + l)) (for_each (\<lambda>cj. bind (ensureImageCacheJob E labels sa cj) (\<lambda>(ctrlResult, err).
      must (ret err) (\<lambda>e. seq (set_error CronJobReadyCondition ''CronJobReadyErrorMessage'' e) (exit_with (ctrlResult, Some e)))))
      [CacheCleaner, CachePruner])" for labels
    by (rule spends_mono [OF spends_for_each [OF job]]) simp
  then show ?thesis unfolding API_normal_cache_def
    by - (rule spends_mono, rule spends_read, rule spends_seq, rule spends_whenever, assumption, rule spends_bind,
      rule spends_cache_cleaned [OF assms], (rule api_spends)+, simp)
qed

section \<open>The bound\<close>

text \<open>The size of an instance: its backends, its networks, and the secrets with its configuration.\<close>

definition api_size :: "GlanceAPI \<Rightarrow> nat" where
  "api_size i =
     (case GetEnabledBackends (t_CustomServiceConfig (ASpec i)) of Ret bs \<Rightarrow> length bs | Panic p \<Rightarrow> 0) +
     length (t_NetworkAttachments (ASpec i)) + length (t_CustomServiceConfigSecrets (ASpec i))"

lemma spends_api_normal:
  assumes "claims_within E l"
  shows "spends (same_instance i) (29 + api_size i + l * 8) (API_reconcileNormal E)"
proof -
  have go: "spends (same_instance i) (length (case g of Ret bs \<Rightarrow> bs | Panic p \<Rightarrow> []) + n) (bind (of_go g) f)"
    if "\<And>bs. g = Ret bs \<Longrightarrow> spends (same_instance i) (length bs + n) (f bs)"
    for g :: "string list go" and n and f :: "_ \<Rightarrow> (GlanceAPI world, reconcile_result, reconcile_result) act"
  proof (cases g)
    case (Ret bs)
    moreover have "bind (ret bs) f = f bs" by (rule ext) (simp add: run_defs)
    ultimately show ?thesis using that [OF Ret] by (simp add: of_go_def)
  next
    case (Panic p)
    then show ?thesis by (simp add: of_go_def bind_def crash_def spends_def)
  qed
  have same: "ASpec j = ASpec i" if "same_instance i j" for j using that by (simp add: same_instance_def)
  show ?thesis unfolding API_reconcileNormal_def
    apply (rule spends_mono)
     apply (rule spends_fn)
     apply (rule spends_bind, rule spends_api_phases)
     apply (rule spends_read)
     apply (simp only: same)
     apply (rule spends_bind, rule spends_memcached)
     apply (rule go [where n = "27 + length (t_NetworkAttachments (ASpec i)) + length (t_CustomServiceConfigSecrets (ASpec i)) + l * 8"])
     apply (rule spends_mono)
      apply (rule spends_backends spends_api_phases spends_api_networks spends_api_init spends_api_config
        spends_labels [OF assms] spends_cache [OF assms] api_spends)+
    apply (simp_all add: api_size_def split: go.splits)
    done
qed

lemma spends_api_delete: "spends (same_instance i) 5 (API_reconcileDelete E)"
proof -
  have "spends (same_instance i) 2 (ensureDeletedEndpoints E)"
    unfolding ensureDeletedEndpoints_def Let_def by (rule spends_mono, (rule api_spends)+) simp
  moreover have "spends (same_instance i) 2 (for_each (\<lambda>secretName.
      must (call (CRemoveACSecretConsumerFinalizer ns secretName fin) (resp_err E)) (\<lambda>e. exit_with (EmptyResult, Some e))) [a, b])"
    for ns fin a b
    by (rule spends_mono, rule spends_for_each [where n = 1], rule spends_mono, (rule api_spends)+) (simp_all add: spends_free)
  ultimately show ?thesis unfolding API_reconcileDelete_def
    by - (rule spends_mono, rule spends_fn, rule spends_bind, assumption, rule spends_prod, rule spends_seq, rule spends_must,
      (rule spends_free)+, rule spends_read, rule spends_seq, assumption, (rule api_spends)+, simp)
qed

lemma spends_api_handle:
  assumes "claims_within E l"
  shows "spends (same_instance i) (29 + api_size i + l * 8) (API_handle E new j)"
proof -
  have "spends (same_instance i) (29 + api_size i + l * 8) (API_reconcileDelete E)"
    by (rule spends_mono [OF spends_api_delete]) simp
  then show ?thesis unfolding API_handle_def Let_def case_prod_unfold
    by - (rule spends_mono, (rule spends_api_normal [OF assms] api_spends | assumption)+, simp)
qed

text \<open>
  Property C26. A reconcile of a GlanceAPI ends after a number of calls that is linear in its
  size: at most 32, one for each backend, network and secret with configuration, and eight for
  each claim of the lists it is answered with. It never waits or tries again within the
  reconcile, whatever fails and however the reconcile ends.
\<close>

theorem api_reconcile_calls_bounded:
  assumes "resp_api E (CGetGlanceAPI ns name # tr0) = Inr i" and "claims_within E l"
    and "API_Reconcile E ns name tr0 = (r, tr')"
  shows "\<exists>tr. tr' = tr @ tr0 \<and> length tr \<le> 32 + api_size i + l * 8"
proof -
  let ?n = "29 + api_size i + l * 8"
  let ?tr = "CNewHelper # CGetGlanceAPI ns name # tr0"
  define w where "w = \<lparr>w_inst = i, w_conds = api_log i, w_trace = ?tr\<rparr>"
  have body: "spends (same_instance i) ?n (API_body E (as_Conditions (AStatus i) = None) :: (GlanceAPI world, reconcile_result, _) act)"
    unfolding API_body_def
    by (rule spends_mono, rule spends_fn, rule spends_read, rule spends_seq, rule spends_free,
        rule spends_api_handle [OF assms(2)]) simp
  obtain out w' where run: "API_body E (as_Conditions (AStatus i) = None) w =
      ((out, w') :: (reconcile_result, reconcile_result) out \<times> GlanceAPI world)" by fastforce
  have "same_instance i (w_inst w)" "w_trace w = ?tr" by (simp_all add: w_def same_instance_def)
  with body run obtain u where u: "w_trace w' = u @ ?tr" "length u \<le> ?n"
    unfolding spends_def by metis
  have "tr' = ?tr \<or> tr' = w_trace w' \<or> (\<exists>l. tr' = CPatchGlanceAPI (w_inst w') l # w_trace w')"
    using assms(1,3) run by (auto simp: API_Reconcile_def Let_def w_def api_log_def split: option.splits out.splits)
  then obtain v where "tr' = v @ w_trace w' \<and> length v \<le> 1 \<or> tr' = ?tr"
    by (metis append_Cons append_Nil le_numeral_extra(4) length_Cons list.size(3) zero_le One_nat_def)
  with u show ?thesis
    by (elim disjE) (auto intro: exI [of _ "v @ u @ [CNewHelper, CGetGlanceAPI ns name]"] exI [of _ "[CNewHelper, CGetGlanceAPI ns name]"])
qed

theorem api_reconcile_calls_bounded_witness:
  "\<exists>(E :: env) r tr. API_Reconcile E ''ns'' ''a'' [] = (r, tr) \<and> tr \<noteq> [] \<and> length tr \<le> 32"
proof -
  let ?E = "sample_env undefined rotated_api"
  from api_reconcile_run [of undefined "[]"] obtain r inst log tr where
    run: "API_Reconcile ?E ''ns'' ''a'' [] = (Ret r, CPatchGlanceAPI inst log # tr)" by blast
  have "claims_within ?E 0" by (simp add: claims_within_def)
  moreover have "api_size rotated_api = 0"
    by (simp add: api_size_def rotated_api_def sample_api_def no_backends Let_def)
  ultimately have "length (CPatchGlanceAPI inst log # tr) \<le> 32"
    using api_reconcile_calls_bounded [OF _ _ run, of rotated_api 0] by simp
  with run show ?thesis by blast
qed

end
