(* ===== verification/Server.thy ===== *)
theory Server
  imports GlanceCtl
begin

text \<open>
  The API server as the two controllers use it: the interface through which they interact, its
  laws, and a server in memory that obeys them.
\<close>

section \<open>The API server\<close>

text \<open>
  The API server is not part of the repository: \<open>sv_env\<close> answers the calls on GlanceAPIs where
  the server holds the GlanceAPIs \<open>S\<close>, \<open>sv_commit\<close> is what the calls of a reconcile make of them.
  The controllers read through the cache of their manager, which is brought up to date between
  two reconciles; a write is answered with the object written, under a generation the server
  chooses.
\<close>

type_synonym store = "GlanceAPI list"

record api_server =
  sv_env :: "env \<Rightarrow> store \<Rightarrow> env"
  sv_commit :: "call list \<Rightarrow> store \<Rightarrow> store"

definition named :: "string \<Rightarrow> string \<Rightarrow> GlanceAPI \<Rightarrow> bool" where
  "named ns n a \<longleftrightarrow> o_Namespace a = ns \<and> o_Name a = n"

definition answers_from :: "env \<Rightarrow> store \<Rightarrow> env \<Rightarrow> bool" where
  "answers_from E S E' \<longleftrightarrow>
     (\<exists>found api apis. E' = E\<lparr>resp_found := found, resp_api := api, resp_apis := apis\<rparr>) \<and>
     (\<forall>tr. \<exists>found. resp_found E' tr = Inr found) \<and>
     (\<forall>ns n tr. resp_found E' (CReadGlanceAPI ns n # tr) = Inr (find (named ns n) S)) \<and>
     (\<forall>api tr. \<exists>g. resp_api E' (CWriteGlanceAPI api # tr) = Inr (api\<lparr>o_Generation := g\<rparr>)) \<and>
     (\<forall>tr. \<exists>apis. resp_apis E' tr = Inr apis \<and> set apis \<subseteq> set S)"

text \<open>Calls that delete and update nothing: what is written is there after them, and what was there.\<close>

definition only_writes :: "call list \<Rightarrow> bool" where
  "only_writes tr \<longleftrightarrow> (\<forall>a. CUpdateGlanceAPI a \<notin> set tr \<and> CDeleteGlanceAPI a \<notin> set tr)"

definition lawful_server :: "api_server \<Rightarrow> bool" where
  "lawful_server K \<longleftrightarrow>
     (\<forall>E S. answers_from E S (sv_env K E S)) \<and>
     (\<forall>tr S. only_writes tr \<longrightarrow>
        (\<forall>a \<in> set (sv_commit K tr S). a \<in> set S \<or> (\<exists>api g. CWriteGlanceAPI api \<in> set tr \<and> a = api\<lparr>o_Generation := g\<rparr>)) \<and>
        (\<forall>a. a \<in> set S \<or> CWriteGlanceAPI a \<in> set tr \<longrightarrow>
           (\<exists>b \<in> set (sv_commit K tr S). named (o_Namespace a) (o_Name a) b)))"

section \<open>A server in memory\<close>

text \<open>The generation is one for a new object, and grows with every change of the specification.\<close>

definition write_api :: "GlanceAPI \<Rightarrow> store \<Rightarrow> GlanceAPI" where
  "write_api api S =
     api\<lparr>o_Generation :=
       (case find (named (o_Namespace api) (o_Name api)) S of
          None \<Rightarrow> 1
        | Some old \<Rightarrow> if ASpec old = ASpec api then o_Generation old else o_Generation old + 1)\<rparr>"

definition put_api :: "GlanceAPI \<Rightarrow> store \<Rightarrow> store" where
  "put_api api S =
     (if find (named (o_Namespace api) (o_Name api)) S = None then S @ [write_api api S]
      else map (\<lambda>a. if named (o_Namespace api) (o_Name api) a then write_api api S else a) S)"

fun call_on :: "call \<Rightarrow> store \<Rightarrow> store" where
  "call_on (CWriteGlanceAPI api) S = put_api api S"
| "call_on (CUpdateGlanceAPI api) S = put_api api S"
| "call_on (CDeleteGlanceAPI api) S = filter (\<lambda>a. \<not> named (o_Namespace api) (o_Name api) a) S"
| "call_on c S = S"

fun found_in :: "store \<Rightarrow> call list \<Rightarrow> go_error + GlanceAPI option" where
  "found_in S (CReadGlanceAPI ns n # tr) = Inr (find (named ns n) S)"
| "found_in S tr = Inr None"

fun api_in :: "store \<Rightarrow> call list \<Rightarrow> go_error + GlanceAPI" where
  "api_in S (CWriteGlanceAPI api # tr) = Inr (write_api api S)"
| "api_in S (CGetGlanceAPI ns n # tr) =
     (case find (named ns n) S of None \<Rightarrow> Inl (ApiError True []) | Some a \<Rightarrow> Inr a)"
| "api_in S tr = Inl (ApiError True [])"

fun apis_in :: "store \<Rightarrow> call list \<Rightarrow> go_error + GlanceAPI list" where
  "apis_in S (CListGlanceAPIs ns # tr) = Inr (filter (\<lambda>a. o_Namespace a = ns) S)"
| "apis_in S tr = Inr []"

definition memory_server :: api_server where
  "memory_server =
     \<lparr>sv_env = (\<lambda>E S. E\<lparr>resp_found := found_in S, resp_api := api_in S, resp_apis := apis_in S\<rparr>),
      sv_commit = foldr call_on\<rparr>"

lemma put_kept: "a \<in> set (put_api api S) \<Longrightarrow> a \<in> set S \<or> (\<exists>g. a = api\<lparr>o_Generation := g\<rparr>)"
  by (auto simp: put_api_def write_api_def split: if_splits)

lemma put_there: "\<exists>b \<in> set (put_api api S). named (o_Namespace api) (o_Name api) b"
proof (cases "find (named (o_Namespace api) (o_Name api)) S")
  case (Some x)
  then have "x \<in> set S" "named (o_Namespace api) (o_Name api) x" by (auto simp: find_Some_iff)
  then have "write_api api S \<in> set (put_api api S)" using Some by (force simp: put_api_def)
  then show ?thesis by (rule rev_bexI) (simp add: write_api_def named_def)
qed (simp add: put_api_def write_api_def named_def)

lemma put_stays: "b \<in> set S \<Longrightarrow> named ns n b \<Longrightarrow> \<exists>b \<in> set (put_api api S). named ns n b"
  using put_there [of api S] by (cases "named ns n api") (auto simp: put_api_def named_def)

lemma memory_holds:
  "only_writes tr \<Longrightarrow> a \<in> set (foldr call_on tr S) \<Longrightarrow>
     a \<in> set S \<or> (\<exists>api g. CWriteGlanceAPI api \<in> set tr \<and> a = api\<lparr>o_Generation := g\<rparr>)"
proof (induction tr arbitrary: a)
  case (Cons c tr)
  then have "only_writes tr" "\<And>b. c \<noteq> CUpdateGlanceAPI b \<and> c \<noteq> CDeleteGlanceAPI b"
    unfolding only_writes_def by auto
  with Cons.IH Cons.prems(2) show ?case by (cases c) (auto dest!: put_kept)
qed simp

lemma memory_keeps:
  "only_writes tr \<Longrightarrow> a \<in> set S \<or> CWriteGlanceAPI a \<in> set tr \<Longrightarrow>
     \<exists>b \<in> set (foldr call_on tr S). named (o_Namespace a) (o_Name a) b"
proof (induction tr)
  case (Cons c tr)
  then have tr: "only_writes tr" "\<And>b. c \<noteq> CUpdateGlanceAPI b \<and> c \<noteq> CDeleteGlanceAPI b"
    unfolding only_writes_def by auto
  show ?case
  proof (cases c)
    case (CWriteGlanceAPI api)
    then show ?thesis using Cons.IH [OF tr(1)] Cons.prems(2) put_there [of api] by (auto intro: put_stays)
  qed (use Cons.IH [OF tr(1)] Cons.prems(2) tr(2) in auto)
qed (auto simp: named_def)

lemma lawful_memory: "lawful_server memory_server"
proof -
  have "answers_from E S (sv_env memory_server E S)" for E S
  proof -
    have "\<exists>x. found_in S tr = Inr x" for tr by (cases "(S, tr)" rule: found_in.cases) auto
    moreover have "\<exists>x. apis_in S tr = Inr x \<and> set x \<subseteq> set S" for tr by (cases "(S, tr)" rule: apis_in.cases) auto
    ultimately show ?thesis by (auto simp: answers_from_def memory_server_def write_api_def)
  qed
  then show ?thesis using memory_holds memory_keeps by (simp add: lawful_server_def memory_server_def)
qed

end
