(* ===== verification/GlanceRounds.thy ===== *)
theory GlanceRounds
  imports GlanceLive Server
begin

text \<open>
  A reconcile of the Glance controller against a server: every instance of the layout is
  written, whatever the instances report.
\<close>

section \<open>Every instance is written\<close>

text \<open>A write of an instance under its name.\<close>

definition wrote :: "Glance \<Rightarrow> string \<Rightarrow> string \<Rightarrow> call list \<Rightarrow> bool" where
  "wrote i n ty tr \<longleftrightarrow> (\<exists>a. CWriteGlanceAPI a \<in> set tr \<and> named (o_Namespace i) (api_object_name i n ty) a)"

definition reads_from :: "env \<Rightarrow> store \<Rightarrow> bool" where
  "reads_from E S \<longleftrightarrow>
     sets_owner_only E \<and> (\<forall>ns n tr. resp_found E (CReadGlanceAPI ns n # tr) = Inr (find (named ns n) S))"

lemma limits_no_return: "ensureRegisteredLimits E q w \<noteq> (Return r, w')"
  by (simp add: ensureRegisteredLimits_def)

lemma skeleton_named: "named (o_Namespace j) (api_object_name j n ty) (api_skeleton j t ty n sl ws)"
  by (simp add: named_def api_skeleton_def)

lemma found_named: "find (named ns n) S = Some a \<Longrightarrow> named ns n a"
  by (auto simp: find_Some_iff)

lemma own_wrote:
  fixes w' :: "Glance world"
  assumes "attempt (ret (SetControllerReference E n api)) (\<lambda>e. exit_with (Inl e))
      (\<lambda>owned. call (CWriteGlanceAPI owned) (resp_api E)) s = (out, w')" and "out = Next (Inr a) \<or> out = Return (Inr a)"
  shows "\<exists>owned. SetControllerReference E n api = Inr owned \<and> CWriteGlanceAPI owned \<in> set (w_trace w')"
  using assms by (cases "SetControllerReference E n api") (auto simp: run_defs call_def)

lemma create_tail:
  fixes w' :: "Glance world"
  assumes "seq (whenever q (must (ensureRegisteredLimits E l) (\<lambda>e. exit_with (Inl e))))
      (attempt (ret (SetControllerReference E n api)) (\<lambda>e. exit_with (Inl e))
        (\<lambda>owned. call (CWriteGlanceAPI owned) (resp_api E))) s = (out, w')"
    and "out = Next (Inr a) \<or> out = Return (Inr a)"
  shows "\<exists>owned. SetControllerReference E n api = Inr owned \<and> CWriteGlanceAPI owned \<in> set (w_trace w')"
  using assms own_wrote [of E n api _ out w' a]
  by (auto simp: limits_no_return seq_Next_iff seq_Return_iff whenever_Return_iff must_Return_iff)

lemma create_wrote:
  assumes "reads_from E S" and "apiDeploymentCreateOrUpdate E t ty n sl ws w = (Next (Inr a), w')"
  shows "wrote (w_inst w) n ty (w_trace w')"
proof -
  let ?i = "w_inst w"
  let ?seen = "case find (named (o_Namespace ?i) (api_object_name ?i n ty)) S of None \<Rightarrow> api_skeleton ?i t ty n sl ws | Some a \<Rightarrow> a"
  let ?api = "desired_api ?i (api_annotations ?i n ws) (api_spec ?i t ty) ?seen"
  have skel: "o_Name (api_skeleton ?i t ty n sl ws) = api_object_name ?i n ty" by (simp add: api_skeleton_def)
  have seen: "named (o_Namespace ?i) (api_object_name ?i n ty) ?seen"
    by (auto simp: skeleton_named dest: found_named split: option.split)
  from assms obtain s out where
    "seq (whenever (IsQuotaEnabled ?i) (must (ensureRegisteredLimits E (GetQuotaLimits ?i)) (\<lambda>e. exit_with (Inl e))))
      (attempt (ret (SetControllerReference E (o_Name ?i) ?api)) (\<lambda>e. exit_with (Inl e))
        (\<lambda>owned. call (CWriteGlanceAPI owned) (resp_api E))) s = (out, w')" "out = Next (Inr a) \<or> out = Return (Inr a)"
    unfolding apiDeploymentCreateOrUpdate_def
    by (auto simp: fn_Next_iff bind_Next_iff bind_Return_iff attempt_Next_iff attempt_Return_iff Let_def reads_from_def skel)
  from create_tail [OF this] obtain owned where
    own: "SetControllerReference E (o_Name ?i) ?api = Inr owned" and w': "CWriteGlanceAPI owned \<in> set (w_trace w')" by blast
  from assms(1) own obtain refs where "owned = ?api\<lparr>o_OwnerReferences := refs\<rparr>"
    unfolding reads_from_def sets_owner_only_def by blast
  with seen have "named (o_Namespace ?i) (api_object_name ?i n ty) owned"
    by (simp add: named_def desired_fields)
  with w' show ?thesis by (auto simp: wrote_def)
qed

lemma no_return:
  "check_layout j t loc w = (Return r, w') \<Longrightarrow> r \<noteq> None" "mirror_external n t a w \<noteq> (Return r, w')"
  "api_error e w = (Return r, w') \<Longrightarrow> r \<noteq> None" "api_error e w \<noteq> (Next x, w')"
  "apiDeploymentCreateOrUpdate E t ty n sl ws w \<noteq> (Return q, w')" "set_api_endpoint k v w \<noteq> (Return r, w')"
  by (auto simp: check_layout_def mirror_external_def api_error_def apiDeploymentCreateOrUpdate_def set_api_endpoint_def
      set_status_def run_iffs split: option.splits if_splits)

text \<open>
  From the state \<open>w0\<close> on: the types in \<open>W\<close> of the instance \<open>n\<close> have been written. A function that
  returns early does so with an error.
\<close>

definition done_for :: "Glance world \<Rightarrow> string \<Rightarrow> string set \<Rightarrow> Glance world \<Rightarrow> bool" where
  "done_for w0 n W w \<longleftrightarrow> untouched w0 w \<and> (\<forall>ty \<in> W. wrote (w_inst w0) n ty (w_trace w))"

abbreviation runs ::
  "(Glance world \<Rightarrow> bool) \<Rightarrow> (Glance world, go_error option, 'a) act \<Rightarrow> ('a \<Rightarrow> Glance world \<Rightarrow> bool) \<Rightarrow> bool" where
  "runs P m Q \<equiv> triple P m Q (\<lambda>r _. r \<noteq> None) (\<lambda>_. True)"

lemma wrote_mono: "wrote i n ty tr \<Longrightarrow> suffix tr tr' \<Longrightarrow> wrote i n ty tr'"
  unfolding wrote_def using set_mono_suffix by blast

lemma done_later: "done_for w0 n W w \<Longrightarrow> untouched w w' \<Longrightarrow> done_for w0 n W w'"
  unfolding done_for_def by (meson leaving.R_trans untouched_def wrote_mono)

lemma runs_keeps:
  "keeps untouched m \<Longrightarrow> (\<And>w r w'. m w = (Return r, w') \<Longrightarrow> r \<noteq> None) \<Longrightarrow> runs (done_for w0 n W) m (\<lambda>_. done_for w0 n W)"
  by (rule tripleI) (auto intro: done_later dest: keepsD)

lemma runs_error: "runs P (api_error e) Q"
  by (auto simp: triple_def run_defs api_error_def world_defs)

lemma runs_create:
  assumes "reads_from E S" and "\<And>a. runs (done_for w0 n (insert ty W)) (f a) Q"
  shows "runs (done_for w0 n W) (attempt (apiDeploymentCreateOrUpdate E t ty n sl ws) api_error f) Q"
proof (rule triple_attempt [where H = "\<lambda>_ _. True" and M = "\<lambda>_. done_for w0 n (insert ty W)"])
  show "runs (done_for w0 n W) (apiDeploymentCreateOrUpdate E t ty n sl ws)
      (\<lambda>v w. case v of Inl e \<Rightarrow> True | Inr a \<Rightarrow> done_for w0 n (insert ty W) w)"
  proof (rule tripleI)
    fix w w' and v :: "go_error + GlanceAPI"
    assume pre: "done_for w0 n W w" and run: "apiDeploymentCreateOrUpdate E t ty n sl ws w = (Next v, w')"
    show "case v of Inl e \<Rightarrow> True | Inr a \<Rightarrow> done_for w0 n (insert ty W) w'"
    proof (cases v)
      case (Inr a)
      with create_wrote [OF assms(1)] run have "wrote (w_inst w) n ty (w_trace w')" by blast
      moreover have "done_for w0 n W w'" by (rule done_later [OF pre keepsD [OF untouched_create run]])
      ultimately show ?thesis
        using Inr pre by (auto simp: done_for_def wrote_def api_object_name_def untouched_fields)
    qed simp
  qed (auto simp: no_return)
qed (rule runs_error assms(2))+

lemma deployment_wrote:
  assumes "reads_from E S" and "ty \<in> set (deployed_types t)" and run: "(apiDeployment E n t sl loc :: (Glance world, 'r, go_error option) act) w = (Next None, w')"
  shows "wrote (w_inst w) n ty (w_trace w')"
proof -
  let ?W = "set (deployed_types t)"
  have step: "runs (done_for w n V) m (\<lambda>_. done_for w n V)"
    if "keeps untouched m" "\<And>w r w'. m w = (Return r, w') \<Longrightarrow> r \<noteq> None" for V and m :: "(Glance world, go_error option, 'b) act"
    using that by (rule runs_keeps)
  have W: "t_Type t = ''split'' \<or> t_Type t = [] \<Longrightarrow> insert APIInternal {external_type (t_Type t)} = ?W"
    "\<not> (t_Type t = ''split'' \<or> t_Type t = []) \<Longrightarrow> {external_type (t_Type t)} = ?W"
    by (auto simp: deployed_types_def)
  have internal: "runs (done_for w n {external_type (t_Type t)})
      (if t_Type t = ''split'' \<or> t_Type t = [] then deploy_internal E n t sl ws c else ret c) (\<lambda>_. done_for w n ?W)" for ws c
    unfolding deploy_internal_def
  proof (rule triple_if, rule runs_create [OF assms(1)], simp only: W(1), rule step)
    fix a
    show "keeps untouched (seq (set_status (\<lambda>s. s\<lparr>s_APIEndpoints := Some (the_map (s_APIEndpoints s))\<rparr>))
        (seq (case as_APIEndpoints (AStatus a) of None \<Rightarrow> ret ()
          | Some eps \<Rightarrow> set_api_endpoint (n @ ''-'' @ endpoint_str EndpointInternal) (map_str eps (endpoint_str EndpointInternal)))
        (ret (higher_prio E (api_mirror E a) c))))"
      by (intro untouched_shared untouched_steps leaving.keeps_rules)
  qed (auto simp: W(2) seq_Return_iff no_return set_status_def intro: triple_ret split: option.splits)
  have finish: "runs (done_for w n ?W) (seq (whenever (c \<noteq> None) (cond (CSet c))) (ret None)) (\<lambda>_. done_for w n ?W)" for c
    by (rule runs_keeps) (auto intro!: untouched_steps leaving.keeps_rules simp: run_iffs)
  have "triple (done_for w n {}) (apiDeployment E n t sl loc :: (Glance world, 'r, go_error option) act)
      (\<lambda>e w'. e = None \<longrightarrow> done_for w n ?W w') (\<lambda>_ _. False) (\<lambda>_. True)"
    unfolding apiDeployment_def Let_def
    apply (rule triple_fn)
    apply (rule triple_weaken [where X' = "\<lambda>r _. r \<noteq> None" and C' = "\<lambda>_. True"])
    apply (rule triple_bind [OF step [of _ "{}", OF untouched_steps(3)]], simp)
    apply (rule triple_seq [OF step [of _ "{}"]])
      apply (unfold check_layout_def) [1]
      apply (intro untouched_steps leaving.keeps_rules) [1]
     apply (erule no_return)
    apply (rule triple_attempt [where H = "\<lambda>_ _. True" and M = "\<lambda>_. done_for w n {}"])
      apply (rule triple_ret, simp split: sum.split)
     apply (rule runs_error)
    apply (rule triple_prod)
    apply (rule runs_create [OF assms(1)])
    apply (rule triple_seq [OF step [of _ "{external_type (t_Type t)}"]])
      apply (unfold mirror_external_def) [1]
      apply (intro untouched_shared untouched_steps leaving.keeps_rules) [1]
     apply (simp add: no_return)
    apply (rule triple_bind [OF internal])
    apply (rule finish)
    apply auto
    done
  moreover have "done_for w n {} w" by (simp add: done_for_def untouched_def)
  ultimately show ?thesis using run assms(2) by (auto simp: triple_def done_for_def)
qed


text \<open>Every instance of the layout.\<close>

definition wrote_all :: "Glance \<Rightarrow> call list \<Rightarrow> bool" where
  "wrote_all i tr \<longleftrightarrow>
     (\<forall>n t ty. lookup (g_GlanceAPIs (Spec i)) n = Some t \<and> ty \<in> set (deployed_types t) \<longrightarrow> wrote i n ty tr)"

lemma for_each_visits:
  fixes f :: "'a \<Rightarrow> (Glance world, 'r, unit) act"
  assumes "\<And>x. keeps untouched (f x)"
  shows "for_each f xs w = (Next (), w') \<Longrightarrow> x \<in> set xs \<Longrightarrow>
    \<exists>w1 w2. untouched w w1 \<and> f x w1 = (Next (), w2) \<and> untouched w2 w'"
proof (induction xs arbitrary: w)
  case (Cons y ys)
  from Cons.prems(1) obtain w1 where w1: "f y w = (Next (), w1)" "for_each f ys w1 = (Next (), w')"
    by (auto simp: seq_Next_iff)
  have later: "untouched w w1" "untouched w1 w'"
    using keepsD [OF assms w1(1)] keepsD [OF leaving.keeps_for_each [OF assms] w1(2)] by simp_all
  show ?case
  proof (cases "x = y")
    case True
    with w1 later show ?thesis using leaving.R_refl by blast
  next
    case False
    with Cons.IH [OF w1(2)] Cons.prems(2) later show ?thesis by (auto intro: leaving.R_trans)
  qed
qed simp

lemma apis_wrote:
  fixes w :: "Glance world"
  assumes "reads_from E S" and run: "(normal_apis E sl loc :: (Glance world, reconcile_result, unit) act) w = (Next (), w')"
  shows "wrote_all (w_inst w') (w_trace w')"
  unfolding wrote_all_def
proof (intro allI impI, elim conjE)
  fix n t ty
  let ?one = "\<lambda>name. (case lookup (g_GlanceAPIs (Spec (w_inst w))) name of None \<Rightarrow> ret ()
      | Some current \<Rightarrow> must (apiDeployment E name current sl loc) (\<lambda>e. exit_with (EmptyResult, Some e)))
      :: (Glance world, reconcile_result, unit) act"
  assume t: "lookup (g_GlanceAPIs (Spec (w_inst w'))) n = Some t" and ty: "ty \<in> set (deployed_types t)"
  have kept: "untouched w w'" by (rule keepsD [OF untouched_phases(11) run])
  then have "Spec (w_inst w') = Spec (w_inst w)" by (simp add: untouched_def)
  note same = this untouched_fields [OF kept]
  with t have t: "lookup (g_GlanceAPIs (Spec (w_inst w))) n = Some t" by simp
  from run have each: "for_each ?one (sorted_keys (g_GlanceAPIs (Spec (w_inst w)))) w = (Next (), w')"
    by (simp only: normal_apis_def bind_def read_def gets_def prod.case out.case)
  have "keeps untouched (?one name)" for name
    by (intro untouched_deployment untouched_steps leaving.keeps_rules)
  moreover have "n \<in> set (sorted_keys (g_GlanceAPIs (Spec (w_inst w))))"
    using t by (auto dest!: map_of_SomeD intro: rev_image_eqI)
  ultimately obtain w1 w2 where
    visit: "untouched w w1" "?one n w1 = (Next (), w2)" "untouched w2 w'"
    using for_each_visits [OF _ each] by blast
  from visit(2) t have "(apiDeployment E n t sl loc :: (Glance world, reconcile_result, go_error option) act) w1 = (Next None, w2)"
    by (auto simp: must_Next_iff)
  from deployment_wrote [OF assms(1) ty this] have "wrote (w_inst w1) n ty (w_trace w2)" .
  then have "wrote (w_inst w1) n ty (w_trace w')" using visit(3) by (auto simp: untouched_def intro: wrote_mono)
  with visit(1) same show "wrote (w_inst w') n ty (w_trace w')"
    by (simp add: wrote_def api_object_name_def untouched_fields)
qed

section \<open>A reconcile against a server\<close>

text \<open>The server answers as the environment does, apart from the calls on GlanceAPIs.\<close>

lemma answering:
  assumes "answers_from E S E'"
  shows "glance_served E \<Longrightarrow> glance_served E'" and "lawful_lib_functions E' = lawful_lib_functions E"
    and "deployable_glance E' i = deployable_glance E i" and "sets_owner_only E \<Longrightarrow> reads_from E' S"
    and "SetControllerReference E' = SetControllerReference E" and "AddFinalizer E' = AddFinalizer E"
    and "api_mirror E' = api_mirror E" and "deferred_conditions E' = deferred_conditions E"
proof -
  from assms obtain found api apis where E': "E' = E\<lparr>resp_found := found, resp_api := api, resp_apis := apis\<rparr>"
    unfolding answers_from_def by blast
  from assms have "\<exists>x. resp_found E' tr = Inr x" "\<exists>x. resp_apis E' tr = Inr x" for tr
    unfolding answers_from_def by blast+
  then show "glance_served E \<Longrightarrow> glance_served E'" by (simp add: glance_served_def serves_well_def E')
  show "lawful_lib_functions E' = lawful_lib_functions E" by (simp add: lawful_lib_functions_def E')
  show "deployable_glance E' i = deployable_glance E i"
    by (simp add: deployable_glance_def E' cache_params_def cong: sum.case_cong)
  show "sets_owner_only E \<Longrightarrow> reads_from E' S"
    using assms unfolding reads_from_def answers_from_def by (simp add: sets_owner_only_def E')
  show "SetControllerReference E' = SetControllerReference E" "AddFinalizer E' = AddFinalizer E" by (simp_all add: E')
  show "api_mirror E' = api_mirror E" by (simp add: fun_eq_iff api_mirror_def E')
  show "deferred_conditions E' = deferred_conditions E" by (simp add: fun_eq_iff deferred_conditions_def E' Let_def)
qed

text \<open>A reconcile of a resource that is set up writes every instance, whatever the instances report.\<close>

abbreviation reported :: "condition option \<Rightarrow> bool" where
  "reported c \<equiv> (\<forall>x. c = Some x \<longrightarrow> c_Type x = GlanceAPIReadyCondition)"

lemma takes_reported: "GlanceAPIReadyCondition \<in> S \<Longrightarrow> takes i reported S S"
proof (intro allI impI)
  fix c
  assume S: "GlanceAPIReadyCondition \<in> S" and c: "reported c"
  have "goes (going i) S S (cond (CSet c))"
    by (rule yieldsI, cases c) (use S c in \<open>auto simp: on_way_def settled_def\<close>)
  then show "yields (going i) S S (\<lambda>e. e = None)
      (seq (whenever (c \<noteq> None) (cond (CSet c))) (ret None) :: (Glance world, go_error option, go_error option) act)"
    by (intro yields_seq [OF goes_whenever] yields_ret refl)
qed

lemma goes_ready_mark: "goes I S S (mark_true ReadyCondition m)"
  by (rule yieldsI) (simp add: on_way_def settled_def)

lemma goes_end:
  assumes "glance_served E"
  shows "goes I S S (normal_ready E cr)"
proof -
  have check: "yields I S S (\<lambda>v. \<exists>x. v = Inr x) (checkGlanceAPIsGeneration E)"
    unfolding checkGlanceAPIsGeneration_def
    by (rule yields_bind [OF yields_read [where P = "\<lambda>_. True"]], simp, rule yields_bind [OF glance_answers(1) [OF assms]])
      (auto intro!: yields_ret)
  show ?thesis unfolding normal_ready_def
    by (intro yields_try [OF check] yields_bind [OF yields_log [where P = "\<lambda>_. True"]] goes_whenever goes_ready_mark TrueI)
qed

lemma triple_while:
  assumes "triple P m Q X C" and "keeps R m" and "\<And>w w'. N w \<Longrightarrow> R w w' \<Longrightarrow> N w'"
  shows "triple (\<lambda>w. P w \<and> N w) m (\<lambda>x w. Q x w \<and> N w) X C"
  by (rule tripleI) (use tripleD [OF assms(1)] keepsD [OF assms(2)] assms(3) in blast)+

lemma wrote_all_same: "same_glance i j \<Longrightarrow> wrote_all j tr = wrote_all i tr"
  by (simp add: wrote_all_def wrote_def api_object_name_def same_glance_def)

lemma wrote_all_later: "wrote_all i (w_trace w) \<Longrightarrow> untouched w w' \<Longrightarrow> wrote_all i (w_trace w')"
  unfolding wrote_all_def by (auto simp: untouched_def intro: wrote_mono)

lemma ends_round:
  assumes "glance_served E" and "lawful_lib_functions E" and "deployable_glance E i" and "reports E i reported"
    and "reads_from E S"
  shows "ends_in (going i) own_types
    (\<lambda>x w. x = (EmptyResult, None) \<and> on_way (going i) own_types w \<and> wrote_all i (w_trace w)) (Glance_reconcileNormal E)"
proof (rule ends_glance_steps [OF assms(1,3)])
  let ?S = "{GlanceAPIReadyCondition, CronJobReadyCondition}"
  let ?M = "\<lambda>w. on_way (going i) ?S w \<and> wrote_all i (w_trace w)"
  fix sl :: "string gomap" and sa :: "string gomap"
  let ?apis = "normal_apis E sl (fst (GetLocationAPI (GetBoolFromAnnotation E) i)) :: (Glance world, reconcile_result, unit) act"
  have goes: "goes (going i) ?S ?S ?apis"
    by (rule goes_apis [OF assms(1-4) refl takes_reported takes_reported]) simp_all
  show "triple (on_way (going i) ?S) ?apis (\<lambda>_. ?M) (\<lambda>_ _. False) (\<lambda>_. False)"
  proof (rule tripleI)
    fix w w' :: "Glance world" and x
    assume pre: "on_way (going i) ?S w" and run: "?apis w = (Next x, w')"
    from yieldsD [OF goes pre] run have "on_way (going i) ?S w'" by simp
    moreover from this have "same_glance i (w_inst w')" by (simp add: on_way_def going_def)
    moreover have "wrote_all (w_inst w') (w_trace w')" by (rule apis_wrote [OF assms(5)]) (use run in simp)
    ultimately show "?M w'" using wrote_all_same by blast
  qed (use yieldsD [OF goes] in fastforce)+
  let ?rest = "seq (normal_cleanup E) (bind (normal_purge E sl sa) (\<lambda>ctrlResult.
      seq (normal_ready E ctrlResult) (ret (EmptyResult, None)))) :: (Glance world, reconcile_result, reconcile_result) act"
  have "yields (going i) (insert CronJobReadyCondition {GlanceAPIReadyCondition}) {GlanceAPIReadyCondition}
      (\<lambda>x. x = (EmptyResult, None)) ?rest"
    by (intro yields_then [OF goes_cleanup [OF assms(1)]] yields_bind [OF goes_purge [OF assms(1)]]
        yields_then [OF goes_end [OF assms(1)]] yields_ret refl)
  then have "triple (on_way (going i) ?S) ?rest
      (\<lambda>x w. on_way (going i) {GlanceAPIReadyCondition} w \<and> x = (EmptyResult, None)) (\<lambda>_ _. False) (\<lambda>_. False)"
    by (simp add: yields_def insert_commute)
  moreover have "keeps untouched ?rest" by (intro untouched_phases untouched_steps leaving.keeps_rules)
  ultimately have "triple ?M ?rest (\<lambda>x w. (on_way (going i) {GlanceAPIReadyCondition} w \<and> x = (EmptyResult, None)) \<and>
      wrote_all i (w_trace w)) (\<lambda>_ _. False) (\<lambda>_. False)"
    by (rule triple_while) (rule wrote_all_later)
  then show "triple ?M ?rest (\<lambda>x w. x = (EmptyResult, None) \<and> on_way (going i) own_types w \<and> wrote_all i (w_trace w))
      (\<lambda>_ _. False) (\<lambda>_. False)"
    by (rule triple_weaken) (auto simp: own_types_def intro: on_way_mono)
qed

text \<open>What the instances report is of the type of their condition.\<close>

lemma server_reports:
  assumes "answers_from E S E'" and "lawful_lib_functions E"
  shows "reports E' i reported"
proof -
  have "\<exists>g. resp_api E' (CWriteGlanceAPI api # tr) = Inr (api\<lparr>o_Generation := g\<rparr>)" for api tr
    using assms(1) unfolding answers_from_def by blast
  moreover have "reported (api_mirror E' a)" for a
    using assms(2) by (simp add: api_mirror_def lawful_lib_functions_def answering(7) [OF assms(1)])
  ultimately show ?thesis unfolding reports_def by blast
qed

end
