(* ===== verification/Deployment.thy ===== *)
theory Deployment
  imports GlanceRounds APILive
begin

text \<open>
  The two controllers together. They interact through the GlanceAPIs in the API server: the
  Glance controller writes them and reads their status, the GlanceAPI controller brings them up
  and reports it there. A resource nothing is deployed for yet becomes Ready after a few rounds
  of both controllers, with every instance of its layout written and ready.
\<close>

section \<open>Rounds of both controllers\<close>

text \<open>
  A reconcile of the resource, from what the server holds to what it holds afterwards, if it
  ends without an error or a wait; one of every GlanceAPI; and both, a number of times.
\<close>

definition glance_round :: "api_server \<Rightarrow> env \<Rightarrow> string \<Rightarrow> string \<Rightarrow> Glance \<Rightarrow> store \<Rightarrow> (Glance \<times> store) option" where
  "glance_round K E ns name g S =
     (case Glance_Reconcile ((sv_env K E S)\<lparr>resp_glance := \<lambda>_. Inr g\<rparr>) ns name [] of
        (Ret r, CPatchGlance j log # tr) \<Rightarrow>
          if r = (EmptyResult, None)
          then Some (j\<lparr>Status := (Status j)\<lparr>s_Conditions := Some log\<rparr>\<rparr>, sv_commit K tr S) else None
      | _ \<Rightarrow> None)"

definition apis_round :: "env \<Rightarrow> string \<Rightarrow> store \<Rightarrow> store option" where
  "apis_round E ns S = those (map (\<lambda>a. api_after_reconcile E ns (o_Name a) a) S)"

definition sweep :: "api_server \<Rightarrow> env \<Rightarrow> string \<Rightarrow> string \<Rightarrow> Glance \<times> store \<Rightarrow> (Glance \<times> store) option" where
  "sweep K E ns name c =
     (case glance_round K E ns name (fst c) (snd c) of
        None \<Rightarrow> None
      | Some (g, S) \<Rightarrow> map_option (Pair g) (apis_round E ns S))"

fun sweeps :: "api_server \<Rightarrow> env \<Rightarrow> string \<Rightarrow> string \<Rightarrow> nat \<Rightarrow> Glance \<times> store \<Rightarrow> (Glance \<times> store) option" where
  "sweeps K E ns name 0 c = Some c"
| "sweeps K E ns name (Suc n) c =
     (case sweep K E ns name c of None \<Rightarrow> None | Some c' \<Rightarrow> sweeps K E ns name n c')"

section \<open>The GlanceAPIs of a resource\<close>

text \<open>An instance the layout asks for, under its name; and all of them.\<close>

definition instance_at :: "Glance \<Rightarrow> GlanceAPI \<Rightarrow> bool" where
  "instance_at i a \<longleftrightarrow>
     (\<exists>n t ty. lookup (g_GlanceAPIs (Spec i)) n = Some t \<and> ty \<in> set (deployed_types t) \<and>
        named (o_Namespace i) (api_object_name i n ty) a \<and> APIName a = n)"

definition all_there :: "Glance \<Rightarrow> store \<Rightarrow> bool" where
  "all_there i S \<longleftrightarrow>
     (\<forall>n t ty. lookup (g_GlanceAPIs (Spec i)) n = Some t \<and> ty \<in> set (deployed_types t) \<longrightarrow>
        (\<exists>a \<in> set S. named (o_Namespace i) (api_object_name i n ty) a))"

definition healthy :: "env \<Rightarrow> Glance \<Rightarrow> GlanceAPI \<Rightarrow> bool" where
  "healthy E i a \<longleftrightarrow> instance_at i a \<and> deployable_api E a \<and> settled usual_types (api_log a)"

text \<open>How far its own controller has brought an instance: set up, and finished.\<close>

definition set_up :: "env \<Rightarrow> GlanceAPI \<Rightarrow> bool" where
  "set_up E a \<longleftrightarrow> as_Conditions (AStatus a) \<noteq> None \<and> \<not> snd (AddFinalizer E (o_Finalizers a))"

definition finished :: "env \<Rightarrow> GlanceAPI \<Rightarrow> bool" where
  "finished E a \<longleftrightarrow> set_up E a \<and> api_is_ready a \<and> as_ObservedGeneration (AStatus a) = o_Generation a"

text \<open>Every instance the specification asks for can be deployed.\<close>

definition instances_deployable :: "env \<Rightarrow> Glance \<Rightarrow> bool" where
  "instances_deployable E i \<longleftrightarrow>
     (\<forall>n t ty api. lookup (g_GlanceAPIs (Spec i)) n = Some t \<and> ty \<in> set (deployed_types t) \<and>
        instance_of i n t ty api \<and> \<not> o_Deleted api \<longrightarrow> deployable_api E api)"

text \<open>\<^verbatim>\<open>Mirror\<close> of a list of which every condition is true: a true one of the type asked for.\<close>

definition mirrors_ready :: "env \<Rightarrow> bool" where
  "mirrors_ready E \<longleftrightarrow> (\<forall>l t. true_in l ReadyCondition \<and> cond_all_sub_true l \<longrightarrow> is_true t (mirror E l t))"

section \<open>A reconcile of every GlanceAPI\<close>

lemma healthy_same: "same_instance a b \<Longrightarrow> settled usual_types (api_log b) \<Longrightarrow> healthy E i a \<Longrightarrow> healthy E i b"
  unfolding healthy_def instance_at_def
  by (auto simp: deployable_same) (auto simp: same_instance_def named_def APIName_def)

lemma api_step:
  assumes "deploys_well E" and "lawful_api_functions E" and "healthy E i a"
  shows "\<exists>b. api_after_reconcile E ns n a = Some b \<and> healthy E i b \<and> named (o_Namespace a) (o_Name a) b \<and> set_up E b \<and>
           (set_up E a \<longrightarrow> finished E b)"
proof (cases "set_up E a")
  case True
  then obtain l where l: "as_Conditions (AStatus a) = Some l" "\<not> snd (AddFinalizer E (o_Finalizers a))"
    by (auto simp: set_up_def)
  from assms(3) l(1) have a: "deployable_api E a" "settled usual_types l" by (simp_all add: healthy_def api_log_def)
  from api_ready_in_one [OF assms(1,2) a(1) l(1) settled_mono [OF a(2) usual_types] l(2), of ns n] obtain b where
    b: "api_after_reconcile E ns n a = Some b" "api_is_ready b" "same_instance a b"
      "as_ObservedGeneration (AStatus b) = o_Generation a" "\<not> snd (AddFinalizer E (o_Finalizers b))" by blast
  from b(2) have "as_Conditions (AStatus b) \<noteq> None" "settled {} (api_log b)"
    by (auto simp: api_is_ready_def APIIsReady_def true_in_def is_true_def settled_empty split: option.splits)
  moreover from this(2) have "settled usual_types (api_log b)" by (rule settled_mono) simp
  ultimately show ?thesis using b healthy_same [OF b(3) _ assms(3)]
    by (auto simp: finished_def set_up_def named_def same_instance_def)
next
  case False
  then have new: "as_Conditions (AStatus a) = None \<or> snd (AddFinalizer E (o_Finalizers a))" by (auto simp: set_up_def)
  from assms(3) have a: "deployable_api E a" "settled usual_types (api_log a)" by (simp_all add: healthy_def)
  from api_set_up_in_one [OF assms(1,2) a subset_refl new, of ns n] obtain b l where
    b: "api_after_reconcile E ns n a = Some b" "same_instance a b" "as_Conditions (AStatus b) = Some l"
      "settled usual_types l" "\<not> snd (AddFinalizer E (o_Finalizers b))" by blast
  then show ?thesis using healthy_same [OF b(2) _ assms(3)] False
    by (auto simp: api_log_def set_up_def named_def same_instance_def)
qed

lemma those_map: "(\<And>a. a \<in> set S \<Longrightarrow> f a = Some (h a)) \<Longrightarrow> those (map f S) = Some (map h S)"
  by (induction S) simp_all

lemma apis_step:
  assumes "deploys_well E" and "lawful_api_functions E" and "\<And>a. a \<in> set S \<Longrightarrow> healthy E i a"
  shows "\<exists>T. apis_round E ns S = Some T \<and> (\<forall>b \<in> set T. healthy E i b \<and> set_up E b) \<and>
           (all_there i S \<longrightarrow> all_there i T) \<and> ((\<forall>a \<in> set S. set_up E a) \<longrightarrow> (\<forall>b \<in> set T. finished E b))"
proof -
  define h where "h a = the (api_after_reconcile E ns (o_Name a) a)" for a
  have h: "api_after_reconcile E ns (o_Name a) a = Some (h a)" "healthy E i (h a)" "named (o_Namespace a) (o_Name a) (h a)"
      "set_up E (h a)" "set_up E a \<Longrightarrow> finished E (h a)" if "a \<in> set S" for a
    using api_step [OF assms(1,2) assms(3) [OF that], of ns "o_Name a"] by (auto simp: h_def)
  have "apis_round E ns S = Some (map h S)" unfolding apis_round_def by (rule those_map) (rule h(1))
  moreover have "all_there i (map h S)" if "all_there i S"
    using that h(3) unfolding all_there_def named_def by (fastforce simp: named_def)
  ultimately show ?thesis using h(2,4,5) by auto
qed

section \<open>A reconcile of the resource\<close>

text \<open>What is written is healthy, and keeps the status of the instance it is written over.\<close>

lemma object_name_inject:
  assumes "api_type ty" and "api_type ty'" and "api_object_name i n ty = api_object_name i n' ty'"
  shows "n = n'"
  using api_types_suffix_free [OF assms(1,2), of "o_Name i @ ''-'' @ n" "o_Name i @ ''-'' @ n'"] assms(3)
  by (simp add: api_object_name_def)

lemma written_healthy:
  assumes "answers_from E S E'" and "sets_owner_only E" and "instances_deployable E i"
    and "\<And>a. a \<in> set S \<Longrightarrow> healthy E i a" and "asked_for E' i api"
  shows "healthy E i (api\<lparr>o_Generation := g\<rparr>)"
    and "all_there i S \<Longrightarrow> \<exists>old \<in> set S. AStatus api = AStatus old \<and> o_Finalizers api = o_Finalizers old"
proof -
  from assms(5) obtain n t ty a where
    a: "lookup (g_GlanceAPIs (Spec i)) n = Some t" "ty \<in> set (deployed_types t)" "starts_from E' i n ty a"
      "instance_of i n t ty a" "SetControllerReference E (o_Name i) a = Inr api"
    by (auto simp: asked_for_def answering(5) [OF assms(1)])
  from assms(2) a(5) obtain refs where api: "api = a\<lparr>o_OwnerReferences := refs\<rparr>"
    unfolding sets_owner_only_def by blast
  have inst: "instance_of i n t ty (api\<lparr>o_Generation := g\<rparr>)" using a(4) by (simp add: instance_of_def api)
  from a(3) assms(1) consider
      (new) "find (named (o_Namespace i) (api_object_name i n ty)) S = None" "named (o_Namespace i) (api_object_name i n ty) a"
        "APIName a = n" "\<not> o_Deleted a" "AStatus a = zero_api_status"
    | (old) old where "find (named (o_Namespace i) (api_object_name i n ty)) S = Some old" "o_Name a = o_Name old"
        "o_Namespace a = o_Namespace old" "APIName a = APIName old" "o_Finalizers a = o_Finalizers old"
        "o_Deleted a = o_Deleted old" "AStatus a = AStatus old"
    by (auto simp: starts_from_def answers_from_def named_def split: option.splits)
  then have "healthy E i (api\<lparr>o_Generation := g\<rparr>) \<and>
      (all_there i S \<longrightarrow> (\<exists>old \<in> set S. AStatus api = AStatus old \<and> o_Finalizers api = o_Finalizers old))"
  proof cases
    case new
    have "deployable_api E (api\<lparr>o_Generation := g\<rparr>)"
      using assms(3) a(1,2) inst new(4) by (auto simp: instances_deployable_def api)
    moreover have "instance_at i (api\<lparr>o_Generation := g\<rparr>)"
      unfolding instance_at_def by (intro exI [of _ n] exI [of _ t] exI [of _ ty])
        (use a(1,2) new in \<open>simp add: named_def api APIName_def\<close>)
    moreover have "settled usual_types (api_log (api\<lparr>o_Generation := g\<rparr>))"
      using new(5) by (simp add: api_log_def api zero_api_status_def settled_def)
    moreover have "\<not> all_there i S"
      using new(1) a(1,2) by (auto simp: all_there_def find_None_iff)
    ultimately show ?thesis by (simp add: healthy_def)
  next
    case old
    then have there: "old \<in> set S" and nm: "named (o_Namespace i) (api_object_name i n ty) old"
      by (auto simp: find_Some_iff)
    from assms(4) [OF there] obtain n' t' ty' where
      h: "lookup (g_GlanceAPIs (Spec i)) n' = Some t'" "ty' \<in> set (deployed_types t')"
        "named (o_Namespace i) (api_object_name i n' ty') old" "APIName old = n'" "deployable_api E old"
        "settled usual_types (api_log old)"
      by (auto simp: healthy_def instance_at_def)
    have "n = n'"
      by (rule object_name_inject [OF deployed_types_api [OF a(2)] deployed_types_api [OF h(2)]])
        (use nm h(3) in \<open>simp add: named_def\<close>)
    moreover have "\<not> o_Deleted a" using old h(5) by (simp add: deployable_api_def)
    then have "deployable_api E (api\<lparr>o_Generation := g\<rparr>)"
      using assms(3) a(1,2) inst by (auto simp: instances_deployable_def api)
    ultimately have "healthy E i (api\<lparr>o_Generation := g\<rparr>)"
      unfolding healthy_def instance_at_def using a(1,2) old nm h(4,6)
      by (auto simp: api named_def APIName_def api_log_def)
    then show ?thesis using there old api by auto
  qed
  then show "healthy E i (api\<lparr>o_Generation := g\<rparr>)"
    and "all_there i S \<Longrightarrow> \<exists>old \<in> set S. AStatus api = AStatus old \<and> o_Finalizers api = o_Finalizers old"
    by simp_all
qed

definition glance_set_up :: "env \<Rightarrow> Glance \<Rightarrow> bool" where
  "glance_set_up E g \<longleftrightarrow> s_Conditions (Status g) \<noteq> None \<and> \<not> snd (AddFinalizer E (o_Finalizers g))"

text \<open>It is true when all of them are finished.\<close>

lemma finished_answers:
  assumes "answers_from E S E'" and "glance_served E" and "mirrors_ready E" and "sets_owner_only E" and "instances_deployable E i"
    and "\<And>a. a \<in> set S \<Longrightarrow> healthy E i a \<and> finished E a" and "all_there i S"
  shows "answers_well E' i"
proof -
  have "\<exists>a. resp_api E' (CWriteGlanceAPI api # tr) = Inr a \<and> is_true GlanceAPIReadyCondition (api_mirror E' a)"
    if "asked_for E' i api" for api tr
  proof -
    from assms(1) obtain g where g: "resp_api E' (CWriteGlanceAPI api # tr) = Inr (api\<lparr>o_Generation := g\<rparr>)"
      unfolding answers_from_def by blast
    from written_healthy(2) [OF assms(1,4,5) _ that assms(7)] assms(6) obtain old where
      old: "old \<in> set S" "AStatus api = AStatus old" by blast
    with assms(6) have "api_is_ready old" by (simp add: finished_def)
    then have "true_in (api_log old) ReadyCondition" "cond_all_sub_true (api_log old)"
      by (auto simp: api_is_ready_def APIIsReady_def api_log_def split: option.splits)
    with assms(3) have "is_true GlanceAPIReadyCondition (mirror E (api_log old) GlanceAPIReadyCondition)"
      by (simp add: mirrors_ready_def)
    with g old(2) show ?thesis by (simp add: answering(7) [OF assms(1)] api_mirror_def api_log_def)
  qed
  moreover have "generations_observed apis" if apis: "resp_apis E' tr = Inr apis" for tr apis
  proof -
    from assms(1) obtain x where "resp_apis E' tr = Inr x" "set x \<subseteq> set S" unfolding answers_from_def by blast
    with apis assms(6) show ?thesis
      by (auto simp: generations_observed_def finished_def list_all_iff)
  qed
  ultimately show ?thesis
    using answering(1) [OF assms(1,2)] by (simp add: answers_well_def reports_def)
qed

text \<open>The calls of a reconcile write instances that are asked for, and delete none.\<close>

lemma calls_write:
  assumes "answers_from E S E'" and "\<And>a. a \<in> set S \<Longrightarrow> healthy E i a"
    and "Glance_Reconcile (E'\<lparr>resp_glance := \<lambda>_. Inr i\<rparr>) ns name [] = (r, c # tr)"
    and "\<And>a. CUpdateGlanceAPI a \<notin> set tr"
  shows "only_writes tr" and "CWriteGlanceAPI api \<in> set tr \<Longrightarrow> asked_for E' i api"
proof -
  let ?E = "E'\<lparr>resp_glance := \<lambda>_. Inr i\<rparr>"
  from reconcile_good [OF _ assms(3), of i] have good: "list_all (good_call ?E i) tr" by auto
  have ask: "asked_for ?E i api = asked_for E' i api" for api by (simp add: asked_for_def starts_from_def)
  show "CWriteGlanceAPI api \<in> set tr \<Longrightarrow> asked_for E' i api"
    using good by (auto simp: list_all_iff good_call_def ask dest!: bspec)
  have "\<not> abandoned ?E i a" for a
  proof
    assume gone: "abandoned ?E i a"
    then obtain tr' apis where "resp_apis E' tr' = Inr apis" "a \<in> set apis" by (auto simp: abandoned_def listed_def)
    moreover from assms(1) have "\<exists>x. resp_apis E' tr' = Inr x \<and> set x \<subseteq> set S" unfolding answers_from_def by blast
    ultimately have "healthy E i a" using assms(2) by auto
    then show False using gone by (auto simp: abandoned_def healthy_def instance_at_def)
  qed
  then have "CDeleteGlanceAPI a \<notin> set tr" for a
    using good by (auto simp: list_all_iff good_call_def dest!: bspec)
  with assms(4) show "only_writes tr" by (simp add: only_writes_def)
qed

lemma glance_step:
  assumes "lawful_server K" and "glance_served E" and "lawful_lib_functions E" and "sets_owner_only E" and "mirrors_ready E"
    and "deployable_glance E g" and "instances_deployable E g" and "settled own_types (read_log g)"
    and "\<And>a. a \<in> set S \<Longrightarrow> healthy E g a"
  shows "\<exists>j T. glance_round K E ns name g S = Some (j, T) \<and> same_glance g j \<and> glance_set_up E j \<and>
           settled own_types (read_log j) \<and> (\<forall>a \<in> set T. healthy E g a) \<and>
           (glance_set_up E g \<or> all_there g S \<longrightarrow> all_there g T) \<and>
           (all_there g S \<and> (\<forall>a \<in> set S. set_up E a) \<longrightarrow> (\<forall>a \<in> set T. set_up E a)) \<and>
           (glance_set_up E g \<and> all_there g S \<and> (\<forall>a \<in> set S. finished E a) \<longrightarrow> IsReady true_in j)"
proof -
  define E' where "E' = sv_env K E S"
  let ?E = "E'\<lparr>resp_glance := \<lambda>_. Inr g\<rparr>"
  have ans: "answers_from E S E'" using assms(1) by (simp add: lawful_server_def E'_def)
  note srv = answering [OF ans]
  have served: "glance_served E'" "lawful_lib_functions E'" "deployable_glance E' g" using srv(1-3) assms(2,3,6) by simp_all
  have "\<exists>j log tr. Glance_Reconcile ?E ns name [] = (Ret (EmptyResult, None), CPatchGlance j log # tr) \<and>
      same_glance g j \<and> settled own_types log \<and> \<not> snd (AddFinalizer E (o_Finalizers j)) \<and>
      (\<forall>a. CUpdateGlanceAPI a \<notin> set tr) \<and> (glance_set_up E g \<longrightarrow> wrote_all g tr)"
  proof (cases "glance_set_up E g")
    case True
    then obtain l where l: "s_Conditions (Status g) = Some l" "\<not> snd (AddFinalizer E' (o_Finalizers g))" "settled own_types l"
      using assms(8) by (auto simp: glance_set_up_def srv(6) read_log_def)
    have "ends_in (going g) own_types (\<lambda>x w. x = (EmptyResult, None) \<and> on_way (going g) own_types w \<and> wrote_all g (w_trace w))
        (Glance_reconcileNormal ?E :: (Glance world, reconcile_result, reconcile_result) act)"
    proof (rule ends_round)
      show "glance_served ?E" "lawful_lib_functions ?E" "deployable_glance ?E g" using served by (simp_all only: read_env)
      show "reports ?E g reported"
        using server_reports [OF ans assms(3)] by (simp add: reports_def asked_for_def starts_from_def api_mirror_def)
      show "reads_from ?E S" using srv(4) [OF assms(4)] by (simp add: reads_from_def sets_owner_only_def)
    qed
    moreover have "\<not> o_Deleted g" using assms(6) by (simp add: deployable_glance_def)
    ultimately obtain w :: "Glance world" where
      w: "Glance_Reconcile ?E ns name [] =
          (Ret (EmptyResult, None), CPatchGlance (w_inst w) (deferred_conditions E' (w_conds w)) # w_trace w)"
        "on_way (going g) own_types w" "wrote_all g (w_trace w)" "\<not> snd (AddFinalizer E' (o_Finalizers (w_inst w)))"
        "\<forall>a. CUpdateGlanceAPI a \<notin> set (w_trace w)"
      using normal_round [OF served(1,2) _ l(1,3,2), where R = "\<lambda>w. on_way (going g) own_types w \<and> wrote_all g (w_trace w)"]
      by blast
    have "settled own_types (deferred_conditions E (w_conds w))"
      by (rule settled_deferred) (use w(2) assms(3) in \<open>simp_all add: on_way_def lawful_lib_functions_def\<close>)
    then show ?thesis using w by (auto simp: srv(6,8) on_way_def going_def)
  next
    case False
    then have "s_Conditions (Status g) = None \<or> snd (AddFinalizer E' (o_Finalizers g))"
      by (auto simp: glance_set_up_def srv(6))
    from set_up_in_one [OF served assms(8) this, of ns name] False show ?thesis by (auto simp: srv(6))
  qed
  then obtain j log tr where
    run: "Glance_Reconcile ?E ns name [] = (Ret (EmptyResult, None), CPatchGlance j log # tr)"
    and j: "same_glance g j" "settled own_types log" "\<not> snd (AddFinalizer E (o_Finalizers j))"
    and tr: "\<And>a. CUpdateGlanceAPI a \<notin> set tr" "glance_set_up E g \<Longrightarrow> wrote_all g tr" by blast
  let ?j = "j\<lparr>Status := (Status j)\<lparr>s_Conditions := Some log\<rparr>\<rparr>" and ?T = "sv_commit K tr S"
  have round: "glance_round K E ns name g S = Some (?j, ?T)" using run by (simp add: glance_round_def E'_def)
  have after: "after_reconcile E' ns name g = Some ?j" using run by (simp add: after_reconcile_def)
  note calls = calls_write [OF ans assms(9) run tr(1)]
  from assms(1) calls(1) have commit:
    "a \<in> set ?T \<Longrightarrow> a \<in> set S \<or> (\<exists>api h. CWriteGlanceAPI api \<in> set tr \<and> a = api\<lparr>o_Generation := h\<rparr>)"
    "a \<in> set S \<or> CWriteGlanceAPI a \<in> set tr \<Longrightarrow> \<exists>b \<in> set ?T. named (o_Namespace a) (o_Name a) b" for a
    unfolding lawful_server_def by blast+
  note written = written_healthy [OF ans assms(4,7,9)]
  have "healthy E g a" if "a \<in> set ?T" for a
    using commit(1) [OF that] assms(9) written(1) calls(2) by blast
  moreover have "set_up E a" if "all_there g S" "\<forall>a \<in> set S. set_up E a" "a \<in> set ?T" for a
    using commit(1) [OF that(3)] written(2) [OF _ _ that(1)] calls(2) that(2) by (fastforce simp: set_up_def)
  moreover have "all_there g ?T" if "glance_set_up E g \<or> all_there g S"
    using that tr(2) commit(2) unfolding all_there_def wrote_all_def wrote_def named_def by metis
  moreover have "IsReady true_in ?j" if ready: "glance_set_up E g" "all_there g S" "\<forall>a \<in> set S. finished E a"
  proof -
    from ready(1) obtain l where l: "s_Conditions (Status g) = Some l" "\<not> snd (AddFinalizer E' (o_Finalizers g))" "settled own_types l"
      using assms(8) by (auto simp: glance_set_up_def srv(6) read_log_def)
    have "answers_well E' g"
      by (rule finished_answers [OF ans assms(2,5,4,7)]) (use assms(9) ready in auto)
    from ready_in_one [OF this served(2,3) l(1,3,2), of ns name] after show ?thesis by auto
  qed
  moreover have "same_glance g ?j" "glance_set_up E ?j" "settled own_types (read_log ?j)"
    using j by (simp_all add: same_glance_def glance_set_up_def read_log_def)
  ultimately show ?thesis using round by blast
qed

section \<open>Rounds until Ready\<close>

lemma deployment_same:
  assumes "same_glance i j"
  shows "healthy E j a = healthy E i a" and "all_there j S = all_there i S"
    and "instances_deployable E j = instances_deployable E i"
proof -
  from assms have "Spec j = Spec i" "o_Namespace j = o_Namespace i" "api_object_name j = api_object_name i"
    by (simp_all add: fun_eq_iff same_glance_def api_object_name_def)
  note same = this
  show "healthy E j a = healthy E i a" "all_there j S = all_there i S"
    by (simp_all add: healthy_def instance_at_def all_there_def same)
  show "instances_deployable E j = instances_deployable E i"
    by (simp add: instances_deployable_def instance_of_same [OF assms] same)
qed

text \<open>How far a deployment has come.\<close>

definition stage :: "env \<Rightarrow> Glance \<Rightarrow> nat \<Rightarrow> Glance \<times> store \<Rightarrow> bool" where
  "stage E i n c \<longleftrightarrow>
     (let (g, S) = c in
      same_glance i g \<and> settled own_types (read_log g) \<and> (\<forall>a \<in> set S. healthy E i a) \<and>
      (1 \<le> n \<longrightarrow> glance_set_up E g) \<and>
      (2 \<le> n \<longrightarrow> all_there i S \<and> (\<forall>a \<in> set S. set_up E a)) \<and>
      (3 \<le> n \<longrightarrow> (\<forall>a \<in> set S. finished E a)) \<and>
      (4 \<le> n \<longrightarrow> IsReady true_in g))"

text \<open>What is asked of the environment and of the resource.\<close>

definition cooperative :: "api_server \<Rightarrow> env \<Rightarrow> bool" where
  "cooperative K E \<longleftrightarrow>
     lawful_server K \<and> glance_served E \<and> deploys_well E \<and> lawful_lib_functions E \<and> lawful_api_functions E \<and>
     sets_owner_only E \<and> mirrors_ready E"

lemma sweep_step:
  assumes "cooperative K E" and "deployable_glance E i" and "instances_deployable E i" and "stage E i n c"
  shows "\<exists>c'. sweep K E ns name c = Some c' \<and> stage E i (Suc n) c'"
proof -
  from assms(1) have env: "lawful_server K" "glance_served E" "deploys_well E" "lawful_lib_functions E" "lawful_api_functions E"
    "sets_owner_only E" "mirrors_ready E" by (simp_all add: cooperative_def)
  obtain g S where c: "c = (g, S)" by (cases c)
  from assms(4) have st: "same_glance i g" "settled own_types (read_log g)" "\<And>a. a \<in> set S \<Longrightarrow> healthy E i a"
    "1 \<le> n \<Longrightarrow> glance_set_up E g" "2 \<le> n \<Longrightarrow> all_there i S \<and> (\<forall>a \<in> set S. set_up E a)"
    "3 \<le> n \<Longrightarrow> \<forall>a \<in> set S. finished E a"
    by (simp_all add: stage_def c)
  note same = deployment_same [OF st(1)]
  have "deployable_glance E g" "instances_deployable E g" "\<And>a. a \<in> set S \<Longrightarrow> healthy E g a"
    using assms(2,3) st(1,3) by (simp_all add: deployable_glance_same same)
  from glance_step [where ns = ns and name = name, OF env(1,2,4,6,7) this(1,2) st(2) this(3)] obtain j T where
    j: "glance_round K E ns name g S = Some (j, T)" "same_glance g j" "glance_set_up E j" "settled own_types (read_log j)"
    and T: "\<And>a. a \<in> set T \<Longrightarrow> healthy E i a" "glance_set_up E g \<or> all_there i S \<Longrightarrow> all_there i T"
      "all_there i S \<and> (\<forall>a \<in> set S. set_up E a) \<Longrightarrow> \<forall>a \<in> set T. set_up E a"
    and ready: "glance_set_up E g \<and> all_there i S \<and> (\<forall>a \<in> set S. finished E a) \<Longrightarrow> IsReady true_in j"
    unfolding same by blast
  from apis_step [where ns = ns, OF env(3,5) T(1)] obtain U where
    U: "apis_round E ns T = Some U" "\<forall>b \<in> set U. healthy E i b \<and> set_up E b" "all_there i T \<longrightarrow> all_there i U"
      "(\<forall>a \<in> set T. set_up E a) \<longrightarrow> (\<forall>b \<in> set U. finished E b)" by blast
  have "same_glance i j" using st(1) j(2) by (simp add: same_glance_def)
  moreover have "1 \<le> n \<longrightarrow> all_there i U" using st(4) T(2) U(3) by simp
  moreover have "2 \<le> n \<longrightarrow> (\<forall>b \<in> set U. finished E b)" using st(5) T(3) U(4) by simp
  moreover have "3 \<le> n \<longrightarrow> IsReady true_in j" using st(4-6) ready by simp
  ultimately have "stage E i (Suc n) (j, U)" using j(3,4) U(2) by (auto simp: stage_def)
  moreover have "sweep K E ns name c = Some (j, U)" by (simp add: sweep_def c j(1) U(1))
  ultimately show ?thesis by blast
qed

lemma sweeps_stage:
  assumes "cooperative K E" and "deployable_glance E i" and "instances_deployable E i"
  shows "stage E i m c \<Longrightarrow> \<exists>c'. sweeps K E ns name n c = Some c' \<and> stage E i (m + n) c'"
proof (induction n arbitrary: m c)
  case (Suc n)
  from sweep_step [OF assms Suc.prems, of ns name] obtain d where
    d: "sweep K E ns name c = Some d" "stage E i (Suc m) d" by blast
  from Suc.IH [OF d(2)] d(1) show ?case by simp
qed simp

text \<open>
  Property C7. The two controllers together deploy a resource. The environment: the API server keeps
  what is written to it, everything else is answered without an error or a wait, every
  StatefulSet reports the replicas it was asked for, and the libraries behave as documented.
  The resource: it is not being deleted, has at least one instance, a cache size that parses,
  annotations that can be read and a layout its backends admit, and each instance of its layout
  can be deployed: backends with a type, replicas, sizes that parse, certificates and a
  credential that can be read. The start: nothing is deployed, or some GlanceAPIs of instances
  of the layout are there, at any stage of their own reconciles; and no condition stored in the
  resource or in one of them is other than true, Ready and those that every reconcile sets
  again apart. Then four rounds of both controllers, or more, end with the resource Ready, with
  a GlanceAPI for every instance and endpoint type of its layout, and with every GlanceAPI
  ready at its current generation.
\<close>

theorem deployment_becomes_ready:
  assumes "cooperative K E" and "deployable_glance E i" and "instances_deployable E i"
    and "settled own_types (read_log i)" and "\<And>a. a \<in> set S \<Longrightarrow> healthy E i a" and "4 \<le> n"
  shows "\<exists>j T. sweeps K E ns name n (i, S) = Some (j, T) \<and> IsReady true_in j \<and> all_there i T \<and>
           (\<forall>a \<in> set T. instance_at i a \<and> api_is_ready a \<and> as_ObservedGeneration (AStatus a) = o_Generation a)"
proof -
  have "stage E i 0 (i, S)" using assms(4,5) by (simp add: stage_def same_glance_def)
  from sweeps_stage [OF assms(1-3) this, of ns name n] obtain j T where
    "sweeps K E ns name n (i, S) = Some (j, T)" "stage E i n (j, T)" by auto
  with assms(6) show ?thesis by (auto simp: stage_def finished_def healthy_def)
qed

section \<open>A deployment from nothing\<close>

text \<open>An environment that mirrors a ready list, as the condition package does.\<close>

definition deploy_env :: env where
  "deploy_env = (api_env undefined undefined)\<lparr>mirror := \<lambda>l t.
     if true_in l ReadyCondition \<and> cond_all_sub_true l then Some (TrueCondition t (LibMsg [] []))
     else Some (UnknownCondition t InitReason (LibMsg [] []))\<rparr>"

definition new_glance :: Glance where
  "new_glance = sample_glance [] ''a'' [(''a'', sample_template 1 ''split'' [])]"

lemma deploy_env_cooperative: "cooperative memory_server deploy_env"
proof -
  have "glance_served deploy_env"
    by (auto simp: deploy_env_def api_env_def glance_served_def serves_well_def yes_def sample_rbac_def roles_ready_def
        is_true_def TrueCondition_def)
  moreover have "deploys_well deploy_env" "lawful_lib_functions deploy_env" "lawful_api_functions deploy_env"
    using api_env_good [of undefined undefined]
    by (auto simp: deploy_env_def api_env_def deploys_well_def serves_well_def lawful_lib_functions_def lawful_api_functions_def)
  moreover have "sets_owner_only deploy_env" "mirrors_ready deploy_env"
    by (auto simp: deploy_env_def api_env_def sets_owner_only_def mirrors_ready_def is_true_def)
  ultimately show ?thesis using lawful_memory by (simp add: cooperative_def)
qed

lemma new_glance_deployable: "deployable_glance deploy_env new_glance" "instances_deployable deploy_env new_glance"
proof -
  show "deployable_glance deploy_env new_glance"
    by (auto simp: deployable_glance_def deploy_env_def api_env_def APISingle_def new_glance_def sample_glance_def
        sample_template_def zero_template_def cache_params_def GetLocationAPI_def single_on_file_def empty_file)
  have "sorted_endpoints ''internal'' = [EndpointInternal]" "sorted_endpoints ''external'' = [EndpointPublic]" by code_simp+
  then show "instances_deployable deploy_env new_glance"
    by (auto simp: instances_deployable_def new_glance_def sample_glance_def sample_template_def zero_template_def
        instance_of_def deployed_types_def external_type_def api_type_defs deployable_api_def deployable_def no_backends
        str_or_def deploy_env_def api_env_def ref_lib_def tls_mounts_def bool_str_def split: if_splits)
qed

theorem deployment_becomes_ready_witness:
  "\<exists>j T. sweeps memory_server deploy_env ''ns'' ''glance'' 4 (new_glance, []) = Some (j, T) \<and> IsReady true_in j \<and>
     all_there new_glance T \<and> (\<forall>a \<in> set T. api_is_ready a)"
proof -
  have "settled own_types (read_log new_glance)"
    by (simp add: settled_def read_log_def new_glance_def sample_glance_def)
  from deployment_becomes_ready [OF deploy_env_cooperative new_glance_deployable this, of "[]" 4 "''ns''" "''glance''"]
  show ?thesis by auto
qed

end
