(* ===== verification/Watches.thy ===== *)
theory Watches
  imports GlanceWrites
begin

text \<open>
  The watches of both controllers: the field indexers \<^verbatim>\<open>SetupWithManager\<close> registers and the
  functions that map a changed object to the resources to reconcile. The cache they list from
  is controller-runtime's: a parameter, with its documented behaviour as a hypothesis. What is
  registered for which kind of object is in theory Registration.
\<close>

section \<open>Field indexers\<close>

definition passwordSecretField :: string where "passwordSecretField = ''.spec.secret''"
definition caBundleSecretNameField :: string where "caBundleSecretNameField = ''.spec.tls.caBundleSecretName''"
definition tlsAPIInternalField :: string where "tlsAPIInternalField = ''.spec.tls.api.internal.secretName''"
definition tlsAPIPublicField :: string where "tlsAPIPublicField = ''.spec.tls.api.public.secretName''"
definition topologyField :: string where "topologyField = ''.spec.topologyRef.Name''"
definition notificationBusSecretField :: string where "notificationBusSecretField = ''.spec.notificationBusSecret''"
definition authAppCredSecretField :: string where
  "authAppCredSecretField = ''.spec.auth.applicationCredentialSecret''"

lemmas field_defs = passwordSecretField_def caBundleSecretNameField_def tlsAPIInternalField_def tlsAPIPublicField_def
  topologyField_def notificationBusSecretField_def authAppCredSecretField_def

definition glanceWatchFields :: "string list" where
  "glanceWatchFields = [passwordSecretField]"

definition glanceAPIWatchFields :: "string list" where
  "glanceAPIWatchFields =
     [passwordSecretField, caBundleSecretNameField, tlsAPIInternalField, tlsAPIPublicField, topologyField,
      notificationBusSecretField, authAppCredSecretField]"

text \<open>The functions registered, by field: \<open>nil\<close> for a field that is not set, else its one value.\<close>

type_synonym 'a indexers = "(string \<times> ('a \<Rightarrow> string list)) list"

definition glance_indexers :: "Glance indexers" where
  "glance_indexers =
     [(passwordSecretField, \<lambda>cr. if g_Secret (Spec cr) = [] then [] else [g_Secret (Spec cr)])]"

definition index_secret :: "GlanceAPI \<Rightarrow> string list" where
  "index_secret cr = (if a_Secret (ASpec cr) = [] then [] else [a_Secret (ASpec cr)])"

definition index_caBundle :: "GlanceAPI \<Rightarrow> string list" where
  "index_caBundle cr =
     (if CaBundleSecretName (t_TLS (ASpec cr)) = [] then [] else [CaBundleSecretName (t_TLS (ASpec cr))])"

definition index_tlsInternal :: "GlanceAPI \<Rightarrow> string list" where
  "index_tlsInternal cr = (case TLSInternalSecretName (t_TLS (ASpec cr)) of None \<Rightarrow> [] | Some s \<Rightarrow> [s])"

definition index_tlsPublic :: "GlanceAPI \<Rightarrow> string list" where
  "index_tlsPublic cr = (case TLSPublicSecretName (t_TLS (ASpec cr)) of None \<Rightarrow> [] | Some s \<Rightarrow> [s])"

definition index_topology :: "GlanceAPI \<Rightarrow> string list" where
  "index_topology cr = (case t_TopologyRef (ASpec cr) of None \<Rightarrow> [] | Some r \<Rightarrow> [topo_Name r])"

definition index_notificationBus :: "GlanceAPI \<Rightarrow> string list" where
  "index_notificationBus cr =
     (if a_NotificationBusSecret (ASpec cr) = [] then [] else [a_NotificationBusSecret (ASpec cr)])"

definition index_authAppCred :: "GlanceAPI \<Rightarrow> string list" where
  "index_authAppCred cr =
     (if ApplicationCredentialSecret (t_Auth (ASpec cr)) = [] then []
      else [ApplicationCredentialSecret (t_Auth (ASpec cr))])"

lemmas index_defs = index_secret_def index_caBundle_def index_tlsInternal_def index_tlsPublic_def index_topology_def
  index_notificationBus_def index_authAppCred_def

definition api_indexers :: "GlanceAPI indexers" where
  "api_indexers =
     [(passwordSecretField, index_secret), (caBundleSecretNameField, index_caBundle),
      (tlsAPIInternalField, index_tlsInternal), (tlsAPIPublicField, index_tlsPublic),
      (topologyField, index_topology), (notificationBusSecretField, index_notificationBus),
      (authAppCredSecretField, index_authAppCred)]"

section \<open>The mapping functions\<close>

text \<open>
  The client: the list of a namespace, and the list of the objects of a namespace with a value
  of a field. A request is a namespace and a name.
\<close>

record 'a client =
  ListNamespace :: "string \<Rightarrow> go_error + 'a list"
  ListField :: "string \<Rightarrow> string \<Rightarrow> string \<Rightarrow> go_error + 'a list"

type_synonym request = "string \<times> string"

definition request_of :: "'m ObjectMeta_scheme \<Rightarrow> request" where
  "request_of item = (o_Namespace item, o_Name item)"

text \<open>The loop over the fields: on an error, the requests found so far.\<close>

fun find_fields ::
  "'m ObjectMeta_scheme client \<Rightarrow> 's ObjectMeta_scheme \<Rightarrow> string list \<Rightarrow> request list \<Rightarrow> request list" where
  "find_fields C src [] requests = requests"
| "find_fields C src (field # rest) requests =
     (case ListField C field (o_Name src) (o_Namespace src) of
        Inl err \<Rightarrow> requests
      | Inr items \<Rightarrow> find_fields C src rest (requests @ map request_of items))"

definition Glance_findObjectsForSrc :: "Glance client \<Rightarrow> 's ObjectMeta_scheme \<Rightarrow> request list" where
  "Glance_findObjectsForSrc C src = find_fields C src glanceWatchFields []"

definition API_findObjectsForSrc :: "GlanceAPI client \<Rightarrow> 's ObjectMeta_scheme \<Rightarrow> request list" where
  "API_findObjectsForSrc C src = find_fields C src glanceAPIWatchFields []"

definition findObjectForSrc :: "GlanceAPI client \<Rightarrow> 's ObjectMeta_scheme \<Rightarrow> request list" where
  "findObjectForSrc C src =
     (case ListNamespace C (o_Namespace src) of Inl err \<Rightarrow> [] | Inr items \<Rightarrow> map request_of items)"

definition Glance_memcachedFn :: "Glance client \<Rightarrow> 's ObjectMeta_scheme \<Rightarrow> request list" where
  "Glance_memcachedFn C src =
     (case ListNamespace C (o_Namespace src) of
        Inl err \<Rightarrow> []
      | Inr items \<Rightarrow> [(o_Namespace src, o_Name cr). cr \<leftarrow> items, o_Name src = g_MemcachedInstance (Spec cr)])"

definition transportURLSecretFn :: "Glance client \<Rightarrow> 's ObjectMeta_scheme \<Rightarrow> request list" where
  "transportURLSecretFn C src =
     (case ListNamespace C (o_Namespace src) of
        Inl err \<Rightarrow> []
      | Inr items \<Rightarrow>
          [(o_Namespace src, o_Name cr).
             (kind, name) \<leftarrow> o_OwnerReferences src, kind = ''TransportURL'',
             cr \<leftarrow> items, name = o_Name cr @ ''-glance-transport''])"

definition svcSecretFn :: "GlanceAPI client \<Rightarrow> 's ObjectMeta_scheme \<Rightarrow> request list" where
  "svcSecretFn C src =
     (case ListNamespace C (o_Namespace src) of
        Inl err \<Rightarrow> []
      | Inr items \<Rightarrow>
          [(o_Namespace src, o_Name cr). cr \<leftarrow> items, v \<leftarrow> t_CustomServiceConfigSecrets (ASpec cr), v = o_Name src])"

definition nadFn :: "GlanceAPI client \<Rightarrow> 's ObjectMeta_scheme \<Rightarrow> request list" where
  "nadFn C src =
     (case ListNamespace C (o_Namespace src) of
        Inl err \<Rightarrow> []
      | Inr items \<Rightarrow> [request_of cr. cr \<leftarrow> items, o_Name src \<in> set (t_NetworkAttachments (ASpec cr))])"

definition API_memcachedFn :: "GlanceAPI client \<Rightarrow> 's ObjectMeta_scheme \<Rightarrow> request list" where
  "API_memcachedFn C src =
     (case ListNamespace C (o_Namespace src) of
        Inl err \<Rightarrow> []
      | Inr items \<Rightarrow> [(o_Namespace src, o_Name cr). cr \<leftarrow> items, o_Name src = a_MemcachedInstance (ASpec cr)])"

section \<open>The cache\<close>

text \<open>
  What controller-runtime documents: a list holds the objects of the namespace, and one by a
  field those the indexer of the field gives the value for; an unknown field is an error.
\<close>

definition lawful_client ::
  "'m ObjectMeta_scheme indexers \<Rightarrow> 'm ObjectMeta_scheme list \<Rightarrow> 'm ObjectMeta_scheme client \<Rightarrow> bool" where
  "lawful_client idx objs C \<longleftrightarrow>
     (\<forall>ns items. ListNamespace C ns = Inr items \<longrightarrow> set items = {x \<in> set objs. o_Namespace x = ns}) \<and>
     (\<forall>f v ns items. ListField C f v ns = Inr items \<longrightarrow>
        (\<exists>g. map_of idx f = Some g \<and> set items = {x \<in> set objs. o_Namespace x = ns \<and> v \<in> set (g x)}))"

text \<open>The API server answers: every field with an indexer can be listed.\<close>

definition answering :: "'m ObjectMeta_scheme indexers \<Rightarrow> 'm ObjectMeta_scheme client \<Rightarrow> bool" where
  "answering idx C \<longleftrightarrow>
     (\<forall>ns. \<exists>items. ListNamespace C ns = Inr items) \<and>
     (\<forall>f v ns. f \<in> set (map fst idx) \<longrightarrow> (\<exists>items. ListField C f v ns = Inr items))"

text \<open>Such a client over a list of objects.\<close>

definition cache_of :: "'m ObjectMeta_scheme indexers \<Rightarrow> 'm ObjectMeta_scheme list \<Rightarrow> 'm ObjectMeta_scheme client" where
  "cache_of idx objs =
     \<lparr>ListNamespace = (\<lambda>ns. Inr (filter (\<lambda>x. o_Namespace x = ns) objs)),
      ListField = (\<lambda>f v ns. case map_of idx f of
         None \<Rightarrow> Inl (ErrText ''no index'')
       | Some g \<Rightarrow> Inr (filter (\<lambda>x. o_Namespace x = ns \<and> v \<in> set (g x)) objs))\<rparr>"

lemma cache_of: "lawful_client idx objs (cache_of idx objs)" "answering idx (cache_of idx objs)"
proof -
  show "lawful_client idx objs (cache_of idx objs)"
    by (auto simp: lawful_client_def cache_of_def split: option.splits)
  have "\<exists>g. map_of idx f = Some g" if "f \<in> set (map fst idx)" for f
    using that by (metis image_set map_of_eq_None_iff not_Some_eq)
  then show "answering idx (cache_of idx objs)" by (fastforce simp: answering_def cache_of_def)
qed

lemma find_fields_iff:
  assumes "lawful_client idx objs C" and "answering idx C" and "set fs \<subseteq> set (map fst idx)"
  shows "r \<in> set (find_fields C src fs requests) \<longleftrightarrow>
    r \<in> set requests \<or>
    (\<exists>x\<in>set objs. o_Namespace x = o_Namespace src \<and> r = request_of x \<and>
       (\<exists>f\<in>set fs. \<exists>g. map_of idx f = Some g \<and> o_Name src \<in> set (g x)))"
  using assms(3)
proof (induction fs arbitrary: requests)
  case (Cons f fs)
  from Cons.prems have "f \<in> set (map fst idx)" by simp
  with assms(2) obtain items where items: "ListField C f (o_Name src) (o_Namespace src) = Inr items"
    unfolding answering_def by blast
  with assms(1) obtain g where
    "map_of idx f = Some g" "set items = {x \<in> set objs. o_Namespace x = o_Namespace src \<and> o_Name src \<in> set (g x)}"
    unfolding lawful_client_def by blast
  with items Cons show ?case by (auto simp: image_iff)
qed simp

section \<open>Properties\<close>

text \<open>The references of an API: its secret, certificates, topology, bus and credential.\<close>

definition refers_to :: "GlanceAPI \<Rightarrow> string \<Rightarrow> bool" where
  "refers_to api n \<longleftrightarrow>
     a_Secret (ASpec api) = n \<or> CaBundleSecretName (t_TLS (ASpec api)) = n \<or>
     TLSInternalSecretName (t_TLS (ASpec api)) = Some n \<or> TLSPublicSecretName (t_TLS (ASpec api)) = Some n \<or>
     (\<exists>ref. t_TopologyRef (ASpec api) = Some ref \<and> topo_Name ref = n) \<or>
     a_NotificationBusSecret (ASpec api) = n \<or> ApplicationCredentialSecret (t_Auth (ASpec api)) = n"

lemma api_fields: "set glanceAPIWatchFields \<subseteq> set (map fst api_indexers)"
  by (simp add: glanceAPIWatchFields_def api_indexers_def)

lemma api_reference_iff:
  assumes "n \<noteq> []"
  shows "(\<exists>f\<in>set glanceAPIWatchFields. \<exists>g. map_of api_indexers f = Some g \<and> n \<in> set (g api)) \<longleftrightarrow> refers_to api n"
proof -
  have "n \<in> set (index_secret api) \<longleftrightarrow> a_Secret (ASpec api) = n"
    "n \<in> set (index_caBundle api) \<longleftrightarrow> CaBundleSecretName (t_TLS (ASpec api)) = n"
    "n \<in> set (index_notificationBus api) \<longleftrightarrow> a_NotificationBusSecret (ASpec api) = n"
    "n \<in> set (index_authAppCred api) \<longleftrightarrow> ApplicationCredentialSecret (t_Auth (ASpec api)) = n"
    using assms by (auto simp: index_defs)
  moreover have "n \<in> set (index_tlsInternal api) \<longleftrightarrow> TLSInternalSecretName (t_TLS (ASpec api)) = Some n"
    by (cases "TLSInternalSecretName (t_TLS (ASpec api))") (auto simp: index_defs)
  moreover have "n \<in> set (index_tlsPublic api) \<longleftrightarrow> TLSPublicSecretName (t_TLS (ASpec api)) = Some n"
    by (cases "TLSPublicSecretName (t_TLS (ASpec api))") (auto simp: index_defs)
  moreover have "n \<in> set (index_topology api) \<longleftrightarrow> (\<exists>ref. t_TopologyRef (ASpec api) = Some ref \<and> topo_Name ref = n)"
    by (cases "t_TopologyRef (ASpec api)") (auto simp: index_defs)
  ultimately show ?thesis
    by (simp add: glanceAPIWatchFields_def api_indexers_def field_defs refers_to_def)
qed

text \<open>
  Property C20. \<^verbatim>\<open>findObjectsForSrc\<close> of the GlanceAPI controller, which watches
  secrets and topologies, returns for an object with a name exactly the GlanceAPIs of its
  namespace that refer to that name by one of the seven indexed fields, the one of the
  application credential among them, where the list calls on the registered indexers succeed:
  each field the function lists by has its indexer. The other watches of secrets, by which more
  GlanceAPIs may be enqueued, are functions of their own.
\<close>

theorem changed_object_enqueues_users:
  assumes "lawful_client api_indexers objs C" and "answering api_indexers C" and "o_Name src \<noteq> []"
  shows "(ns, n) \<in> set (API_findObjectsForSrc C src) \<longleftrightarrow>
    (\<exists>api\<in>set objs. o_Namespace api = ns \<and> o_Name api = n \<and> ns = o_Namespace src \<and> refers_to api (o_Name src))"
  unfolding API_findObjectsForSrc_def find_fields_iff [OF assms(1,2) api_fields] api_reference_iff [OF assms(3)]
  by (auto simp: request_of_def)

theorem changed_object_enqueues_users_witness:
  "(''ns'', ''g'') \<in> set (API_findObjectsForSrc
      (cache_of api_indexers [(sample_api ''a'' ''internal'')\<lparr>o_Name := ''g'', o_Namespace := ''ns'',
         ASpec := (ASpec (sample_api ''a'' ''internal''))\<lparr>a_Secret := ''osp''\<rparr>\<rparr>])
      ((sample_api [] [])\<lparr>o_Name := ''osp'', o_Namespace := ''ns''\<rparr>))"
  by (subst changed_object_enqueues_users [OF cache_of]) (simp_all add: refers_to_def)

text \<open>
  Property C23. The secret of a transport URL a reconcile creates leads back to the resource:
  its change enqueues exactly the Glances of that name in that namespace, whatever else the
  namespace holds.
\<close>

theorem transport_secret_reaches_owner:
  assumes "resp_glance E (CGetGlance ns name # tr0) = Inr i"
    and "Glance_Reconcile E ns name tr0 = (r, tr @ tr0)" and "CTransportURL u \<in> set tr"
    and "lawful_client glance_indexers objs C" and "answering glance_indexers C"
    and "o_OwnerReferences src = [(''TransportURL'', tu_Name u)]" and "o_Namespace src = tu_Namespace u"
  shows "set (transportURLSecretFn C src) =
    {(o_Namespace i, o_Name cr) | cr. cr \<in> set objs \<and> o_Namespace cr = o_Namespace i \<and> o_Name cr = o_Name i}"
proof -
  from reconcile_good [OF assms(1,2)] assms(3) have u: "own_transport i u"
    by (auto simp: list_all_iff good_call_def dest!: bspec)
  from assms(5) obtain items where "ListNamespace C (o_Namespace src) = Inr items"
    unfolding answering_def by blast
  moreover from this assms(4) have "set items = {x \<in> set objs. o_Namespace x = o_Namespace src}"
    unfolding lawful_client_def by blast
  ultimately show ?thesis
    using u assms(6,7) by (auto simp: transportURLSecretFn_def own_transport_def)
qed

definition bussed_glance :: Glance where
  "bussed_glance = waiting_glance\<lparr>Spec := (Spec waiting_glance)\<lparr>g_NotificationBusInstance := Some ''rabbit''\<rparr>\<rparr>"

lemma bussed_run:
  "\<exists>r tr u. Glance_Reconcile ((sample_env bussed_glance (sample_api ''a'' ''internal''))
        \<lparr>resp_str := \<lambda>_. Inl (ErrText ''no bus'')\<rparr>) ''ns'' ''glance'' [] = (r, tr @ []) \<and>
     CTransportURL u \<in> set tr \<and> own_transport bussed_glance u"
  by (simp add: Glance_Reconcile_def Glance_body_def Glance_handle_def Glance_reconcileNormal_def normal_rbac_def
      normal_transport_def transportURLCreateOrUpdate_def bussed_glance_def waiting_glance_def sample_glance_def
      sample_rbac_def the_map_def own_transport_def run_simps)

theorem transport_secret_reaches_owner_witness:
  "\<exists>(src :: GlanceAPI). set (transportURLSecretFn (cache_of glance_indexers [bussed_glance]) src) =
     {(o_Namespace bussed_glance, o_Name bussed_glance)}"
proof -
  let ?E = "(sample_env bussed_glance (sample_api ''a'' ''internal''))\<lparr>resp_str := \<lambda>_. Inl (ErrText ''no bus'')\<rparr>"
  from bussed_run obtain r tr u where
    run: "Glance_Reconcile ?E ''ns'' ''glance'' [] = (r, tr @ [])" "CTransportURL u \<in> set tr" by blast
  let ?src = "(sample_api ''a'' ''internal'')
    \<lparr>o_OwnerReferences := [(''TransportURL'', tu_Name u)], o_Namespace := tu_Namespace u\<rparr>"
  have "set (transportURLSecretFn (cache_of glance_indexers [bussed_glance]) ?src) =
      {(o_Namespace bussed_glance, o_Name cr) | cr. cr \<in> set [bussed_glance] \<and>
         o_Namespace cr = o_Namespace bussed_glance \<and> o_Name cr = o_Name bussed_glance}"
    by (rule transport_secret_reaches_owner [OF _ run cache_of]) simp_all
  then show ?thesis by auto
qed

text \<open>
  Property C24. The service secret is watched for the whole deployment: a change of the secret
  named by a resource enqueues the resource, and with it every GlanceAPI a reconcile of the
  resource has written.
\<close>

theorem service_secret_reaches_all:
  assumes "sets_owner_only E" and "resp_glance E (CGetGlance ns name # tr0) = Inr i"
    and "Glance_Reconcile E ns name tr0 = (r, tr @ tr0)" and "CWriteGlanceAPI api \<in> set tr"
    and "lawful_client glance_indexers glances C" and "answering glance_indexers C" and "i \<in> set glances"
    and "lawful_client api_indexers apis D" and "answering api_indexers D" and "api \<in> set apis"
    and "o_Name src = g_Secret (Spec i)" and "o_Name src \<noteq> []"
    and "o_Namespace src = o_Namespace i" and "o_Namespace api = o_Namespace i"
  shows "(o_Namespace i, o_Name i) \<in> set (Glance_findObjectsForSrc C src) \<and>
         (o_Namespace i, o_Name api) \<in> set (API_findObjectsForSrc D src)"
proof
  have fs: "set glanceWatchFields \<subseteq> set (map fst glance_indexers)"
    by (simp add: glanceWatchFields_def glance_indexers_def)
  show "(o_Namespace i, o_Name i) \<in> set (Glance_findObjectsForSrc C src)"
    unfolding Glance_findObjectsForSrc_def find_fields_iff [OF assms(5,6) fs]
    using assms(7,11-13) by (auto simp: request_of_def glanceWatchFields_def glance_indexers_def intro!: bexI [of _ i])
  from reconcile_good [OF assms(2,3)] assms(4) have "asked_for E i api"
    by (auto simp: list_all_iff good_call_def dest!: bspec)
  then obtain key t ty a where "instance_of i key t ty a" "SetControllerReference E (o_Name i) a = Inr api"
    by (auto simp: asked_for_def)
  moreover from this assms(1) have "ASpec api = ASpec a" by (force simp: sets_owner_only_def)
  ultimately have "refers_to api (o_Name src)" using assms(11) by (simp add: instance_of_def refers_to_def)
  with assms(10,13,14) show "(o_Namespace i, o_Name api) \<in> set (API_findObjectsForSrc D src)"
    unfolding API_findObjectsForSrc_def find_fields_iff [OF assms(8,9) api_fields] api_reference_iff [OF assms(12)]
    by (auto simp: request_of_def)
qed

theorem service_secret_reaches_all_witness:
  "\<exists>(E :: env) r tr api (src :: GlanceAPI). Glance_Reconcile E ''ns'' ''glance'' [] = (r, tr @ []) \<and>
     CWriteGlanceAPI api \<in> set tr \<and> o_Name src = g_Secret (Spec waiting_glance) \<and>
     (o_Namespace waiting_glance, o_Name api) \<in> set (API_findObjectsForSrc (cache_of api_indexers [api]) src)"
proof -
  let ?E = "sample_env waiting_glance (sample_api ''a'' ''internal'')"
  from sample_reconcile [of "''a''"] obtain r inst log tr api where
    run: "Glance_Reconcile ?E ''ns'' ''glance'' [] = (Ret r, (CPatchGlance inst log # tr) @ [])"
    and api: "CWriteGlanceAPI api \<in> set (CPatchGlance inst log # tr)" by auto
  have E: "sets_owner_only ?E" by (auto simp: sets_owner_only_def)
  have read: "resp_glance ?E (CGetGlance ''ns'' ''glance'' # []) = Inr waiting_glance" by simp
  from reconcile_good [OF read run] api have "asked_for ?E waiting_glance api"
    by (auto simp: list_all_iff good_call_def dest!: bspec)
  then have ns: "o_Namespace api = o_Namespace waiting_glance"
    by (auto simp: asked_for_def starts_from_def)
  let ?src = "(sample_api ''a'' ''internal'')
    \<lparr>o_Name := g_Secret (Spec waiting_glance), o_Namespace := o_Namespace waiting_glance\<rparr>"
  have "g_Secret (Spec waiting_glance) \<noteq> []" by (simp add: waiting_glance_def sample_glance_def)
  then have "(o_Namespace waiting_glance, o_Name api) \<in> set (API_findObjectsForSrc (cache_of api_indexers [api]) ?src)"
    using service_secret_reaches_all [OF E read run api cache_of, of "[waiting_glance]" "[api]" "cache_of api_indexers [api]" ?src]
      cache_of [of api_indexers "[api]"] ns by simp
  with run api show ?thesis
    by (intro exI [of _ ?E] exI [of _ "Ret r"] exI [of _ "CPatchGlance inst log # tr"] exI [of _ api] exI [of _ ?src]) simp
qed

end
