(* ===== verification/Registration.thy ===== *)
theory Registration
  imports Watches APISteps APIRun
begin

text \<open>
  What \<^verbatim>\<open>SetupWithManager\<close> of both controllers registers: the kind a controller is for, the
  kinds it owns, the kinds it watches with the function that maps a changed object to
  requests. A controller has to be woken when what it wrote changes.
\<close>

section \<open>The registrations\<close>

datatype kind =
    KGlance | KGlanceAPI | KMariaDBDatabase | KMariaDBAccount | KKeystoneService | KKeystoneEndpoint
  | KPersistentVolumeClaim | KJob | KCronJob | KSecret | KServiceAccount | KRole | KRoleBinding | KTransportURL
  | KService | KStatefulSet | KMemcached | KTopology | KNetworkAttachmentDefinition | KKeystoneAPI | KHorizon

text \<open>The predicates changes are filtered by.\<close>

datatype change_filter =
    AnyChange | ResourceVersionChanged | GenerationChanged | KeystoneAPIStatusChanged | HorizonEndpointChanged

record 'm registration =
  reg_For :: kind
  reg_Owns :: "kind list"
  reg_Watches :: "(kind \<times> ('m client \<Rightarrow> ObjectMeta \<Rightarrow> request list) \<times> change_filter) list"

definition glance_registration :: "Glance registration" where
  "glance_registration =
     \<lparr>reg_For = KGlance,
      reg_Owns =
        [KGlanceAPI, KMariaDBDatabase, KMariaDBAccount, KKeystoneService, KPersistentVolumeClaim, KJob, KCronJob,
         KSecret, KServiceAccount, KRole, KRoleBinding, KTransportURL],
      reg_Watches =
        [(KSecret, transportURLSecretFn, AnyChange),
         (KSecret, Glance_findObjectsForSrc, ResourceVersionChanged),
         (KMemcached, Glance_memcachedFn, AnyChange)]\<rparr>"

definition api_registration :: "GlanceAPI registration" where
  "api_registration =
     \<lparr>reg_For = KGlanceAPI,
      reg_Owns = [KKeystoneEndpoint, KService, KSecret, KStatefulSet],
      reg_Watches =
        [(KSecret, svcSecretFn, AnyChange),
         (KNetworkAttachmentDefinition, nadFn, AnyChange),
         (KSecret, API_findObjectsForSrc, ResourceVersionChanged),
         (KMemcached, API_memcachedFn, AnyChange),
         (KTopology, API_findObjectsForSrc, GenerationChanged),
         (KKeystoneAPI, findObjectForSrc, KeystoneAPIStatusChanged),
         (KHorizon, findObjectForSrc, HorizonEndpointChanged)]\<rparr>"

section \<open>The requests of a change\<close>

text \<open>
  What controller-runtime documents to make of a registration when an object of kind \<open>k\<close> changes,
  the change passing the predicates in \<open>P\<close>: a request for the object itself, for its controller,
  the owner \<open>ctl\<close> that \<^verbatim>\<open>metav1.GetControllerOf\<close> finds among its owner references, if that is of
  the kind the registration is for, and what the functions return.
\<close>

definition owner_kind :: "kind \<Rightarrow> string" where
  "owner_kind k = (if k = KGlance then ''Glance'' else if k = KGlanceAPI then ''GlanceAPI'' else [])"

definition requests_for ::
  "'m registration \<Rightarrow> 'm client \<Rightarrow> change_filter set \<Rightarrow> kind \<Rightarrow> (string \<times> string) option \<Rightarrow> ObjectMeta \<Rightarrow> request list" where
  "requests_for R C P k ctl src =
     (if k = reg_For R then [request_of src] else []) @
     (case ctl of
        None \<Rightarrow> []
      | Some (kd, name) \<Rightarrow>
          if k \<in> set (reg_Owns R) \<and> kd = owner_kind (reg_For R) then [(o_Namespace src, name)] else []) @
     concat [h C src. (k', h, p) \<leftarrow> reg_Watches R, k' = k, p \<in> P]"

lemma owned_request:
  "k \<in> set (reg_Owns R) \<Longrightarrow> (o_Namespace src, n) \<in> set (requests_for R C P k (Some (owner_kind (reg_For R), n)) src)"
  by (simp add: requests_for_def)

section \<open>What a reconcile creates\<close>

text \<open>The kinds of the objects a call creates or patches, with the instance as their owner.\<close>

definition created_kinds :: "call \<Rightarrow> kind set" where
  "created_kinds c =
     (case c of
        CWriteGlanceAPI _ \<Rightarrow> {KGlanceAPI}
      | CReconcileRbac \<Rightarrow> {KServiceAccount, KRole, KRoleBinding}
      | CTransportURL _ \<Rightarrow> {KTransportURL}
      | CEnsureMariaDBAccount _ _ \<Rightarrow> {KMariaDBAccount}
      | CCreateOrPatchDB _ _ _ \<Rightarrow> {KMariaDBDatabase}
      | CEnsureSecrets _ \<Rightarrow> {KSecret}
      | CKeystoneService _ _ _ _ \<Rightarrow> {KKeystoneService}
      | CDoJob _ _ _ _ \<Rightarrow> {KJob}
      | CCronJob _ \<Rightarrow> {KCronJob}
      | CService _ \<Rightarrow> {KService}
      | CKeystoneEndpoint _ _ _ _ \<Rightarrow> {KKeystoneEndpoint}
      | CStatefulSet _ \<Rightarrow> {KStatefulSet}
      | _ \<Rightarrow> {})"

abbreviation creates :: "kind set \<Rightarrow> call \<Rightarrow> bool" where
  "creates K c \<equiv> created_kinds c \<subseteq> K"

abbreviation glance_kinds :: "kind set" where "glance_kinds \<equiv> set (reg_Owns glance_registration)"
abbreviation api_kinds :: "kind set" where "api_kinds \<equiv> insert KCronJob (set (reg_Owns api_registration))"

lemma owned_kinds:
  "glance_kinds = {KGlanceAPI, KMariaDBDatabase, KMariaDBAccount, KKeystoneService, KPersistentVolumeClaim, KJob, KCronJob,
     KSecret, KServiceAccount, KRole, KRoleBinding, KTransportURL}"
  "api_kinds = {KCronJob, KKeystoneEndpoint, KService, KSecret, KStatefulSet}"
  by (simp_all add: glance_registration_def api_registration_def)

lemmas kind_simps = created_kinds_def owned_kinds

lemmas glance_only = only_shared only_rules

lemma glance_shared_creates:
  "keeps (only (creates glance_kinds) any_op) (ensure_memcached E n ns)"
  "keeps (only (creates glance_kinds) any_op) (ensureRegisteredLimits E q)"
  "keeps (only (creates glance_kinds) any_op) (set_api_endpoint k v)" "keeps (only (creates glance_kinds) any_op) (set_status f)"
  "keeps (only (creates glance_kinds) any_op) (registeredLimitsDelete E)"
  "keeps (only (creates glance_kinds) any_op) (removeAPIFinalizer E n)"
  unfolding ensure_memcached_def ensureRegisteredLimits_def set_api_endpoint_def set_status_def registeredLimitsDelete_def
    removeAPIFinalizer_def remove_one_finalizer_def Let_def
  by (intro glance_only; simp add: kind_simps)+

lemma glance_create_creates:
  "keeps (only (creates glance_kinds) any_op) (apiDeploymentCreateOrUpdate E t ty n sl ws)"
  unfolding apiDeploymentCreateOrUpdate_def Let_def
  by (intro glance_shared_creates glance_only; simp add: kind_simps)

lemma glance_deployment_creates: "keeps (only (creates glance_kinds) any_op) (apiDeployment E n t sl loc)"
  unfolding apiDeployment_def check_layout_def mirror_external_def deploy_internal_def api_error_def Let_def
  by (intro glance_create_creates glance_shared_creates glance_only; simp add: kind_simps)

lemma glance_phases_create:
  "keeps (only (creates glance_kinds) any_op) (normal_rbac E)" "keeps (only (creates glance_kinds) any_op) (normal_transport E sl)"
  "keeps (only (creates glance_kinds) any_op) (normal_secret E)" "keeps (only (creates glance_kinds) any_op) (normal_db E)"
  "keeps (only (creates glance_kinds) any_op) (normal_config E sl db)" "keeps (only (creates glance_kinds) any_op) (normal_networks E)"
  "keeps (only (creates glance_kinds) any_op) (normal_init E sl sa)" "keeps (only (creates glance_kinds) any_op) (normal_location E)"
  "keeps (only (creates glance_kinds) any_op) (normal_purge E sl sa)" "keeps (only (creates glance_kinds) any_op) (normal_ready E cr)"
  "keeps (only (creates glance_kinds) any_op) (normal_apis E sl loc)" "keeps (only (creates glance_kinds) any_op) (normal_cleanup E)"
  "keeps (only (creates glance_kinds) any_op) (delete_database E i)"
  "keeps (only (creates glance_kinds) any_op) (delete_keystone_service E i)"
  "keeps (only (creates glance_kinds) any_op) (delete_limits E i)"
  unfolding normal_rbac_def normal_transport_def normal_secret_def normal_db_def normal_config_def
    normal_networks_def normal_init_def normal_location_def normal_purge_def normal_ready_def normal_apis_def
    normal_cleanup_def glanceAPICleanup_def cleanup_one_def transportURLCreateOrUpdate_def ensureDB_def
    Glance_generateServiceConfig_def Glance_reconcileInit_def init_keystone_def init_dbsync_def ensureDBPurgeJob_def
    checkGlanceAPIsGeneration_def delete_database_def delete_keystone_service_def delete_limits_def Let_def
  by (intro glance_deployment_creates glance_shared_creates glance_only; simp add: kind_simps)+

lemma glance_body_creates: "keeps (only (creates glance_kinds) any_op) (Glance_body E new)"
  unfolding Glance_body_def Glance_handle_def Glance_reconcileNormal_def Glance_reconcileDelete_def Let_def case_prod_unfold
  by (intro glance_phases_create glance_shared_creates glance_only; simp)

lemma api_shared_creates: "keeps (only (creates api_kinds) any_op) (ensure_memcached E n ns)"
  unfolding ensure_memcached_def by (intro api_rules; simp add: kind_simps)

lemma api_phases_create:
  "keeps (only (creates api_kinds) any_op) (API_normal_secret E)" "keeps (only (creates api_kinds) any_op) (API_normal_refresh E bs)"
  "keeps (only (creates api_kinds) any_op) (API_normal_backends E bs)" "keeps (only (creates api_kinds) any_op) (API_normal_tls E vars)"
  "keeps (only (creates api_kinds) any_op) (API_normal_networks E)" "keeps (only (creates api_kinds) any_op) (API_normal_init E)"
  "keeps (only (creates api_kinds) any_op) (API_normal_config E mc bc vars)"
  "keeps (only (creates api_kinds) any_op) (API_normal_credential E)"
  "keeps (only (creates api_kinds) any_op) (API_normal_topology E)"
  "keeps (only (creates api_kinds) any_op) (API_normal_deploy E h sa p t ws mc)"
  "keeps (only (creates api_kinds) any_op) (API_normal_claims E)" "keeps (only (creates api_kinds) any_op) (API_normal_cache E sa)"
  "keeps (only (creates api_kinds) any_op) (API_normal_rotation E)" "keeps (only (creates api_kinds) any_op) (API_normal_ready E)"
  "keeps (only (creates api_kinds) any_op) (API_reconcileDelete E)"
  unfolding api_phase_defs api_helper_defs Let_def by (intro api_rules; simp add: kind_simps)+

lemma api_body_creates: "keeps (only (creates api_kinds) any_op) (API_body E new)"
  unfolding API_body_def API_handle_def API_reconcileNormal_def Let_def case_prod_unfold
  by (intro api_phases_create api_shared_creates api_rules; simp)

text \<open>A whole reconcile.\<close>

lemma created_by_body:
  assumes "keeps (only (creates K) any_op) m" and "m w = (out, w')" and "w_trace w = [c1, c2] @ tr0"
    and "created_kinds c1 = {}" and "created_kinds c2 = {}"
  shows "\<exists>t. w_trace w' = t @ tr0 \<and> list_all (creates K) t"
proof -
  from keepsD [OF assms(1,2)] obtain t where "w_trace w' = t @ w_trace w" "list_all (creates K) t"
    by (auto simp: only_def)
  with assms(3-5) show ?thesis by (intro exI [of _ "t @ [c1, c2]"]) simp
qed

lemma glance_creates:
  assumes "Glance_Reconcile E ns name tr0 = (r, tr @ tr0)"
  shows "list_all (creates glance_kinds) tr"
proof (cases "resp_glance E (CGetGlance ns name # tr0)")
  case (Inr i)
  define w where "w = \<lparr>w_inst = i, w_conds = (case s_Conditions (Status i) of None \<Rightarrow> [] | Some l \<Rightarrow> l),
    w_trace = CNewHelper # CGetGlance ns name # tr0\<rparr>"
  obtain out w' where body: "Glance_body E (s_Conditions (Status i) = None) w =
      ((out, w') :: (reconcile_result, reconcile_result) out \<times> Glance world)" by fastforce
  obtain t where t: "w_trace w' = t @ tr0" "list_all (creates glance_kinds) t"
    using created_by_body [OF glance_body_creates body, of CNewHelper "CGetGlance ns name" tr0]
    by (auto simp: w_def created_kinds_def)
  have "tr @ tr0 = [CNewHelper, CGetGlance ns name] @ tr0 \<or> tr @ tr0 = t @ tr0 \<or>
      (\<exists>l. tr @ tr0 = (CPatchGlance (w_inst w') l # t) @ tr0)"
    using assms Inr body t(1) by (auto simp: Glance_Reconcile_def Let_def w_def split: option.splits out.splits)
  with t(2) show ?thesis unfolding append_same_eq by (auto simp: created_kinds_def)
next
  case (Inl e)
  with assms have "tr @ tr0 = [CGetGlance ns name] @ tr0" by (simp add: Glance_Reconcile_def)
  then show ?thesis unfolding append_same_eq by (simp add: created_kinds_def)
qed

lemma api_creates:
  assumes "API_Reconcile E ns name tr0 = (r, tr @ tr0)"
  shows "list_all (creates api_kinds) tr"
proof (cases "resp_api E (CGetGlanceAPI ns name # tr0)")
  case (Inr i)
  define w where "w = \<lparr>w_inst = i, w_conds = (case as_Conditions (AStatus i) of None \<Rightarrow> [] | Some l \<Rightarrow> l),
    w_trace = CNewHelper # CGetGlanceAPI ns name # tr0\<rparr>"
  obtain out w' where body: "API_body E (as_Conditions (AStatus i) = None) w =
      ((out, w') :: (reconcile_result, reconcile_result) out \<times> GlanceAPI world)" by fastforce
  obtain t where t: "w_trace w' = t @ tr0" "list_all (creates api_kinds) t"
    using created_by_body [OF api_body_creates body, of CNewHelper "CGetGlanceAPI ns name" tr0]
    by (auto simp: w_def created_kinds_def)
  have "tr @ tr0 = [CNewHelper, CGetGlanceAPI ns name] @ tr0 \<or> tr @ tr0 = t @ tr0 \<or>
      (\<exists>l. tr @ tr0 = (CPatchGlanceAPI (w_inst w') l # t) @ tr0)"
    using assms Inr body t(1) by (auto simp: API_Reconcile_def Let_def w_def split: option.splits out.splits)
  with t(2) show ?thesis unfolding append_same_eq by (auto simp: created_kinds_def)
next
  case (Inl e)
  with assms have "tr @ tr0 = [CGetGlanceAPI ns name] @ tr0" by (simp add: API_Reconcile_def)
  then show ?thesis unfolding append_same_eq by (simp add: created_kinds_def)
qed

section \<open>Properties\<close>

text \<open>
  Property C21. What a reconcile of a Glance creates wakes the controller again: each kind of
  object a reconcile creates is among the kinds the controller owns, so that a change of such an
  object, controlled by the resource that was reconciled, is a request for that resource,
  whatever the predicates of the watches let through. What the reconcile that follows does is
  not part of this.
\<close>

theorem created_objects_wake_glance:
  assumes "Glance_Reconcile E ns name tr0 = (r, tr @ tr0)" and "c \<in> set tr" and "k \<in> created_kinds c"
    and "ctl = Some (''Glance'', name)" and "o_Namespace src = ns"
  shows "(ns, name) \<in> set (requests_for glance_registration C P k ctl src)"
proof -
  from glance_creates [OF assms(1)] assms(2,3) have "k \<in> glance_kinds" by (auto simp: list_all_iff)
  from owned_request [OF this, of src name C P] assms(4,5) show ?thesis
    by (simp add: owner_kind_def glance_registration_def)
qed

theorem created_objects_wake_glance_witness:
  "\<exists>(E :: env) r tr api. Glance_Reconcile E ''ns'' ''glance'' [] = (r, tr @ []) \<and> CWriteGlanceAPI api \<in> set tr \<and>
     (\<forall>C P. (''ns'', ''glance'') \<in> set (requests_for glance_registration C P KGlanceAPI (Some (''Glance'', ''glance''))
        (ObjectMeta.truncate (sample_api ''a'' ''internal''))))"
proof -
  let ?E = "sample_env waiting_glance (sample_api ''a'' ''internal'')"
  from sample_reconcile [of "''a''"] obtain r inst log tr api where
    run: "Glance_Reconcile ?E ''ns'' ''glance'' [] = (Ret r, (CPatchGlance inst log # tr) @ [])"
    and api: "CWriteGlanceAPI api \<in> set (CPatchGlance inst log # tr)" by auto
  have "(''ns'', ''glance'') \<in> set (requests_for glance_registration C P KGlanceAPI (Some (''Glance'', ''glance''))
      (ObjectMeta.truncate (sample_api ''a'' ''internal'')))" for C P
    by (rule created_objects_wake_glance [OF run api])
      (simp_all add: created_kinds_def sample_api_def ObjectMeta.truncate_def)
  with run api show ?thesis by metis
qed

text \<open>
  Property C22. What a reconcile of a GlanceAPI creates wakes the controller again, apart from
  the cron jobs of the image cache: these are created by it and controlled by the instance, but
  the controller registers nothing for their kind, so no change or deletion of one is a request.
\<close>

theorem created_objects_wake_api:
  assumes "API_Reconcile E ns name tr0 = (r, tr @ tr0)" and "c \<in> set tr" and "k \<in> created_kinds c"
    and "ctl = Some (''GlanceAPI'', name)" and "o_Namespace src = ns"
  shows "(ns, name) \<in> set (requests_for api_registration C P k ctl src) \<longleftrightarrow> k \<noteq> KCronJob"
proof (cases "k = KCronJob")
  case True
  then show ?thesis using assms(4) by (simp add: requests_for_def api_registration_def)
next
  case False
  from api_creates [OF assms(1)] assms(2,3) False have "k \<in> set (reg_Owns api_registration)" by (auto simp: list_all_iff)
  from owned_request [OF this, of src name C P] assms(4,5) False show ?thesis
    by (simp add: owner_kind_def api_registration_def)
qed

theorem created_objects_wake_api_witness:
  "\<exists>(E :: env) r tr d. API_Reconcile E ''ns'' ''a'' [] = (r, tr @ []) \<and> CStatefulSet d \<in> set tr \<and>
     (\<forall>C P. (''ns'', ''a'') \<in> set (requests_for api_registration C P KStatefulSet (Some (''GlanceAPI'', ''a''))
        (ObjectMeta.truncate (sample_api ''a'' ''internal''))))"
proof -
  let ?E = "sample_env undefined rotated_api"
  from api_reconcile_run [of undefined "[]"] obtain r inst log tr d where
    run: "API_Reconcile ?E ''ns'' ''a'' [] = (Ret r, (CPatchGlanceAPI inst log # tr) @ [])"
    and d: "CStatefulSet d \<in> set (CPatchGlanceAPI inst log # tr)" by auto
  have "(''ns'', ''a'') \<in> set (requests_for api_registration C P KStatefulSet (Some (''GlanceAPI'', ''a''))
      (ObjectMeta.truncate (sample_api ''a'' ''internal'')))" for C P
    by (subst created_objects_wake_api [OF run d]) (simp_all add: created_kinds_def sample_api_def ObjectMeta.truncate_def)
  with run d show ?thesis by metis
qed

end
