(* ===== verification/Startup.thy ===== *)
theory Startup
  imports Ctl
begin

text \<open>
  The start of the operator (cmd/main.go): the flags, the TLS options of the two servers it
  opens, and the calls it makes before the manager runs. What controller-runtime answers is a
  parameter; a path joined of a directory and a name is kept as the two.
\<close>

section \<open>Flags\<close>

record Flags =
  metricsAddr :: string
  metricsCertPath :: string
  metricsCertName :: string
  metricsCertKey :: string
  webhookCertPath :: string
  webhookCertName :: string
  webhookCertKey :: string
  enableLeaderElection :: bool
  probeAddr :: string
  pprofBindAddress :: string
  webhookPort :: int
  secureMetrics :: bool
  enableHTTP2 :: bool

definition default_flags :: Flags where
  "default_flags =
     \<lparr>metricsAddr = ''0'', metricsCertPath = [], metricsCertName = ''tls.crt'', metricsCertKey = ''tls.key'',
      webhookCertPath = [], webhookCertName = ''tls.crt'', webhookCertKey = ''tls.key'',
      enableLeaderElection = False, probeAddr = '':8081'', pprofBindAddress = [], webhookPort = 9443,
      secureMetrics = True, enableHTTP2 = False\<rparr>"

section \<open>TLS options\<close>

text \<open>A certificate watcher is known by the paths of its certificate and its key.\<close>

type_synonym certwatcher = "(string \<times> string) \<times> (string \<times> string)"

text \<open>\<^verbatim>\<open>tls.Config\<close>, as far as the options write it; \<^verbatim>\<open>tls.VersionTLS13\<close> is 0x0304.\<close>

record tls_config =
  MinVersion :: int
  NextProtos :: "string list"
  GetCertificate :: "certwatcher option"

type_synonym tls_opt = "tls_config \<Rightarrow> tls_config"

definition VersionTLS13 :: int where "VersionTLS13 = 0x0304"

definition min_version :: tls_opt where
  "min_version c = c\<lparr>MinVersion := VersionTLS13\<rparr>"

definition disableHTTP2 :: tls_opt where
  "disableHTTP2 c = c\<lparr>NextProtos := [''http/1.1'']\<rparr>"

definition certificate_from :: "certwatcher \<Rightarrow> tls_opt" where
  "certificate_from watcher config = config\<lparr>GetCertificate := Some watcher\<rparr>"

definition tlsOpts :: "Flags \<Rightarrow> tls_opt list" where
  "tlsOpts f = [min_version] @ (if \<not> enableHTTP2 f then [disableHTTP2] else [])"

text \<open>A server applies its options in order.\<close>

definition configure :: "tls_opt list \<Rightarrow> tls_config \<Rightarrow> tls_config" where
  "configure opts c = fold (\<lambda>opt. opt) opts c"

section \<open>The servers and the manager\<close>

record webhook_options =
  wo_Port :: int
  wo_TLSOpts :: "tls_opt list"

record metrics_options =
  mo_BindAddress :: string
  mo_SecureServing :: bool
  mo_TLSOpts :: "tls_opt list"
  mo_AuthFilter :: bool

record manager_options =
  mg_Metrics :: metrics_options
  mg_WebhookServer :: webhook_options
  mg_HealthProbeBindAddress :: string
  mg_PprofBindAddress :: string
  mg_LeaderElection :: bool
  mg_LeaderElectionID :: string

datatype checker = Ping | StartedChecker

datatype (plugins only: code size) startup_call =
    SNewCertWatcher certwatcher
  | SNewWebhookServer webhook_options
  | SSetManagerOptions manager_options
  | SNewManager
  | SGetConfig
  | SNewForConfig
  | SSetupController string
  | SSetupDefaults
  | SSetupWebhook string
  | SAddWatcher certwatcher
  | SAddHealthzCheck checker
  | SAddReadyzCheck checker
  | SStart

text \<open>A call that may fail: the program exits with 1 if it does.\<close>

type_synonym ('r, 'a) main_act = "(startup_call list, 'r, 'a) act"

definition try_call :: "(startup_call list \<Rightarrow> go_error option) \<Rightarrow> startup_call \<Rightarrow> (int, unit) main_act" where
  "try_call A c = must (\<lambda>tr. (Next (A (c # tr)), c # tr)) (\<lambda>_. exit_with 1)"

definition note_call :: "startup_call \<Rightarrow> (int, unit) main_act" where
  "note_call c = modify (\<lambda>tr. c # tr)"

definition webhook_watcher :: "Flags \<Rightarrow> certwatcher" where
  "webhook_watcher f = ((webhookCertPath f, webhookCertName f), (webhookCertPath f, webhookCertKey f))"

definition metrics_watcher :: "Flags \<Rightarrow> certwatcher" where
  "metrics_watcher f = ((metricsCertPath f, metricsCertName f), (metricsCertPath f, metricsCertKey f))"

definition webhook_server :: "Flags \<Rightarrow> certwatcher option \<Rightarrow> webhook_options" where
  "webhook_server f webhookCertWatcher =
     \<lparr>wo_Port = webhookPort f,
      wo_TLSOpts = tlsOpts f @ (case webhookCertWatcher of None \<Rightarrow> [] | Some w \<Rightarrow> [certificate_from w])\<rparr>"

definition metrics_server :: "Flags \<Rightarrow> certwatcher option \<Rightarrow> metrics_options" where
  "metrics_server f metricsCertWatcher =
     \<lparr>mo_BindAddress = metricsAddr f, mo_SecureServing = secureMetrics f,
      mo_TLSOpts = tlsOpts f @ (case metricsCertWatcher of None \<Rightarrow> [] | Some w \<Rightarrow> [certificate_from w]),
      mo_AuthFilter = secureMetrics f\<rparr>"

definition options :: "Flags \<Rightarrow> metrics_options \<Rightarrow> webhook_options \<Rightarrow> manager_options" where
  "options f metricsServerOptions webhookServer =
     \<lparr>mg_Metrics = metricsServerOptions, mg_WebhookServer = webhookServer,
      mg_HealthProbeBindAddress = probeAddr f, mg_PprofBindAddress = pprofBindAddress f,
      mg_LeaderElection = enableLeaderElection f, mg_LeaderElectionID = ''c569355b.openstack.org''\<rparr>"

text \<open>The certificate watchers, if a path is given.\<close>

definition new_watcher ::
  "(startup_call list \<Rightarrow> go_error option) \<Rightarrow> string \<Rightarrow> certwatcher \<Rightarrow> (int, certwatcher option) main_act" where
  "new_watcher A path w =
     (if length path > 0 then seq (try_call A (SNewCertWatcher w)) (ret (Some w)) else ret None)"

definition add_watcher ::
  "(startup_call list \<Rightarrow> go_error option) \<Rightarrow> certwatcher option \<Rightarrow> (int, unit) main_act" where
  "add_watcher A w = (case w of None \<Rightarrow> ret () | Some w \<Rightarrow> try_call A (SAddWatcher w))"

text \<open>The environment variable \<^verbatim>\<open>ENABLE_WEBHOOKS\<close> is "" if it is not set.\<close>

definition setup_webhooks ::
  "(startup_call list \<Rightarrow> go_error option) \<Rightarrow> string \<Rightarrow> (int, checker) main_act" where
  "setup_webhooks A enable =
     (if enable \<noteq> ''false'' then
        seq (try_call A (SSetupWebhook ''GlanceAPI'')) (seq (try_call A (SSetupWebhook ''Glance'')) (ret StartedChecker))
      else ret Ping)"

definition main :: "(startup_call list \<Rightarrow> go_error option) \<Rightarrow> Flags \<Rightarrow> string \<Rightarrow> (int, int) main_act" where
  "main A f enable =
     fn (bind (new_watcher A (webhookCertPath f) (webhook_watcher f)) (\<lambda>webhookCertWatcher.
         let webhookServer = webhook_server f webhookCertWatcher in
         seq (note_call (SNewWebhookServer webhookServer))
        (bind (new_watcher A (metricsCertPath f) (metrics_watcher f)) (\<lambda>metricsCertWatcher.
         seq (try_call A (SSetManagerOptions (options f (metrics_server f metricsCertWatcher) webhookServer)))
        (seq (try_call A SNewManager)
        (seq (try_call A SGetConfig)
        (seq (try_call A SNewForConfig)
        (seq (try_call A (SSetupController ''GlanceAPI''))
        (seq (try_call A (SSetupController ''Glance''))
        (seq (note_call SSetupDefaults)
        (bind (setup_webhooks A enable) (\<lambda>checker.
         seq (add_watcher A metricsCertWatcher)
        (seq (add_watcher A webhookCertWatcher)
        (seq (try_call A (SAddHealthzCheck checker))
        (seq (try_call A (SAddReadyzCheck checker))
        (seq (try_call A SStart)
             (ret 0)))))))))))))))))"

section \<open>The plan\<close>

text \<open>The calls of a start that goes well, and how far a start gets.\<close>

definition plan :: "Flags \<Rightarrow> string \<Rightarrow> startup_call list" where
  "plan f enable =
     (let ww = (if webhookCertPath f = [] then None else Some (webhook_watcher f));
          mw = (if metricsCertPath f = [] then None else Some (metrics_watcher f));
          checker = (if enable = ''false'' then Ping else StartedChecker) in
      map SNewCertWatcher (case ww of None \<Rightarrow> [] | Some w \<Rightarrow> [w]) @
      [SNewWebhookServer (webhook_server f ww)] @
      map SNewCertWatcher (case mw of None \<Rightarrow> [] | Some w \<Rightarrow> [w]) @
      [SSetManagerOptions (options f (metrics_server f mw) (webhook_server f ww)),
       SNewManager, SGetConfig, SNewForConfig, SSetupController ''GlanceAPI'', SSetupController ''Glance'',
       SSetupDefaults] @
      (if enable = ''false'' then [] else [SSetupWebhook ''GlanceAPI'', SSetupWebhook ''Glance'']) @
      map SAddWatcher (case mw of None \<Rightarrow> [] | Some w \<Rightarrow> [w]) @
      map SAddWatcher (case ww of None \<Rightarrow> [] | Some w \<Rightarrow> [w]) @
      [SAddHealthzCheck checker, SAddReadyzCheck checker, SStart])"

text \<open>The calls that have an error to answer with.\<close>

definition fallible :: "startup_call \<Rightarrow> bool" where
  "fallible c \<longleftrightarrow> (case c of SNewWebhookServer _ \<Rightarrow> False | SSetupDefaults \<Rightarrow> False | _ \<Rightarrow> True)"

text \<open>Make the calls in order and stop at the first that fails.\<close>

fun follow :: "(startup_call list \<Rightarrow> go_error option) \<Rightarrow> startup_call list \<Rightarrow> startup_call list \<Rightarrow> int \<times> startup_call list" where
  "follow A [] tr = (0, tr)"
| "follow A (c # cs) tr =
     (if fallible c \<and> A (c # tr) \<noteq> None then (1, c # tr) else follow A cs (c # tr))"

lemma try_call_run:
  "try_call A c tr = (case A (c # tr) of None \<Rightarrow> (Next (), c # tr) | Some _ \<Rightarrow> (Return 1, c # tr))"
  by (simp add: try_call_def run_defs split: option.splits)

lemma note_call_run: "note_call c tr = (Next (), c # tr)"
  by (simp add: note_call_def run_defs)

text \<open>A program that ends like the plan it is a prefix of.\<close>

definition follows_plan ::
  "(startup_call list \<Rightarrow> go_error option) \<Rightarrow> startup_call list \<Rightarrow> (int, 'a) main_act \<Rightarrow> 'a \<Rightarrow> bool" where
  "follows_plan A cs m x \<longleftrightarrow>
     (\<forall>tr. m tr = (case follow A cs tr of (code, tr') \<Rightarrow> if code = 0 then (Next x, tr') else (Return 1, tr')))"

lemma follow_append:
  "follow A (xs @ ys) tr = (case follow A xs tr of (code, tr') \<Rightarrow> if code = 0 then follow A ys tr' else (code, tr'))"
  by (induction xs arbitrary: tr) auto

lemma follow_code: "follow A cs tr = (code, tr') \<Longrightarrow> code = 0 \<or> code = 1"
  by (induction cs arbitrary: tr) (auto split: if_splits)

lemma follows_ret: "follows_plan A [] (ret x) x"
  by (simp add: follows_plan_def run_defs)

lemma follows_bind:
  assumes "follows_plan A xs m x" and "follows_plan A ys (f x) y"
  shows "follows_plan A (xs @ ys) (bind m f) y"
  unfolding follows_plan_def
proof
  fix tr
  obtain code tr' where run: "follow A xs tr = (code, tr')" by fastforce
  from follow_code [OF run] assms run
  show "bind m f tr = (case follow A (xs @ ys) tr of (code, tr') \<Rightarrow> if code = 0 then (Next y, tr') else (Return 1, tr'))"
    unfolding follows_plan_def by (auto simp: bind_def follow_append)
qed

lemma follows_seq: "follows_plan A xs m () \<Longrightarrow> follows_plan A ys n y \<Longrightarrow> follows_plan A (xs @ ys) (seq m n) y"
  unfolding seq_def by (rule follows_bind)

lemma follows_try: "fallible c \<Longrightarrow> follows_plan A [c] (try_call A c) ()"
  by (simp add: follows_plan_def try_call_run split: option.splits)

lemma follows_note: "\<not> fallible c \<Longrightarrow> follows_plan A [c] (note_call c) ()"
  by (simp add: follows_plan_def note_call_run)

lemma follows_try_seq: "fallible c \<Longrightarrow> follows_plan A ys n y \<Longrightarrow> follows_plan A (c # ys) (seq (try_call A c) n) y"
  using follows_seq [OF follows_try] by fastforce

lemma follows_note_seq: "\<not> fallible c \<Longrightarrow> follows_plan A ys n y \<Longrightarrow> follows_plan A (c # ys) (seq (note_call c) n) y"
  using follows_seq [OF follows_note] by fastforce

lemma follows_watcher:
  "follows_plan A (map SNewCertWatcher (case (if path = [] then None else Some w) of None \<Rightarrow> [] | Some w \<Rightarrow> [w]))
     (new_watcher A path w) (if path = [] then None else Some w)"
  by (auto simp: new_watcher_def fallible_def intro!: follows_ret follows_try_seq)

lemma follows_add:
  "follows_plan A (map SAddWatcher (case w of None \<Rightarrow> [] | Some w \<Rightarrow> [w])) (add_watcher A w) ()"
  by (cases w) (auto simp: add_watcher_def fallible_def intro: follows_ret follows_try)

lemma follows_webhooks:
  "follows_plan A (if enable = ''false'' then [] else [SSetupWebhook ''GlanceAPI'', SSetupWebhook ''Glance''])
     (setup_webhooks A enable) (if enable = ''false'' then Ping else StartedChecker)"
  by (auto simp: setup_webhooks_def fallible_def intro!: follows_ret follows_try_seq)

lemma follows_fn: "follows_plan A cs m 0 \<Longrightarrow> fn m tr = (case follow A cs tr of (code, tr') \<Rightarrow> (Next code, tr'))"
  using follow_code [of A cs tr] by (cases "follow A cs tr") (auto simp: follows_plan_def fn_def)

lemma main_follows: "main A f enable tr = (case follow A (plan f enable) tr of (code, tr') \<Rightarrow> (Next code, tr'))"
  unfolding main_def plan_def Let_def append.simps append_assoc
  by (intro follows_fn follows_bind [OF follows_watcher] follows_bind [OF follows_webhooks] follows_seq [OF follows_add]
      follows_note_seq follows_try_seq follows_ret; simp add: fallible_def)

lemma follow_prefix: "follow A cs tr = (code, tr') \<Longrightarrow> \<exists>done. prefix done cs \<and> tr' = rev done @ tr \<and> (code = 0 \<longrightarrow> done = cs)"
proof (induction cs arbitrary: tr)
  case (Cons c cs)
  show ?case
  proof (cases "fallible c \<and> A (c # tr) \<noteq> None")
    case True
    with Cons.prems show ?thesis by (intro exI [of _ "[c]"]) auto
  next
    case False
    with Cons.prems have "follow A cs (c # tr) = (code, tr')" by auto
    from Cons.IH [OF this] obtain d where "prefix d cs" "tr' = rev d @ c # tr" "code = 0 \<longrightarrow> d = cs" by blast
    then show ?thesis by (intro exI [of _ "c # d"]) auto
  qed
qed simp

lemma follow_stop: "follow A cs tr = (code, tr') \<Longrightarrow> code = 1 \<Longrightarrow> A tr' \<noteq> None"
  by (induction cs arbitrary: tr) (auto split: if_splits)

lemma follow_last: "follow A (cs @ [c]) tr = (0, tr') \<Longrightarrow> fallible c \<Longrightarrow> A tr' = None"
  by (auto simp: follow_append split: prod.splits if_splits)

lemma plan_last: "\<exists>cs. plan f enable = cs @ [SStart] \<and> fallible SStart"
  by (simp add: plan_def Let_def fallible_def)

section \<open>Properties\<close>

text \<open>A configuration of TLS 1.3 or later, without HTTP/2 unless it was asked for.\<close>

definition hardened :: "Flags \<Rightarrow> tls_config \<Rightarrow> bool" where
  "hardened f c \<longleftrightarrow> MinVersion c = VersionTLS13 \<and> (\<not> enableHTTP2 f \<longrightarrow> NextProtos c = [''http/1.1''])"

lemma servers_hardened:
  "hardened f (configure (wo_TLSOpts (webhook_server f w)) c)"
  "hardened f (configure (mo_TLSOpts (metrics_server f w)) c)"
  by (simp_all add: hardened_def configure_def webhook_server_def metrics_server_def tlsOpts_def min_version_def
      disableHTTP2_def certificate_from_def split: option.split)

text \<open>The manager is what a start ends with, after everything it runs.\<close>

lemma plan_start_last:
  "\<exists>cs. plan f enable = cs @ [SStart] \<and>
     {SNewManager, SSetupController ''GlanceAPI'', SSetupController ''Glance'', SSetupDefaults} \<subseteq> set cs \<and>
     (enable = ''false'' \<or> {SSetupWebhook ''GlanceAPI'', SSetupWebhook ''Glance''} \<subseteq> set cs)"
  by (simp add: plan_def Let_def)

text \<open>
  Property C34. A start makes exactly the calls of the plan, in its order, and stops with exit
  code 1 at the first that fails, 0 if none does. Running the manager is the last of them, after
  the manager was made, both controllers were set up, the Glance defaults were set and, unless
  they are switched off, both webhooks were registered. The TLS options it gives the webhook
  server and the metrics server turn every configuration into one of TLS 1.3 or later, without
  HTTP/2 unless that is enabled; whether the metrics server uses TLS at all is the flag
  \<^verbatim>\<open>metrics-secure\<close>.
\<close>

theorem startup_follows_plan:
  "(\<exists>code tr. main A f enable [] = (Next code, tr) \<and> follow A (plan f enable) [] = (code, tr) \<and>
     prefix (rev tr) (plan f enable) \<and> (code = 0 \<longleftrightarrow> rev tr = plan f enable \<and> A tr = None)) \<and>
   (\<exists>cs. plan f enable = cs @ [SStart] \<and>
     {SNewManager, SSetupController ''GlanceAPI'', SSetupController ''Glance'', SSetupDefaults} \<subseteq> set cs \<and>
     (enable = ''false'' \<or> {SSetupWebhook ''GlanceAPI'', SSetupWebhook ''Glance''} \<subseteq> set cs)) \<and>
   (\<forall>w c. hardened f (configure (wo_TLSOpts (webhook_server f w)) c) \<and>
          hardened f (configure (mo_TLSOpts (metrics_server f w)) c) \<and>
          mo_SecureServing (metrics_server f w) = secureMetrics f)"
proof -
  obtain code tr where run: "follow A (plan f enable) [] = (code, tr)" by fastforce
  from follow_prefix [OF run] have pre: "prefix (rev tr) (plan f enable)" "code = 0 \<longrightarrow> rev tr = plan f enable" by auto
  have "code = 0 \<longleftrightarrow> rev tr = plan f enable \<and> A tr = None"
    using pre(2) follow_stop [OF run] follow_code [OF run] follow_last [of A _ SStart "[]" tr] run plan_last [of f enable]
    by (metis zero_neq_one)
  moreover have "main A f enable [] = (Next code, tr)" by (simp add: main_follows run)
  moreover have "mo_SecureServing (metrics_server f w) = secureMetrics f" for w by (simp add: metrics_server_def)
  ultimately show ?thesis using run pre(1) servers_hardened plan_start_last by blast
qed

end
