(* ===== verification/Spec2Isabelle.thy ===== *)
theory Spec2Isabelle
  imports GlanceProps GlanceWrites GlanceLive GlanceCosts GlanceDeletes GlanceAPICtl Credentials Releases APIProps
    APIPanics Typeless APILive APICosts Deployment Registration Startup
begin

text \<open>
  A verification library of glance-operator, the Kubernetes operator that deploys OpenStack
  Glance: the Go code under src/, less what is generated.

  \<^bold>\<open>The program.\<close> A user writes a Glance resource. The API server sends it through the
  defaulting and validating webhooks (api/v1beta1, internal/webhook). The Glance controller
  (internal/controller/glance_controller.go) prepares the database, the Keystone service, the
  configuration and the jobs, and writes one GlanceAPI resource for each instance of the
  specification and each endpoint type of its layout. The GlanceAPI controller
  (glanceapi_controller.go) turns such a resource into services, Keystone endpoints,
  configuration secrets, a StatefulSet and cron jobs (internal/glance, internal/glanceapi
  build those objects), follows the rollout, and rotates the application credential. Watches
  lead from a changed object to the resources to reconcile. The two controllers interact only
  through the resources: the Glance controller reads the status of the GlanceAPIs it wrote.

  \<^bold>\<open>How it is modelled.\<close> A Go struct is a record, an embedded struct a record extension, a
  pointer an option, a map an association list (\<^verbatim>\<open>lookup\<close>), an int32 that may overflow a
  value with the conversion written out. A Go function that may panic returns \<^verbatim>\<open>'a go\<close>. A
  function of a controller is an action (theory Ctl) on a state that holds the instance, the
  log of the calls on its conditions, and the trace of the calls to the API server, to Keystone
  and to libraries (theory World); it goes on with a value, returns from the enclosing function,
  or panics. What is not in this repository answers through the record \<^verbatim>\<open>env\<close>: each answer is
  a function of the whole trace so far, so that it may depend on anything that happened before.
  No recursion needs fuel: each loop of the source ranges over a finite list.

  \<^bold>\<open>The theories.\<close>
  \<^item> Prelude: the generic part: \<^verbatim>\<open>go\<close> results, Go maps, the functions of package strings.
  \<^item> Conditions: the condition package of lib-common, as an interface (locale
    \<^verbatim>\<open>condition_store\<close>) with a reference implementation.
  \<^item> Types: glance_types.go, glanceapi_types.go, the constants, the methods of the resources.
  \<^item> Backends: GetEnabledBackends and IsFileBackend (common_types.go), isInvalidBackend; when
    they panic; parsing what was printed gives it back.
  \<^item> Defaults: Default of both resources, SetupDefaults, SetDefaultRouteAnnotations.
  \<^item> Validation: ValidateCreate, ValidateUpdate and ValidateDelete with the webhooks around
    them: what is accepted, which histories of a resource are possible, when they panic.
  \<^item> Probes: GetDefaultProbesAPI (internal/glance/funcs.go) with float64 arithmetic in full.
  \<^item> K8s, Volumes, StatefulSet, Jobs: internal/glance/volumes.go, pvc.go, dbsync.go, cronjob.go,
    internal/glanceapi/statefulset.go, cachejob.go, funcs.go: every mount has its volume, which
    containers are privileged, jobs do not depend on the order of a map.
  \<^item> Ctl, World, Common, Triples: the language of the controllers; its environment; the
    functions of glance_common.go; the relations on runs (locale \<^verbatim>\<open>step_order\<close>, interpreted on
    the steps of the model) and the triples the proofs about controllers use.
  \<^item> GlanceCtl: glance_controller.go. GlanceProps: what precedes a write of a GlanceAPI, when
    Ready is reported. GlanceWrites: which GlanceAPIs are written and deleted. GlanceLive:
    Ready is reached within two reconciles. GlanceDeletes: the finalizer is removed last.
    GlanceCosts: a reconcile ends after a bounded number of calls.
  \<^item> Progress, Costs: what liveness and cost proofs of both controllers share: a run that goes
    on with the conditions it marks true, and a bound on the calls of a run, composed the way
    the language of the controllers composes actions.
  \<^item> GlanceAPICtl: glanceapi_controller.go. APISteps, APIProps: what precedes the StatefulSet
    and what Ready means. APIPanics: when a reconcile does not panic. Typeless: a backend it
    panics on. APILive: Ready is reached within two reconciles once the workload is rolled out.
    APICosts: the calls of a reconcile are bounded. Server, GlanceRounds, Deployment: both controllers against an API server that keeps
    what they write: after four rounds a resource with nothing deployed is Ready, with every
    instance of its layout. Credentials: the rotation of the
    application credential refines an abstract protocol (locale \<^verbatim>\<open>simulation\<close>) in which the
    credential in use is always held. Releases: a credential that a rotation leaves behind when
    another overtakes it keeps its finalizer over any history.
  \<^item> Watches: the field indexers and the functions of the watches, of both controllers.
    Registration: the kinds of objects the controllers own and watch, and that what a reconcile
    creates wakes its controller again.
  \<^item> Startup: func main (cmd/main.go).
  \<^item> Sample, GlanceRun, APIRun: an environment that answers well and the runs in it, on which
    the properties with hypotheses are shown to apply.

  \<^bold>\<open>Not modelled.\<close> zz_generated.deepcopy.go and groupversion_info.go are generated or
  registration; a copy of a value of the model is the value. Of the calls of
  controller-runtime's builder in SetupWithManager the arguments are modelled (Registration;
  which requests they lead to is the documented behaviour of the library), of those in the
  SetupWebhookWithManager functions the functions they register. The create-or-update of a
  GlanceAPI is a read and a write, where the library leaves out a write that changes nothing.
  Log messages are left out, and so are time stamps. Texts of conditions are kept as the name of the library constant and its arguments. The templates
  under templates/ are shell and configuration files; the parameters they are rendered with
  are modelled, the rendering is not. Structs of other repositories that are only copied are
  opaque values.
\<close>

end
